(* ===== verification/Prelude.thy ===== *)
theory Prelude
  imports Main "HOL-Library.Word" "HOL-Library.Signed_Division"
    "HOL-Library.List_Lexorder" "HOL-Library.Numeral_Type" "HOL-Library.Monad_Syntax"
begin

text \<open>
  Shared material of the development: results and early returns (Rust's
  \<open>Result\<close>, \<open>?\<close> and \<open>require!\<close>), fixed-length arrays (\<open>[T; N]\<close>), byte slices
  (\<open>data[a..b]\<close>, \<open>copy_from_slice\<close>), machine integers with checked and saturating
  arithmetic, their little- and big-endian encodings, and the interface
  \<open>field_codec\<close> of a value stored in a fixed-width field of an account.
\<close>

unbundle bit_operations_syntax

named_theorems res_simps \<open>inversion of successful results\<close>
named_theorems layout_simps \<open>reading and writing slices of byte lists\<close>

type_synonym byte = "8 word"
type_synonym u16 = "16 word"
type_synonym u32 = "32 word"
type_synonym u64 = "64 word"

text \<open>An \<open>i64\<close> is a 64-bit word that is read with \<open>sint\<close>.\<close>

type_synonym i64 = "64 word"

section \<open>Results\<close>

text \<open>
  A fallible function returns \<open>'e + 'a\<close>, with \<open>Inl\<close> for the error. \<open>require\<close> is
  Anchor's \<open>require!\<close> followed by the rest of the function, \<open>and_then\<close> the \<open>?\<close>
  operator, \<open>ok_or\<close> and \<open>map_err\<close> the methods of that name.
\<close>

definition require :: "bool \<Rightarrow> 'e \<Rightarrow> 'e + 'a \<Rightarrow> 'e + 'a" where
  "require c e k = (if c then k else Inl e)"

definition and_then :: "'e + 'a \<Rightarrow> ('a \<Rightarrow> 'e + 'b) \<Rightarrow> 'e + 'b" where
  "and_then r k = (case r of Inl e \<Rightarrow> Inl e | Inr x \<Rightarrow> k x)"

definition ok_or :: "'a option \<Rightarrow> 'e \<Rightarrow> 'e + 'a" where
  "ok_or x e = (case x of None \<Rightarrow> Inl e | Some y \<Rightarrow> Inr y)"

definition map_err :: "('e \<Rightarrow> 'f) \<Rightarrow> 'e + 'a \<Rightarrow> 'f + 'a" where
  "map_err f r = (case r of Inl e \<Rightarrow> Inl (f e) | Inr x \<Rightarrow> Inr x)"

lemma require_Inr [res_simps]: "require c e k = Inr x \<longleftrightarrow> c \<and> k = Inr x"
  by (simp add: require_def)

lemma and_then_Inr [res_simps]: "and_then r k = Inr x \<longleftrightarrow> (\<exists>a. r = Inr a \<and> k a = Inr x)"
  by (auto simp: and_then_def split: sum.splits)

lemma ok_or_Inr [res_simps]: "ok_or v e = Inr x \<longleftrightarrow> v = Some x"
  by (auto simp: ok_or_def split: option.splits)

lemma map_err_Inr [res_simps]: "map_err f r = Inr x \<longleftrightarrow> r = Inr x"
  by (auto simp: map_err_def split: sum.splits)

lemma require_eval [simp]:
  "require True e k = k"
  "require False e k = Inl e"
  by (simp_all add: require_def)

lemma and_then_eval [simp]:
  "and_then (Inl e) k = Inl e"
  "and_then (Inr v) k = k v"
  by (simp_all add: and_then_def)

lemma ok_or_eval [simp]:
  "ok_or None e = Inl e"
  "ok_or (Some v) e = Inr v"
  by (simp_all add: ok_or_def)

lemma map_err_eval [simp]:
  "map_err f (Inl e) = Inl (f e)"
  "map_err f (Inr v) = Inr v"
  by (simp_all add: map_err_def)

lemma require_Inl: "require c e k = Inl x \<longleftrightarrow> (if c then k = Inl x else x = e)"
  by (auto simp: require_def)

lemma if_Inr [res_simps]:
  "(if c then Inl e else r) = Inr x \<longleftrightarrow> \<not> c \<and> r = Inr x"
  "(if c then r else Inl e) = Inr x \<longleftrightarrow> c \<and> r = Inr x"
  by auto

section \<open>Fixed-length arrays\<close>

text \<open>
  \<open>('a, 'n) arr\<close> is Rust's \<open>[T; N]\<close>: the lists of exactly \<open>LENGTH('n)\<close> elements.
  \<open>elems\<close> views an array as a slice and \<open>arr_of\<close> is the conversion
  \<open>slice.try_into()\<close>, which the code applies to slices of the right length only.
\<close>

typedef (overloaded) ('a, 'n::len) arr = "{xs :: 'a list. length xs = LENGTH('n)}"
  morphisms elems Arr
  by (rule exI [of _ "replicate LENGTH('n) undefined"]) simp

setup_lifting type_definition_arr

lift_definition arr_of :: "'a::zero list \<Rightarrow> ('a, 'n::len) arr"
  is "\<lambda>xs. take LENGTH('n) (xs @ replicate LENGTH('n) 0)"
  by simp

type_synonym bytes32 = "(byte, 32) arr"
type_synonym pubkey = bytes32

lemma length_elems [simp]: "length (elems (a :: ('a, 'n::len) arr)) = LENGTH('n)"
  using elems [of a] by simp

lemma arr_of_elems [simp]: "arr_of (elems a) = a"
  by transfer simp

lemma elems_arr_of:
  "elems (arr_of xs :: ('a::zero, 'n::len) arr) = take LENGTH('n) (xs @ replicate LENGTH('n) 0)"
  by transfer simp

lemma elems_arr_of_exact [simp]:
  "length xs = LENGTH('n::len) \<Longrightarrow> elems (arr_of xs :: ('a::zero, 'n) arr) = xs"
  by (simp add: elems_arr_of)

lemma arr_eq_iff: "a = b \<longleftrightarrow> elems a = elems b"
  by (simp add: elems_inject)

lemma arr_of_eq_elems: "length xs = LENGTH('n) \<Longrightarrow>
    (arr_of xs = (a :: ('a::zero, 'n::len) arr)) = (xs = elems a)"
  by (auto simp: arr_eq_iff)

instantiation arr :: (equal, len) equal
begin

definition equal_arr :: "('a, 'b) arr \<Rightarrow> ('a, 'b) arr \<Rightarrow> bool" where
  "equal_arr a b \<longleftrightarrow> elems a = elems b"

instance
  by standard (simp add: equal_arr_def arr_eq_iff)

end

text \<open>Arrays compare lexicographically, as Rust's \<open>Ord\<close> for arrays and slices does.\<close>

instantiation arr :: (linorder, len) linorder
begin

definition less_eq_arr :: "('a, 'b) arr \<Rightarrow> ('a, 'b) arr \<Rightarrow> bool" where
  "less_eq_arr a b \<longleftrightarrow> elems a \<le> elems b"

definition less_arr :: "('a, 'b) arr \<Rightarrow> ('a, 'b) arr \<Rightarrow> bool" where
  "less_arr a b \<longleftrightarrow> elems a < elems b"

instance
  by standard (auto simp: less_eq_arr_def less_arr_def arr_eq_iff)

end

instantiation arr :: (zero, len) zero
begin

lift_definition zero_arr :: "('a, 'b) arr" is "replicate LENGTH('b) 0"
  by simp

instance ..

end

lemma elems_zero: "elems (0 :: ('a::zero, 'n::len) arr) = replicate LENGTH('n) 0"
  by transfer simp

section \<open>Slices of byte lists\<close>

text \<open>
  \<open>slice a n d\<close> is \<open>data[a..a + n]\<close> and \<open>copy_at a bs d\<close> is
  \<open>data[a..a + bs.len()].copy_from_slice(bs)\<close>; the code checks the length of \<open>data\<close>
  before either, and the models keep those checks.
\<close>

definition slice :: "nat \<Rightarrow> nat \<Rightarrow> 'a list \<Rightarrow> 'a list" where
  "slice a n d = take n (drop a d)"

definition copy_at :: "nat \<Rightarrow> 'a list \<Rightarrow> 'a list \<Rightarrow> 'a list" where
  "copy_at a bs d = take a d @ bs @ drop (a + length bs) d"

lemma length_slice [simp]: "length (slice a n d) = min n (length d - a)"
  by (simp add: slice_def)

lemma length_copy_at [layout_simps]:
  "a + length bs \<le> length d \<Longrightarrow> length (copy_at a bs d) = length d"
  by (simp add: copy_at_def)

lemma slice_copy_at_same [layout_simps]:
  "n = length bs \<Longrightarrow> a + length bs \<le> length d \<Longrightarrow> slice a n (copy_at a bs d) = bs"
  by (simp add: slice_def copy_at_def)

lemma slice_copy_at_before [layout_simps]:
  "b + n \<le> a \<Longrightarrow> a + length bs \<le> length d \<Longrightarrow> slice b n (copy_at a bs d) = slice b n d"
  by (simp add: slice_def copy_at_def drop_take)

lemma slice_copy_at_after [layout_simps]:
  assumes "a + length bs \<le> b" "a + length bs \<le> length d"
  shows "slice b n (copy_at a bs d) = slice b n d"
proof -
  have "drop b (copy_at a bs d) = drop b d"
    using assms by (simp add: copy_at_def)
  then show ?thesis by (simp add: slice_def)
qed

lemma copy_at_idem [layout_simps]:
  "length bs = length cs \<Longrightarrow> a + length bs \<le> length d \<Longrightarrow>
     copy_at a bs (copy_at a cs d) = copy_at a bs d"
  by (simp add: copy_at_def)

lemma slice_append_left [layout_simps]:
  "a + n \<le> length xs \<Longrightarrow> slice a n (xs @ ys) = slice a n xs"
  by (simp add: slice_def)

lemma slice_append_right [layout_simps]:
  "length xs \<le> a \<Longrightarrow> slice a n (xs @ ys) = slice (a - length xs) n ys"
  by (simp add: slice_def)

lemma slice_all: "n = length xs \<Longrightarrow> slice 0 n xs = xs"
  by (simp add: slice_def)

lemma slice_append_exact [layout_simps]:
  "n = length xs \<Longrightarrow> slice 0 n (xs @ ys) = xs"
  by (simp add: slice_def)

lemma list_as_slices:
  "d = take a d @ slice a n d @ drop (a + n) d"
  unfolding slice_def by (metis append_take_drop_id add.commute drop_drop)

section \<open>Machine integers\<close>

text \<open>Signed 64-bit arithmetic: \<open>saturating_sub\<close>, \<open>checked_add\<close>, \<open>checked_sub\<close>.\<close>

definition i64_min :: int where "i64_min = - (2 ^ 63)"
definition i64_max :: int where "i64_max = 2 ^ 63 - 1"

definition saturating_sub_i64 :: "i64 \<Rightarrow> i64 \<Rightarrow> i64" where
  "saturating_sub_i64 a b = word_of_int (max i64_min (min i64_max (sint a - sint b)))"

definition checked_i64 :: "int \<Rightarrow> i64 option" where
  "checked_i64 v = (if i64_min \<le> v \<and> v \<le> i64_max then Some (word_of_int v) else None)"

definition checked_add_i64 :: "i64 \<Rightarrow> i64 \<Rightarrow> i64 option" where
  "checked_add_i64 a b = checked_i64 (sint a + sint b)"

definition checked_sub_i64 :: "i64 \<Rightarrow> i64 \<Rightarrow> i64 option" where
  "checked_sub_i64 a b = checked_i64 (sint a - sint b)"

text \<open>Unsigned arithmetic at any width.\<close>

definition checked_add :: "'a::len word \<Rightarrow> 'a word \<Rightarrow> 'a word option" where
  "checked_add a b = (if uint a + uint b < 2 ^ LENGTH('a) then Some (a + b) else None)"

definition saturating_add :: "'a::len word \<Rightarrow> 'a word \<Rightarrow> 'a word" where
  "saturating_add a b = (if uint a + uint b < 2 ^ LENGTH('a) then a + b else - 1)"

definition saturating_mul :: "'a::len word \<Rightarrow> 'a word \<Rightarrow> 'a word" where
  "saturating_mul a b = (if uint a * uint b < 2 ^ LENGTH('a) then a * b else - 1)"

definition saturating_sub :: "'a::len word \<Rightarrow> 'a word \<Rightarrow> 'a word" where
  "saturating_sub a b = (if b \<le> a then a - b else 0)"

lemma sint_range_i64: "i64_min \<le> sint (a :: i64)" "sint (a :: i64) \<le> i64_max"
  using sint_ge [of a] sint_lt [of a] by (simp_all add: i64_min_def i64_max_def)

lemma sint_word_of_int_i64:
  "i64_min \<le> v \<Longrightarrow> v \<le> i64_max \<Longrightarrow> sint (word_of_int v :: i64) = v"
  by (simp add: sint_word_ariths signed_take_bit_int_eq_self i64_min_def i64_max_def
      signed_of_int)

lemma sint_saturating_sub_i64:
  "sint (saturating_sub_i64 a b) = max i64_min (min i64_max (sint a - sint b))"
  unfolding saturating_sub_i64_def
  by (rule sint_word_of_int_i64) (auto simp: i64_min_def i64_max_def)

lemma checked_i64_Some: "checked_i64 v = Some w \<Longrightarrow> sint w = v"
  by (auto simp: checked_i64_def sint_word_of_int_i64 split: if_splits)

lemma checked_i64_Some_iff:
  "checked_i64 v = Some w \<longleftrightarrow> sint w = v"
  using sint_range_i64 [of w]
  by (auto simp: checked_i64_def sint_word_of_int_i64 split: if_splits)

lemma checked_add_Some_iff:
  "checked_add a b = Some c \<longleftrightarrow> uint c = uint a + uint b"
proof
  assume "checked_add a b = Some c"
  then show "uint c = uint a + uint b"
    by (auto simp: checked_add_def uint_word_ariths split: if_splits)
next
  assume c: "uint c = uint a + uint b"
  then have "uint a + uint b < 2 ^ LENGTH('a)"
    by (metis uint_lt2p)
  moreover from this c have "c = a + b"
    by (simp add: word_uint_eq_iff uint_word_ariths)
  ultimately show "checked_add a b = Some c"
    by (simp add: checked_add_def)
qed

lemma uint_saturating_add:
  "uint (saturating_add a b :: 'a::len word) = min (uint a + uint b) (2 ^ LENGTH('a) - 1)"
  by (auto simp: saturating_add_def uint_word_ariths min_def mask_eq_exp_minus_1
      take_bit_int_eq_self simp flip: take_bit_eq_mod)

lemma uint_saturating_mul:
  "uint (saturating_mul a b :: 'a::len word) = min (uint a * uint b) (2 ^ LENGTH('a) - 1)"
  by (auto simp: saturating_mul_def uint_word_ariths min_def mask_eq_exp_minus_1
      take_bit_int_eq_self simp flip: take_bit_eq_mod)

subsection \<open>Byte encodings\<close>

text \<open>\<open>to_le_bytes\<close> and \<open>from_le_bytes\<close>; the big-endian versions reverse the bytes.\<close>

fun le_bytes :: "nat \<Rightarrow> 'a::len word \<Rightarrow> byte list" where
  "le_bytes 0 v = []"
| "le_bytes (Suc n) v = ucast v # le_bytes n (drop_bit 8 v)"

fun from_le :: "byte list \<Rightarrow> 'a::len word" where
  "from_le [] = 0"
| "from_le (b # bs) = ucast b OR push_bit 8 (from_le bs)"

definition be_bytes :: "nat \<Rightarrow> 'a::len word \<Rightarrow> byte list" where
  "be_bytes n v = rev (le_bytes n v)"

definition from_be :: "byte list \<Rightarrow> 'a::len word" where
  "from_be bs = from_le (rev bs)"

lemma length_le_bytes [simp]: "length (le_bytes n v) = n"
  by (induction n arbitrary: v) auto

lemma length_be_bytes [simp]: "length (be_bytes n v) = n"
  by (simp add: be_bytes_def)

lemma from_le_le_bytes: "from_le (le_bytes n v) = take_bit (8 * n) (v :: 'a::len word)"
proof (induction n arbitrary: v)
  case 0
  then show ?case by simp
next
  case (Suc n)
  show ?case
    by (rule bit_word_eqI)
      (auto simp: Suc.IH bit_or_iff bit_push_bit_iff bit_take_bit_iff bit_drop_bit_eq
        bit_ucast_iff not_less)
qed

lemma bit_from_le:
  "bit (from_le bs :: 'a::len word) i \<longleftrightarrow>
     i < LENGTH('a) \<and> i div 8 < length bs \<and> bit (bs ! (i div 8)) (i mod 8)"
proof (induction bs arbitrary: i)
  case Nil
  then show ?case by simp
next
  case (Cons b bs)
  show ?case
  proof (cases "i < 8")
    case True
    then show ?thesis by (auto simp: bit_or_iff bit_push_bit_iff bit_ucast_iff)
  next
    case False
    then obtain j where i: "i = 8 + j"
      using le_Suc_ex by (metis not_less)
    have div8: "(8 + j) div 8 = Suc (j div 8)" by simp
    have "\<not> bit b (8 + j)"
      using bit_imp_le_length [of b "8 + j"] by auto
    then have "bit (from_le (b # bs) :: 'a word) i \<longleftrightarrow>
        8 + j < LENGTH('a) \<and> bit (from_le bs :: 'a word) j"
      unfolding i by (simp add: bit_or_iff bit_push_bit_iff bit_ucast_iff)
    also have "\<dots> \<longleftrightarrow> i < LENGTH('a) \<and> i div 8 < length (b # bs) \<and>
        bit ((b # bs) ! (i div 8)) (i mod 8)"
      unfolding i Cons.IH div8 by auto
    finally show ?thesis .
  qed
qed

lemma le_bytes_nth: "i < n \<Longrightarrow> le_bytes n v ! i = ucast (drop_bit (8 * i) v)"
proof (induction n arbitrary: v i)
  case 0
  then show ?case by simp
next
  case (Suc n)
  then show ?case by (cases i) (simp_all add: add.commute)
qed

lemma le_bytes_from_le:
  assumes "length bs = n" "8 * n = LENGTH('a::len)"
  shows "le_bytes n (from_le bs :: 'a word) = bs"
proof (rule nth_equalityI)
  show "length (le_bytes n (from_le bs :: 'a word)) = length bs"
    using assms by simp
next
  fix i
  assume "i < length (le_bytes n (from_le bs :: 'a word))"
  then have i: "i < n" by simp
  show "le_bytes n (from_le bs :: 'a word) ! i = bs ! i"
  proof (rule bit_word_eqI)
    fix k
    assume "k < LENGTH(8)"
    then have k: "k < 8" by simp
    then have "(8 * i + k) div 8 = i" "(8 * i + k) mod 8 = k" by simp_all
    moreover have "8 * i + k < LENGTH('a)"
      using i k assms(2) by linarith
    ultimately show "bit (le_bytes n (from_le bs :: 'a word) ! i) k = bit (bs ! i) k"
      using i k assms(1)
      by (simp add: le_bytes_nth bit_ucast_iff bit_drop_bit_eq bit_from_le)
  qed
qed

section \<open>Fields of an account\<close>

text \<open>
  What every fixed-width field promises: its encoding has the width of the field,
  reading inverts writing, and every content of the field is the encoding of the value
  it reads as. The clients (layouts, raw reads and writes at offsets) rely on the
  lemmas below only.
\<close>

locale field_codec =
  fixes enc :: "'v \<Rightarrow> byte list"
    and dec :: "byte list \<Rightarrow> 'v"
    and width :: nat
  assumes enc_width: "length (enc v) = width"
    and dec_enc: "dec (enc v) = v"
    and enc_dec: "length bs = width \<Longrightarrow> enc (dec bs) = bs"
begin

lemma enc_inject: "enc v = enc w \<longleftrightarrow> v = w"
  by (metis dec_enc)

lemma dec_inject: "length bs = width \<Longrightarrow> length cs = width \<Longrightarrow> dec bs = dec cs \<longleftrightarrow> bs = cs"
  by (metis enc_dec)

lemma read_written:
  "off + width \<le> length d \<Longrightarrow> dec (slice off width (copy_at off (enc v) d)) = v"
  by (simp add: slice_copy_at_same enc_width dec_enc)

lemma written_length:
  "off + width \<le> length d \<Longrightarrow> length (copy_at off (enc v) d) = length d"
  by (simp add: length_copy_at enc_width)

lemma read_elsewhere:
  "off + width \<le> length d \<Longrightarrow> a + n \<le> off \<or> off + width \<le> a \<Longrightarrow>
     slice a n (copy_at off (enc v) d) = slice a n d"
  by (auto simp: slice_copy_at_before slice_copy_at_after enc_width)

lemma rewrite_read:
  "off + width \<le> length d \<Longrightarrow> copy_at off (enc (dec (slice off width d))) d = d"
  by (simp add: enc_dec copy_at_def list_as_slices [symmetric])

lemma append_inject: "enc v @ xs = enc w @ ys \<longleftrightarrow> v = w \<and> xs = ys"
  by (simp add: enc_width enc_inject)

end

abbreviation u16_le :: "u16 \<Rightarrow> byte list" where "u16_le \<equiv> le_bytes 2"
abbreviation u32_le :: "u32 \<Rightarrow> byte list" where "u32_le \<equiv> le_bytes 4"
abbreviation u64_le :: "u64 \<Rightarrow> byte list" where "u64_le \<equiv> le_bytes 8"
abbreviation u16_be :: "u16 \<Rightarrow> byte list" where "u16_be \<equiv> be_bytes 2"
abbreviation u64_be :: "u64 \<Rightarrow> byte list" where "u64_be \<equiv> be_bytes 8"

lemma le_codec:
  assumes "8 * n = LENGTH('a::len)"
  shows "field_codec (le_bytes n :: 'a word \<Rightarrow> byte list) from_le n"
  by unfold_locales (use assms in \<open>simp_all add: from_le_le_bytes le_bytes_from_le\<close>)

lemma be_codec:
  assumes "8 * n = LENGTH('a::len)"
  shows "field_codec (be_bytes n :: 'a word \<Rightarrow> byte list) from_be n"
  by unfold_locales
    (use assms in \<open>simp_all add: be_bytes_def from_be_def from_le_le_bytes le_bytes_from_le\<close>)

interpretation u16_le: field_codec u16_le from_le 2 by (rule le_codec) simp
interpretation u32_le: field_codec u32_le from_le 4 by (rule le_codec) simp
interpretation u64_le: field_codec u64_le from_le 8 by (rule le_codec) simp
interpretation u16_be: field_codec u16_be from_be 2 by (rule be_codec) simp
interpretation u64_be: field_codec u64_be from_be 8 by (rule be_codec) simp

interpretation b32: field_codec "elems :: bytes32 \<Rightarrow> byte list" arr_of 32
  by unfold_locales simp_all

section \<open>Text\<close>

text \<open>A byte string literal \<open>b"..."\<close>.\<close>

definition ascii :: "string \<Rightarrow> byte list" where
  "ascii s = map of_char s"

lemma length_ascii [simp]: "length (ascii s) = length s"
  by (simp add: ascii_def)

end
