(* ===== verification/Runtime.thy ===== *)
theory Runtime
  imports Prelude
begin

text \<open>
  The world the three programs run in. Accounts, the transaction (signers, writable
  accounts, clock, instruction list), the error and event types of the programs, the
  Anchor account layout (discriminator, then the fields in struct order), and the
  account checks that the \<open>#[account(...)]\<close> attributes of the source ask for.

  Code that is not in the repository is a parameter: the fields of the record
  \<open>runtime\<close> (SHA-256, program-derived addresses, rent, the system, Token-2022 and
  associated-token programs behind \<open>run_cpi\<close>, account reallocation, Anchor's \<open>init\<close>
  and \<open>close\<close>, the Groth16 verifier as a function of its key). What the proofs use of it is stated as a named
  law about those parameters and appears as a hypothesis of the theorem that needs it.
\<close>

section \<open>Errors\<close>

datatype entros_anchor_error =
    InvalidCommitment | Unauthorized | ArithmeticOverflow | InvalidProtocolConfig
  | InvalidIdentityState | IdentitySerializationFailed | VerificationResultWrongOwner
  | StaleVerificationResult | VerifierMismatch | ProofExpired | CommitmentMismatch
  | PrevCommitmentMismatch | ResetCooldownActive | RebaselineCooldownActive
  | UnauthorizedNewWallet | ProofFromFuture | MissingValidatorReceipt
  | ReceiptValidatorMismatch | ReceiptCommitmentMismatch | ReceiptWalletMismatch
  | ReceiptExpired | ReceiptFromFuture | MalformedReceiptMessage | IdentityStateNotFound
  | ValidatorNotConfigured | VerificationIntervalTooShort | ProjectionVersionTooOld
  | ProjectionVersionTooNew | ProjectionVersionNotAdvanced | ReceiptVersionMismatch
  | ReceiptPurposeMismatch | ReceiptProjectionVersionMismatch | ProjectionVersionMismatch
  | InvalidResetReceiptAccounts | UnsupportedProofGeneration | InvalidRequestContext
  | InvalidAssuranceTier | CommitmentUnchanged | InvalidVerificationResultPda
  | InvalidVerifierProgram | ReceiptAlreadyUsed

datatype verifier_error =
    InvalidProofFormat | ProofVerificationFailed | ChallengeExpired | ChallengeAlreadyUsed
  | InvalidPublicInputs | ChallengeNotUsed | InvalidNonce | ArithmeticOverflow
  | UnsupportedProofGeneration | InvalidRequestContext

datatype registry_error =
    InsufficientStake | ValidatorAlreadyRegistered | ValidatorNotActive | Unauthorized
  | ArithmeticOverflow | InsufficientTreasuryBalance | ProgramDataBytes
  | WrongUpgradeAuthority | InvalidProtocolConfig | InvalidValidatorPubkey
  | InvalidProjectionVersionRange | ProjectionVersionRollback
  | MinimumProjectionVersionRollback | InvalidPendingAuthority | NoPendingAuthority
  | InvalidValidatorGracePeriod

text \<open>Anchor's own account errors, and the errors of other programs by code.\<close>

datatype framework_error =
    AccountNotSigner | ConstraintMut | ConstraintSeeds | ConstraintOwner | ConstraintRaw
  | ConstraintAddress | ConstraintAssociated | AccountOwnedByWrongProgram
  | AccountNotInitialized | AccountDiscriminatorNotFound | AccountDiscriminatorMismatch
  | AccountDidNotDeserialize | AccountDidNotSerialize | ConstraintSpace | ConstraintRentExempt | InvalidProgramId
  | InstructionDidNotDeserialize | InstructionFallbackNotFound

datatype fault =
    AnchorErr entros_anchor_error
  | VerifierErr verifier_error
  | RegistryErr registry_error
  | FrameworkErr framework_error
  | ProgramErr nat
  | Panicked

section \<open>Events\<close>

datatype registry_event =
    ValidatorRegistered pubkey u64
  | TrustScoreComputed u32 i64 u16
  | ValidatorUnstaked pubkey u64
  | ProtocolConfigUpdated pubkey u64
  | TreasuryWithdrawn pubkey u64
  | AdminMigrated pubkey pubkey
  | ValidatorPubkeySet pubkey pubkey
  | ProjectionVersionsSet pubkey u16 u16
  | ValidatorPubkeyRotated pubkey pubkey pubkey i64
  | AuthorityTransferProposed pubkey pubkey
  | AuthorityTransferAccepted pubkey pubkey

datatype verifier_event =
    ChallengeCreated pubkey bytes32 i64
  | VerificationComplete pubkey bool bytes32

datatype event =
    AnchorMinted pubkey pubkey bytes32
  | MigrateIdentityEvent pubkey pubkey pubkey pubkey
  | AnchorUpdated pubkey u32 u16 bytes32
  | AnchorReset pubkey pubkey bytes32
  | EncryptedBaselineSet pubkey
  | AnchorRebaselined pubkey bytes32 u16
  | ReceiptSessionBound pubkey byte u16 bytes32 byte
  | RegistryEvent registry_event
  | VerifierEvent verifier_event

section \<open>Accounts, transactions, the world\<close>

record account =
  acc_owner :: pubkey
  acc_lamports :: u64
  acc_data :: "byte list"

type_synonym accounts = "pubkey \<Rightarrow> account"

text \<open>An instruction of the transaction, as the instructions sysvar shows it.\<close>

record instruction =
  ix_program_id :: pubkey
  ix_data :: "byte list"

text \<open>
  \<open>cur_ix\<close> and \<open>ix_at\<close> are what \<open>load_current_index_checked\<close> and
  \<open>load_instruction_at_checked\<close> return for the transaction.
\<close>

record tx =
  clock :: i64
  is_signer :: "pubkey \<Rightarrow> bool"
  is_writable :: "pubkey \<Rightarrow> bool"
  cur_ix :: nat
  ix_at :: "nat \<Rightarrow> instruction option"

text \<open>
  Cross-program invocations of programs outside the repository: the system program, the
  token program that the caller passes (Token-2022), the associated-token program. The
  seeds of a PDA that signs are the last argument.
\<close>

datatype mint_extension = NonTransferable | MintCloseAuthority | MetadataPointer

datatype token_ix =
    InitializeNonTransferableMint pubkey
  | InitializeMintCloseAuthority pubkey pubkey
  | InitializeMetadataPointer pubkey pubkey pubkey
  | InitializeMint2 pubkey pubkey "pubkey option" nat
  | TokenMetadataInitialize pubkey pubkey pubkey string string string
  | MintTo pubkey pubkey pubkey u64
  | Approve pubkey pubkey pubkey u64
  | Burn pubkey pubkey pubkey u64
  | CloseTokenAccount pubkey pubkey pubkey

datatype cpi =
    SystemTransfer pubkey pubkey u64 "byte list list"
  | SystemCreateAccount pubkey pubkey u64 nat pubkey "byte list list"
  | SystemAllocate pubkey nat "byte list list"
  | SystemAssign pubkey pubkey "byte list list"
  | TokenProgram pubkey token_ix "byte list list"
  | CreateTokenAccount bool pubkey pubkey pubkey pubkey pubkey

text \<open>A Groth16 verifying key as groth16-solana takes it (its field names).\<close>

record groth16_verifyingkey =
  nr_pubinputs :: nat
  vk_alpha_g1 :: "(byte, 64) arr"
  vk_beta_g2 :: "(byte, 128) arr"
  vk_gamme_g2 :: "(byte, 128) arr"
  vk_delta_g2 :: "(byte, 128) arr"
  vk_ic :: "(byte, 64) arr list"

record runtime =
  sha256 :: "byte list \<Rightarrow> bytes32"
  find_program_address :: "byte list list \<Rightarrow> pubkey \<Rightarrow> pubkey \<times> byte"
  create_program_address :: "byte list list \<Rightarrow> pubkey \<Rightarrow> pubkey option"
  minimum_balance :: "nat \<Rightarrow> u64"
  run_cpi :: "cpi \<Rightarrow> accounts \<Rightarrow> nat + accounts"
  realloc :: "nat \<Rightarrow> account \<Rightarrow> nat + account"
  realloc_account :: "pubkey \<Rightarrow> pubkey \<Rightarrow> nat \<Rightarrow> accounts \<Rightarrow> nat + accounts"
  init_account :: "pubkey \<Rightarrow> pubkey \<Rightarrow> nat \<Rightarrow> pubkey \<Rightarrow> accounts \<Rightarrow> nat + accounts"
  close_account :: "pubkey \<Rightarrow> pubkey \<Rightarrow> accounts \<Rightarrow> nat + accounts"
  groth16_verify ::
    "groth16_verifyingkey \<Rightarrow> byte list \<Rightarrow> byte list \<Rightarrow> byte list \<Rightarrow> bytes32 list \<Rightarrow> bool"
  tlv_size_of :: "string \<Rightarrow> string \<Rightarrow> string \<Rightarrow> nat + nat"
  mint_account_len :: "mint_extension list \<Rightarrow> nat + nat"
  is_mint :: "account \<Rightarrow> bool"
  is_associated_token :: "pubkey \<Rightarrow> pubkey \<Rightarrow> pubkey \<Rightarrow> pubkey \<Rightarrow> account \<Rightarrow> bool"
  token_program_ids :: "pubkey list"
  system_program_id :: pubkey
  bpf_loader_upgradeable_id :: pubkey
  instructions_sysvar_id :: pubkey

record world =
  accs :: accounts
  cpis :: "cpi list"
  events :: "event list"

definition data_of :: "world \<Rightarrow> pubkey \<Rightarrow> byte list" where
  "data_of w k = acc_data (accs w k)"

definition owner_of :: "world \<Rightarrow> pubkey \<Rightarrow> pubkey" where
  "owner_of w k = acc_owner (accs w k)"

definition lamports_of :: "world \<Rightarrow> pubkey \<Rightarrow> u64" where
  "lamports_of w k = acc_lamports (accs w k)"

definition set_data :: "pubkey \<Rightarrow> byte list \<Rightarrow> world \<Rightarrow> world" where
  "set_data k d w = w\<lparr>accs := (accs w)(k := (accs w k)\<lparr>acc_data := d\<rparr>)\<rparr>"

definition emit :: "event \<Rightarrow> world \<Rightarrow> world" where
  "emit e w = w\<lparr>events := events w @ [e]\<rparr>"

definition invoke :: "runtime \<Rightarrow> cpi \<Rightarrow> world \<Rightarrow> fault + world" where
  "invoke rt c w = and_then (map_err ProgramErr (run_cpi rt c (accs w)))
     (\<lambda>A. Inr (w\<lparr>accs := A, cpis := cpis w @ [c]\<rparr>))"

definition resize :: "runtime \<Rightarrow> pubkey \<Rightarrow> nat \<Rightarrow> world \<Rightarrow> fault + world" where
  "resize rt k n w = and_then (map_err ProgramErr (realloc rt n (accs w k)))
     (\<lambda>a. Inr (w\<lparr>accs := (accs w)(k := a)\<rparr>))"

text \<open>\<open>system_program::transfer\<close>, with the seeds of a PDA signer or none.\<close>

definition transfer :: "runtime \<Rightarrow> pubkey \<Rightarrow> pubkey \<Rightarrow> u64 \<Rightarrow> world \<Rightarrow> fault + world" where
  "transfer rt src dst n w = invoke rt (SystemTransfer src dst n []) w"

definition transfer_signed ::
  "runtime \<Rightarrow> byte list list \<Rightarrow> pubkey \<Rightarrow> pubkey \<Rightarrow> u64 \<Rightarrow> world \<Rightarrow> fault + world" where
  "transfer_signed rt seeds src dst n w = invoke rt (SystemTransfer src dst n seeds) w"

section \<open>Account attributes\<close>

text \<open>
  \<open>Signer<'info>\<close> with \<open>#[account(mut)]\<close>, \<open>#[account(mut)]\<close>, and
  \<open>#[account(seeds = [...], bump, seeds::program = p)]\<close>.
\<close>

definition mut_signer :: "tx \<Rightarrow> pubkey \<Rightarrow> fault + 'a \<Rightarrow> fault + 'a" where
  "mut_signer t k r = require (is_signer t k) (FrameworkErr AccountNotSigner)
     (require (is_writable t k) (FrameworkErr ConstraintMut) r)"

definition mut_account :: "tx \<Rightarrow> pubkey \<Rightarrow> fault + 'a \<Rightarrow> fault + 'a" where
  "mut_account t k r = require (is_writable t k) (FrameworkErr ConstraintMut) r"

definition pda_key :: "runtime \<Rightarrow> byte list list \<Rightarrow> pubkey \<Rightarrow> pubkey" where
  "pda_key rt seeds p = fst (find_program_address rt seeds p)"

definition pda_bump :: "runtime \<Rightarrow> byte list list \<Rightarrow> pubkey \<Rightarrow> byte" where
  "pda_bump rt seeds p = snd (find_program_address rt seeds p)"

definition with_seeds ::
  "runtime \<Rightarrow> byte list list \<Rightarrow> pubkey \<Rightarrow> pubkey \<Rightarrow> fault + 'a \<Rightarrow> fault + 'a" where
  "with_seeds rt seeds p k r = require (pda_key rt seeds p = k) (FrameworkErr ConstraintSeeds) r"

text \<open>\<open>#[account(seeds = [...], bump = <stored bump>)]\<close>.\<close>

definition with_seeds_bump ::
  "runtime \<Rightarrow> byte list list \<Rightarrow> byte \<Rightarrow> pubkey \<Rightarrow> pubkey \<Rightarrow> fault + 'a \<Rightarrow> fault + 'a" where
  "with_seeds_bump rt seeds b p k r =
     require (create_program_address rt (seeds @ [[b]]) p = Some k) (FrameworkErr ConstraintSeeds) r"

lemma with_seeds_bump_Inr [res_simps]:
  "with_seeds_bump rt seeds b p k r = Inr x \<longleftrightarrow>
     create_program_address rt (seeds @ [[b]]) p = Some k \<and> r = Inr x"
  by (simp add: with_seeds_bump_def res_simps)

lemma mut_signer_Inr [res_simps]:
  "mut_signer t k r = Inr x \<longleftrightarrow> is_signer t k \<and> is_writable t k \<and> r = Inr x"
  by (simp add: mut_signer_def res_simps)

lemma mut_account_Inr [res_simps]:
  "mut_account t k r = Inr x \<longleftrightarrow> is_writable t k \<and> r = Inr x"
  by (simp add: mut_account_def res_simps)

lemma with_seeds_Inr [res_simps]:
  "with_seeds rt seeds p k r = Inr x \<longleftrightarrow> pda_key rt seeds p = k \<and> r = Inr x"
  by (simp add: with_seeds_def res_simps)

lemma invoke_Inr [res_simps]:
  "invoke rt c w = Inr w' \<longleftrightarrow>
     (\<exists>A. run_cpi rt c (accs w) = Inr A \<and> w' = w\<lparr>accs := A, cpis := cpis w @ [c]\<rparr>)"
  by (auto simp: invoke_def res_simps)

lemma resize_Inr [res_simps]:
  "resize rt k n w = Inr w' \<longleftrightarrow>
     (\<exists>a. realloc rt n (accs w k) = Inr a \<and> w' = w\<lparr>accs := (accs w)(k := a)\<rparr>)"
  by (auto simp: resize_def res_simps)

section \<open>Account layouts\<close>

text \<open>
  \<open>split_fields ws d\<close> reads consecutive fields of the given widths; Borsh reads the
  fields of a struct in this way, failing when the input is too short and ignoring what
  follows the last field.
\<close>

fun split_fields :: "nat list \<Rightarrow> byte list \<Rightarrow> byte list list option" where
  "split_fields [] d = Some []"
| "split_fields (n # ns) d =
     (if n \<le> length d then map_option ((#) (take n d)) (split_fields ns (drop n d)) else None)"

lemma split_fields_concat:
  "map length fs = ns \<Longrightarrow> split_fields ns (concat fs @ rest) = Some fs"
  by (induction fs arbitrary: ns) auto

lemma split_fields_sound:
  "split_fields ns d = Some fs \<Longrightarrow>
     map length fs = ns \<and> sum_list ns \<le> length d \<and> concat fs = take (sum_list ns) d"
proof (induction ns arbitrary: d fs)
  case Nil
  then show ?case by simp
next
  case (Cons n ns)
  then obtain gs where n: "n \<le> length d" and gs: "split_fields ns (drop n d) = Some gs"
    and fs: "fs = take n d # gs"
    by (auto split: if_splits)
  from Cons.IH [OF gs] n show ?case
    by (auto simp: fs take_add)
qed

lemma split_fields_some:
  "sum_list ns \<le> length d \<Longrightarrow> \<exists>fs. split_fields ns d = Some fs"
  by (induction ns arbitrary: d) force+

lemma split_fields_nth:
  "split_fields ns d = Some fs \<Longrightarrow> i < length ns \<Longrightarrow>
     fs ! i = slice (sum_list (take i ns)) (ns ! i) d"
proof (induction ns arbitrary: d fs i)
  case Nil
  then show ?case by simp
next
  case (Cons n ns)
  then obtain gs where gs: "split_fields ns (drop n d) = Some gs" and fs: "fs = take n d # gs"
    by (auto split: if_splits)
  show ?case
  proof (cases i)
    case 0
    then show ?thesis by (simp add: fs slice_def)
  next
    case (Suc j)
    with Cons.IH [OF gs, of j] Cons.prems show ?thesis
      by (simp add: fs slice_def add.commute)
  qed
qed

text \<open>
  An Anchor account: the 8-byte discriminator \<open>sha256("account:<Name>")[..8]\<close> and the
  Borsh encoding of the struct. \<open>try_deserialize\<close> reads it, \<open>try_serialize\<close> into the
  account's data overwrites the bytes of the struct and leaves what follows them.
\<close>

definition discriminator :: "runtime \<Rightarrow> string \<Rightarrow> byte list" where
  "discriminator rt name = take 8 (elems (sha256 rt (ascii name)))"

definition serialize :: "byte list \<Rightarrow> byte list list \<Rightarrow> byte list" where
  "serialize disc fs = disc @ concat fs"

definition deserialize ::
  "byte list \<Rightarrow> nat list \<Rightarrow> (byte list list \<Rightarrow> 'a option) \<Rightarrow> byte list \<Rightarrow> framework_error + 'a" where
  "deserialize disc ns of_fields d =
     (if length d < 8 then Inl AccountDiscriminatorNotFound
      else if take 8 d \<noteq> disc then Inl AccountDiscriminatorMismatch
      else ok_or (Option.bind (split_fields ns (drop 8 d)) of_fields) AccountDidNotDeserialize)"

definition store :: "byte list \<Rightarrow> byte list \<Rightarrow> byte list" where
  "store bs d = copy_at 0 bs d"

lemma length_discriminator [simp]: "length (discriminator rt name) = 8"
  by (simp add: discriminator_def)

text \<open>
  What every account type promises of its fields, and what follows for the accounts that
  hold it. Everything the programs do with typed accounts goes through these lemmas.
\<close>

locale account_layout =
  fixes to_fields :: "'a \<Rightarrow> byte list list"
    and of_fields :: "byte list list \<Rightarrow> 'a option"
    and widths :: "nat list"
  assumes fields_widths: "map length (to_fields x) = widths"
    and of_to_fields: "of_fields (to_fields x) = Some x"
    and to_of_fields: "map length fs = widths \<Longrightarrow> of_fields fs = Some x \<Longrightarrow> to_fields x = fs"
begin

lemma length_concat_fields: "length (concat (to_fields x)) = sum_list widths"
  by (simp add: length_concat fields_widths)

lemma length_serialize:
  "length disc = 8 \<Longrightarrow> length (serialize disc (to_fields x)) = 8 + sum_list widths"
  by (simp add: serialize_def length_concat_fields)

lemma deserialize_serialize:
  "length disc = 8 \<Longrightarrow>
     deserialize disc widths of_fields (serialize disc (to_fields x) @ rest) = Inr x"
  by (simp add: deserialize_def serialize_def split_fields_concat fields_widths of_to_fields)

lemma deserialize_serialize':
  "length disc = 8 \<Longrightarrow> deserialize disc widths of_fields (serialize disc (to_fields x)) = Inr x"
  using deserialize_serialize [where rest = "[]"] by simp

lemma deserialize_sound:
  assumes "deserialize disc widths of_fields d = Inr x"
  shows "8 + sum_list widths \<le> length d"
    and "take (8 + sum_list widths) d = serialize disc (to_fields x)"
proof -
  from assms obtain fs where len: "8 \<le> length d" and disc: "take 8 d = disc"
    and fs: "split_fields widths (drop 8 d) = Some fs" and x: "of_fields fs = Some x"
    by (auto simp: deserialize_def res_simps bind_eq_Some_conv split: if_splits)
  from split_fields_sound [OF fs] have widths: "map length fs = widths"
    and le: "sum_list widths \<le> length d - 8"
    and body: "concat fs = take (sum_list widths) (drop 8 d)"
    by auto
  from len le show "8 + sum_list widths \<le> length d" by linarith
  show "take (8 + sum_list widths) d = serialize disc (to_fields x)"
    by (simp add: serialize_def to_of_fields [OF widths x] body take_add disc)
qed

lemma deserialize_iff:
  assumes "length disc = 8"
  shows "deserialize disc widths of_fields d = Inr x \<longleftrightarrow>
    8 + sum_list widths \<le> length d \<and>
    take (8 + sum_list widths) d = serialize disc (to_fields x)"
proof
  assume "8 + sum_list widths \<le> length d \<and>
    take (8 + sum_list widths) d = serialize disc (to_fields x)"
  then have "d = serialize disc (to_fields x) @ drop (8 + sum_list widths) d"
    by (metis append_take_drop_id)
  then show "deserialize disc widths of_fields d = Inr x"
    using deserialize_serialize [OF assms] by metis
qed (use deserialize_sound in blast)

lemma load_stored:
  assumes "length disc = 8" "8 + sum_list widths \<le> length d"
  shows "deserialize disc widths of_fields (store (serialize disc (to_fields x)) d) = Inr x"
  using assms by (simp add: store_def copy_at_def deserialize_serialize)

lemma length_store:
  "length disc = 8 \<Longrightarrow> 8 + sum_list widths \<le> length d \<Longrightarrow>
     length (store (serialize disc (to_fields x)) d) = length d"
  by (simp add: store_def length_copy_at length_serialize)

lemma serialize_inject: "serialize disc (to_fields x) = serialize disc (to_fields y) \<longleftrightarrow> x = y"
proof
  assume "serialize disc (to_fields x) = serialize disc (to_fields y)"
  then have "split_fields widths (concat (to_fields x)) = split_fields widths (concat (to_fields y))"
    by (simp add: serialize_def)
  then have "to_fields x = to_fields y"
    using split_fields_concat [OF fields_widths, of x "[]"]
      split_fields_concat [OF fields_widths, of y "[]"] by simp
  then show "x = y" by (metis of_to_fields option.inject)
qed simp

lemma field_at:
  assumes "length disc = 8" "i < length widths"
  shows "slice (8 + sum_list (take i widths)) (widths ! i) (serialize disc (to_fields x) @ rest) =
    to_fields x ! i"
proof -
  have "split_fields widths (concat (to_fields x) @ rest) = Some (to_fields x)"
    by (rule split_fields_concat [OF fields_widths])
  from split_fields_nth [OF this assms(2)] show ?thesis
    using assms(1) by (simp add: serialize_def slice_def)
qed

text \<open>Raw reads at the offsets of the fields see the fields of the typed account.\<close>

lemma fields_of_data:
  assumes "length disc = 8" "deserialize disc widths of_fields d = Inr x"
  shows "map (\<lambda>i. slice (8 + sum_list (take i widths)) (widths ! i) d) [0..<length widths] =
    to_fields x"
proof (rule nth_equalityI)
  have len: "length (to_fields x) = length widths"
    using arg_cong [OF fields_widths, of length x] by simp
  then show "length (map (\<lambda>i. slice (8 + sum_list (take i widths)) (widths ! i) d)
      [0..<length widths]) = length (to_fields x)" by simp
  fix i
  assume "i < length (map (\<lambda>i. slice (8 + sum_list (take i widths)) (widths ! i) d)
      [0..<length widths])"
  then have i: "i < length widths" by simp
  have d: "d = serialize disc (to_fields x) @ drop (8 + sum_list widths) d"
    using deserialize_sound(2) [OF assms(2)] by (metis append_take_drop_id)
  have "slice (8 + sum_list (take i widths)) (widths ! i) d = to_fields x ! i"
    by (subst d) (rule field_at [OF assms(1) i])
  then show "map (\<lambda>i. slice (8 + sum_list (take i widths)) (widths ! i) d)
      [0..<length widths] ! i = to_fields x ! i"
    using i by simp
qed

text \<open>Growing an account does not change what it decodes to.\<close>

lemma deserialize_append:
  "length disc = 8 \<Longrightarrow> deserialize disc widths of_fields d = Inr x \<Longrightarrow>
     deserialize disc widths of_fields (d @ rest) = Inr x"
  by (simp add: deserialize_iff)

end

text \<open>A typed account \<open>Account<'info, T>\<close>: its owner is checked, then its data is read.\<close>

definition load_typed ::
  "runtime \<Rightarrow> pubkey \<Rightarrow> (byte list \<Rightarrow> framework_error + 'a) \<Rightarrow> pubkey \<Rightarrow> world \<Rightarrow> fault + 'a" where
  "load_typed rt p try_deserialize k w =
     require (\<not> (owner_of w k = system_program_id rt \<and> lamports_of w k = 0))
       (FrameworkErr AccountNotInitialized)
    (require (owner_of w k = p) (FrameworkErr AccountOwnedByWrongProgram)
      (map_err FrameworkErr (try_deserialize (data_of w k))))"

lemma load_typed_Inr [res_simps]:
  "load_typed rt p f k w = Inr x \<longleftrightarrow>
     \<not> (owner_of w k = system_program_id rt \<and> lamports_of w k = 0) \<and>
     owner_of w k = p \<and> f (data_of w k) = Inr x"
  by (auto simp: load_typed_def res_simps)

text \<open>
  At the end of the instruction Anchor writes a mutable typed account back
  (\<open>exit_typed\<close>). \<open>#[account(init, payer, space)]\<close>, \<open>#[account(realloc = n)]\<close> and
  \<open>#[account(close = dest)]\<close> are the framework's account operations.
\<close>

definition exit_typed :: "byte list \<Rightarrow> pubkey \<Rightarrow> world \<Rightarrow> fault + world" where
  "exit_typed bs k w =
     require (length bs \<le> length (data_of w k)) (FrameworkErr AccountDidNotSerialize)
       (Inr (set_data k (store bs (data_of w k)) w))"

lemma exit_typed_Inr [res_simps]:
  "exit_typed bs k w = Inr w' \<longleftrightarrow>
     length bs \<le> length (data_of w k) \<and> w' = set_data k (store bs (data_of w k)) w"
  by (auto simp: exit_typed_def res_simps)

definition init_typed ::
  "runtime \<Rightarrow> pubkey \<Rightarrow> pubkey \<Rightarrow> nat \<Rightarrow> pubkey \<Rightarrow> world \<Rightarrow> fault + world" where
  "init_typed rt payer k space p w =
     and_then (map_err ProgramErr (init_account rt payer k space p (accs w)))
       (\<lambda>A. Inr (w\<lparr>accs := A\<rparr>))"

definition realloc_typed :: "runtime \<Rightarrow> pubkey \<Rightarrow> pubkey \<Rightarrow> nat \<Rightarrow> world \<Rightarrow> fault + world" where
  "realloc_typed rt payer k n w =
     and_then (map_err ProgramErr (realloc_account rt payer k n (accs w)))
       (\<lambda>A. Inr (w\<lparr>accs := A\<rparr>))"

definition close_typed :: "runtime \<Rightarrow> pubkey \<Rightarrow> pubkey \<Rightarrow> world \<Rightarrow> fault + world" where
  "close_typed rt k dest w =
     and_then (map_err ProgramErr (close_account rt k dest (accs w)))
       (\<lambda>A. Inr (w\<lparr>accs := A\<rparr>))"

section \<open>Laws of the parameters\<close>

text \<open>\<open>AccountInfo::resize\<close> keeps the prefix, fills with zeros and changes nothing else.\<close>

definition realloc_law :: "runtime \<Rightarrow> bool" where
  "realloc_law rt \<longleftrightarrow> (\<forall>n a a'. realloc rt n a = Inr a' \<longrightarrow>
     acc_data a' = take n (acc_data a) @ replicate (n - length (acc_data a)) 0 \<and>
     acc_owner a' = acc_owner a \<and> acc_lamports a' = acc_lamports a)"

text \<open>A system transfer moves lamports and leaves data and owners alone.\<close>

definition transfer_law :: "runtime \<Rightarrow> bool" where
  "transfer_law rt \<longleftrightarrow> (\<forall>src dst n seeds A A'. run_cpi rt (SystemTransfer src dst n seeds) A = Inr A' \<longrightarrow>
     (\<forall>k. acc_data (A' k) = acc_data (A k) \<and> acc_owner (A' k) = acc_owner (A k)))"

text \<open>
  The amounts: the source has the lamports, they arrive at the destination, and no other
  balance changes.
\<close>

definition transfer_amount_law :: "runtime \<Rightarrow> bool" where
  "transfer_amount_law rt \<longleftrightarrow>
     (\<forall>src dst n seeds A A'. run_cpi rt (SystemTransfer src dst n seeds) A = Inr A' \<longrightarrow> src \<noteq> dst \<longrightarrow>
       uint (acc_lamports (A' src)) = uint (acc_lamports (A src)) - uint n \<and>
       uint (acc_lamports (A' dst)) = uint (acc_lamports (A dst)) + uint n \<and>
       (\<forall>k. k \<noteq> src \<longrightarrow> k \<noteq> dst \<longrightarrow> acc_lamports (A' k) = acc_lamports (A k)))"

text \<open>Anchor's \<open>realloc\<close> constraint does the same to one account, and moves only lamports elsewhere.\<close>

definition realloc_account_law :: "runtime \<Rightarrow> bool" where
  "realloc_account_law rt \<longleftrightarrow> (\<forall>payer k n A A'. realloc_account rt payer k n A = Inr A' \<longrightarrow>
     acc_data (A' k) = take n (acc_data (A k)) @ replicate (n - length (acc_data (A k))) 0 \<and>
     (\<forall>j. acc_owner (A' j) = acc_owner (A j)) \<and>
     (\<forall>j. j \<noteq> k \<longrightarrow> acc_data (A' j) = acc_data (A j)))"

text \<open>
  \<open>init\<close> succeeds only on an account that the system program owns and that has no data,
  and leaves it owned by the program with \<open>space\<close> zero bytes.
\<close>

definition init_law :: "runtime \<Rightarrow> bool" where
  "init_law rt \<longleftrightarrow> (\<forall>payer k space p A A'. init_account rt payer k space p A = Inr A' \<longrightarrow>
     acc_owner (A k) = system_program_id rt \<and> acc_data (A k) = [] \<and>
     acc_owner (A' k) = p \<and> acc_data (A' k) = replicate space 0 \<and> acc_lamports (A' k) \<noteq> 0 \<and>
     (\<forall>j. j \<noteq> k \<longrightarrow> acc_data (A' j) = acc_data (A j) \<and> acc_owner (A' j) = acc_owner (A j)))"

text \<open>\<open>close\<close> empties the account, gives it back to the system program and touches no other data.\<close>

definition close_law :: "runtime \<Rightarrow> bool" where
  "close_law rt \<longleftrightarrow> (\<forall>k dest A A'. close_account rt k dest A = Inr A' \<longrightarrow>
     acc_owner (A' k) = system_program_id rt \<and> acc_data (A' k) = [] \<and> acc_lamports (A' k) = 0 \<and>
     (\<forall>j. j \<noteq> k \<longrightarrow> acc_data (A' j) = acc_data (A j) \<and> acc_owner (A' j) = acc_owner (A j)))"

text \<open>
  Only the owner of an account changes its data or its owner, and an account is given to
  another program with zeroed data only: an invoked program leaves the accounts of a
  program \<open>p\<close> alone, and whatever it hands over to \<open>p\<close> is blank.
\<close>

definition blank :: "byte list \<Rightarrow> bool" where
  "blank d \<longleftrightarrow> (\<forall>x \<in> set d. x = 0)"

definition foreign_law :: "runtime \<Rightarrow> pubkey \<Rightarrow> bool" where
  "foreign_law rt p \<longleftrightarrow> (\<forall>c A A' k. run_cpi rt c A = Inr A' \<longrightarrow>
     (acc_owner (A k) = p \<longrightarrow> acc_data (A' k) = acc_data (A k) \<and> acc_owner (A' k) = p) \<and>
     (acc_owner (A k) \<noteq> p \<longrightarrow> acc_owner (A' k) = p \<longrightarrow> blank (acc_data (A' k))))"

text \<open>\<open>create_program_address\<close> with the bump that \<open>find_program_address\<close> found gives its key.\<close>

definition pda_law :: "runtime \<Rightarrow> bool" where
  "pda_law rt \<longleftrightarrow> (\<forall>seeds p. create_program_address rt (seeds @ [[pda_bump rt seeds p]]) p =
     Some (pda_key rt seeds p))"

lemma transfer_frame:
  assumes "transfer_law rt" "transfer rt src dst n w = Inr w'"
  shows "data_of w' k = data_of w k" "owner_of w' k = owner_of w k"
  using assms by (auto simp: transfer_law_def transfer_def res_simps data_of_def owner_of_def)

lemma transfer_log:
  assumes "transfer rt src dst n w = Inr w'"
  shows "events w' = events w" "cpis w' = cpis w @ [SystemTransfer src dst n []]"
  using assms by (auto simp: transfer_def res_simps)

lemma resize_frame:
  assumes "realloc_law rt" "resize rt k n w = Inr w'"
  shows "data_of w' j = (if j = k then take n (data_of w k) @
      replicate (n - length (data_of w k)) 0 else data_of w j)"
    and "owner_of w' j = owner_of w j" "lamports_of w' j = lamports_of w j"
  using assms by (auto simp: realloc_law_def res_simps data_of_def owner_of_def lamports_of_def)

lemma set_data_simps [simp]:
  "data_of (set_data k d w) j = (if j = k then d else data_of w j)"
  "owner_of (set_data k d w) j = owner_of w j"
  "lamports_of (set_data k d w) j = lamports_of w j"
  "events (set_data k d w) = events w"
  "cpis (set_data k d w) = cpis w"
  by (simp_all add: set_data_def data_of_def owner_of_def lamports_of_def)

lemma emit_simps [simp]:
  "data_of (emit e w) = data_of w"
  "owner_of (emit e w) = owner_of w"
  "lamports_of (emit e w) = lamports_of w"
  "accs (emit e w) = accs w"
  "events (emit e w) = events w @ [e]"
  "cpis (emit e w) = cpis w"
  by (simp_all add: emit_def data_of_def owner_of_def lamports_of_def fun_eq_iff)

end
