(* ===== verification/Registry.thy ===== *)
theory Registry
  imports Runtime
begin

text \<open>
  The program entros-registry (programs/entros-registry/src): the accounts
  \<open>ProtocolConfig\<close> and \<open>ValidatorState\<close>, and every instruction that changes them.
  The preview instruction \<open>compute_trust_score\<close> is in Trust_Score.
\<close>

section \<open>State\<close>

record protocol_config =
  pc_admin :: pubkey
  pc_min_stake :: u64
  pc_challenge_expiry :: i64
  pc_max_trust_score :: u16
  pc_base_trust_increment :: u16
  pc_bump :: byte
  pc_verification_fee :: u64
  pc_migration_fee :: u64
  pc_validator_pubkey :: pubkey
  pc_current_projection_version :: u16
  pc_minimum_supported_projection_version :: u16
  pc_pending_authority :: pubkey
  pc_secondary_validator_pubkey :: pubkey
  pc_secondary_validator_valid_until :: i64

definition config_len_pre_rollover :: nat where
  "config_len_pre_rollover = 8 + 32 + 8 + 8 + 2 + 2 + 1 + 8 + 8 + 32 + 2 + 2"

definition config_len :: nat where
  "config_len = config_len_pre_rollover + 32 + 32 + 8"

definition offset_validator_pubkey :: nat where "offset_validator_pubkey = 77"
definition offset_current_projection_version :: nat where
  "offset_current_projection_version = 109"
definition offset_minimum_supported_projection_version :: nat where
  "offset_minimum_supported_projection_version = 111"
definition offset_pending_authority :: nat where "offset_pending_authority = 113"
definition offset_secondary_validator_pubkey :: nat where
  "offset_secondary_validator_pubkey = 145"
definition offset_secondary_validator_valid_until :: nat where
  "offset_secondary_validator_valid_until = 177"
definition max_validator_grace_period_secs :: int where
  "max_validator_grace_period_secs = 86400"

lemmas config_consts = config_len_pre_rollover_def config_len_def offset_validator_pubkey_def
  offset_current_projection_version_def offset_minimum_supported_projection_version_def
  offset_pending_authority_def offset_secondary_validator_pubkey_def
  offset_secondary_validator_valid_until_def max_validator_grace_period_secs_def

definition config_widths :: "nat list" where
  "config_widths = [32, 8, 8, 2, 2, 1, 8, 8, 32, 2, 2, 32, 32, 8]"

definition config_fields :: "protocol_config \<Rightarrow> byte list list" where
  "config_fields c =
     [elems (pc_admin c), u64_le (pc_min_stake c), u64_le (pc_challenge_expiry c),
      u16_le (pc_max_trust_score c), u16_le (pc_base_trust_increment c), [pc_bump c],
      u64_le (pc_verification_fee c), u64_le (pc_migration_fee c),
      elems (pc_validator_pubkey c), u16_le (pc_current_projection_version c),
      u16_le (pc_minimum_supported_projection_version c), elems (pc_pending_authority c),
      elems (pc_secondary_validator_pubkey c), u64_le (pc_secondary_validator_valid_until c)]"

definition config_of_fields :: "byte list list \<Rightarrow> protocol_config option" where
  "config_of_fields fs = (case fs of
     [a, b, c, d, e, f, g, h, i, j, k, l, m, n] \<Rightarrow> Some
       \<lparr>pc_admin = arr_of a, pc_min_stake = from_le b, pc_challenge_expiry = from_le c,
        pc_max_trust_score = from_le d, pc_base_trust_increment = from_le e, pc_bump = hd f,
        pc_verification_fee = from_le g, pc_migration_fee = from_le h,
        pc_validator_pubkey = arr_of i, pc_current_projection_version = from_le j,
        pc_minimum_supported_projection_version = from_le k, pc_pending_authority = arr_of l,
        pc_secondary_validator_pubkey = arr_of m, pc_secondary_validator_valid_until = from_le n\<rparr>
   | _ \<Rightarrow> None)"

definition config_disc :: "runtime \<Rightarrow> byte list" where
  "config_disc rt = discriminator rt ''account:ProtocolConfig''"

definition config_bytes :: "runtime \<Rightarrow> protocol_config \<Rightarrow> byte list" where
  "config_bytes rt c = serialize (config_disc rt) (config_fields c)"

definition try_config :: "runtime \<Rightarrow> byte list \<Rightarrow> framework_error + protocol_config" where
  "try_config rt d = deserialize (config_disc rt) config_widths config_of_fields d"

lemma length_config_disc [simp]: "length (config_disc rt) = 8"
  by (simp add: config_disc_def)

interpretation config: account_layout config_fields config_of_fields config_widths
proof
  fix x fs
  show "map length (config_fields x) = config_widths"
    by (simp add: config_fields_def config_widths_def)
  show "config_of_fields (config_fields x) = Some x"
    by (simp add: config_fields_def config_of_fields_def u16_le.dec_enc u64_le.dec_enc)
  assume "map length fs = config_widths" "config_of_fields fs = Some x"
  then show "config_fields x = fs"
    by (auto simp: config_widths_def config_of_fields_def config_fields_def map_eq_Cons_conv
        u16_le.enc_dec u64_le.enc_dec length_Suc_conv)
qed


record validator_state =
  vs_authority :: pubkey
  vs_stake :: u64
  vs_registration_time :: i64
  vs_is_active :: bool
  vs_verifications_performed :: u64
  vs_bump :: byte

definition validator_state_len :: nat where
  "validator_state_len = 8 + 32 + 8 + 8 + 1 + 8 + 1"

definition validator_state_widths :: "nat list" where
  "validator_state_widths = [32, 8, 8, 1, 8, 1]"

definition validator_state_fields :: "validator_state \<Rightarrow> byte list list" where
  "validator_state_fields v =
     [elems (vs_authority v), u64_le (vs_stake v), u64_le (vs_registration_time v),
      [if vs_is_active v then 1 else 0], u64_le (vs_verifications_performed v), [vs_bump v]]"

definition validator_state_of_fields :: "byte list list \<Rightarrow> validator_state option" where
  "validator_state_of_fields fs = (case fs of
     [a, b, c, d, e, f] \<Rightarrow>
       if d = [0] \<or> d = [1] then Some
         \<lparr>vs_authority = arr_of a, vs_stake = from_le b, vs_registration_time = from_le c,
          vs_is_active = (d = [1]), vs_verifications_performed = from_le e, vs_bump = hd f\<rparr>
       else None
   | _ \<Rightarrow> None)"

definition validator_state_disc :: "runtime \<Rightarrow> byte list" where
  "validator_state_disc rt = discriminator rt ''account:ValidatorState''"

definition validator_state_bytes :: "runtime \<Rightarrow> validator_state \<Rightarrow> byte list" where
  "validator_state_bytes rt v = serialize (validator_state_disc rt) (validator_state_fields v)"

definition try_validator_state :: "runtime \<Rightarrow> byte list \<Rightarrow> framework_error + validator_state" where
  "try_validator_state rt d =
     deserialize (validator_state_disc rt) validator_state_widths validator_state_of_fields d"

lemma length_validator_state_disc [simp]: "length (validator_state_disc rt) = 8"
  by (simp add: validator_state_disc_def)

interpretation validator: account_layout
  validator_state_fields validator_state_of_fields validator_state_widths
proof
  fix x fs
  show "map length (validator_state_fields x) = validator_state_widths"
    by (simp add: validator_state_fields_def validator_state_widths_def)
  show "validator_state_of_fields (validator_state_fields x) = Some x"
    by (simp add: validator_state_fields_def validator_state_of_fields_def u64_le.dec_enc)
  assume "map length fs = validator_state_widths" "validator_state_of_fields fs = Some x"
  then show "validator_state_fields x = fs"
    by (auto simp: validator_state_widths_def validator_state_of_fields_def
        validator_state_fields_def map_eq_Cons_conv u64_le.enc_dec length_Suc_conv
        split: if_splits)
qed

section \<open>Program and account addresses\<close>

definition registry_program_id :: pubkey where
  "registry_program_id = arr_of
     [81, 130, 250, 230, 30, 253, 246, 69, 82, 96, 7, 173, 78, 160, 131, 188, 70, 106, 173, 59,
      102, 163, 198, 189, 82, 37, 225, 38, 52, 233, 157, 117]"

definition protocol_config_seeds :: "byte list list" where
  "protocol_config_seeds = [ascii ''protocol_config'']"

definition protocol_treasury_seeds :: "byte list list" where
  "protocol_treasury_seeds = [ascii ''protocol_treasury'']"

definition vault_seeds :: "byte list list" where
  "vault_seeds = [ascii ''vault'']"

definition validator_seeds :: "pubkey \<Rightarrow> byte list list" where
  "validator_seeds k = [ascii ''validator'', elems k]"

section \<open>Shared helpers\<close>

text \<open>The projection window of a configuration account of any layout.\<close>

definition read_projection_versions :: "byte list \<Rightarrow> registry_error + (u16 \<times> u16)" where
  "read_projection_versions d =
     (if length d \<le> offset_current_projection_version then Inr (0, 0)
      else require (config_len_pre_rollover \<le> length d) registry_error.InvalidProtocolConfig
        (let current = from_le (slice offset_current_projection_version 2 d);
             minimum = from_le (slice offset_minimum_supported_projection_version 2 d)
         in require (minimum \<le> current) registry_error.InvalidProtocolConfig
              (Inr (current, minimum))))"

definition ensure_protocol_config_len ::
  "runtime \<Rightarrow> pubkey \<Rightarrow> pubkey \<Rightarrow> world \<Rightarrow> fault + world" where
  "ensure_protocol_config_len rt config_key payer w =
     (if length (data_of w config_key) < config_len then
        and_then (resize rt config_key config_len w) (\<lambda>w.
          let required = minimum_balance rt config_len;
              current = lamports_of w config_key
          in if current < required
             then transfer rt payer config_key (required - current) w
             else Inr w)
      else Inr w)"

definition validate_projection_transition ::
  "u16 \<times> u16 \<Rightarrow> u16 \<times> u16 \<Rightarrow> registry_error + unit" where
  "validate_projection_transition stored next_versions =
     require (snd next_versions \<le> fst next_versions) InvalidProjectionVersionRange
    (require (fst stored \<le> fst next_versions) ProjectionVersionRollback
    (require (snd stored \<le> snd next_versions) MinimumProjectionVersionRollback
      (Inr ())))"

text \<open>
  The accounts of the four instructions that read and write the configuration as raw
  bytes: the administrator signs, the configuration is the PDA of this program.
\<close>

definition raw_config_accounts ::
  "runtime \<Rightarrow> tx \<Rightarrow> pubkey \<Rightarrow> pubkey \<Rightarrow> fault + 'a \<Rightarrow> fault + 'a" where
  "raw_config_accounts rt t admin config_key r =
     mut_signer t admin
    (mut_account t config_key
    (with_seeds rt protocol_config_seeds registry_program_id config_key r))"

text \<open>\<open>stored_admin\<close>: the administrator at offset 8, compared with the signer.\<close>

definition require_stored_admin :: "byte list \<Rightarrow> pubkey \<Rightarrow> fault + 'a \<Rightarrow> fault + 'a" where
  "require_stored_admin d admin r =
     require (40 \<le> length d) (RegistryErr registry_error.InvalidProtocolConfig)
    (require (arr_of (slice 8 32 d) = admin) (RegistryErr registry_error.Unauthorized) r)"

lemma raw_config_accounts_Inr [res_simps]:
  "raw_config_accounts rt t admin k r = Inr x \<longleftrightarrow>
     is_signer t admin \<and> is_writable t admin \<and> is_writable t k \<and>
     pda_key rt protocol_config_seeds registry_program_id = k \<and> r = Inr x"
  by (auto simp: raw_config_accounts_def res_simps)

lemma require_stored_admin_Inr [res_simps]:
  "require_stored_admin d admin r = Inr x \<longleftrightarrow>
     40 \<le> length d \<and> arr_of (slice 8 32 d) = admin \<and> r = Inr x"
  by (simp add: require_stored_admin_def res_simps)

section \<open>Configuration instructions\<close>

text \<open>
  The account contexts come before the handlers that run in them: what the framework checks
  and loads, and then the handler \<open>run\<close> on it.
\<close>

definition initialize_accounts ::
  "runtime \<Rightarrow> tx \<Rightarrow> pubkey \<Rightarrow> pubkey \<Rightarrow> world \<Rightarrow> (world \<Rightarrow> fault + 'a) \<Rightarrow> fault + 'a" where
  "initialize_accounts rt t admin config_key w run =
     mut_signer t admin
    (with_seeds rt protocol_config_seeds registry_program_id config_key
    (and_then (init_typed rt admin config_key config_len registry_program_id w) run))"

definition initialize_protocol ::
  "runtime \<Rightarrow> tx \<Rightarrow> pubkey \<Rightarrow> pubkey \<Rightarrow> u64 \<Rightarrow> i64 \<Rightarrow> u16 \<Rightarrow> u16 \<Rightarrow> u64 \<Rightarrow> pubkey \<Rightarrow>
   world \<Rightarrow> fault + world" where
  "initialize_protocol rt t admin config_key min_stake challenge_expiry max_trust_score
     base_trust_increment verification_fee validator_key w =
     initialize_accounts rt t admin config_key w (\<lambda>w.
     require (validator_key \<noteq> 0) (RegistryErr InvalidValidatorPubkey)
      (let config = \<lparr>pc_admin = admin, pc_min_stake = min_stake,
             pc_challenge_expiry = challenge_expiry, pc_max_trust_score = max_trust_score,
             pc_base_trust_increment = base_trust_increment,
             pc_bump = pda_bump rt protocol_config_seeds registry_program_id,
             pc_verification_fee = verification_fee, pc_migration_fee = 0,
             pc_validator_pubkey = validator_key, pc_current_projection_version = 0,
             pc_minimum_supported_projection_version = 0, pc_pending_authority = 0,
             pc_secondary_validator_pubkey = 0, pc_secondary_validator_valid_until = 0\<rparr>
       in exit_typed (config_bytes rt config) config_key w))"

definition update_config_accounts ::
  "runtime \<Rightarrow> tx \<Rightarrow> pubkey \<Rightarrow> pubkey \<Rightarrow> world \<Rightarrow> (protocol_config \<Rightarrow> world \<Rightarrow> fault + 'a) \<Rightarrow>
   fault + 'a" where
  "update_config_accounts rt t admin config_key w run =
     mut_signer t admin
    (mut_account t config_key
    (and_then (load_typed rt registry_program_id (try_config rt) config_key w) (\<lambda>config.
     require (pc_admin config = admin) (RegistryErr registry_error.Unauthorized)
    (with_seeds_bump rt protocol_config_seeds (pc_bump config) registry_program_id config_key
    (and_then (realloc_typed rt admin config_key config_len w) (run config))))))"

definition update_protocol_config ::
  "runtime \<Rightarrow> tx \<Rightarrow> pubkey \<Rightarrow> pubkey \<Rightarrow> u64 \<Rightarrow> world \<Rightarrow> fault + world" where
  "update_protocol_config rt t admin config_key fee w =
     update_config_accounts rt t admin config_key w (\<lambda>config w.
     let config = config\<lparr>pc_verification_fee := fee\<rparr>
     in (exit_typed (config_bytes rt config) config_key
          (emit (RegistryEvent (ProtocolConfigUpdated admin fee)) w)))"

definition set_validator_pubkey ::
  "runtime \<Rightarrow> tx \<Rightarrow> pubkey \<Rightarrow> pubkey \<Rightarrow> pubkey \<Rightarrow> world \<Rightarrow> fault + world" where
  "set_validator_pubkey rt t admin config_key validator_key w =
     raw_config_accounts rt t admin config_key
    (require (validator_key \<noteq> 0) (RegistryErr InvalidValidatorPubkey)
    (require_stored_admin (data_of w config_key) admin
    (and_then (ensure_protocol_config_len rt config_key admin w) (\<lambda>w.
     let d = data_of w config_key;
         d = copy_at offset_validator_pubkey (elems validator_key) d;
         d = copy_at offset_secondary_validator_pubkey (replicate 32 0) d;
         d = copy_at offset_secondary_validator_valid_until (replicate 8 0) d
     in Inr (emit (RegistryEvent (ValidatorPubkeySet admin validator_key)) (set_data config_key d w))))))"

text \<open>
  The grace window that a rotation opens: the outgoing key stays acceptable until
  \<open>now + grace\<close>, unless there is none or it does not change.
\<close>

definition rotation_secondary :: "i64 \<Rightarrow> i64 \<Rightarrow> pubkey \<Rightarrow> pubkey \<Rightarrow> fault + (pubkey \<times> i64)" where
  "rotation_secondary now grace old_validator new_validator =
     (if 0 < sint grace \<and> old_validator \<noteq> 0 \<and> old_validator \<noteq> new_validator
      then and_then (ok_or (checked_add_i64 now grace)
             (RegistryErr registry_error.ArithmeticOverflow))
             (\<lambda>valid_until. Inr (old_validator, valid_until))
      else Inr (0, 0))"

definition rotate_validator_pubkey ::
  "runtime \<Rightarrow> tx \<Rightarrow> pubkey \<Rightarrow> pubkey \<Rightarrow> pubkey \<Rightarrow> i64 \<Rightarrow> world \<Rightarrow> fault + world" where
  "rotate_validator_pubkey rt t admin config_key new_validator grace w =
     raw_config_accounts rt t admin config_key
    (require (new_validator \<noteq> 0) (RegistryErr InvalidValidatorPubkey)
    (require (0 \<le> sint grace \<and> sint grace \<le> max_validator_grace_period_secs)
       (RegistryErr InvalidValidatorGracePeriod)
    (require (owner_of w config_key = registry_program_id)
       (RegistryErr registry_error.InvalidProtocolConfig)
    (require_stored_admin (data_of w config_key) admin
    (let d0 = data_of w config_key;
         old_validator = (if offset_validator_pubkey + 32 \<le> length d0
           then arr_of (slice offset_validator_pubkey 32 d0) else 0)
     in and_then (ensure_protocol_config_len rt config_key admin w) (\<lambda>w.
        and_then (rotation_secondary (clock t) grace old_validator new_validator)
          (\<lambda>(secondary, valid_until).
        let d = data_of w config_key;
            d = copy_at offset_validator_pubkey (elems new_validator) d;
            d = copy_at offset_secondary_validator_pubkey (elems secondary) d;
            d = copy_at offset_secondary_validator_valid_until (u64_le valid_until) d
        in Inr (emit (RegistryEvent (ValidatorPubkeyRotated admin new_validator secondary valid_until))
             (set_data config_key d w)))))))))"

definition propose_authority ::
  "runtime \<Rightarrow> tx \<Rightarrow> pubkey \<Rightarrow> pubkey \<Rightarrow> pubkey \<Rightarrow> world \<Rightarrow> fault + world" where
  "propose_authority rt t admin config_key new_authority w =
     raw_config_accounts rt t admin config_key
    (require (new_authority \<noteq> 0) (RegistryErr InvalidPendingAuthority)
    (require (owner_of w config_key = registry_program_id)
       (RegistryErr registry_error.InvalidProtocolConfig)
    (require_stored_admin (data_of w config_key) admin
    (and_then (ensure_protocol_config_len rt config_key admin w) (\<lambda>w.
     let d = copy_at offset_pending_authority (elems new_authority) (data_of w config_key)
     in Inr (emit (RegistryEvent (AuthorityTransferProposed admin new_authority))
          (set_data config_key d w)))))))"

definition accept_authority ::
  "runtime \<Rightarrow> tx \<Rightarrow> pubkey \<Rightarrow> pubkey \<Rightarrow> world \<Rightarrow> fault + world" where
  "accept_authority rt t pending_signer config_key w =
     raw_config_accounts rt t pending_signer config_key
    (require (owner_of w config_key = registry_program_id)
       (RegistryErr registry_error.InvalidProtocolConfig)
    (let d = data_of w config_key in
     require (offset_pending_authority + 32 \<le> length d) (RegistryErr NoPendingAuthority)
    (let old_admin = arr_of (slice 8 32 d);
         pending = arr_of (slice offset_pending_authority 32 d)
     in require (pending \<noteq> 0) (RegistryErr NoPendingAuthority)
       (require (pending = pending_signer) (RegistryErr registry_error.Unauthorized)
       (let d = copy_at 8 (elems pending) d;
            d = copy_at offset_pending_authority (replicate 32 0) d
        in Inr (emit (RegistryEvent (AuthorityTransferAccepted old_admin pending))
             (set_data config_key d w)))))))"

definition set_projection_versions ::
  "runtime \<Rightarrow> tx \<Rightarrow> pubkey \<Rightarrow> pubkey \<Rightarrow> u16 \<Rightarrow> u16 \<Rightarrow> world \<Rightarrow> fault + world" where
  "set_projection_versions rt t admin config_key current minimum w =
     raw_config_accounts rt t admin config_key
    (require (owner_of w config_key = registry_program_id)
       (RegistryErr registry_error.InvalidProtocolConfig)
    (require_stored_admin (data_of w config_key) admin
    (and_then (map_err RegistryErr (read_projection_versions (data_of w config_key)))
       (\<lambda>stored_versions.
     and_then (map_err RegistryErr
         (validate_projection_transition stored_versions (current, minimum))) (\<lambda>_.
     and_then (ensure_protocol_config_len rt config_key admin w) (\<lambda>w.
     let d = data_of w config_key;
         d = copy_at offset_current_projection_version (u16_le current) d;
         d = copy_at offset_minimum_supported_projection_version (u16_le minimum) d
     in Inr (emit (RegistryEvent (ProjectionVersionsSet admin current minimum))
          (set_data config_key d w))))))))"

text \<open>
  \<open>migrate_admin\<close> recovers the administrator with the upgrade authority of the program,
  which it reads from the loader's program-data account.
\<close>

definition upgrade_authority :: "byte list \<Rightarrow> registry_error + pubkey" where
  "upgrade_authority d =
     require (45 \<le> length d) registry_error.ProgramDataBytes
    (require (d ! 12 = 1) registry_error.ProgramDataBytes
      (Inr (arr_of (slice 13 32 d))))"

definition migrate_admin_accounts ::
  "runtime \<Rightarrow> tx \<Rightarrow> pubkey \<Rightarrow> pubkey \<Rightarrow> pubkey \<Rightarrow> fault + 'a \<Rightarrow> fault + 'a" where
  "migrate_admin_accounts rt t new_admin config_key programdata run =
     raw_config_accounts rt t new_admin config_key
    (require (programdata =
         pda_key rt [elems registry_program_id] (bpf_loader_upgradeable_id rt))
       (RegistryErr registry_error.ProgramDataBytes) run)"

definition migrate_admin ::
  "runtime \<Rightarrow> tx \<Rightarrow> pubkey \<Rightarrow> pubkey \<Rightarrow> pubkey \<Rightarrow> world \<Rightarrow> fault + world" where
  "migrate_admin rt t new_admin config_key programdata w =
     migrate_admin_accounts rt t new_admin config_key programdata
    (and_then (map_err RegistryErr (upgrade_authority (data_of w programdata))) (\<lambda>authority.
     require (authority = new_admin) (RegistryErr WrongUpgradeAuthority)
    (require (40 \<le> length (data_of w config_key))
       (RegistryErr registry_error.InvalidProtocolConfig)
    (let old_admin = arr_of (slice 8 32 (data_of w config_key))
     in and_then (resize rt config_key config_len w) (\<lambda>w.
        let w = set_data config_key (copy_at 8 (elems new_admin) (data_of w config_key)) w;
            required = minimum_balance rt config_len;
            current = lamports_of w config_key
        in and_then (if current < required
             then transfer rt new_admin config_key (required - current) w else Inr w) (\<lambda>w.
           Inr (emit (RegistryEvent (AdminMigrated old_admin new_admin)) w)))))))"

section \<open>Treasury and validators\<close>

definition withdraw_accounts ::
  "runtime \<Rightarrow> tx \<Rightarrow> pubkey \<Rightarrow> pubkey \<Rightarrow> pubkey \<Rightarrow> world \<Rightarrow> fault + 'a \<Rightarrow> fault + 'a" where
  "withdraw_accounts rt t admin config_key treasury w run =
     mut_signer t admin
    (and_then (load_typed rt registry_program_id (try_config rt) config_key w) (\<lambda>config.
     require (pc_admin config = admin) (RegistryErr registry_error.Unauthorized)
    (with_seeds_bump rt protocol_config_seeds (pc_bump config) registry_program_id config_key
    (mut_account t treasury
    (with_seeds rt protocol_treasury_seeds registry_program_id treasury run)))))"

definition withdraw_treasury ::
  "runtime \<Rightarrow> tx \<Rightarrow> pubkey \<Rightarrow> pubkey \<Rightarrow> pubkey \<Rightarrow> u64 \<Rightarrow> world \<Rightarrow> fault + world" where
  "withdraw_treasury rt t admin config_key treasury amount w =
     withdraw_accounts rt t admin config_key treasury w
    (let min_balance = minimum_balance rt 0;
         available = saturating_sub (lamports_of w treasury) min_balance
     in require (amount \<le> available) (RegistryErr InsufficientTreasuryBalance)
       (and_then (transfer_signed rt
           (protocol_treasury_seeds @ [[pda_bump rt protocol_treasury_seeds registry_program_id]])
           treasury admin amount w) (\<lambda>w.
         Inr (emit (RegistryEvent (TreasuryWithdrawn admin amount)) w))))"

definition register_accounts ::
  "runtime \<Rightarrow> tx \<Rightarrow> pubkey \<Rightarrow> pubkey \<Rightarrow> pubkey \<Rightarrow> pubkey \<Rightarrow> world \<Rightarrow>
   (protocol_config \<Rightarrow> world \<Rightarrow> fault + 'a) \<Rightarrow> fault + 'a" where
  "register_accounts rt t validator config_key state_key vault w run =
     mut_signer t validator
    (and_then (load_typed rt registry_program_id (try_config rt) config_key w) (\<lambda>config.
     with_seeds_bump rt protocol_config_seeds (pc_bump config) registry_program_id config_key
    (with_seeds rt (validator_seeds validator) registry_program_id state_key
    (and_then (init_typed rt validator state_key validator_state_len registry_program_id w) (\<lambda>w.
     mut_account t vault
    (with_seeds rt vault_seeds registry_program_id vault (run config w)))))))"

definition register_validator ::
  "runtime \<Rightarrow> tx \<Rightarrow> pubkey \<Rightarrow> pubkey \<Rightarrow> pubkey \<Rightarrow> pubkey \<Rightarrow> u64 \<Rightarrow> world \<Rightarrow> fault + world" where
  "register_validator rt t validator config_key state_key vault stake_amount w =
     register_accounts rt t validator config_key state_key vault w (\<lambda>config w.
     require (pc_min_stake config \<le> stake_amount) (RegistryErr InsufficientStake)
    (and_then (transfer rt validator vault stake_amount w) (\<lambda>w.
     let state = \<lparr>vs_authority = validator, vs_stake = stake_amount,
           vs_registration_time = clock t, vs_is_active = True,
           vs_verifications_performed = 0,
           vs_bump = pda_bump rt (validator_seeds validator) registry_program_id\<rparr>
     in (exit_typed (validator_state_bytes rt state) state_key
          (emit (RegistryEvent (ValidatorRegistered validator stake_amount)) w)))))"

definition unstake_accounts ::
  "runtime \<Rightarrow> tx \<Rightarrow> pubkey \<Rightarrow> pubkey \<Rightarrow> pubkey \<Rightarrow> world \<Rightarrow> (validator_state \<Rightarrow> fault + 'a) \<Rightarrow>
   fault + 'a" where
  "unstake_accounts rt t validator state_key vault w run =
     mut_signer t validator
    (mut_account t state_key
    (and_then (load_typed rt registry_program_id (try_validator_state rt) state_key w) (\<lambda>state.
     with_seeds_bump rt (validator_seeds validator) (vs_bump state) registry_program_id state_key
    (require (vs_authority state = validator) (RegistryErr registry_error.Unauthorized)
    (mut_account t vault
    (with_seeds rt vault_seeds registry_program_id vault (run state)))))))"

definition unstake_validator ::
  "runtime \<Rightarrow> tx \<Rightarrow> pubkey \<Rightarrow> pubkey \<Rightarrow> pubkey \<Rightarrow> world \<Rightarrow> fault + world" where
  "unstake_validator rt t validator state_key vault w =
     unstake_accounts rt t validator state_key vault w (\<lambda>state.
     let stake = vs_stake state
     in and_then (transfer_signed rt
           (vault_seeds @ [[pda_bump rt vault_seeds registry_program_id]])
           vault validator stake w) (\<lambda>w.
        close_typed rt state_key validator
          (emit (RegistryEvent (ValidatorUnstaked (vs_authority state) stake)) w)))"

end
