(* ===== verification/Trust_Score.thy ===== *)
theory Trust_Score
  imports Registry
begin

text \<open>
  Activity and reputation: the weekly activity ring (\<open>record_verification\<close> of
  entros-anchor), the integer square root (both programs), and the Trust Score as
  entros-anchor stores it and as entros-registry previews it.
\<close>

type_synonym ring = "(i64, 52) arr"

section \<open>The activity ring\<close>

definition BIN_SIZE_SECS :: int where "BIN_SIZE_SECS = 604800"
definition NUM_BINS :: nat where "NUM_BINS = 12"

text \<open>
  \<open>for i in (1..len).rev() { ring[i] = ring[i - 1]; }\<close>, from the last index down:
  each step copies a slot that no earlier step has written.
\<close>

fun shift_down :: "nat \<Rightarrow> 'a list \<Rightarrow> 'a list" where
  "shift_down 0 xs = xs"
| "shift_down (Suc i) xs = shift_down i (xs[Suc i := xs ! i])"

definition record_verification :: "ring \<Rightarrow> i64 \<Rightarrow> ring" where
  "record_verification r now =
     (let xs = elems r;
          opens_new_bin = (xs ! 0 = 0 \<or> BIN_SIZE_SECS \<le> sint (saturating_sub_i64 now (xs ! 0)))
      in if \<not> opens_new_bin then r
         else arr_of ((shift_down (length xs - 1) xs)[0 := now]))"

section \<open>Integer square root\<close>

text \<open>
  Newton's method. The programs are built with overflow checks, so a sum that leaves
  64 bits or a division by zero panics: \<open>None\<close>. The loop stops because \<open>x\<close> decreases.
\<close>

function isqrt_loop :: "u64 \<Rightarrow> u64 \<Rightarrow> u64 \<Rightarrow> u64 option" where
  "isqrt_loop n x y =
     (if y < x then
        (let x = y in
         if x = 0 then None
         else case checked_add x (n div x) of
             None \<Rightarrow> None
           | Some s \<Rightarrow> isqrt_loop n x (s div 2))
      else Some x)"
  by pat_completeness auto
termination
  by (relation "measure (\<lambda>(n, x, y). unat x)") (auto simp: word_less_nat_alt)

declare isqrt_loop.simps [simp del]

definition isqrt :: "u64 \<Rightarrow> u64 option" where
  "isqrt n = (if n = 0 then Some 0 else isqrt_loop n n (n div 2 + n mod 2))"

section \<open>The score\<close>

text \<open>
  \<open>(now.saturating_sub(ts) / BIN_SIZE_SECS) as usize\<close>: the quotient rounds towards
  zero, and the cast of a negative quotient is a huge index.
\<close>

definition bin_index :: "i64 \<Rightarrow> i64 \<Rightarrow> u64" where
  "bin_index now ts = word_of_int (sint (saturating_sub_i64 now ts) sdiv BIN_SIZE_SECS)"

fun mark_bins :: "i64 \<Rightarrow> i64 list \<Rightarrow> bool list \<Rightarrow> bool list" where
  "mark_bins now [] bins = bins"
| "mark_bins now (ts # tss) bins =
     (if ts = 0 then mark_bins now tss bins
      else let i = bin_index now ts
           in if i < of_nat NUM_BINS then mark_bins now tss (bins[unat i := True])
              else mark_bins now tss bins)"

definition bin_weight :: "u16 \<Rightarrow> nat \<Rightarrow> u64" where
  "bin_weight increment i =
     saturating_mul (ucast increment) (of_nat (NUM_BINS - i)) div of_nat NUM_BINS"

fun add_bins :: "u16 \<Rightarrow> nat \<Rightarrow> bool list \<Rightarrow> u64 \<Rightarrow> u64" where
  "add_bins increment i [] score = score"
| "add_bins increment i (active # rest) score =
     add_bins increment (Suc i) rest
       (if active then saturating_add score (bin_weight increment i) else score)"

definition base_score :: "u16 \<Rightarrow> i64 \<Rightarrow> i64 list \<Rightarrow> u64" where
  "base_score increment now tss =
     add_bins increment 0 (mark_bins now tss (replicate NUM_BINS False)) 0"

text \<open>The age bonus: \<open>isqrt(min(age_days, 365)) * 4\<close>; the product is overflow-checked.\<close>

definition age_days :: "i64 \<Rightarrow> u64" where
  "age_days age_seconds = word_of_int (max (sint age_seconds sdiv 86400) 0)"

definition age_bonus :: "i64 \<Rightarrow> u64 option" where
  "age_bonus age_seconds = (case isqrt (min (age_days age_seconds) 365) of
       None \<Rightarrow> None
     | Some r \<Rightarrow> if uint r * 4 < 2 ^ 64 then Some (r * 4) else None)"

text \<open>The score that \<open>process_anchor_update\<close> stores in the identity.\<close>

definition anchor_trust_score :: "u16 \<Rightarrow> u16 \<Rightarrow> i64 \<Rightarrow> i64 \<Rightarrow> ring \<Rightarrow> fault + u16" where
  "anchor_trust_score max_trust_score increment now creation r =
     (let base = base_score increment now (elems r) in
      and_then (ok_or (checked_sub_i64 now creation)
        (AnchorErr entros_anchor_error.ArithmeticOverflow)) (\<lambda>age_seconds.
      and_then (ok_or (age_bonus age_seconds) Panicked) (\<lambda>bonus.
      Inr (ucast (min (saturating_add base bonus) (ucast max_trust_score :: u64))))))"

text \<open>The preview of entros-registry: ten timestamps, a deprecated bonus of zero.\<close>

definition trust_score_accounts ::
  "runtime \<Rightarrow> pubkey \<Rightarrow> world \<Rightarrow> (protocol_config \<Rightarrow> fault + 'a) \<Rightarrow> fault + 'a" where
  "trust_score_accounts rt config_key w run =
     and_then (load_typed rt registry_program_id (try_config rt) config_key w) (\<lambda>config.
     with_seeds_bump rt protocol_config_seeds (pc_bump config) registry_program_id config_key
       (run config))"

definition compute_trust_score ::
  "runtime \<Rightarrow> tx \<Rightarrow> pubkey \<Rightarrow> u32 \<Rightarrow> i64 \<Rightarrow> (i64, 10) arr \<Rightarrow> world \<Rightarrow> fault + world" where
  "compute_trust_score rt t config_key verification_count creation recent w =
     trust_score_accounts rt config_key w (\<lambda>config.
     let base = base_score (pc_base_trust_increment config) (clock t) (elems recent);
         regularity_bonus = 0 in
     and_then (ok_or (checked_sub_i64 (clock t) creation)
       (RegistryErr registry_error.ArithmeticOverflow)) (\<lambda>age_seconds.
     and_then (ok_or (age_bonus age_seconds) Panicked) (\<lambda>bonus.
     let total = saturating_add (saturating_add base regularity_bonus) bonus;
         score = ucast (min total (ucast (pc_max_trust_score config) :: u64))
     in Inr (emit (RegistryEvent (TrustScoreComputed verification_count creation score)) w))))"

end
