(* ===== verification/Proof_Request.thy ===== *)
theory Proof_Request
  imports Runtime
begin

text \<open>
  The crate shared by entros-anchor and entros-verifier (crates/proof-request/src/lib.rs):
  the request-bound proof generation. An \<open>Action\<close> is what the wallet asks to do, its
  digest is a public input of the proof, and the request counter of the wallet makes a
  digest usable once. \<open>BoundVerificationResult\<close> is the account the verifier leaves.
\<close>

definition GENERATION :: byte where "GENERATION = 1"
definition STATE_LEN :: nat where "STATE_LEN = 50"
definition MAX_REQUEST_LIFETIME :: u64 where "MAX_REQUEST_LIFETIME = 300"

definition REQUEST_DOMAIN :: "byte list" where
  "REQUEST_DOMAIN = ascii ''ENTROS_PROOF_REQUEST_V1'' @ replicate 9 0"

definition ACTION_DOMAIN :: "byte list" where
  "ACTION_DOMAIN = ascii ''ENTROS_ANCHOR_UPDATE_V1'' @ replicate 9 0"

text \<open>The order of the BN254 scalar field, big-endian.\<close>

definition SCALAR_MODULUS :: bytes32 where
  "SCALAR_MODULUS = arr_of
     [48, 100, 78, 114, 225, 49, 160, 41, 184, 80, 69, 182, 129, 129, 88, 93, 40, 51, 232, 72,
      121, 185, 112, 145, 67, 225, 245, 147, 240, 0, 0, 1]"

definition account_hash :: "runtime \<Rightarrow> byte list \<Rightarrow> bytes32" where
  "account_hash rt bytes = sha256 rt bytes"

definition canonical_scalar :: "bytes32 \<Rightarrow> bool" where
  "canonical_scalar v \<longleftrightarrow> v < SCALAR_MODULUS"

section \<open>Actions and their digest\<close>

record action =
  ac_identity :: pubkey
  ac_mint :: pubkey
  ac_counter :: u64
  ac_projection :: u16
  ac_commitment_new :: bytes32
  ac_commitment_prev :: bytes32
  ac_threshold :: u16
  ac_min_distance :: u16
  ac_valid_until :: u64

definition encode :: "action \<Rightarrow> byte list option" where
  "encode a =
     (if \<not> canonical_scalar (ac_commitment_new a) \<or> \<not> canonical_scalar (ac_commitment_prev a)
         \<or> ac_commitment_new a = 0 \<or> ac_commitment_prev a = 0 \<or> ac_valid_until a = 0
         \<or> ac_threshold a > 256 \<or> ac_min_distance a > ac_threshold a
      then None
      else Some
        (let bytes = replicate 182 0;
             bytes = copy_at 0 ACTION_DOMAIN bytes;
             bytes = copy_at 32 (elems (ac_identity a)) bytes;
             bytes = copy_at 64 (elems (ac_mint a)) bytes;
             bytes = copy_at 96 (u64_be (ac_counter a)) bytes;
             bytes = copy_at 104 (u16_be (ac_projection a)) bytes;
             bytes = copy_at 106 (elems (ac_commitment_new a)) bytes;
             bytes = copy_at 138 (elems (ac_commitment_prev a)) bytes;
             bytes = copy_at 170 (u16_be (ac_threshold a)) bytes;
             bytes = copy_at 172 (u16_be (ac_min_distance a)) bytes
         in copy_at 174 (u64_be (ac_valid_until a)) bytes))"

definition request_preimage ::
  "runtime \<Rightarrow> bytes32 \<Rightarrow> pubkey \<Rightarrow> pubkey \<Rightarrow> pubkey \<Rightarrow> bytes32 \<Rightarrow> byte list \<Rightarrow> byte list" where
  "request_preimage rt deployment verifier consumer wallet nonce action_bytes =
     (let bytes = replicate 225 0;
          bytes = copy_at 0 REQUEST_DOMAIN bytes;
          bytes = copy_at 32 (elems deployment) bytes;
          bytes = copy_at 64 (elems verifier) bytes;
          bytes = copy_at 96 (elems consumer) bytes;
          bytes = copy_at 128 (elems wallet) bytes;
          bytes = copy_at 160 (elems nonce) bytes;
          bytes = bytes[192 := 1]
      in copy_at 193 (elems (sha256 rt action_bytes)) bytes)"

definition request_digest ::
  "runtime \<Rightarrow> bytes32 \<Rightarrow> pubkey \<Rightarrow> pubkey \<Rightarrow> pubkey \<Rightarrow> bytes32 \<Rightarrow> action \<Rightarrow> bytes32 option" where
  "request_digest rt deployment verifier consumer wallet nonce a =
     map_option (\<lambda>action_bytes.
         sha256 rt (request_preimage rt deployment verifier consumer wallet nonce action_bytes))
       (encode a)"

text \<open>A digest enters the circuit as two 128-bit limbs, each a 32-byte field element.\<close>

definition digest_limbs :: "bytes32 \<Rightarrow> bytes32 \<times> bytes32" where
  "digest_limbs digest =
     (arr_of (copy_at 16 (take 16 (elems digest)) (replicate 32 0)),
      arr_of (copy_at 16 (drop 16 (elems digest)) (replicate 32 0)))"

section \<open>The verification result of a bound proof\<close>

record bound_result =
  br_version :: byte
  br_wallet :: pubkey
  br_nonce :: bytes32
  br_commitment_new :: bytes32
  br_commitment_prev :: bytes32
  br_threshold :: u16
  br_min_distance :: u16
  br_counter :: u64
  br_valid_until :: u64
  br_verified_at :: i64
  br_request_digest :: bytes32
  br_bump :: byte

definition bound_result_len :: nat where "bound_result_len = 198"

definition bound_result_widths :: "nat list" where
  "bound_result_widths = [1, 32, 32, 32, 32, 2, 2, 8, 8, 8, 32, 1]"

definition bound_result_fields :: "bound_result \<Rightarrow> byte list list" where
  "bound_result_fields r =
     [[br_version r], elems (br_wallet r), elems (br_nonce r), elems (br_commitment_new r),
      elems (br_commitment_prev r), u16_le (br_threshold r), u16_le (br_min_distance r),
      u64_le (br_counter r), u64_le (br_valid_until r), u64_le (br_verified_at r),
      elems (br_request_digest r), [br_bump r]]"

definition bound_result_of_fields :: "byte list list \<Rightarrow> bound_result option" where
  "bound_result_of_fields fs = (case fs of
     [a, b, c, d, e, f, g, h, i, j, k, l] \<Rightarrow> Some
       \<lparr>br_version = hd a, br_wallet = arr_of b, br_nonce = arr_of c, br_commitment_new = arr_of d,
        br_commitment_prev = arr_of e, br_threshold = from_le f, br_min_distance = from_le g,
        br_counter = from_le h, br_valid_until = from_le i, br_verified_at = from_le j,
        br_request_digest = arr_of k, br_bump = hd l\<rparr>
   | _ \<Rightarrow> None)"

definition bound_result_disc :: "runtime \<Rightarrow> byte list" where
  "bound_result_disc rt = discriminator rt ''account:BoundVerificationResult''"

definition bound_result_bytes :: "runtime \<Rightarrow> bound_result \<Rightarrow> byte list" where
  "bound_result_bytes rt r = serialize (bound_result_disc rt) (bound_result_fields r)"

definition try_bound_result :: "runtime \<Rightarrow> byte list \<Rightarrow> framework_error + bound_result" where
  "try_bound_result rt d =
     deserialize (bound_result_disc rt) bound_result_widths bound_result_of_fields d"

lemma length_bound_result_disc [simp]: "length (bound_result_disc rt) = 8"
  by (simp add: bound_result_disc_def)

interpretation bound_result: account_layout
  bound_result_fields bound_result_of_fields bound_result_widths
proof
  fix x fs
  show "map length (bound_result_fields x) = bound_result_widths"
    by (simp add: bound_result_fields_def bound_result_widths_def)
  show "bound_result_of_fields (bound_result_fields x) = Some x"
    by (simp add: bound_result_fields_def bound_result_of_fields_def u16_le.dec_enc u64_le.dec_enc)
  assume "map length fs = bound_result_widths" "bound_result_of_fields fs = Some x"
  then show "bound_result_fields x = fs"
    by (auto simp: bound_result_widths_def bound_result_of_fields_def bound_result_fields_def
        map_eq_Cons_conv u16_le.enc_dec u64_le.enc_dec length_Suc_conv)
qed

section \<open>The request counter\<close>

definition request_state_disc :: "runtime \<Rightarrow> byte list" where
  "request_state_disc rt = discriminator rt ''account:ProofRequestState''"

definition read_counter :: "runtime \<Rightarrow> byte list \<Rightarrow> pubkey \<Rightarrow> byte \<Rightarrow> u64 option" where
  "read_counter rt d wallet bump =
     (if length d \<noteq> STATE_LEN
         \<or> take 8 d \<noteq> take 8 (elems (sha256 rt (ascii ''account:ProofRequestState'')))
         \<or> d ! 8 \<noteq> GENERATION
         \<or> slice 9 32 d \<noteq> elems wallet
         \<or> d ! 49 \<noteq> bump
      then None
      else Some (from_le (slice 41 8 d)))"

end
