(* ===== verification/Verifying_Key.thy ===== *)
theory Verifying_Key
  imports Runtime
begin

text \<open>
  The Groth16 key compiled into entros-verifier
  (programs/entros-verifier/src/verifying_key.rs), byte for byte, as the argument of the
  pairing check. The check itself is groth16-solana's and stays the parameter
  \<open>groth16_verify\<close>.
\<close>

definition VERIFYINGKEY :: groth16_verifyingkey where
  "VERIFYINGKEY =
     \<lparr>nr_pubinputs = 4,
      vk_alpha_g1 = arr_of
        [45, 77, 154, 167, 227, 2, 217, 223, 65, 116, 157, 85, 7, 148, 157, 5, 219, 234,
         51, 251, 177, 108, 100, 59, 34, 245, 153, 162, 190, 109, 242, 226, 20, 190, 221,
         80, 60, 55, 206, 176, 97, 216, 236, 96, 32, 159, 227, 69, 206, 137, 131, 10, 25,
         35, 3, 1, 240, 118, 202, 255, 0, 77, 25, 38],
      vk_beta_g2 = arr_of
        [9, 103, 3, 47, 203, 247, 118, 209, 175, 201, 133, 248, 136, 119, 241, 130, 211,
         132, 128, 166, 83, 242, 222, 202, 169, 121, 76, 188, 59, 243, 6, 12, 14, 24, 120,
         71, 173, 76, 121, 131, 116, 208, 214, 115, 43, 245, 1, 132, 125, 214, 139, 192,
         224, 113, 36, 30, 2, 19, 188, 127, 193, 61, 183, 171, 48, 76, 251, 209, 224, 138,
         112, 74, 153, 245, 232, 71, 217, 63, 140, 60, 170, 253, 222, 196, 107, 122, 13,
         55, 157, 166, 154, 77, 17, 35, 70, 167, 23, 57, 193, 177, 164, 87, 168, 199, 49,
         49, 35, 210, 77, 47, 145, 146, 248, 150, 183, 198, 62, 234, 5, 169, 213, 127, 6,
         84, 122, 208, 206, 200],
      vk_gamme_g2 = arr_of
        [25, 142, 147, 147, 146, 13, 72, 58, 114, 96, 191, 183, 49, 251, 93, 37, 241, 170,
         73, 51, 53, 169, 231, 18, 151, 228, 133, 183, 174, 243, 18, 194, 24, 0, 222, 239,
         18, 31, 30, 118, 66, 106, 0, 102, 94, 92, 68, 121, 103, 67, 34, 212, 247, 94, 218,
         221, 70, 222, 189, 92, 217, 146, 246, 237, 9, 6, 137, 208, 88, 95, 240, 117, 236,
         158, 153, 173, 105, 12, 51, 149, 188, 75, 49, 51, 112, 179, 142, 243, 85, 172,
         218, 220, 209, 34, 151, 91, 18, 200, 94, 165, 219, 140, 109, 235, 74, 171, 113,
         128, 141, 203, 64, 143, 227, 209, 231, 105, 12, 67, 211, 123, 76, 230, 204, 1,
         102, 250, 125, 170],
      vk_delta_g2 = arr_of
        [20, 80, 149, 78, 94, 134, 97, 245, 137, 60, 194, 51, 127, 46, 129, 94, 134, 62,
         84, 20, 100, 178, 66, 49, 231, 30, 149, 192, 66, 48, 143, 144, 34, 177, 57, 173,
         117, 245, 44, 48, 123, 117, 103, 222, 16, 24, 120, 131, 2, 102, 239, 247, 156,
         229, 82, 133, 143, 115, 135, 250, 173, 150, 213, 53, 11, 201, 192, 50, 207, 112,
         226, 76, 169, 75, 229, 163, 0, 216, 22, 167, 248, 153, 21, 93, 168, 88, 169, 169,
         98, 251, 192, 166, 149, 13, 66, 2, 20, 80, 201, 16, 255, 177, 97, 147, 198, 191,
         138, 65, 155, 115, 59, 42, 117, 103, 8, 177, 32, 53, 192, 199, 177, 28, 183, 60,
         44, 164, 116, 81],
      vk_ic =
        [arr_of [31, 235, 32, 82, 74, 51, 254, 74, 94, 19, 245, 159, 220, 56, 110, 17, 127,
                 191, 40, 65, 214, 22, 171, 14, 221, 101, 136, 235, 153, 249, 162, 181, 8,
                 135, 105, 164, 148, 164, 187, 223, 164, 71, 148, 175, 116, 5, 10, 41, 123,
                 61, 99, 6, 175, 67, 230, 217, 203, 170, 128, 48, 180, 147, 14, 27],
         arr_of [5, 56, 100, 232, 110, 12, 21, 48, 227, 77, 202, 70, 98, 136, 197, 18, 75,
                 162, 136, 24, 47, 249, 178, 169, 144, 48, 114, 19, 54, 116, 137, 129, 18,
                 214, 132, 232, 200, 112, 117, 187, 153, 113, 235, 132, 47, 23, 97, 185,
                 166, 57, 174, 215, 197, 64, 193, 20, 201, 164, 69, 145, 240, 91, 114, 161],
         arr_of [42, 13, 46, 189, 57, 74, 159, 104, 115, 5, 104, 56, 30, 20, 230, 78, 71,
                 58, 231, 112, 183, 5, 65, 138, 12, 127, 60, 220, 224, 216, 12, 179, 48,
                 39, 41, 50, 131, 116, 47, 144, 189, 27, 249, 5, 218, 227, 115, 186, 214,
                 92, 229, 20, 201, 74, 3, 197, 48, 210, 152, 108, 158, 41, 215, 129],
         arr_of [19, 67, 170, 190, 96, 117, 1, 122, 193, 92, 55, 23, 25, 84, 20, 213, 137,
                 229, 243, 128, 52, 253, 179, 6, 212, 165, 13, 45, 198, 63, 17, 84, 2, 170,
                 91, 193, 33, 133, 206, 13, 153, 105, 125, 165, 204, 203, 255, 160, 183,
                 117, 118, 216, 0, 71, 83, 53, 95, 94, 179, 251, 16, 124, 95, 139],
         arr_of [8, 126, 104, 67, 77, 247, 250, 222, 250, 240, 58, 133, 31, 179, 201, 233,
                 150, 232, 24, 9, 238, 219, 220, 65, 151, 165, 255, 67, 11, 43, 127, 247,
                 26, 68, 65, 199, 68, 96, 34, 239, 35, 148, 61, 6, 174, 234, 126, 22, 141,
                 145, 228, 235, 172, 244, 90, 18, 9, 126, 96, 15, 56, 230, 222, 158]]\<rparr>"

end
