(* ===== verification/Verifier.thy ===== *)
theory Verifier
  imports Proof_Request Verifying_Key
begin

text \<open>
  The program entros-verifier (programs/entros-verifier/src): challenges, the
  verification of a Groth16 proof and the accounts it leaves, and their closing.
  The pairing check itself (\<open>groth16-solana\<close>) is the parameter \<open>groth16_verify\<close>; the keys
  it is called with are \<open>VERIFYINGKEY\<close> and that of a request-bound build.
\<close>

text \<open>
  What a build fixes: the feature \<open>request-bound-v1\<close>, the program addresses and the
  deployment domain that the build script and its inputs choose (see Build_Config), and
  the key in the file that \<open>ENTROS_BOUND_VERIFYING_KEY\<close> names.
\<close>

record build =
  request_bound_v1 :: bool
  anchor_id :: pubkey
  verifier_id :: pubkey
  deployment_domain :: bytes32
  bound_verifying_key :: groth16_verifyingkey

section \<open>State\<close>

record challenge =
  ch_challenger :: pubkey
  ch_nonce :: bytes32
  ch_created_at :: i64
  ch_expires_at :: i64
  ch_used :: bool
  ch_bump :: byte

definition challenge_len :: nat where "challenge_len = 8 + 32 + 32 + 8 + 8 + 1 + 1"

definition challenge_widths :: "nat list" where
  "challenge_widths = [32, 32, 8, 8, 1, 1]"

definition challenge_fields :: "challenge \<Rightarrow> byte list list" where
  "challenge_fields c =
     [elems (ch_challenger c), elems (ch_nonce c), u64_le (ch_created_at c),
      u64_le (ch_expires_at c), [if ch_used c then 1 else 0], [ch_bump c]]"

definition challenge_of_fields :: "byte list list \<Rightarrow> challenge option" where
  "challenge_of_fields fs = (case fs of
     [a, b, c, d, e, f] \<Rightarrow>
       if e = [0] \<or> e = [1] then Some
         \<lparr>ch_challenger = arr_of a, ch_nonce = arr_of b, ch_created_at = from_le c,
          ch_expires_at = from_le d, ch_used = (e = [1]), ch_bump = hd f\<rparr>
       else None
   | _ \<Rightarrow> None)"

definition challenge_disc :: "runtime \<Rightarrow> byte list" where
  "challenge_disc rt = discriminator rt ''account:Challenge''"

definition challenge_bytes :: "runtime \<Rightarrow> challenge \<Rightarrow> byte list" where
  "challenge_bytes rt c = serialize (challenge_disc rt) (challenge_fields c)"

definition try_challenge :: "runtime \<Rightarrow> byte list \<Rightarrow> framework_error + challenge" where
  "try_challenge rt d = deserialize (challenge_disc rt) challenge_widths challenge_of_fields d"

lemma length_challenge_disc [simp]: "length (challenge_disc rt) = 8"
  by (simp add: challenge_disc_def)

interpretation challenge: account_layout challenge_fields challenge_of_fields challenge_widths
proof
  fix x fs
  show "map length (challenge_fields x) = challenge_widths"
    by (simp add: challenge_fields_def challenge_widths_def)
  show "challenge_of_fields (challenge_fields x) = Some x"
    by (simp add: challenge_fields_def challenge_of_fields_def u64_le.dec_enc)
  assume "map length fs = challenge_widths" "challenge_of_fields fs = Some x"
  then show "challenge_fields x = fs"
    by (auto simp: challenge_widths_def challenge_of_fields_def challenge_fields_def
        map_eq_Cons_conv u64_le.enc_dec length_Suc_conv split: if_splits)
qed

record verification_result =
  vr_verifier :: pubkey
  vr_proof_hash :: bytes32
  vr_verified_at :: i64
  vr_is_valid :: bool
  vr_challenge_nonce :: bytes32
  vr_bump :: byte
  vr_commitment_new :: bytes32
  vr_commitment_prev :: bytes32
  vr_threshold :: u16
  vr_min_distance :: u16

definition verification_result_len :: nat where
  "verification_result_len = 8 + 32 + 32 + 8 + 1 + 32 + 1 + 32 + 32 + 2 + 2"

definition verification_result_widths :: "nat list" where
  "verification_result_widths = [32, 32, 8, 1, 32, 1, 32, 32, 2, 2]"

definition verification_result_fields :: "verification_result \<Rightarrow> byte list list" where
  "verification_result_fields r =
     [elems (vr_verifier r), elems (vr_proof_hash r), u64_le (vr_verified_at r),
      [if vr_is_valid r then 1 else 0], elems (vr_challenge_nonce r), [vr_bump r],
      elems (vr_commitment_new r), elems (vr_commitment_prev r),
      u16_le (vr_threshold r), u16_le (vr_min_distance r)]"

definition verification_result_of_fields :: "byte list list \<Rightarrow> verification_result option" where
  "verification_result_of_fields fs = (case fs of
     [a, b, c, d, e, f, g, h, i, j] \<Rightarrow>
       if d = [0] \<or> d = [1] then Some
         \<lparr>vr_verifier = arr_of a, vr_proof_hash = arr_of b, vr_verified_at = from_le c,
          vr_is_valid = (d = [1]), vr_challenge_nonce = arr_of e, vr_bump = hd f,
          vr_commitment_new = arr_of g, vr_commitment_prev = arr_of h,
          vr_threshold = from_le i, vr_min_distance = from_le j\<rparr>
       else None
   | _ \<Rightarrow> None)"

definition verification_result_disc :: "runtime \<Rightarrow> byte list" where
  "verification_result_disc rt = discriminator rt ''account:VerificationResult''"

definition verification_result_bytes :: "runtime \<Rightarrow> verification_result \<Rightarrow> byte list" where
  "verification_result_bytes rt r =
     serialize (verification_result_disc rt) (verification_result_fields r)"

definition try_verification_result :: "runtime \<Rightarrow> byte list \<Rightarrow> framework_error + verification_result" where
  "try_verification_result rt d =
     deserialize (verification_result_disc rt) verification_result_widths verification_result_of_fields d"

lemma length_verification_result_disc [simp]: "length (verification_result_disc rt) = 8"
  by (simp add: verification_result_disc_def)

interpretation verification_result: account_layout
  verification_result_fields verification_result_of_fields verification_result_widths
proof
  fix x fs
  show "map length (verification_result_fields x) = verification_result_widths"
    by (simp add: verification_result_fields_def verification_result_widths_def)
  show "verification_result_of_fields (verification_result_fields x) = Some x"
    by (simp add: verification_result_fields_def verification_result_of_fields_def
        u16_le.dec_enc u64_le.dec_enc)
  assume "map length fs = verification_result_widths" "verification_result_of_fields fs = Some x"
  then show "verification_result_fields x = fs"
    by (auto simp: verification_result_widths_def verification_result_of_fields_def
        verification_result_fields_def map_eq_Cons_conv u16_le.enc_dec u64_le.enc_dec
        length_Suc_conv split: if_splits)
qed

section \<open>Public inputs\<close>

definition DEFAULT_CHALLENGE_EXPIRY :: i64 where "DEFAULT_CHALLENGE_EXPIRY = 300"
definition MAX_THRESHOLD :: u16 where "MAX_THRESHOLD = 96"
definition MIN_DISTANCE_FLOOR :: u16 where "MIN_DISTANCE_FLOOR = 3"

definition decode_u16_from_field_element :: "bytes32 \<Rightarrow> verifier_error + u16" where
  "decode_u16_from_field_element fe =
     require (\<forall>b \<in> set (take 30 (elems fe)). b = 0) InvalidPublicInputs
       (Inr (from_be (slice 30 2 (elems fe))))"

definition encode_u16_field_element :: "u16 \<Rightarrow> bytes32" where
  "encode_u16_field_element v = arr_of (copy_at 30 (u16_be v) (replicate 32 0))"

definition validate_hamming_bounds :: "u16 \<Rightarrow> u16 \<Rightarrow> verifier_error + unit" where
  "validate_hamming_bounds threshold min_distance =
     require (threshold \<le> MAX_THRESHOLD) InvalidPublicInputs
    (require (MIN_DISTANCE_FLOOR \<le> min_distance) InvalidPublicInputs
    (require (min_distance < threshold) InvalidPublicInputs
      (Inr ())))"

definition NR_PUBLIC_INPUTS :: nat where "NR_PUBLIC_INPUTS = 4"

text \<open>\<open>groth16_verifier::verify_proof\<close>: the three group elements and the public inputs.\<close>

definition groth16_verify_proof ::
  "runtime \<Rightarrow> byte list \<Rightarrow> bytes32 list \<Rightarrow> verifier_error + unit" where
  "groth16_verify_proof rt proof_bytes public_inputs =
     (if length proof_bytes \<noteq> 256 then Inl InvalidProofFormat
      else if length public_inputs \<noteq> NR_PUBLIC_INPUTS then Inl InvalidPublicInputs
      else require (groth16_verify rt VERIFYINGKEY (slice 0 64 proof_bytes) (slice 64 128 proof_bytes)
             (slice 192 64 proof_bytes) public_inputs) ProofVerificationFailed (Inr ()))"

text \<open>
  The audit hash of the proof: byte \<open>i\<close> of the proof enters position \<open>i mod 32\<close> after
  a rotation by three bits.
\<close>

fun fold_proof :: "nat \<Rightarrow> byte list \<Rightarrow> byte list \<Rightarrow> byte list" where
  "fold_proof i [] acc = acc"
| "fold_proof i (b # bs) acc =
     (let position = i mod 32
      in fold_proof (Suc i) bs (acc[position := word_rotl 3 (acc ! position) XOR b]))"

definition proof_hash :: "byte list \<Rightarrow> bytes32" where
  "proof_hash proof_bytes = arr_of (fold_proof 0 proof_bytes (replicate 32 0))"

section \<open>Challenges\<close>

definition challenge_seeds :: "pubkey \<Rightarrow> bytes32 \<Rightarrow> byte list list" where
  "challenge_seeds k nonce = [ascii ''challenge'', elems k, elems nonce]"

definition verification_seeds :: "pubkey \<Rightarrow> bytes32 \<Rightarrow> byte list list" where
  "verification_seeds k nonce = [ascii ''verification'', elems k, elems nonce]"

definition bound_seeds :: "pubkey \<Rightarrow> bytes32 \<Rightarrow> byte list list" where
  "bound_seeds k nonce = [ascii ''verification_bound'', elems k, elems nonce]"

definition identity_seeds :: "pubkey \<Rightarrow> byte list list" where
  "identity_seeds k = [ascii ''identity'', elems k]"

definition mint_seeds :: "pubkey \<Rightarrow> byte list list" where
  "mint_seeds k = [ascii ''mint'', elems k]"

definition request_state_seeds :: "pubkey \<Rightarrow> byte list list" where
  "request_state_seeds k = [ascii ''proof_request_state'', elems k]"

definition create_challenge ::
  "runtime \<Rightarrow> build \<Rightarrow> tx \<Rightarrow> pubkey \<Rightarrow> pubkey \<Rightarrow> bytes32 \<Rightarrow> world \<Rightarrow> fault + world" where
  "create_challenge rt b t challenger key nonce w =
     mut_signer t challenger
    (with_seeds rt (challenge_seeds challenger nonce) (verifier_id b) key
    (and_then (init_typed rt challenger key challenge_len (verifier_id b) w) (\<lambda>w.
     require (nonce \<noteq> 0) (VerifierErr InvalidNonce)
    (let now = clock t in
     and_then (ok_or (checked_add_i64 now DEFAULT_CHALLENGE_EXPIRY)
       (VerifierErr verifier_error.ArithmeticOverflow)) (\<lambda>expires_at.
     let c = \<lparr>ch_challenger = challenger, ch_nonce = nonce, ch_created_at = now,
           ch_expires_at = expires_at, ch_used = False,
           ch_bump = pda_bump rt (challenge_seeds challenger nonce) (verifier_id b)\<rparr>
     in (exit_typed (challenge_bytes rt c) key
          (emit (VerifierEvent (ChallengeCreated challenger nonce expires_at)) w)))))))"

definition close_challenge ::
  "runtime \<Rightarrow> build \<Rightarrow> tx \<Rightarrow> pubkey \<Rightarrow> pubkey \<Rightarrow> world \<Rightarrow> fault + world" where
  "close_challenge rt b t challenger key w =
     mut_signer t challenger
    (mut_account t key
    (and_then (load_typed rt (verifier_id b) (try_challenge rt) key w) (\<lambda>c.
     require (ch_challenger c = challenger) (FrameworkErr ConstraintRaw)
      (close_typed rt key challenger w))))"

section \<open>Verification\<close>

text \<open>The account context of \<open>verify_proof\<close> and \<open>verify_proof_compact\<close>.\<close>

definition verify_accounts ::
  "runtime \<Rightarrow> build \<Rightarrow> tx \<Rightarrow> pubkey \<Rightarrow> pubkey \<Rightarrow> bytes32 \<Rightarrow> world \<Rightarrow> fault + world" where
  "verify_accounts rt b t verifier key nonce w =
     mut_signer t verifier
    (with_seeds rt (verification_seeds verifier nonce) (verifier_id b) key
      (init_typed rt verifier key verification_result_len (verifier_id b) w))"

definition verify_and_store ::
  "runtime \<Rightarrow> build \<Rightarrow> tx \<Rightarrow> pubkey \<Rightarrow> pubkey \<Rightarrow> byte list \<Rightarrow> (bytes32, 4) arr \<Rightarrow> bytes32 \<Rightarrow> byte \<Rightarrow>
   world \<Rightarrow> fault + world" where
  "verify_and_store rt b t verifier key proof_bytes public_inputs nonce bump w =
     require (\<not> request_bound_v1 b) (VerifierErr verifier_error.UnsupportedProofGeneration)
    (require (nonce \<noteq> 0) (VerifierErr InvalidNonce)
    (let now = clock t; inputs = elems public_inputs in
     require (inputs ! 0 \<noteq> 0) (VerifierErr InvalidPublicInputs)
    (require (inputs ! 1 \<noteq> 0) (VerifierErr InvalidPublicInputs)
    (and_then (map_err VerifierErr (decode_u16_from_field_element (inputs ! 2))) (\<lambda>threshold.
     and_then (map_err VerifierErr (decode_u16_from_field_element (inputs ! 3))) (\<lambda>min_distance.
     and_then (map_err VerifierErr (validate_hamming_bounds threshold min_distance)) (\<lambda>_.
     and_then (map_err VerifierErr (groth16_verify_proof rt proof_bytes inputs)) (\<lambda>_.
     let r = \<lparr>vr_verifier = verifier, vr_proof_hash = proof_hash proof_bytes,
           vr_verified_at = now, vr_is_valid = True, vr_challenge_nonce = nonce, vr_bump = bump,
           vr_commitment_new = inputs ! 0, vr_commitment_prev = inputs ! 1,
           vr_threshold = threshold, vr_min_distance = min_distance\<rparr>
     in (exit_typed (verification_result_bytes rt r) key
          (emit (VerifierEvent (VerificationComplete verifier True nonce)) w))))))))))"

definition verify_proof ::
  "runtime \<Rightarrow> build \<Rightarrow> tx \<Rightarrow> pubkey \<Rightarrow> pubkey \<Rightarrow> byte list \<Rightarrow> bytes32 list \<Rightarrow> bytes32 \<Rightarrow>
   world \<Rightarrow> fault + world" where
  "verify_proof rt b t verifier key proof_bytes public_inputs nonce w =
     and_then (verify_accounts rt b t verifier key nonce w) (\<lambda>w.
     require (length public_inputs = 4) (VerifierErr InvalidPublicInputs)
       (verify_and_store rt b t verifier key proof_bytes (arr_of public_inputs) nonce
          (pda_bump rt (verification_seeds verifier nonce) (verifier_id b)) w))"

definition verify_proof_compact ::
  "runtime \<Rightarrow> build \<Rightarrow> tx \<Rightarrow> pubkey \<Rightarrow> pubkey \<Rightarrow> bytes32 \<Rightarrow> (byte, 256) arr \<Rightarrow> bytes32 \<Rightarrow> bytes32 \<Rightarrow>
   u16 \<Rightarrow> u16 \<Rightarrow> world \<Rightarrow> fault + world" where
  "verify_proof_compact rt b t verifier key nonce proof_bytes new prev threshold min_distance w =
     and_then (verify_accounts rt b t verifier key nonce w) (\<lambda>w.
     verify_and_store rt b t verifier key (elems proof_bytes)
       (arr_of [new, prev, encode_u16_field_element threshold,
                encode_u16_field_element min_distance])
       nonce (pda_bump rt (verification_seeds verifier nonce) (verifier_id b)) w)"

definition close_verification_result ::
  "runtime \<Rightarrow> build \<Rightarrow> tx \<Rightarrow> pubkey \<Rightarrow> pubkey \<Rightarrow> world \<Rightarrow> fault + world" where
  "close_verification_result rt b t verifier key w =
     mut_signer t verifier
    (mut_account t key
    (and_then (load_typed rt (verifier_id b) (try_verification_result rt) key w) (\<lambda>r.
     require (vr_verifier r = verifier) (FrameworkErr ConstraintRaw)
      (close_typed rt key verifier w))))"

section \<open>Bound verification\<close>

text \<open>\<open>VerifyProofBound\<close>: the new result, and the identity and counter of the wallet.\<close>

definition bound_accounts ::
  "runtime \<Rightarrow> build \<Rightarrow> tx \<Rightarrow> pubkey \<Rightarrow> pubkey \<Rightarrow> pubkey \<Rightarrow> pubkey \<Rightarrow> bytes32 \<Rightarrow> world \<Rightarrow> fault + world" where
  "bound_accounts rt b t verifier key identity_key state_key nonce w =
     mut_signer t verifier
    (with_seeds rt (bound_seeds verifier nonce) (verifier_id b) key
    (and_then (init_typed rt verifier key bound_result_len (verifier_id b) w) (\<lambda>w.
     with_seeds rt (identity_seeds verifier) (anchor_id b) identity_key
    (require (owner_of w identity_key = anchor_id b) (FrameworkErr ConstraintOwner)
    (with_seeds rt (request_state_seeds verifier) (anchor_id b) state_key
    (require (owner_of w state_key = anchor_id b) (FrameworkErr ConstraintOwner)
      (Inr w)))))))"

text \<open>What the proof must be about: the identity account read at its known offsets.\<close>

definition bound_identity ::
  "runtime \<Rightarrow> build \<Rightarrow> pubkey \<Rightarrow> bytes32 \<Rightarrow> byte list \<Rightarrow> verifier_error + (pubkey \<times> u16)" where
  "bound_identity rt b wallet prev d =
     require (length d = 593 \<and> take 8 d = discriminator rt ''account:IdentityState''
        \<and> slice 8 32 d = elems wallet \<and> slice 62 32 d = elems prev
        \<and> d ! 126 = pda_bump rt (identity_seeds wallet) (anchor_id b))
       verifier_error.InvalidRequestContext
    (let mint = arr_of (slice 94 32 d) in
     require (mint = pda_key rt (mint_seeds wallet) (anchor_id b))
       verifier_error.InvalidRequestContext
      (Inr (mint, from_le (slice 583 2 d))))"

definition valid_window :: "i64 \<Rightarrow> u64 \<Rightarrow> verifier_error + unit" where
  "valid_window now valid_until =
     require (0 \<le> sint now) ChallengeExpired
    (let now_u64 = now in
     require (now_u64 \<le> valid_until \<and> 0 < valid_until) ChallengeExpired
    (and_then (ok_or (checked_add now_u64 MAX_REQUEST_LIFETIME) verifier_error.ArithmeticOverflow)
      (\<lambda>latest. require (valid_until \<le> latest) ChallengeExpired (Inr ()))))"

definition verify_bound ::
  "runtime \<Rightarrow> build \<Rightarrow> tx \<Rightarrow> pubkey \<Rightarrow> pubkey \<Rightarrow> pubkey \<Rightarrow> pubkey \<Rightarrow> bytes32 \<Rightarrow> (byte, 256) arr \<Rightarrow>
   bytes32 \<Rightarrow> bytes32 \<Rightarrow> u16 \<Rightarrow> u16 \<Rightarrow> u64 \<Rightarrow> world \<Rightarrow> fault + world" where
  "verify_bound rt b t verifier key identity_key state_key nonce proof new prev threshold
     min_distance valid_until w =
     and_then (bound_accounts rt b t verifier key identity_key state_key nonce w) (\<lambda>w.
     require (request_bound_v1 b) (VerifierErr verifier_error.UnsupportedProofGeneration)
    (require (nonce \<noteq> 0) (VerifierErr InvalidNonce)
    (and_then (map_err VerifierErr (valid_window (clock t) valid_until)) (\<lambda>_.
     and_then (map_err VerifierErr (validate_hamming_bounds threshold min_distance)) (\<lambda>_.
     require (new \<noteq> 0 \<and> prev \<noteq> 0) (VerifierErr InvalidPublicInputs)
    (and_then (map_err VerifierErr
        (bound_identity rt b verifier prev (data_of w identity_key))) (\<lambda>(mint, projection).
     and_then (ok_or (read_counter rt (data_of w state_key) verifier
         (pda_bump rt (request_state_seeds verifier) (anchor_id b)))
         (VerifierErr verifier_error.InvalidRequestContext)) (\<lambda>counter.
     let a = \<lparr>ac_identity = identity_key, ac_mint = mint, ac_counter = counter,
           ac_projection = projection, ac_commitment_new = new, ac_commitment_prev = prev,
           ac_threshold = threshold, ac_min_distance = min_distance,
           ac_valid_until = valid_until\<rparr> in
     and_then (ok_or (request_digest rt (deployment_domain b) (verifier_id b) (anchor_id b)
         verifier nonce a) (VerifierErr InvalidPublicInputs)) (\<lambda>digest.
     let limbs = digest_limbs digest;
         inputs = [new, prev, encode_u16_field_element threshold,
           encode_u16_field_element min_distance, fst limbs, snd limbs];
         bytes = elems proof in
     require (groth16_verify rt (bound_verifying_key b) (slice 0 64 bytes) (slice 64 128 bytes)
         (slice 192 64 bytes) inputs)
       (VerifierErr ProofVerificationFailed)
      (let r = \<lparr>br_version = GENERATION, br_wallet = verifier, br_nonce = nonce,
             br_commitment_new = new, br_commitment_prev = prev, br_threshold = threshold,
             br_min_distance = min_distance, br_counter = counter,
             br_valid_until = valid_until, br_verified_at = clock t,
             br_request_digest = digest,
             br_bump = pda_bump rt (bound_seeds verifier nonce) (verifier_id b)\<rparr>
       in (exit_typed (bound_result_bytes rt r) key w)))))))))))"

definition close_bound_verification_result ::
  "runtime \<Rightarrow> build \<Rightarrow> tx \<Rightarrow> pubkey \<Rightarrow> pubkey \<Rightarrow> bytes32 \<Rightarrow> world \<Rightarrow> fault + world" where
  "close_bound_verification_result rt b t verifier key nonce w =
     mut_signer t verifier
    (mut_account t key
    (and_then (load_typed rt (verifier_id b) (try_bound_result rt) key w) (\<lambda>r.
     with_seeds_bump rt (bound_seeds verifier nonce) (br_bump r) (verifier_id b) key
    (require (br_wallet r = verifier) (FrameworkErr ConstraintRaw)
      (close_typed rt key verifier w)))))"

end
