(* ===== verification/Anchor_State.thy ===== *)
theory Anchor_State
  imports Trust_Score Verifier
begin

text \<open>
  The accounts of entros-anchor (programs/entros-anchor/src/state.rs and
  proof_request.rs): identities, encrypted baselines and request counters.
\<close>

record identity_state =
  id_owner :: pubkey
  id_creation_timestamp :: i64
  id_last_verification_timestamp :: i64
  id_verification_count :: u32
  id_trust_score :: u16
  id_current_commitment :: bytes32
  id_mint :: pubkey
  id_bump :: byte
  id_recent_timestamps :: ring
  id_last_reset_timestamp :: i64
  id_new_wallet :: pubkey
  id_projection_version :: u16
  id_last_rebaseline_timestamp :: i64

definition identity_len :: nat where
  "identity_len = 8 + 32 + 8 + 8 + 4 + 2 + 32 + 32 + 1 + 416 + 8 + 32 + 2 + 8"

definition identity_widths :: "nat list" where
  "identity_widths = [32, 8, 8, 4, 2, 32, 32, 1, 416, 8, 32, 2, 8]"

text \<open>\<open>[i64; 52]\<close> is the concatenation of its elements.\<close>

fun words_bytes :: "u64 list \<Rightarrow> byte list" where
  "words_bytes [] = []"
| "words_bytes (x # xs) = u64_le x @ words_bytes xs"

fun words_of :: "nat \<Rightarrow> byte list \<Rightarrow> u64 list" where
  "words_of 0 d = []"
| "words_of (Suc n) d = from_le (take 8 d) # words_of n (drop 8 d)"

definition ring_bytes :: "ring \<Rightarrow> byte list" where
  "ring_bytes r = words_bytes (elems r)"

definition ring_of :: "byte list \<Rightarrow> ring" where
  "ring_of d = arr_of (words_of 52 d)"

lemma length_words_bytes [simp]: "length (words_bytes xs) = 8 * length xs"
  by (induction xs) auto

lemma length_words_of [simp]: "length (words_of n d) = n"
  by (induction n arbitrary: d) auto

lemma words_of_bytes: "n = length xs \<Longrightarrow> words_of n (words_bytes xs) = xs"
  by (induction xs arbitrary: n) (auto simp: u64_le.dec_enc)

lemma words_bytes_of: "length d = 8 * n \<Longrightarrow> words_bytes (words_of n d) = d"
  by (induction n arbitrary: d) (auto simp: u64_le.enc_dec)

interpretation ring_field: field_codec ring_bytes ring_of 416
  by unfold_locales
    (simp_all add: ring_bytes_def ring_of_def words_of_bytes words_bytes_of)

definition identity_fields :: "identity_state \<Rightarrow> byte list list" where
  "identity_fields s =
     [elems (id_owner s), u64_le (id_creation_timestamp s),
      u64_le (id_last_verification_timestamp s), u32_le (id_verification_count s),
      u16_le (id_trust_score s), elems (id_current_commitment s), elems (id_mint s),
      [id_bump s], ring_bytes (id_recent_timestamps s), u64_le (id_last_reset_timestamp s),
      elems (id_new_wallet s), u16_le (id_projection_version s),
      u64_le (id_last_rebaseline_timestamp s)]"

definition identity_of_fields :: "byte list list \<Rightarrow> identity_state option" where
  "identity_of_fields fs = (case fs of
     [a, b, c, d, e, f, g, h, i, j, k, l, m] \<Rightarrow> Some
       \<lparr>id_owner = arr_of a, id_creation_timestamp = from_le b,
        id_last_verification_timestamp = from_le c, id_verification_count = from_le d,
        id_trust_score = from_le e, id_current_commitment = arr_of f, id_mint = arr_of g,
        id_bump = hd h, id_recent_timestamps = ring_of i, id_last_reset_timestamp = from_le j,
        id_new_wallet = arr_of k, id_projection_version = from_le l,
        id_last_rebaseline_timestamp = from_le m\<rparr>
   | _ \<Rightarrow> None)"

definition identity_disc :: "runtime \<Rightarrow> byte list" where
  "identity_disc rt = discriminator rt ''account:IdentityState''"

definition identity_bytes :: "runtime \<Rightarrow> identity_state \<Rightarrow> byte list" where
  "identity_bytes rt s = serialize (identity_disc rt) (identity_fields s)"

definition try_identity :: "runtime \<Rightarrow> byte list \<Rightarrow> framework_error + identity_state" where
  "try_identity rt d = deserialize (identity_disc rt) identity_widths identity_of_fields d"

lemma length_identity_disc [simp]: "length (identity_disc rt) = 8"
  by (simp add: identity_disc_def)

interpretation identity: account_layout identity_fields identity_of_fields identity_widths
proof
  fix x fs
  show "map length (identity_fields x) = identity_widths"
    by (simp add: identity_fields_def identity_widths_def ring_field.enc_width)
  show "identity_of_fields (identity_fields x) = Some x"
    by (simp add: identity_fields_def identity_of_fields_def u16_le.dec_enc u32_le.dec_enc
        u64_le.dec_enc ring_field.dec_enc)
  assume "map length fs = identity_widths" "identity_of_fields fs = Some x"
  then show "identity_fields x = fs"
    by (auto simp: identity_widths_def identity_of_fields_def identity_fields_def
        map_eq_Cons_conv u16_le.enc_dec u32_le.enc_dec u64_le.enc_dec ring_field.enc_dec
        length_Suc_conv)
qed

record encrypted_baseline =
  eb_blob :: "(byte, 96) arr"
  eb_bump :: byte

definition encrypted_baseline_len :: nat where "encrypted_baseline_len = 8 + 96 + 1"

definition encrypted_baseline_widths :: "nat list" where
  "encrypted_baseline_widths = [96, 1]"

definition encrypted_baseline_fields :: "encrypted_baseline \<Rightarrow> byte list list" where
  "encrypted_baseline_fields x = [elems (eb_blob x), [eb_bump x]]"

definition encrypted_baseline_of_fields :: "byte list list \<Rightarrow> encrypted_baseline option" where
  "encrypted_baseline_of_fields fs = (case fs of
     [a, b] \<Rightarrow> Some \<lparr>eb_blob = arr_of a, eb_bump = hd b\<rparr> | _ \<Rightarrow> None)"

definition encrypted_baseline_disc :: "runtime \<Rightarrow> byte list" where
  "encrypted_baseline_disc rt = discriminator rt ''account:EncryptedBaseline''"

definition encrypted_baseline_bytes :: "runtime \<Rightarrow> encrypted_baseline \<Rightarrow> byte list" where
  "encrypted_baseline_bytes rt x =
     serialize (encrypted_baseline_disc rt) (encrypted_baseline_fields x)"

definition try_encrypted_baseline :: "runtime \<Rightarrow> byte list \<Rightarrow> framework_error + encrypted_baseline" where
  "try_encrypted_baseline rt d = deserialize (encrypted_baseline_disc rt)
     encrypted_baseline_widths encrypted_baseline_of_fields d"

lemma length_encrypted_baseline_disc [simp]: "length (encrypted_baseline_disc rt) = 8"
  by (simp add: encrypted_baseline_disc_def)

interpretation encrypted_baseline: account_layout
  encrypted_baseline_fields encrypted_baseline_of_fields encrypted_baseline_widths
proof
  fix x fs
  show "map length (encrypted_baseline_fields x) = encrypted_baseline_widths"
    by (simp add: encrypted_baseline_fields_def encrypted_baseline_widths_def)
  show "encrypted_baseline_of_fields (encrypted_baseline_fields x) = Some x"
    by (simp add: encrypted_baseline_fields_def encrypted_baseline_of_fields_def)
  assume "map length fs = encrypted_baseline_widths" "encrypted_baseline_of_fields fs = Some x"
  then show "encrypted_baseline_fields x = fs"
    by (auto simp: encrypted_baseline_widths_def encrypted_baseline_of_fields_def
        encrypted_baseline_fields_def map_eq_Cons_conv length_Suc_conv)
qed

record request_state =
  rs_version :: byte
  rs_wallet :: pubkey
  rs_counter :: u64
  rs_bump :: byte

definition request_state_widths :: "nat list" where
  "request_state_widths = [1, 32, 8, 1]"

definition request_state_fields :: "request_state \<Rightarrow> byte list list" where
  "request_state_fields s =
     [[rs_version s], elems (rs_wallet s), u64_le (rs_counter s), [rs_bump s]]"

definition request_state_of_fields :: "byte list list \<Rightarrow> request_state option" where
  "request_state_of_fields fs = (case fs of
     [a, b, c, d] \<Rightarrow> Some \<lparr>rs_version = hd a, rs_wallet = arr_of b, rs_counter = from_le c,
       rs_bump = hd d\<rparr>
   | _ \<Rightarrow> None)"

definition request_state_bytes :: "runtime \<Rightarrow> request_state \<Rightarrow> byte list" where
  "request_state_bytes rt s = serialize (request_state_disc rt) (request_state_fields s)"

definition try_request_state :: "runtime \<Rightarrow> byte list \<Rightarrow> framework_error + request_state" where
  "try_request_state rt d =
     deserialize (request_state_disc rt) request_state_widths request_state_of_fields d"

lemma length_request_state_disc [simp]: "length (request_state_disc rt) = 8"
  by (simp add: request_state_disc_def)

interpretation request_state: account_layout
  request_state_fields request_state_of_fields request_state_widths
proof
  fix x fs
  show "map length (request_state_fields x) = request_state_widths"
    by (simp add: request_state_fields_def request_state_widths_def)
  show "request_state_of_fields (request_state_fields x) = Some x"
    by (simp add: request_state_fields_def request_state_of_fields_def u64_le.dec_enc)
  assume "map length fs = request_state_widths" "request_state_of_fields fs = Some x"
  then show "request_state_fields x = fs"
    by (auto simp: request_state_widths_def request_state_of_fields_def request_state_fields_def
        map_eq_Cons_conv u64_le.enc_dec length_Suc_conv)
qed

end
