(* ===== verification/Receipts.thy ===== *)
theory Receipts
  imports Anchor_State
begin

text \<open>
  Validator receipts (programs/entros-anchor/src/lib.rs, before the handlers): the keys
  and the projection window read from the configuration of entros-registry, the
  Ed25519 instruction that carries a receipt, and the receipt formats 1 to 4.
\<close>

section \<open>Constants\<close>

definition MAX_RECEIPT_AGE_SECS :: int where "MAX_RECEIPT_AGE_SECS = 300"

definition PC_OFFSET_VALIDATOR_PUBKEY :: nat where "PC_OFFSET_VALIDATOR_PUBKEY = 77"
definition PC_LEN_WITH_VALIDATOR_PUBKEY :: nat where "PC_LEN_WITH_VALIDATOR_PUBKEY = 109"
definition PC_OFFSET_CURRENT_PROJECTION_VERSION :: nat where
  "PC_OFFSET_CURRENT_PROJECTION_VERSION = 109"
definition PC_OFFSET_MINIMUM_SUPPORTED_PROJECTION_VERSION :: nat where
  "PC_OFFSET_MINIMUM_SUPPORTED_PROJECTION_VERSION = 111"
definition PC_LEN_WITH_PROJECTION_POLICY :: nat where "PC_LEN_WITH_PROJECTION_POLICY = 113"
definition PC_OFFSET_SECONDARY_VALIDATOR_PUBKEY :: nat where
  "PC_OFFSET_SECONDARY_VALIDATOR_PUBKEY = 145"
definition PC_OFFSET_SECONDARY_VALIDATOR_VALID_UNTIL :: nat where
  "PC_OFFSET_SECONDARY_VALIDATOR_VALID_UNTIL = 177"
definition PC_LEN_WITH_ROLLOVER :: nat where "PC_LEN_WITH_ROLLOVER = 185"

lemmas pc_consts = PC_OFFSET_VALIDATOR_PUBKEY_def PC_LEN_WITH_VALIDATOR_PUBKEY_def
  PC_OFFSET_CURRENT_PROJECTION_VERSION_def PC_OFFSET_MINIMUM_SUPPORTED_PROJECTION_VERSION_def
  PC_LEN_WITH_PROJECTION_POLICY_def PC_OFFSET_SECONDARY_VALIDATOR_PUBKEY_def
  PC_OFFSET_SECONDARY_VALIDATOR_VALID_UNTIL_def PC_LEN_WITH_ROLLOVER_def

definition RECEIPT_V1_MESSAGE_LEN :: nat where "RECEIPT_V1_MESSAGE_LEN = 72"
definition RECEIPT_V2_MESSAGE_LEN :: nat where "RECEIPT_V2_MESSAGE_LEN = 103"
definition RECEIPT_V3_MESSAGE_LEN :: nat where "RECEIPT_V3_MESSAGE_LEN = 136"
definition RECEIPT_V4_PREIMAGE_LEN :: nat where "RECEIPT_V4_PREIMAGE_LEN = 136"
definition RECEIPT_V4_DIGEST_LEN :: nat where "RECEIPT_V4_DIGEST_LEN = 32"
definition RECEIPT_V2_DOMAIN :: "byte list" where
  "RECEIPT_V2_DOMAIN = ascii ''entros-validator-receipt-v2'' @ [0]"
definition RECEIPT_V3_DOMAIN :: "byte list" where
  "RECEIPT_V3_DOMAIN = ascii ''entros-validator-receipt-v3'' @ [0]"
definition RECEIPT_V4_DOMAIN :: "byte list" where
  "RECEIPT_V4_DOMAIN = ascii ''entros-validator-receipt-v4'' @ [0]"
definition MAX_ASSURANCE_TIER :: byte where "MAX_ASSURANCE_TIER = 2"

lemmas receipt_lens = RECEIPT_V1_MESSAGE_LEN_def RECEIPT_V2_MESSAGE_LEN_def
  RECEIPT_V3_MESSAGE_LEN_def RECEIPT_V4_PREIMAGE_LEN_def RECEIPT_V4_DIGEST_LEN_def

record receipt_session =
  final_digest :: bytes32
  assurance_tier :: byte

record update_receipt_args =
  ur_validated_at :: i64
  ur_assurance_tier :: byte
  ur_session_final_digest :: "bytes32 option"

datatype receipt_purpose = Mint | Rebaseline | Reset | Update

fun purpose_code :: "receipt_purpose \<Rightarrow> byte" where
  "purpose_code Mint = 1"
| "purpose_code Rebaseline = 2"
| "purpose_code Reset = 3"
| "purpose_code Update = 4"

section \<open>Validator keys\<close>

record validator_key_policy =
  vk_primary :: bytes32
  vk_secondary :: bytes32
  vk_secondary_valid_until :: i64

definition is_configured :: "validator_key_policy \<Rightarrow> bool" where
  "is_configured p \<longleftrightarrow> vk_primary p \<noteq> 0"

definition accepts :: "validator_key_policy \<Rightarrow> byte list \<Rightarrow> i64 \<Rightarrow> bool" where
  "accepts p signed_pubkey now =
     (if signed_pubkey = elems (vk_primary p) then True
      else vk_secondary p \<noteq> 0 \<and> sint now \<le> sint (vk_secondary_valid_until p)
        \<and> signed_pubkey = elems (vk_secondary p))"

definition read_validator_key_policy :: "byte list \<Rightarrow> validator_key_policy" where
  "read_validator_key_policy d =
     (let primary = (if PC_LEN_WITH_VALIDATOR_PUBKEY \<le> length d
            then arr_of (slice PC_OFFSET_VALIDATOR_PUBKEY 32 d) else 0);
          (secondary, valid_until) = (if PC_LEN_WITH_ROLLOVER \<le> length d
            then (arr_of (slice PC_OFFSET_SECONDARY_VALIDATOR_PUBKEY 32 d),
                  from_le (slice PC_OFFSET_SECONDARY_VALIDATOR_VALID_UNTIL 8 d))
            else (0, 0))
      in \<lparr>vk_primary = primary, vk_secondary = secondary,
          vk_secondary_valid_until = valid_until\<rparr>)"

section \<open>Projection window\<close>

datatype projection_policy = ProjectionPolicy (pp_current: u16) (pp_minimum: u16)

definition read_projection_policy :: "byte list \<Rightarrow> entros_anchor_error + projection_policy" where
  "read_projection_policy d =
     and_then
       (if length d \<le> PC_LEN_WITH_VALIDATOR_PUBKEY then Inr (ProjectionPolicy 0 0)
        else require (PC_LEN_WITH_PROJECTION_POLICY \<le> length d)
               entros_anchor_error.InvalidProtocolConfig
          (Inr (ProjectionPolicy
             (from_le (slice PC_OFFSET_CURRENT_PROJECTION_VERSION 2 d))
             (from_le (slice PC_OFFSET_MINIMUM_SUPPORTED_PROJECTION_VERSION 2 d)))))
       (\<lambda>policy. require (pp_minimum policy \<le> pp_current policy)
          entros_anchor_error.InvalidProtocolConfig (Inr policy))"

definition validate_identity_projection ::
  "u16 \<Rightarrow> projection_policy \<Rightarrow> entros_anchor_error + unit" where
  "validate_identity_projection version policy =
     require (pp_minimum policy \<le> version) ProjectionVersionTooOld
    (require (version \<le> pp_current policy) ProjectionVersionTooNew (Inr ()))"

definition validate_requested_projection ::
  "u16 \<Rightarrow> projection_policy \<Rightarrow> entros_anchor_error + unit" where
  "validate_requested_projection version policy =
     require (version = pp_current policy) ProjectionVersionMismatch (Inr ())"

section \<open>The Ed25519 instruction\<close>

definition ED25519_PROGRAM_ID :: pubkey where
  "ED25519_PROGRAM_ID = arr_of
     [3, 125, 70, 214, 124, 147, 251, 190, 18, 249, 66, 143, 131, 141, 64, 255, 5, 112, 116, 73,
      39, 244, 138, 100, 252, 202, 112, 68, 128, 0, 0, 0]"

definition ED25519_HEADER_LEN :: nat where "ED25519_HEADER_LEN = 16"
definition ED25519_NUM_SIG_OFFSET :: nat where "ED25519_NUM_SIG_OFFSET = 0"
definition ED25519_SIG_IX_INDEX_OFFSET :: nat where "ED25519_SIG_IX_INDEX_OFFSET = 4"
definition ED25519_PUBKEY_OFFSET_OFFSET :: nat where "ED25519_PUBKEY_OFFSET_OFFSET = 6"
definition ED25519_PUBKEY_IX_INDEX_OFFSET :: nat where "ED25519_PUBKEY_IX_INDEX_OFFSET = 8"
definition ED25519_MSG_OFFSET_OFFSET :: nat where "ED25519_MSG_OFFSET_OFFSET = 10"
definition ED25519_MSG_SIZE_OFFSET :: nat where "ED25519_MSG_SIZE_OFFSET = 12"
definition ED25519_MSG_IX_INDEX_OFFSET :: nat where "ED25519_MSG_IX_INDEX_OFFSET = 14"
definition ED25519_IX_INDEX_CURRENT :: u16 where "ED25519_IX_INDEX_CURRENT = 0xFFFF"

lemmas ed25519_consts = ED25519_HEADER_LEN_def ED25519_NUM_SIG_OFFSET_def
  ED25519_SIG_IX_INDEX_OFFSET_def ED25519_PUBKEY_OFFSET_OFFSET_def
  ED25519_PUBKEY_IX_INDEX_OFFSET_def ED25519_MSG_OFFSET_OFFSET_def ED25519_MSG_SIZE_OFFSET_def
  ED25519_MSG_IX_INDEX_OFFSET_def ED25519_IX_INDEX_CURRENT_def

text \<open>A little-endian \<open>u16\<close> of the instruction header, and the same as a \<open>usize\<close>.\<close>

definition header_u16 :: "byte list \<Rightarrow> nat \<Rightarrow> u16" where
  "header_u16 d off = from_le [d ! off, d ! (off + 1)]"

definition header_usize :: "byte list \<Rightarrow> nat \<Rightarrow> nat" where
  "header_usize d off = unat (header_u16 d off)"

definition parse_ed25519_receipt ::
  "byte list \<Rightarrow> validator_key_policy \<Rightarrow> nat list \<Rightarrow> i64 \<Rightarrow> entros_anchor_error + byte list" where
  "parse_ed25519_receipt d keys allowed_sizes now =
     (if length d < ED25519_HEADER_LEN then Inl MalformedReceiptMessage
      else if d ! ED25519_NUM_SIG_OFFSET \<noteq> 1 then Inl MalformedReceiptMessage
      else if header_u16 d ED25519_SIG_IX_INDEX_OFFSET \<noteq> ED25519_IX_INDEX_CURRENT
           \<or> header_u16 d ED25519_PUBKEY_IX_INDEX_OFFSET \<noteq> ED25519_IX_INDEX_CURRENT
           \<or> header_u16 d ED25519_MSG_IX_INDEX_OFFSET \<noteq> ED25519_IX_INDEX_CURRENT
      then Inl MalformedReceiptMessage
      else
       let pubkey_offset = header_usize d ED25519_PUBKEY_OFFSET_OFFSET;
           message_offset = header_usize d ED25519_MSG_OFFSET_OFFSET;
           message_size = header_usize d ED25519_MSG_SIZE_OFFSET
       in if pubkey_offset + 32 > length d \<or> message_offset + message_size > length d
          then Inl MalformedReceiptMessage
          else if message_size \<notin> set allowed_sizes then Inl MalformedReceiptMessage
          else if \<not> accepts keys (slice pubkey_offset 32 d) now
          then Inl ReceiptValidatorMismatch
          else Inr (slice message_offset message_size d))"

definition load_preceding_ed25519_receipt ::
  "tx \<Rightarrow> validator_key_policy \<Rightarrow> nat list \<Rightarrow> i64 \<Rightarrow> fault + byte list" where
  "load_preceding_ed25519_receipt t keys allowed_sizes now =
     (if \<not> is_configured keys then Inl (AnchorErr ValidatorNotConfigured)
      else if cur_ix t = 0 then Inl (AnchorErr MissingValidatorReceipt)
      else and_then (ok_or (ix_at t (cur_ix t - 1)) (ProgramErr 2)) (\<lambda>prev.
        if ix_program_id prev \<noteq> ED25519_PROGRAM_ID
        then Inl (AnchorErr MissingValidatorReceipt)
        else map_err AnchorErr (parse_ed25519_receipt (ix_data prev) keys allowed_sizes now)))"

section \<open>Receipts of versions 1 to 3\<close>

text \<open>The fields of a receipt by format: wallet, commitment, time, session.\<close>

definition receipt_payload ::
  "byte list \<Rightarrow> receipt_purpose \<Rightarrow> u16 \<Rightarrow>
   entros_anchor_error + (byte list \<times> byte list \<times> i64 \<times> receipt_session option)" where
  "receipt_payload message purpose projection_version =
     (if length message = RECEIPT_V1_MESSAGE_LEN then
        require (purpose = Mint \<and> projection_version = 0) ReceiptVersionMismatch
          (Inr (slice 0 32 message, slice 32 32 message, from_le (slice 64 8 message), None))
      else if length message = RECEIPT_V2_MESSAGE_LEN \<or> length message = RECEIPT_V3_MESSAGE_LEN then
        let is_v3 = (length message = RECEIPT_V3_MESSAGE_LEN);
            domain = (if is_v3 then RECEIPT_V3_DOMAIN else RECEIPT_V2_DOMAIN)
        in require (slice 0 28 message = domain) MalformedReceiptMessage
          (require (message ! 28 = purpose_code purpose) ReceiptPurposeMismatch
          (require (from_le (slice 29 2 message) = projection_version)
             ReceiptProjectionVersionMismatch
          (and_then
            (if is_v3 then
               let tier = message ! 135
               in require (tier \<le> MAX_ASSURANCE_TIER) InvalidAssuranceTier
                    (Inr (Some \<lparr>final_digest = arr_of (slice 103 32 message),
                                assurance_tier = tier\<rparr>))
             else Inr None)
            (\<lambda>session. Inr (slice 31 32 message, slice 63 32 message,
                from_le (slice 95 8 message), session)))))
      else Inl MalformedReceiptMessage)"

definition verify_receipt_payload ::
  "byte list \<Rightarrow> pubkey \<Rightarrow> bytes32 \<Rightarrow> receipt_purpose \<Rightarrow> u16 \<Rightarrow> i64 \<Rightarrow>
   entros_anchor_error + receipt_session option" where
  "verify_receipt_payload message wallet commitment purpose projection_version now =
     and_then (receipt_payload message purpose projection_version)
       (\<lambda>(receipt_wallet, receipt_commitment, validated_at, session).
     require (receipt_wallet = elems wallet) ReceiptWalletMismatch
    (require (receipt_commitment = elems commitment) ReceiptCommitmentMismatch
    (require (sint validated_at \<le> sint now) ReceiptFromFuture
    (require (sint (saturating_sub_i64 now validated_at) \<le> MAX_RECEIPT_AGE_SECS) ReceiptExpired
      (Inr session)))))"

definition verify_validator_receipt ::
  "tx \<Rightarrow> validator_key_policy \<Rightarrow> pubkey \<Rightarrow> bytes32 \<Rightarrow> receipt_purpose \<Rightarrow> u16 \<Rightarrow> i64 \<Rightarrow>
   fault + receipt_session option" where
  "verify_validator_receipt t keys wallet commitment purpose projection_version now =
     and_then (load_preceding_ed25519_receipt t keys
         [RECEIPT_V1_MESSAGE_LEN, RECEIPT_V2_MESSAGE_LEN, RECEIPT_V3_MESSAGE_LEN] now) (\<lambda>message.
     map_err AnchorErr
       (verify_receipt_payload message wallet commitment purpose projection_version now))"

section \<open>Update receipts (version 4)\<close>

definition build_update_receipt_v4_preimage ::
  "pubkey \<Rightarrow> bytes32 \<Rightarrow> u16 \<Rightarrow> update_receipt_args \<Rightarrow> entros_anchor_error + byte list" where
  "build_update_receipt_v4_preimage wallet commitment_new projection_version receipt =
     require (ur_assurance_tier receipt \<le> MAX_ASSURANCE_TIER) InvalidAssuranceTier
    (require (case ur_session_final_digest receipt of
          Some digest \<Rightarrow> digest \<noteq> 0 | None \<Rightarrow> True) MalformedReceiptMessage
    (let preimage = replicate RECEIPT_V4_PREIMAGE_LEN 0;
         preimage = copy_at 0 RECEIPT_V4_DOMAIN preimage;
         preimage = preimage[28 := purpose_code Update];
         preimage = copy_at 29 (u16_le projection_version) preimage;
         preimage = copy_at 31 (elems wallet) preimage;
         preimage = copy_at 63 (elems commitment_new) preimage;
         preimage = copy_at 95 (u64_le (ur_validated_at receipt)) preimage;
         preimage = (case ur_session_final_digest receipt of
           Some digest \<Rightarrow> copy_at 103 (elems digest) preimage | None \<Rightarrow> preimage);
         preimage = preimage[135 := ur_assurance_tier receipt]
     in Inr preimage))"

definition compute_update_receipt_v4_digest ::
  "runtime \<Rightarrow> pubkey \<Rightarrow> bytes32 \<Rightarrow> u16 \<Rightarrow> update_receipt_args \<Rightarrow> entros_anchor_error + bytes32" where
  "compute_update_receipt_v4_digest rt wallet commitment_new projection_version receipt =
     and_then (build_update_receipt_v4_preimage wallet commitment_new projection_version receipt)
       (\<lambda>preimage. Inr (account_hash rt preimage))"

definition verify_update_receipt_digest ::
  "runtime \<Rightarrow> tx \<Rightarrow> validator_key_policy \<Rightarrow> pubkey \<Rightarrow> bytes32 \<Rightarrow> u16 \<Rightarrow> update_receipt_args \<Rightarrow>
   i64 \<Rightarrow> fault + receipt_session option" where
  "verify_update_receipt_digest rt t keys wallet commitment_new projection_version receipt now =
     and_then (load_preceding_ed25519_receipt t keys [RECEIPT_V4_DIGEST_LEN] now)
       (\<lambda>signed_digest.
     and_then (map_err AnchorErr (compute_update_receipt_v4_digest rt wallet commitment_new
         projection_version receipt)) (\<lambda>expected_digest.
     require (signed_digest = elems expected_digest) (AnchorErr ReceiptCommitmentMismatch)
    (require (sint (ur_validated_at receipt) \<le> sint now) (AnchorErr ReceiptFromFuture)
    (require (sint (saturating_sub_i64 now (ur_validated_at receipt)) \<le> MAX_RECEIPT_AGE_SECS)
       (AnchorErr ReceiptExpired)
      (Inr (map_option (\<lambda>digest. \<lparr>final_digest = digest,
          assurance_tier = ur_assurance_tier receipt\<rparr>) (ur_session_final_digest receipt)))))))"

text \<open>\<open>emit_receipt_session\<close>: an event only when the receipt names a session.\<close>

definition emit_receipt_session ::
  "pubkey \<Rightarrow> receipt_purpose \<Rightarrow> u16 \<Rightarrow> receipt_session option \<Rightarrow> world \<Rightarrow> world" where
  "emit_receipt_session owner purpose projection_version session w =
     (case session of
       Some s \<Rightarrow> emit (ReceiptSessionBound owner (purpose_code purpose) projection_version
           (final_digest s) (assurance_tier s)) w
     | None \<Rightarrow> w)"

end
