(* ===== verification/Anchor_Requests.thy ===== *)
theory Anchor_Requests
  imports Receipts
begin

text \<open>
  Request counters and account layouts of entros-anchor
  (programs/entros-anchor/src/proof_request.rs): \<open>prepare\<close>, \<open>advance\<close> and
  \<open>upgrade_identity_layout\<close>. The counter of a wallet is the last thing a request digest
  binds, and every consuming instruction advances it.
\<close>

section \<open>Preparing a counter\<close>

text \<open>\<open>init_if_needed\<close>: a fresh account reads as zeros, an existing one is checked.\<close>

definition request_state_account ::
  "runtime \<Rightarrow> build \<Rightarrow> tx \<Rightarrow> pubkey \<Rightarrow> pubkey \<Rightarrow> world \<Rightarrow> fault + (world \<times> request_state)" where
  "request_state_account rt b t authority key w =
     mut_signer t authority
    (with_seeds rt (request_state_seeds authority) (anchor_id b) key
      (if owner_of w key = system_program_id rt
       then and_then (init_typed rt authority key STATE_LEN (anchor_id b) w)
         (\<lambda>w. Inr (w, \<lparr>rs_version = 0, rs_wallet = 0, rs_counter = 0, rs_bump = 0\<rparr>))
       else and_then (load_typed rt (anchor_id b) (try_request_state rt) key w)
         (\<lambda>s. mut_account t key
            (require (length (data_of w key) = STATE_LEN) (FrameworkErr ConstraintSpace)
              (require (minimum_balance rt STATE_LEN \<le> lamports_of w key)
                (FrameworkErr ConstraintRentExempt) (Inr (w, s)))))))"

definition prepare ::
  "runtime \<Rightarrow> build \<Rightarrow> tx \<Rightarrow> pubkey \<Rightarrow> pubkey \<Rightarrow> world \<Rightarrow> fault + world" where
  "prepare rt b t authority key w =
     and_then (request_state_account rt b t authority key w) (\<lambda>(w, state).
     require (request_bound_v1 b) (AnchorErr entros_anchor_error.UnsupportedProofGeneration)
    (let bump = pda_bump rt (request_state_seeds authority) (anchor_id b) in
     and_then
       (if rs_version state = 0 then
          require (rs_wallet state = 0 \<and> rs_counter state = 0)
            (AnchorErr entros_anchor_error.InvalidRequestContext)
            (Inr (state\<lparr>rs_version := GENERATION, rs_wallet := authority, rs_bump := bump\<rparr>))
        else Inr state) (\<lambda>state.
     require (rs_version state = GENERATION \<and> rs_wallet state = authority \<and> rs_bump state = bump)
       (AnchorErr entros_anchor_error.InvalidRequestContext)
      (exit_typed (request_state_bytes rt state) key w))))"

section \<open>Advancing a counter\<close>

text \<open>
  The counter is the eight bytes at offset 41: \<open>advance\<close> and the bound update write
  \<open>counter + 1\<close> there and nowhere else.
\<close>

definition write_counter :: "u64 \<Rightarrow> byte list \<Rightarrow> byte list" where
  "write_counter c d = copy_at 41 (u64_le c) d"

definition advance_counter ::
  "runtime \<Rightarrow> pubkey \<Rightarrow> pubkey \<Rightarrow> byte \<Rightarrow> world \<Rightarrow> fault + (u64 \<times> world)" where
  "advance_counter rt account wallet bump w =
     and_then (ok_or (read_counter rt (data_of w account) wallet bump)
       (AnchorErr entros_anchor_error.InvalidRequestContext)) (\<lambda>counter.
     and_then (ok_or (checked_add counter 1) (AnchorErr entros_anchor_error.ArithmeticOverflow))
       (\<lambda>next_counter.
     Inr (counter, set_data account (write_counter next_counter (data_of w account)) w)))"

definition create_request_state ::
  "runtime \<Rightarrow> build \<Rightarrow> pubkey \<Rightarrow> pubkey \<Rightarrow> byte \<Rightarrow> pubkey \<Rightarrow> world \<Rightarrow> fault + world" where
  "create_request_state rt b account wallet bump payer w =
     (let seeds = request_state_seeds wallet @ [[bump]];
          required = minimum_balance rt STATE_LEN in
      and_then (if lamports_of w account < required
         then transfer rt payer account (required - lamports_of w account) w else Inr w) (\<lambda>w.
      and_then (invoke rt (SystemAllocate account STATE_LEN seeds) w) (\<lambda>w.
      and_then (invoke rt (SystemAssign account (anchor_id b) seeds) w) (\<lambda>w.
      exit_typed (request_state_bytes rt
          \<lparr>rs_version = GENERATION, rs_wallet = wallet, rs_counter = 0, rs_bump = bump\<rparr>)
        account w))))"

definition advance ::
  "runtime \<Rightarrow> build \<Rightarrow> tx \<Rightarrow> pubkey \<Rightarrow> pubkey \<Rightarrow> pubkey \<Rightarrow> world \<Rightarrow> fault + world" where
  "advance rt b t account wallet payer w =
     require (is_writable t account \<and> is_signer t payer)
       (AnchorErr entros_anchor_error.InvalidRequestContext)
    (let key = pda_key rt (request_state_seeds wallet) (anchor_id b);
         bump = pda_bump rt (request_state_seeds wallet) (anchor_id b) in
     require (account = key) (AnchorErr entros_anchor_error.InvalidRequestContext)
    (and_then
       (if owner_of w account = system_program_id rt \<and> data_of w account = []
        then create_request_state rt b account wallet bump payer w else Inr w) (\<lambda>w.
     require (owner_of w account = anchor_id b)
       (AnchorErr entros_anchor_error.InvalidRequestContext)
    (and_then (advance_counter rt account wallet bump w) (\<lambda>(_, w). Inr w)))))"

section \<open>Growing an identity account\<close>

text \<open>
  The block that \<open>process_anchor_update\<close>, \<open>reset_identity_state\<close> and
  \<open>rebaseline_anchor\<close> share: an account of an earlier layout is grown to the current
  one and its rent topped up.
\<close>

definition grow_identity :: "runtime \<Rightarrow> pubkey \<Rightarrow> pubkey \<Rightarrow> world \<Rightarrow> fault + world" where
  "grow_identity rt key payer w =
     (if length (data_of w key) < identity_len then
        and_then (resize rt key identity_len w) (\<lambda>w.
        let required = minimum_balance rt identity_len;
            current_lamports = lamports_of w key
        in if current_lamports < required
           then transfer rt payer key (required - current_lamports) w else Inr w)
      else Inr w)"

definition upgrade_identity_layout ::
  "runtime \<Rightarrow> build \<Rightarrow> tx \<Rightarrow> pubkey \<Rightarrow> pubkey \<Rightarrow> world \<Rightarrow> fault + world" where
  "upgrade_identity_layout rt b t authority key w =
     mut_signer t authority
    (mut_account t key
    (with_seeds rt (identity_seeds authority) (anchor_id b) key
    (require (owner_of w key = anchor_id b) (FrameworkErr ConstraintOwner)
    (require (request_bound_v1 b) (AnchorErr entros_anchor_error.UnsupportedProofGeneration)
    (let data = data_of w key; old_len = length data in
     require (old_len = 543 \<or> old_len = 551 \<or> old_len = 583 \<or> old_len = 593)
       (AnchorErr InvalidIdentityState)
    (require (take 8 data = take 8 (elems (account_hash rt (ascii ''account:IdentityState'')))
        \<and> slice 8 32 data = elems authority
        \<and> data ! 126 = pda_bump rt (identity_seeds authority) (anchor_id b))
       (AnchorErr InvalidIdentityState)
    (require (slice 94 32 data = elems (pda_key rt (mint_seeds authority) (anchor_id b)))
       (AnchorErr InvalidIdentityState)
    (if old_len = identity_len then Inr w
     else let required = minimum_balance rt identity_len in
       and_then (if lamports_of w key < required
          then transfer rt authority key (required - lamports_of w key) w else Inr w) (\<lambda>w.
       and_then (resize rt key identity_len w) (\<lambda>w.
       let grown = data_of w key
       in Inr (set_data key (take old_len grown @ replicate (length grown - old_len) 0) w)))))))))))"

end
