(* ===== verification/Anchor_Update.thy ===== *)
theory Anchor_Update
  imports Anchor_Requests
begin

text \<open>
  \<open>process_anchor_update\<close> of entros-anchor and the three instructions that call it:
  \<open>update_anchor\<close>, \<open>update_anchor_compact\<close> and \<open>update_anchor_bound\<close>. One definition per
  block of the function, in its order, and their composition.
\<close>

definition MAX_PROOF_AGE_SECS :: int where "MAX_PROOF_AGE_SECS = 600"
definition VERIFICATION_RESULT_LEN_V2 :: nat where "VERIFICATION_RESULT_LEN_V2 = 182"
definition VERIFICATION_RESULT_DISCRIMINATOR :: "byte list" where
  "VERIFICATION_RESULT_DISCRIMINATOR = [104, 111, 80, 172, 219, 191, 162, 38]"
definition VR_OFFSET_VERIFIER :: nat where "VR_OFFSET_VERIFIER = 8"
definition VR_OFFSET_VERIFIED_AT :: nat where "VR_OFFSET_VERIFIED_AT = 72"
definition VR_OFFSET_NONCE :: nat where "VR_OFFSET_NONCE = 81"
definition VR_OFFSET_BUMP :: nat where "VR_OFFSET_BUMP = 113"
definition VR_OFFSET_COMMITMENT_NEW :: nat where "VR_OFFSET_COMMITMENT_NEW = 114"
definition VR_OFFSET_COMMITMENT_PREV :: nat where "VR_OFFSET_COMMITMENT_PREV = 146"

lemmas vr_consts = MAX_PROOF_AGE_SECS_def VERIFICATION_RESULT_LEN_V2_def
  VR_OFFSET_VERIFIER_def VR_OFFSET_VERIFIED_AT_def VR_OFFSET_NONCE_def VR_OFFSET_BUMP_def
  VR_OFFSET_COMMITMENT_NEW_def VR_OFFSET_COMMITMENT_PREV_def

text \<open>The accounts of an update; each instruction checks its own context first.\<close>

record update_accounts =
  ua_authority :: pubkey
  ua_identity :: pubkey
  ua_verification_result :: pubkey
  ua_protocol_config :: pubkey
  ua_treasury :: pubkey
  ua_verifier_program :: pubkey

section \<open>The identity\<close>

definition load_identity ::
  "runtime \<Rightarrow> pubkey \<Rightarrow> pubkey \<Rightarrow> world \<Rightarrow> fault + identity_state" where
  "load_identity rt key authority w =
     and_then (map_err (\<lambda>_. AnchorErr InvalidIdentityState) (try_identity rt (data_of w key)))
       (\<lambda>identity.
     require (id_owner identity = authority) (AnchorErr entros_anchor_error.Unauthorized)
       (Inr identity))"

text \<open>\<open>identity.try_serialize(&mut *data)\<close>.\<close>

definition save_identity ::
  "runtime \<Rightarrow> pubkey \<Rightarrow> identity_state \<Rightarrow> world \<Rightarrow> fault + world" where
  "save_identity rt key identity w =
     require (identity_len \<le> length (data_of w key)) (AnchorErr IdentitySerializationFailed)
       (Inr (set_data key (store (identity_bytes rt identity) (data_of w key)) w))"

section \<open>The protocol configuration\<close>

record update_config =
  uc_policy :: projection_policy
  uc_max_trust_score :: u16
  uc_base_trust_increment :: u16
  uc_verification_fee :: u64
  uc_keys :: validator_key_policy

definition read_update_config ::
  "pubkey \<Rightarrow> u16 \<Rightarrow> world \<Rightarrow> fault + update_config" where
  "read_update_config config_key identity_version w =
     require (owner_of w config_key = registry_program_id)
       (AnchorErr entros_anchor_error.InvalidProtocolConfig)
    (let d = data_of w config_key in
     require (69 \<le> length d) (AnchorErr entros_anchor_error.InvalidProtocolConfig)
    (and_then (map_err AnchorErr (read_projection_policy d)) (\<lambda>policy.
     and_then (map_err AnchorErr (validate_identity_projection identity_version policy)) (\<lambda>_.
     Inr \<lparr>uc_policy = policy, uc_max_trust_score = from_le (slice 56 2 d),
          uc_base_trust_increment = from_le (slice 58 2 d),
          uc_verification_fee = from_le (slice 61 8 d),
          uc_keys = read_validator_key_policy d\<rparr>))))"

section \<open>Consuming a verification result\<close>

text \<open>The legacy branch: raw reads of a \<open>VerificationResult\<close> of entros-verifier.\<close>

definition read_legacy_result ::
  "runtime \<Rightarrow> build \<Rightarrow> i64 \<Rightarrow> pubkey \<Rightarrow> pubkey \<Rightarrow> world \<Rightarrow> fault + (bytes32 \<times> bytes32)" where
  "read_legacy_result rt b now authority result_key w =
     require (\<not> request_bound_v1 b) (AnchorErr entros_anchor_error.UnsupportedProofGeneration)
    (require (owner_of w result_key = verifier_id b) (AnchorErr VerificationResultWrongOwner)
    (let d = data_of w result_key in
     require (VERIFICATION_RESULT_LEN_V2 \<le> length d) (AnchorErr StaleVerificationResult)
    (require (slice 0 8 d = VERIFICATION_RESULT_DISCRIMINATOR) (AnchorErr StaleVerificationResult)
    (require (arr_of (slice VR_OFFSET_VERIFIER 32 d) = authority) (AnchorErr VerifierMismatch)
    (let nonce = arr_of (slice VR_OFFSET_NONCE 32 d) :: bytes32 in
     require (nonce \<noteq> 0) (AnchorErr InvalidVerificationResultPda)
    (let bump = d ! VR_OFFSET_BUMP in
     and_then (ok_or (create_program_address rt
         [ascii ''verification'', elems authority, elems nonce, [bump]] (verifier_id b))
       (AnchorErr InvalidVerificationResultPda)) (\<lambda>expected_vr_pda.
     require (result_key = expected_vr_pda) (AnchorErr InvalidVerificationResultPda)
    (let verified_at = from_le (slice VR_OFFSET_VERIFIED_AT 8 d) :: i64 in
     require (sint verified_at \<le> sint now) (AnchorErr ProofFromFuture)
    (require (sint (saturating_sub_i64 now verified_at) \<le> MAX_PROOF_AGE_SECS)
       (AnchorErr ProofExpired)
      (Inr (arr_of (slice VR_OFFSET_COMMITMENT_NEW 32 d),
            arr_of (slice VR_OFFSET_COMMITMENT_PREV 32 d))))))))))))"

text \<open>
  The bound branch: a typed \<open>BoundVerificationResult\<close>, checked against the wallet's
  counter and against the digest of the action this update would perform.
\<close>

definition load_bound_result ::
  "runtime \<Rightarrow> build \<Rightarrow> pubkey \<Rightarrow> world \<Rightarrow> fault + bound_result" where
  "load_bound_result rt b result_key w =
    (let d = data_of w result_key in
     if d = [] then Inl (AnchorErr entros_anchor_error.InvalidRequestContext)
     else require (owner_of w result_key = verifier_id b) (AnchorErr VerificationResultWrongOwner)
      (require (length d = bound_result_len)
         (AnchorErr entros_anchor_error.InvalidRequestContext)
        (map_err (\<lambda>_. AnchorErr entros_anchor_error.InvalidRequestContext)
           (try_bound_result rt d))))"

definition check_bound_result ::
  "runtime \<Rightarrow> build \<Rightarrow> i64 \<Rightarrow> pubkey \<Rightarrow> pubkey \<Rightarrow> u64 \<Rightarrow> bound_result \<Rightarrow> fault + unit" where
  "check_bound_result rt b now wallet result_key counter r =
     require (br_version r = GENERATION \<and> br_wallet r = wallet \<and> br_counter r = counter
        \<and> br_nonce r \<noteq> 0) (AnchorErr entros_anchor_error.InvalidRequestContext)
    (and_then (ok_or (create_program_address rt
         [ascii ''verification_bound'', elems wallet, elems (br_nonce r), [br_bump r]]
         (verifier_id b)) (AnchorErr InvalidVerificationResultPda)) (\<lambda>expected_vr_pda.
     require (result_key = expected_vr_pda) (AnchorErr InvalidVerificationResultPda)
    (require (sint (br_verified_at r) \<le> sint now \<and> 0 \<le> sint now
        \<and> now \<le> br_valid_until r \<and> 0 < br_valid_until r) (AnchorErr ProofExpired)
      (Inr ()))))"

definition bound_action ::
  "pubkey \<Rightarrow> identity_state \<Rightarrow> u64 \<Rightarrow> bound_result \<Rightarrow> action" where
  "bound_action identity_key identity counter r =
     \<lparr>ac_identity = identity_key, ac_mint = id_mint identity, ac_counter = counter,
      ac_projection = id_projection_version identity,
      ac_commitment_new = br_commitment_new r, ac_commitment_prev = br_commitment_prev r,
      ac_threshold = br_threshold r, ac_min_distance = br_min_distance r,
      ac_valid_until = br_valid_until r\<rparr>"

definition consume_bound_result ::
  "runtime \<Rightarrow> build \<Rightarrow> tx \<Rightarrow> i64 \<Rightarrow> pubkey \<Rightarrow> pubkey \<Rightarrow> identity_state \<Rightarrow> pubkey \<Rightarrow> pubkey \<Rightarrow>
   world \<Rightarrow> fault + (bound_result \<times> world)" where
  "consume_bound_result rt b t now wallet identity_key identity result_key state_key w =
     require (request_bound_v1 b) (AnchorErr entros_anchor_error.UnsupportedProofGeneration)
    (and_then (load_bound_result rt b result_key w) (\<lambda>r.
     let state_pda = pda_key rt (request_state_seeds wallet) (anchor_id b);
         bump = pda_bump rt (request_state_seeds wallet) (anchor_id b) in
     require (state_key = state_pda) (AnchorErr entros_anchor_error.InvalidRequestContext)
    (require (owner_of w state_key = anchor_id b)
       (AnchorErr entros_anchor_error.InvalidRequestContext)
    (and_then (ok_or (read_counter rt (data_of w state_key) wallet bump)
       (AnchorErr entros_anchor_error.InvalidRequestContext)) (\<lambda>counter.
     and_then (check_bound_result rt b now wallet result_key counter r) (\<lambda>_.
     and_then (ok_or (request_digest rt (deployment_domain b) (verifier_id b) (anchor_id b)
         wallet (br_nonce r) (bound_action identity_key identity counter r))
       (AnchorErr entros_anchor_error.InvalidRequestContext)) (\<lambda>digest.
     require (br_request_digest r = digest) (AnchorErr entros_anchor_error.InvalidRequestContext)
    (require (is_writable t state_key) (AnchorErr entros_anchor_error.InvalidRequestContext)
    (and_then (ok_or (checked_add counter 1) (AnchorErr entros_anchor_error.ArithmeticOverflow))
      (\<lambda>next_counter.
     Inr (r, set_data state_key (write_counter next_counter (data_of w state_key)) w)))))))))))"

text \<open>Both branches: the new and the previous commitment, the nonce of a bound result.\<close>

definition consume_result ::
  "runtime \<Rightarrow> build \<Rightarrow> tx \<Rightarrow> update_accounts \<Rightarrow> identity_state \<Rightarrow> pubkey option \<Rightarrow> world \<Rightarrow>
   fault + (bytes32 \<times> bytes32 \<times> bytes32 option \<times> world)" where
  "consume_result rt b t ua identity bound_state w =
     (case bound_state of
       Some state_key \<Rightarrow>
         and_then (consume_bound_result rt b t (clock t) (ua_authority ua) (ua_identity ua)
             identity (ua_verification_result ua) state_key w) (\<lambda>(r, w).
         Inr (br_commitment_new r, br_commitment_prev r, Some (br_nonce r), w))
     | None \<Rightarrow>
         and_then (read_legacy_result rt b (clock t) (ua_authority ua)
             (ua_verification_result ua) w) (\<lambda>(new, prev).
         Inr (new, prev, None, w)))"

definition check_commitments ::
  "bytes32 \<Rightarrow> bytes32 \<Rightarrow> bytes32 option \<Rightarrow> identity_state \<Rightarrow> fault + unit" where
  "check_commitments new prev expected identity =
     require (new \<noteq> 0) (AnchorErr InvalidCommitment)
    (require (case expected of Some e \<Rightarrow> new = e | None \<Rightarrow> True) (AnchorErr CommitmentMismatch)
    (require (prev = id_current_commitment identity) (AnchorErr PrevCommitmentMismatch)
    (require (new \<noteq> prev) (AnchorErr CommitmentUnchanged)
      (Inr ()))))"

section \<open>Closing the verification result\<close>

text \<open>
  The instruction discriminator \<open>sha256("global:<name>")[..8]\<close>, the instruction the
  anchor program builds, and its dispatch in entros-verifier to the two closing
  instructions. A CPI keeps the signers and the writable accounts of the transaction.
\<close>

definition instruction_disc :: "runtime \<Rightarrow> string \<Rightarrow> byte list" where
  "instruction_disc rt name = take 8 (elems (account_hash rt (ascii name)))"

definition close_instruction_data :: "runtime \<Rightarrow> bytes32 option \<Rightarrow> byte list" where
  "close_instruction_data rt bound_nonce =
     (case bound_nonce of
       Some nonce \<Rightarrow>
         instruction_disc rt ''global:close_bound_verification_result'' @ elems nonce
     | None \<Rightarrow> instruction_disc rt ''global:close_verification_result'')"

definition verifier_close_entry ::
  "runtime \<Rightarrow> build \<Rightarrow> tx \<Rightarrow> pubkey \<Rightarrow> pubkey \<Rightarrow> byte list \<Rightarrow> world \<Rightarrow> fault + world" where
  "verifier_close_entry rt b t verifier result_key d w =
     (if take 8 d = instruction_disc rt ''global:close_bound_verification_result'' then
        if length d < 40 then Inl (FrameworkErr InstructionDidNotDeserialize)
        else close_bound_verification_result rt b t verifier result_key (arr_of (slice 8 32 d)) w
      else if take 8 d = instruction_disc rt ''global:close_verification_result'' then
        close_verification_result rt b t verifier result_key w
      else Inl (FrameworkErr InstructionFallbackNotFound))"

definition close_verification_result_cpi ::
  "runtime \<Rightarrow> build \<Rightarrow> tx \<Rightarrow> pubkey \<Rightarrow> pubkey \<Rightarrow> pubkey \<Rightarrow> bytes32 option \<Rightarrow> world \<Rightarrow> fault + world" where
  "close_verification_result_cpi rt b t verifier_program verifier result_key bound_nonce w =
     require (verifier_program = verifier_id b) (AnchorErr InvalidVerifierProgram)
       (verifier_close_entry rt b t verifier result_key (close_instruction_data rt bound_nonce) w)"

section \<open>The new identity\<close>

definition updated_identity ::
  "update_config \<Rightarrow> i64 \<Rightarrow> bytes32 \<Rightarrow> identity_state \<Rightarrow> fault + identity_state" where
  "updated_identity cfg now new identity =
     and_then (ok_or (checked_add (id_verification_count identity) 1)
       (AnchorErr entros_anchor_error.ArithmeticOverflow)) (\<lambda>count.
     let recent = record_verification (id_recent_timestamps identity) now in
     and_then (anchor_trust_score (uc_max_trust_score cfg) (uc_base_trust_increment cfg) now
         (id_creation_timestamp identity) recent) (\<lambda>score.
     Inr (identity\<lparr>id_current_commitment := new, id_verification_count := count,
       id_last_verification_timestamp := now, id_recent_timestamps := recent,
       id_trust_score := score\<rparr>)))"

definition pay_fee :: "runtime \<Rightarrow> pubkey \<Rightarrow> pubkey \<Rightarrow> u64 \<Rightarrow> world \<Rightarrow> fault + world" where
  "pay_fee rt payer treasury fee w =
     (if 0 < fee then transfer rt payer treasury fee w else Inr w)"

section \<open>The update\<close>

definition process_anchor_update ::
  "runtime \<Rightarrow> build \<Rightarrow> tx \<Rightarrow> update_accounts \<Rightarrow> update_receipt_args \<Rightarrow> bytes32 option \<Rightarrow>
   pubkey option \<Rightarrow> world \<Rightarrow> fault + world" where
  "process_anchor_update rt b t ua receipt expected bound_state w =
     require ((bound_state \<noteq> None) = request_bound_v1 b)
       (AnchorErr entros_anchor_error.UnsupportedProofGeneration)
    (require (owner_of w (ua_identity ua) = anchor_id b) (AnchorErr InvalidIdentityState)
    (let now = clock t in
     and_then (grow_identity rt (ua_identity ua) (ua_authority ua) w) (\<lambda>w.
     and_then (load_identity rt (ua_identity ua) (ua_authority ua) w) (\<lambda>identity.
     require (case expected of Some e \<Rightarrow> e \<noteq> 0 | None \<Rightarrow> True) (AnchorErr InvalidCommitment)
    (and_then (read_update_config (ua_protocol_config ua) (id_projection_version identity) w)
      (\<lambda>cfg.
     and_then (consume_result rt b t ua identity bound_state w) (\<lambda>(new, prev, bound_nonce, w).
     and_then (check_commitments new prev expected identity) (\<lambda>_.
     and_then (verify_update_receipt_digest rt t (uc_keys cfg) (ua_authority ua) new
         (id_projection_version identity) receipt now) (\<lambda>session.
     require (sint (id_last_verification_timestamp identity) \<le> sint (ur_validated_at receipt))
       (AnchorErr ReceiptAlreadyUsed)
    (and_then (close_verification_result_cpi rt b t (ua_verifier_program ua) (ua_authority ua)
         (ua_verification_result ua) bound_nonce w) (\<lambda>w.
     and_then (updated_identity cfg now new identity) (\<lambda>identity.
     and_then (save_identity rt (ua_identity ua) identity w) (\<lambda>w.
     and_then (pay_fee rt (ua_authority ua) (ua_treasury ua) (uc_verification_fee cfg) w) (\<lambda>w.
     Inr (emit_receipt_session (id_owner identity) Update (id_projection_version identity) session
       (emit (AnchorUpdated (id_owner identity) (id_verification_count identity)
          (id_trust_score identity) new) w))))))))))))))))"

text \<open>The context of \<open>UpdateAnchor\<close> and \<open>UpdateAnchorCompact\<close>.\<close>

definition update_context ::
  "runtime \<Rightarrow> build \<Rightarrow> tx \<Rightarrow> update_accounts \<Rightarrow> fault + 'a \<Rightarrow> fault + 'a" where
  "update_context rt b t ua r =
     mut_signer t (ua_authority ua)
    (mut_account t (ua_identity ua)
    (with_seeds rt (identity_seeds (ua_authority ua)) (anchor_id b) (ua_identity ua)
    (mut_account t (ua_verification_result ua)
    (with_seeds rt protocol_config_seeds registry_program_id (ua_protocol_config ua)
    (mut_account t (ua_treasury ua)
    (with_seeds rt protocol_treasury_seeds registry_program_id (ua_treasury ua)
    (require (ua_verifier_program ua = verifier_id b) (AnchorErr InvalidVerifierProgram) r)))))))"

definition update_anchor ::
  "runtime \<Rightarrow> build \<Rightarrow> tx \<Rightarrow> update_accounts \<Rightarrow> bytes32 \<Rightarrow> update_receipt_args \<Rightarrow> world \<Rightarrow>
   fault + world" where
  "update_anchor rt b t ua new_commitment receipt w =
     update_context rt b t ua
    (require (new_commitment \<noteq> 0) (AnchorErr InvalidCommitment)
      (process_anchor_update rt b t ua receipt (Some new_commitment) None w))"

definition update_anchor_compact ::
  "runtime \<Rightarrow> build \<Rightarrow> tx \<Rightarrow> update_accounts \<Rightarrow> update_receipt_args \<Rightarrow> world \<Rightarrow> fault + world" where
  "update_anchor_compact rt b t ua receipt w =
     update_context rt b t ua (process_anchor_update rt b t ua receipt None None w)"

definition update_bound_context ::
  "runtime \<Rightarrow> build \<Rightarrow> tx \<Rightarrow> update_accounts \<Rightarrow> pubkey \<Rightarrow> world \<Rightarrow> fault + 'a \<Rightarrow> fault + 'a" where
  "update_bound_context rt b t ua state_key w r =
     update_context rt b t ua
    (mut_account t state_key
    (with_seeds rt (request_state_seeds (ua_authority ua)) (anchor_id b) state_key
    (require (owner_of w state_key = anchor_id b) (FrameworkErr ConstraintOwner) r)))"

definition update_anchor_bound ::
  "runtime \<Rightarrow> build \<Rightarrow> tx \<Rightarrow> update_accounts \<Rightarrow> pubkey \<Rightarrow> update_receipt_args \<Rightarrow> world \<Rightarrow>
   fault + world" where
  "update_anchor_bound rt b t ua state_key receipt w =
     update_bound_context rt b t ua state_key w
       (process_anchor_update rt b t ua receipt None (Some state_key) w)"

end
