(* ===== verification/Anchor_Program.thy ===== *)
theory Anchor_Program
  imports Anchor_Update
begin

text \<open>
  The other instructions of entros-anchor: minting, wallet migration, reset,
  rebaselining and the encrypted baseline. The Token-2022 and associated-token calls go
  through \<open>invoke\<close>, which records them in order.
\<close>

definition RESET_COOLDOWN_SECS :: int where "RESET_COOLDOWN_SECS = 604800"
definition REBASELINE_COOLDOWN_SECS :: int where "REBASELINE_COOLDOWN_SECS = 604800"
definition MINT_NAME :: string where "MINT_NAME = ''Entros Anchor''"
definition MINT_SYMBOL :: string where "MINT_SYMBOL = ''ANCHOR''"
definition MINT_URI :: string where "MINT_URI = ''https://entros.io/anchor-metadata.json''"

definition mint_authority_seeds :: "byte list list" where
  "mint_authority_seeds = [ascii ''mint_authority'']"

section \<open>The identity token\<close>

record token_accounts =
  ta_user :: pubkey
  ta_mint :: pubkey
  ta_mint_authority :: pubkey
  ta_token_account :: pubkey
  ta_token_program :: pubkey

text \<open>
  Steps 0 to 5 of \<open>mint_anchor\<close>: the mint account and its extensions, the mint, its
  metadata, the token account, one token.
\<close>

definition token_steps :: "runtime \<Rightarrow> build \<Rightarrow> token_accounts \<Rightarrow> nat \<Rightarrow> nat \<Rightarrow> cpi list" where
  "token_steps rt b ta space meta_data_space =
     (let user = ta_user ta; mint = ta_mint ta; authority = ta_mint_authority ta;
          prog = ta_token_program ta;
          mint_signer = mint_seeds user @ [[pda_bump rt (mint_seeds user) (anchor_id b)]];
          authority_signer =
            mint_authority_seeds @ [[pda_bump rt mint_authority_seeds (anchor_id b)]]
      in [SystemCreateAccount user mint (minimum_balance rt (space + meta_data_space)) space
            prog mint_signer,
          TokenProgram prog (InitializeNonTransferableMint mint) [],
          TokenProgram prog (InitializeMintCloseAuthority mint authority) [],
          TokenProgram prog (InitializeMetadataPointer mint authority mint) [],
          TokenProgram prog (InitializeMint2 mint authority None 0) [],
          TokenProgram prog (TokenMetadataInitialize mint authority authority
            MINT_NAME MINT_SYMBOL MINT_URI) authority_signer,
          CreateTokenAccount (request_bound_v1 b) user (ta_token_account ta) user mint prog,
          TokenProgram prog (MintTo mint (ta_token_account ta) authority 1) authority_signer])"

fun invoke_all :: "runtime \<Rightarrow> cpi list \<Rightarrow> world \<Rightarrow> fault + world" where
  "invoke_all rt [] w = Inr w"
| "invoke_all rt (c # cs) w = and_then (invoke rt c w) (invoke_all rt cs)"

definition create_identity_token ::
  "runtime \<Rightarrow> build \<Rightarrow> token_accounts \<Rightarrow> world \<Rightarrow> fault + world" where
  "create_identity_token rt b ta w =
     and_then (map_err ProgramErr (tlv_size_of rt MINT_NAME MINT_SYMBOL MINT_URI))
       (\<lambda>meta_data_space.
     and_then (map_err ProgramErr
         (mint_account_len rt [NonTransferable, MintCloseAuthority, MetadataPointer]))
       (\<lambda>space. invoke_all rt (token_steps rt b ta space meta_data_space) w))"

text \<open>The token part of the contexts \<open>MintAnchor\<close> and \<open>MigrateIdentity\<close>.\<close>

definition token_context ::
  "runtime \<Rightarrow> build \<Rightarrow> tx \<Rightarrow> token_accounts \<Rightarrow> fault + 'a \<Rightarrow> fault + 'a" where
  "token_context rt b t ta r =
     mut_account t (ta_mint ta)
    (with_seeds rt (mint_seeds (ta_user ta)) (anchor_id b) (ta_mint ta)
    (with_seeds rt mint_authority_seeds (anchor_id b) (ta_mint_authority ta)
    (mut_account t (ta_token_account ta)
    (require (ta_token_program ta \<in> set (token_program_ids rt))
       (FrameworkErr InvalidProgramId) r))))"

definition config_treasury_context ::
  "runtime \<Rightarrow> tx \<Rightarrow> pubkey \<Rightarrow> pubkey \<Rightarrow> fault + 'a \<Rightarrow> fault + 'a" where
  "config_treasury_context rt t config_key treasury r =
     with_seeds rt protocol_config_seeds registry_program_id config_key
    (mut_account t treasury
    (with_seeds rt protocol_treasury_seeds registry_program_id treasury r))"

lemma token_context_Inr [res_simps]:
  "token_context rt b t ta r = Inr x \<longleftrightarrow>
     is_writable t (ta_mint ta) \<and> pda_key rt (mint_seeds (ta_user ta)) (anchor_id b) = ta_mint ta \<and>
     pda_key rt mint_authority_seeds (anchor_id b) = ta_mint_authority ta \<and>
     is_writable t (ta_token_account ta) \<and> ta_token_program ta \<in> set (token_program_ids rt) \<and>
     r = Inr x"
  by (auto simp: token_context_def res_simps)

lemma config_treasury_context_Inr [res_simps]:
  "config_treasury_context rt t c k r = Inr x \<longleftrightarrow>
     pda_key rt protocol_config_seeds registry_program_id = c \<and> is_writable t k \<and>
     pda_key rt protocol_treasury_seeds registry_program_id = k \<and> r = Inr x"
  by (auto simp: config_treasury_context_def res_simps)

section \<open>Minting\<close>

text \<open>
  What minting, reset and rebaselining read of the configuration: unlike the update they
  accept an account too short for a fee, and charge none.
\<close>

definition read_receipt_config ::
  "pubkey \<Rightarrow> world \<Rightarrow> fault + (projection_policy \<times> u64 \<times> validator_key_policy)" where
  "read_receipt_config config_key w =
     require (owner_of w config_key = registry_program_id)
       (AnchorErr entros_anchor_error.InvalidProtocolConfig)
    (let d = data_of w config_key in
     and_then (map_err AnchorErr (read_projection_policy d)) (\<lambda>policy.
     Inr (policy, if 69 \<le> length d then from_le (slice 61 8 d) else 0,
          read_validator_key_policy d)))"

definition minted_identity ::
  "runtime \<Rightarrow> build \<Rightarrow> i64 \<Rightarrow> pubkey \<Rightarrow> pubkey \<Rightarrow> bytes32 \<Rightarrow> u16 \<Rightarrow> identity_state" where
  "minted_identity rt b now user mint commitment version =
     \<lparr>id_owner = user, id_creation_timestamp = now, id_last_verification_timestamp = now,
      id_verification_count = 0, id_trust_score = 0, id_current_commitment = commitment,
      id_mint = mint, id_bump = pda_bump rt (identity_seeds user) (anchor_id b),
      id_recent_timestamps = 0, id_last_reset_timestamp = 0, id_new_wallet = 0,
      id_projection_version = version, id_last_rebaseline_timestamp = 0\<rparr>"

text \<open>The end of \<open>mint_anchor\<close>: the fee, the new identity, the events.\<close>

definition finish_mint ::
  "runtime \<Rightarrow> pubkey \<Rightarrow> pubkey \<Rightarrow> pubkey \<Rightarrow> u64 \<Rightarrow> identity_state \<Rightarrow> bytes32 \<Rightarrow> u16 \<Rightarrow>
   receipt_session option \<Rightarrow> world \<Rightarrow> fault + world" where
  "finish_mint rt user identity_key treasury fee identity initial_commitment current session w =
     and_then (pay_fee rt user treasury fee w) (\<lambda>w.
     exit_typed (identity_bytes rt identity) identity_key
       (emit_receipt_session (id_owner identity) Mint current session
         (emit (AnchorMinted (id_owner identity) (id_mint identity) initial_commitment) w)))"

lemma finish_mint_minted:
  "finish_mint rt user ik treasury fee (minted_identity rt b now user mint new version) new version
     session w = and_then (pay_fee rt user treasury fee w) (\<lambda>w.
     exit_typed (identity_bytes rt (minted_identity rt b now user mint new version)) ik
       (emit_receipt_session user Mint version session (emit (AnchorMinted user mint new) w)))"
  by (simp add: finish_mint_def) (simp add: minted_identity_def)

definition mint_anchor ::
  "runtime \<Rightarrow> build \<Rightarrow> tx \<Rightarrow> token_accounts \<Rightarrow> pubkey \<Rightarrow> pubkey \<Rightarrow> pubkey \<Rightarrow> pubkey list \<Rightarrow>
   bytes32 \<Rightarrow> world \<Rightarrow> fault + world" where
  "mint_anchor rt b t ta identity_key config_key treasury remaining initial_commitment w =
    (let user = ta_user ta in
     mut_signer t user
    (with_seeds rt (identity_seeds user) (anchor_id b) identity_key
    (and_then (init_typed rt user identity_key identity_len (anchor_id b) w) (\<lambda>w.
     token_context rt b t ta
    (config_treasury_context rt t config_key treasury
    (and_then
       (if request_bound_v1 b then
          case remaining of
            [state_key] \<Rightarrow> advance rt b t state_key user user w
          | _ \<Rightarrow> Inl (AnchorErr entros_anchor_error.InvalidRequestContext)
        else Inr w) (\<lambda>w.
     require (initial_commitment \<noteq> 0) (AnchorErr InvalidCommitment)
    (and_then (create_identity_token rt b ta w) (\<lambda>w.
     and_then (read_receipt_config config_key w) (\<lambda>(policy, fee, keys).
     and_then (verify_validator_receipt t keys user initial_commitment Mint
         (pp_current policy) (clock t)) (\<lambda>session.
     finish_mint rt user identity_key treasury fee (minted_identity rt b (clock t) user
         (ta_mint ta) initial_commitment (pp_current policy)) initial_commitment
       (pp_current policy) session w)))))))))))"

section \<open>Wallet migration\<close>

definition authorize_accounts ::
  "runtime \<Rightarrow> build \<Rightarrow> tx \<Rightarrow> pubkey \<Rightarrow> pubkey \<Rightarrow> pubkey \<Rightarrow> pubkey \<Rightarrow> pubkey \<Rightarrow> pubkey \<Rightarrow>
   world \<Rightarrow> (identity_state \<Rightarrow> fault + 'a) \<Rightarrow> fault + 'a" where
  "authorize_accounts rt b t signer identity_key signer_new token_program mint token_account w run =
     mut_signer t signer
    (mut_account t identity_key
    (and_then (load_typed rt (anchor_id b) (try_identity rt) identity_key w) (\<lambda>identity.
     with_seeds rt (identity_seeds signer) (anchor_id b) identity_key
    (mut_signer t signer_new
    (require (token_program \<in> set (token_program_ids rt)) (FrameworkErr InvalidProgramId)
    (mut_account t mint
    (require (is_mint rt (accs w mint)) (FrameworkErr AccountDidNotDeserialize)
    (with_seeds rt (mint_seeds signer) (anchor_id b) mint
    (mut_account t token_account
    (require (is_associated_token rt mint signer token_program token_account
         (accs w token_account)) (FrameworkErr ConstraintAssociated)
      (run identity)))))))))))"

definition authorize_new_wallet ::
  "runtime \<Rightarrow> build \<Rightarrow> tx \<Rightarrow> pubkey \<Rightarrow> pubkey \<Rightarrow> pubkey \<Rightarrow> pubkey \<Rightarrow> pubkey \<Rightarrow> pubkey \<Rightarrow>
   world \<Rightarrow> fault + world" where
  "authorize_new_wallet rt b t signer identity_key signer_new token_program mint token_account w =
     authorize_accounts rt b t signer identity_key signer_new token_program mint token_account w
       (\<lambda>identity.
     and_then (invoke rt
         (TokenProgram token_program (Approve token_account signer_new signer 1) []) w) (\<lambda>w.
     exit_typed (identity_bytes rt (identity\<lparr>id_new_wallet := signer_new\<rparr>)) identity_key w))"

record migrate_accounts =
  ma_token :: token_accounts
  ma_identity :: pubkey
  ma_protocol_config :: pubkey
  ma_treasury :: pubkey
  ma_wallet_old :: pubkey
  ma_identity_old :: pubkey
  ma_mint_old :: pubkey
  ma_token_account_old :: pubkey

definition migrate_requests ::
  "runtime \<Rightarrow> build \<Rightarrow> tx \<Rightarrow> migrate_accounts \<Rightarrow> identity_state \<Rightarrow> pubkey list \<Rightarrow> world \<Rightarrow>
   fault + world" where
  "migrate_requests rt b t ma old remaining w =
    (let user = ta_user (ma_token ma) in
     if \<not> request_bound_v1 b then Inr w
     else case remaining of
       [state_old, state_new] \<Rightarrow>
         require (id_owner old = ma_wallet_old ma \<and> id_new_wallet old = user)
           (AnchorErr UnauthorizedNewWallet)
        (require (ma_wallet_old ma \<noteq> user) (AnchorErr entros_anchor_error.InvalidRequestContext)
        (and_then (advance rt b t state_old (id_owner old) user w) (\<lambda>w.
         advance rt b t state_new user user w)))
     | _ \<Rightarrow> Inl (AnchorErr entros_anchor_error.InvalidRequestContext))"

text \<open>The fields that move to the new wallet; the authorisation itself does not.\<close>

definition migrated_identity ::
  "runtime \<Rightarrow> build \<Rightarrow> pubkey \<Rightarrow> pubkey \<Rightarrow> identity_state \<Rightarrow> identity_state" where
  "migrated_identity rt b user mint old =
     \<lparr>id_owner = user, id_creation_timestamp = id_creation_timestamp old,
      id_last_verification_timestamp = id_last_verification_timestamp old,
      id_verification_count = id_verification_count old, id_trust_score = id_trust_score old,
      id_current_commitment = id_current_commitment old, id_mint = mint,
      id_bump = pda_bump rt (identity_seeds user) (anchor_id b),
      id_recent_timestamps = id_recent_timestamps old,
      id_last_reset_timestamp = id_last_reset_timestamp old, id_new_wallet = 0,
      id_projection_version = id_projection_version old,
      id_last_rebaseline_timestamp = id_last_rebaseline_timestamp old\<rparr>"

definition migration_fee :: "pubkey \<Rightarrow> world \<Rightarrow> fault + u64" where
  "migration_fee config_key w =
     require (owner_of w config_key = registry_program_id)
       (AnchorErr entros_anchor_error.InvalidProtocolConfig)
    (let d = data_of w config_key
     in Inr (if 77 \<le> length d then from_le (slice 69 8 d) else 0))"

definition migrate_context ::
  "runtime \<Rightarrow> build \<Rightarrow> tx \<Rightarrow> migrate_accounts \<Rightarrow> world \<Rightarrow> fault + (identity_state \<times> world)" where
  "migrate_context rt b t ma w =
    (let ta = ma_token ma; user = ta_user ta; old = ma_wallet_old ma in
     mut_signer t user
    (with_seeds rt (identity_seeds user) (anchor_id b) (ma_identity ma)
    (and_then (init_typed rt user (ma_identity ma) identity_len (anchor_id b) w) (\<lambda>w.
     token_context rt b t ta
    (config_treasury_context rt t (ma_protocol_config ma) (ma_treasury ma)
    (mut_account t old
    (mut_account t (ma_identity_old ma)
    (and_then (load_typed rt (anchor_id b) (try_identity rt) (ma_identity_old ma) w)
      (\<lambda>identity_old.
     with_seeds rt (identity_seeds old) (anchor_id b) (ma_identity_old ma)
    (mut_account t (ma_mint_old ma)
    (require (is_mint rt (accs w (ma_mint_old ma))) (FrameworkErr AccountDidNotDeserialize)
    (with_seeds rt (mint_seeds old) (anchor_id b) (ma_mint_old ma)
    (mut_account t (ma_token_account_old ma)
    (require (is_associated_token rt (ma_mint_old ma) old (ta_token_program ta)
         (ma_token_account_old ma) (accs w (ma_token_account_old ma)))
       (FrameworkErr ConstraintAssociated)
      (Inr (identity_old, w))))))))))))))))"

text \<open>
  The end of \<open>migrate_identity\<close>: the old token is burned and its mint closed; then the
  framework stores the new identity and closes the old account.
\<close>

definition finish_migration ::
  "runtime \<Rightarrow> build \<Rightarrow> migrate_accounts \<Rightarrow> identity_state \<Rightarrow> world \<Rightarrow> fault + world" where
  "finish_migration rt b ma identity w =
    (let ta = ma_token ma; user = ta_user ta; prog = ta_token_program ta in
     and_then (invoke rt (TokenProgram prog
         (Burn (ma_mint_old ma) (ma_token_account_old ma) user 1) []) w) (\<lambda>w.
     and_then (invoke rt (TokenProgram prog
         (CloseTokenAccount (ma_mint_old ma) user (ta_mint_authority ta))
         (mint_authority_seeds @ [[pda_bump rt mint_authority_seeds (anchor_id b)]])) w) (\<lambda>w.
     and_then (exit_typed (identity_bytes rt identity) (ma_identity ma)
         (emit (MigrateIdentityEvent (ma_wallet_old ma) user (ma_identity_old ma)
            (ma_identity ma)) w)) (\<lambda>w.
     close_typed rt (ma_identity_old ma) (ma_wallet_old ma) w))))"

definition migrate_identity ::
  "runtime \<Rightarrow> build \<Rightarrow> tx \<Rightarrow> migrate_accounts \<Rightarrow> pubkey list \<Rightarrow> world \<Rightarrow> fault + world" where
  "migrate_identity rt b t ma remaining w =
    (let ta = ma_token ma; user = ta_user ta in
     and_then (migrate_context rt b t ma w) (\<lambda>(old, w).
     and_then (migrate_requests rt b t ma old remaining w) (\<lambda>w.
     and_then (create_identity_token rt b ta w) (\<lambda>w.
     require (id_new_wallet old = user) (AnchorErr UnauthorizedNewWallet)
    (and_then (migration_fee (ma_protocol_config ma) w) (\<lambda>fee.
     and_then (pay_fee rt user (ma_treasury ma) fee w) (\<lambda>w.
     finish_migration rt b ma (migrated_identity rt b user (ta_mint ta) old) w)))))))"

section \<open>Reset\<close>

definition reset_identity ::
  "i64 \<Rightarrow> bytes32 \<Rightarrow> u16 \<Rightarrow> identity_state \<Rightarrow> identity_state" where
  "reset_identity now commitment version identity =
     identity\<lparr>id_current_commitment := commitment, id_verification_count := 0,
       id_trust_score := 0, id_recent_timestamps := 0, id_last_verification_timestamp := now,
       id_last_reset_timestamp := now, id_projection_version := version\<rparr>"

text \<open>
  The context \<open>ResetIdentityState\<close> and the remaining accounts: the last one is the
  request counter in a request-bound build, the rest must be the instructions sysvar.
\<close>

definition reset_accounts ::
  "runtime \<Rightarrow> build \<Rightarrow> tx \<Rightarrow> pubkey \<Rightarrow> pubkey \<Rightarrow> pubkey \<Rightarrow> pubkey \<Rightarrow> pubkey list \<Rightarrow> world \<Rightarrow>
   fault + (pubkey list \<times> world)" where
  "reset_accounts rt b t authority identity_key config_key treasury remaining w =
     mut_signer t authority
    (mut_account t identity_key
    (with_seeds rt (identity_seeds authority) (anchor_id b) identity_key
    (config_treasury_context rt t config_key treasury
      (if request_bound_v1 b then
         if remaining = [] then Inl (AnchorErr entros_anchor_error.InvalidRequestContext)
         else and_then (advance rt b t (last remaining) authority authority w)
           (\<lambda>w. Inr (butlast remaining, w))
       else Inr (remaining, w)))))"

text \<open>The end of \<open>reset_identity_state\<close>: the identity is stored, the fee paid, events.\<close>

definition finish_reset ::
  "runtime \<Rightarrow> pubkey \<Rightarrow> pubkey \<Rightarrow> pubkey \<Rightarrow> u64 \<Rightarrow> identity_state \<Rightarrow> bytes32 \<Rightarrow> u16 \<Rightarrow>
   receipt_session option \<Rightarrow> world \<Rightarrow> fault + world" where
  "finish_reset rt authority identity_key treasury fee identity new_commitment current session w =
     and_then (save_identity rt identity_key identity w) (\<lambda>w.
     and_then (pay_fee rt authority treasury fee w) (\<lambda>w.
     Inr (emit_receipt_session (id_owner identity) Reset current session
       (emit (AnchorReset (id_owner identity) (id_mint identity) new_commitment) w))))"

definition reset_identity_state ::
  "runtime \<Rightarrow> build \<Rightarrow> tx \<Rightarrow> pubkey \<Rightarrow> pubkey \<Rightarrow> pubkey \<Rightarrow> pubkey \<Rightarrow> pubkey list \<Rightarrow> bytes32 \<Rightarrow>
   u16 \<Rightarrow> world \<Rightarrow> fault + world" where
  "reset_identity_state rt b t authority identity_key config_key treasury remaining
     new_commitment projection_version w =
     and_then (reset_accounts rt b t authority identity_key config_key treasury remaining w)
       (\<lambda>(receipt_accounts, w).
     require (new_commitment \<noteq> 0) (AnchorErr InvalidCommitment)
    (require (owner_of w identity_key = anchor_id b) (AnchorErr InvalidIdentityState)
    (let now = clock t in
     and_then (grow_identity rt identity_key authority w) (\<lambda>w.
     and_then (load_identity rt identity_key authority w) (\<lambda>identity.
     require (RESET_COOLDOWN_SECS \<le>
         sint (saturating_sub_i64 now (id_last_reset_timestamp identity)))
       (AnchorErr ResetCooldownActive)
    (and_then (read_receipt_config config_key w) (\<lambda>(policy, fee, keys).
     and_then (map_err AnchorErr (validate_requested_projection projection_version policy)) (\<lambda>_.
     require (length receipt_accounts = 1) (AnchorErr InvalidResetReceiptAccounts)
    (require (receipt_accounts ! 0 = instructions_sysvar_id rt)
       (AnchorErr InvalidResetReceiptAccounts)
    (and_then (verify_validator_receipt t keys authority new_commitment Reset
         (pp_current policy) now) (\<lambda>session.
     finish_reset rt authority identity_key treasury fee
       (reset_identity now new_commitment (pp_current policy) identity) new_commitment
       (pp_current policy) session w)))))))))))"

section \<open>Rebaselining\<close>

definition rebaselined_identity ::
  "i64 \<Rightarrow> bytes32 \<Rightarrow> u16 \<Rightarrow> identity_state \<Rightarrow> identity_state" where
  "rebaselined_identity now commitment version identity =
     identity\<lparr>id_current_commitment := commitment, id_projection_version := version,
       id_last_rebaseline_timestamp := now, id_last_verification_timestamp := now\<rparr>"

definition rebaseline_accounts ::
  "runtime \<Rightarrow> build \<Rightarrow> tx \<Rightarrow> pubkey \<Rightarrow> pubkey \<Rightarrow> pubkey \<Rightarrow> pubkey \<Rightarrow> pubkey list \<Rightarrow> world \<Rightarrow>
   fault + world" where
  "rebaseline_accounts rt b t authority identity_key config_key treasury remaining w =
     mut_signer t authority
    (mut_account t identity_key
    (with_seeds rt (identity_seeds authority) (anchor_id b) identity_key
    (config_treasury_context rt t config_key treasury
      (if request_bound_v1 b then
         case remaining of
           [state_key] \<Rightarrow> advance rt b t state_key authority authority w
         | _ \<Rightarrow> Inl (AnchorErr entros_anchor_error.InvalidRequestContext)
       else Inr w))))"

definition rebaseline_anchor ::
  "runtime \<Rightarrow> build \<Rightarrow> tx \<Rightarrow> pubkey \<Rightarrow> pubkey \<Rightarrow> pubkey \<Rightarrow> pubkey \<Rightarrow> pubkey list \<Rightarrow> bytes32 \<Rightarrow>
   u16 \<Rightarrow> world \<Rightarrow> fault + world" where
  "rebaseline_anchor rt b t authority identity_key config_key treasury remaining
     new_commitment projection_version w =
     and_then (rebaseline_accounts rt b t authority identity_key config_key treasury remaining w)
       (\<lambda>w.
     require (new_commitment \<noteq> 0) (AnchorErr InvalidCommitment)
    (require (owner_of w identity_key = anchor_id b) (AnchorErr InvalidIdentityState)
    (let now = clock t in
     and_then (grow_identity rt identity_key authority w) (\<lambda>w.
     and_then (load_identity rt identity_key authority w) (\<lambda>identity.
     and_then (read_receipt_config config_key w) (\<lambda>(policy, fee, keys).
     and_then (map_err AnchorErr (validate_requested_projection projection_version policy)) (\<lambda>_.
     require (id_projection_version identity < pp_current policy)
       (AnchorErr ProjectionVersionNotAdvanced)
    (require (REBASELINE_COOLDOWN_SECS \<le>
         sint (saturating_sub_i64 now (id_last_rebaseline_timestamp identity)))
       (AnchorErr RebaselineCooldownActive)
    (and_then (verify_validator_receipt t keys authority new_commitment Rebaseline
         (pp_current policy) now) (\<lambda>session.
     let identity = rebaselined_identity now new_commitment (pp_current policy) identity in
     and_then (save_identity rt identity_key identity w) (\<lambda>w.
     and_then (pay_fee rt authority treasury fee w) (\<lambda>w.
     Inr (emit_receipt_session (id_owner identity) Rebaseline (pp_current policy) session
       (emit (AnchorRebaselined (id_owner identity) new_commitment (pp_current policy)) w))))))))))))))"

section \<open>The encrypted baseline\<close>

definition baseline_seeds :: "pubkey \<Rightarrow> byte list list" where
  "baseline_seeds k = [ascii ''encrypted_baseline'', elems k]"

definition baseline_account ::
  "runtime \<Rightarrow> build \<Rightarrow> tx \<Rightarrow> pubkey \<Rightarrow> pubkey \<Rightarrow> world \<Rightarrow> fault + world" where
  "baseline_account rt b t authority key w =
     with_seeds rt (baseline_seeds authority) (anchor_id b) key
      (if owner_of w key = system_program_id rt
       then init_typed rt authority key encrypted_baseline_len (anchor_id b) w
       else and_then (load_typed rt (anchor_id b) (try_encrypted_baseline rt) key w)
         (\<lambda>_. mut_account t key
            (require (length (data_of w key) = encrypted_baseline_len)
               (FrameworkErr ConstraintSpace)
            (require (minimum_balance rt encrypted_baseline_len \<le> lamports_of w key)
               (FrameworkErr ConstraintRentExempt) (Inr w)))))"

definition set_encrypted_baseline ::
  "runtime \<Rightarrow> build \<Rightarrow> tx \<Rightarrow> pubkey \<Rightarrow> pubkey \<Rightarrow> pubkey \<Rightarrow> (byte, 96) arr \<Rightarrow> world \<Rightarrow>
   fault + world" where
  "set_encrypted_baseline rt b t authority identity_key key blob w =
     mut_signer t authority
    (with_seeds rt (identity_seeds authority) (anchor_id b) identity_key
    (and_then (baseline_account rt b t authority key w) (\<lambda>w.
     require (0 < length (data_of w identity_key)) (AnchorErr IdentityStateNotFound)
      (exit_typed (encrypted_baseline_bytes rt \<lparr>eb_blob = blob,
           eb_bump = pda_bump rt (baseline_seeds authority) (anchor_id b)\<rparr>) key
         (emit (EncryptedBaselineSet authority) w)))))"

end
