(* ===== verification/Demo.thy ===== *)
theory Demo
  imports Anchor_Program
begin

text \<open>
  A concrete runtime: the parameters of the model instantiated by small executable
  functions, on which the operations can be run. The theorems are applied to it, so that
  their hypotheses (the laws of the runtime among them) are seen to hold together.
\<close>

section \<open>The runtime\<close>

definition demo_key :: "byte \<Rightarrow> pubkey" where
  "demo_key n = arr_of (n # replicate 30 7 @ [n])"

definition demo_hash :: "byte list \<Rightarrow> bytes32" where
  "demo_hash bs =
     (if bs = ascii ''account:VerificationResult'' then arr_of VERIFICATION_RESULT_DISCRIMINATOR
      else arr_of (of_nat (length bs) # take 15 (drop 8 bs) @ take 16 bs))"

definition demo_system :: pubkey where "demo_system = 0"

definition demo_find :: "byte list list \<Rightarrow> pubkey \<Rightarrow> pubkey \<times> byte" where
  "demo_find seeds p = (demo_hash (concat seeds @ elems p), 255)"

definition demo_create :: "byte list list \<Rightarrow> pubkey \<Rightarrow> pubkey option" where
  "demo_create seeds p =
     (if seeds \<noteq> [] \<and> last seeds = [255] then Some (demo_hash (concat (butlast seeds) @ elems p))
      else None)"

definition demo_set_data :: "nat \<Rightarrow> account \<Rightarrow> account" where
  "demo_set_data n a = a\<lparr>acc_data := take n (acc_data a) @ replicate (n - length (acc_data a)) 0\<rparr>"

fun demo_cpi :: "cpi \<Rightarrow> accounts \<Rightarrow> nat + accounts" where
  "demo_cpi (SystemTransfer src dst n seeds) A =
     (if src = dst then Inr A
      else if uint (acc_lamports (A src)) < uint n
        \<or> 2 ^ 64 \<le> uint (acc_lamports (A dst)) + uint n then Inl 1
      else Inr (A(src := (A src)\<lparr>acc_lamports := acc_lamports (A src) - n\<rparr>,
                  dst := (A dst)\<lparr>acc_lamports := acc_lamports (A dst) + n\<rparr>)))"
| "demo_cpi (SystemAllocate k n seeds) A =
     (if acc_owner (A k) \<noteq> demo_system \<or> acc_data (A k) \<noteq> [] then Inl 0
      else Inr (A(k := demo_set_data n (A k))))"
| "demo_cpi (SystemAssign k p seeds) A =
     (if acc_owner (A k) \<noteq> demo_system \<or> \<not> blank (acc_data (A k)) then Inl 0
      else Inr (A(k := (A k)\<lparr>acc_owner := p\<rparr>)))"
| "demo_cpi (SystemCreateAccount payer k n space p seeds) A =
     (if acc_owner (A k) \<noteq> demo_system \<or> acc_data (A k) \<noteq> [] then Inl 0
      else Inr (A(k := \<lparr>acc_owner = p, acc_lamports = n, acc_data = replicate space 0\<rparr>)))"
| "demo_cpi (TokenProgram p ix seeds) A = Inr A"
| "demo_cpi (CreateTokenAccount idem payer k user mint p) A = Inr A"

definition demo_init :: "pubkey \<Rightarrow> pubkey \<Rightarrow> nat \<Rightarrow> pubkey \<Rightarrow> accounts \<Rightarrow> nat + accounts" where
  "demo_init payer k space p A =
     (if acc_owner (A k) \<noteq> demo_system \<or> acc_data (A k) \<noteq> [] then Inl 0
      else Inr (A(k := \<lparr>acc_owner = p, acc_lamports = max 1000 (acc_lamports (A k)),
         acc_data = replicate space 0\<rparr>)))"

definition demo_close :: "pubkey \<Rightarrow> pubkey \<Rightarrow> accounts \<Rightarrow> nat + accounts" where
  "demo_close k dest A =
     Inr (A(dest := (A dest)\<lparr>acc_lamports := acc_lamports (A dest) + acc_lamports (A k)\<rparr>,
       k := \<lparr>acc_owner = demo_system, acc_lamports = 0, acc_data = []\<rparr>))"

definition demo_runtime :: runtime where
  "demo_runtime =
     \<lparr>sha256 = demo_hash, find_program_address = demo_find, create_program_address = demo_create,
      minimum_balance = (\<lambda>n. 1000), run_cpi = demo_cpi,
      realloc = (\<lambda>n a. Inr (demo_set_data n a)),
      realloc_account = (\<lambda>payer k n A. Inr (A(k := demo_set_data n (A k)))),
      init_account = demo_init, close_account = demo_close,
      groth16_verify = (\<lambda>_ _ _ _ _. True),
      tlv_size_of = (\<lambda>_ _ _. Inr 200), mint_account_len = (\<lambda>_. Inr 300),
      is_mint = (\<lambda>_. True), is_associated_token = (\<lambda>_ _ _ _ _. True),
      token_program_ids = [demo_key 201, demo_key 202], system_program_id = demo_system,
      bpf_loader_upgradeable_id = demo_key 203, instructions_sysvar_id = demo_key 204\<rparr>"

lemmas demo_laws_def = demo_runtime_def realloc_law_def transfer_law_def transfer_amount_law_def
  realloc_account_law_def init_law_def close_law_def pda_law_def demo_set_data_def demo_init_def
  demo_close_def demo_find_def demo_create_def pda_bump_def pda_key_def

lemma demo_realloc_law: "realloc_law demo_runtime"
  by (simp add: demo_laws_def)

lemma demo_transfer_law: "transfer_law demo_runtime"
  by (auto simp: demo_laws_def split: if_splits)

lemma demo_realloc_account_law: "realloc_account_law demo_runtime"
  by (auto simp: demo_laws_def)

lemma demo_init_law: "init_law demo_runtime"
  by (auto simp: demo_laws_def max_def split: if_splits)

lemma demo_close_law: "close_law demo_runtime"
  by (auto simp: demo_laws_def)

lemma demo_pda_law: "pda_law demo_runtime"
  by (simp add: demo_laws_def)

lemma demo_foreign_law: "p \<noteq> demo_system \<Longrightarrow> foreign_law demo_runtime p"
  unfolding foreign_law_def
proof (intro allI impI)
  fix c A A' k
  assume "p \<noteq> demo_system" "run_cpi demo_runtime c A = Inr A'"
  then show "(acc_owner (A k) = p \<longrightarrow> acc_data (A' k) = acc_data (A k) \<and> acc_owner (A' k) = p) \<and>
    (acc_owner (A k) \<noteq> p \<longrightarrow> acc_owner (A' k) = p \<longrightarrow> blank (acc_data (A' k)))"
    by (cases c) (auto simp: demo_laws_def blank_def split: if_splits)
qed

lemma demo_transfer_amount_law: "transfer_amount_law demo_runtime"
  by (auto simp: demo_laws_def uint_sub_if' uint_plus_if' word_size not_le not_less split: if_splits)

section \<open>The participants\<close>

definition demo_build :: "bool \<Rightarrow> build" where
  "demo_build bound = \<lparr>request_bound_v1 = bound, anchor_id = demo_key 101,
     verifier_id = demo_key 102, deployment_domain = demo_key 103,
     bound_verifying_key = VERIFYINGKEY\<rparr>"

definition demo_wallet :: pubkey where "demo_wallet = demo_key 1"
definition demo_admin :: pubkey where "demo_admin = demo_key 2"
definition demo_validator :: pubkey where "demo_validator = demo_key 3"
definition demo_commitment :: "byte \<Rightarrow> bytes32" where
  "demo_commitment n = arr_of (replicate 31 1 @ [n])"

definition demo_nonce :: bytes32 where "demo_nonce = demo_key 5"

definition demo_pda :: "byte list list \<Rightarrow> pubkey" where
  "demo_pda seeds = fst (demo_find seeds (demo_key 101))"

definition demo_identity_key :: pubkey where
  "demo_identity_key = demo_pda (identity_seeds demo_wallet)"

definition demo_config_key :: pubkey where
  "demo_config_key = fst (demo_find protocol_config_seeds registry_program_id)"

definition demo_treasury_key :: pubkey where
  "demo_treasury_key = fst (demo_find protocol_treasury_seeds registry_program_id)"

definition demo_result_key :: pubkey where
  "demo_result_key = fst (demo_find (verification_seeds demo_wallet demo_nonce) (demo_key 102))"

definition demo_config :: protocol_config where
  "demo_config =
     \<lparr>pc_admin = demo_admin, pc_min_stake = 100, pc_challenge_expiry = 300,
      pc_max_trust_score = 10000, pc_base_trust_increment = 100, pc_bump = 255,
      pc_verification_fee = 10, pc_migration_fee = 20, pc_validator_pubkey = demo_validator,
      pc_current_projection_version = 2, pc_minimum_supported_projection_version = 1,
      pc_pending_authority = 0, pc_secondary_validator_pubkey = 0,
      pc_secondary_validator_valid_until = 0\<rparr>"

definition demo_identity :: identity_state where
  "demo_identity =
     \<lparr>id_owner = demo_wallet, id_creation_timestamp = 1700000000,
      id_last_verification_timestamp = 1700000000, id_verification_count = 1,
      id_trust_score = 100, id_current_commitment = demo_commitment 1,
      id_mint = demo_pda (mint_seeds demo_wallet), id_bump = 255,
      id_recent_timestamps = arr_of [1700000000], id_last_reset_timestamp = 0,
      id_new_wallet = 0, id_projection_version = 1, id_last_rebaseline_timestamp = 0\<rparr>"

definition demo_result :: verification_result where
  "demo_result =
     \<lparr>vr_verifier = demo_wallet, vr_proof_hash = 0, vr_verified_at = 1700700000,
      vr_is_valid = True, vr_challenge_nonce = demo_nonce, vr_bump = 255,
      vr_commitment_new = demo_commitment 2, vr_commitment_prev = demo_commitment 1,
      vr_threshold = 90, vr_min_distance = 10\<rparr>"

definition demo_request_key :: pubkey where
  "demo_request_key = demo_pda (request_state_seeds demo_wallet)"

definition demo_bound_key :: pubkey where
  "demo_bound_key = fst (demo_find (bound_seeds demo_wallet demo_nonce) (demo_key 102))"

definition demo_request :: request_state where
  "demo_request = \<lparr>rs_version = 1, rs_wallet = demo_wallet, rs_counter = 7, rs_bump = 255\<rparr>"

definition demo_action :: action where
  "demo_action =
     \<lparr>ac_identity = demo_identity_key, ac_mint = demo_pda (mint_seeds demo_wallet),
      ac_counter = 7, ac_projection = 1, ac_commitment_new = demo_commitment 2,
      ac_commitment_prev = demo_commitment 1, ac_threshold = 90, ac_min_distance = 10,
      ac_valid_until = 1700700200\<rparr>"

definition demo_bound_result :: bound_result where
  "demo_bound_result =
     \<lparr>br_version = 1, br_wallet = demo_wallet, br_nonce = demo_nonce,
      br_commitment_new = demo_commitment 2, br_commitment_prev = demo_commitment 1,
      br_threshold = 90, br_min_distance = 10, br_counter = 7, br_valid_until = 1700700200,
      br_verified_at = 1700700000,
      br_request_digest = (case request_digest demo_runtime (demo_key 103) (demo_key 102)
        (demo_key 101) demo_wallet demo_nonce demo_action of Some digest \<Rightarrow> digest | None \<Rightarrow> 0),
      br_bump = 255\<rparr>"

definition demo_account :: "pubkey \<Rightarrow> byte list \<Rightarrow> account" where
  "demo_account p d = \<lparr>acc_owner = p, acc_lamports = 5000, acc_data = d\<rparr>"

text \<open>
  The registry configured; an identity; a result of each proof generation, and the
  request counter. Every other account is an empty system account.
\<close>

definition demo_world :: world where
  "demo_world =
     \<lparr>accs = (\<lambda>k. demo_account demo_system [])
        (demo_identity_key := demo_account (demo_key 101) (identity_bytes demo_runtime demo_identity),
         demo_config_key := demo_account registry_program_id (config_bytes demo_runtime demo_config),
         demo_result_key :=
           demo_account (demo_key 102) (verification_result_bytes demo_runtime demo_result),
         demo_bound_key :=
           demo_account (demo_key 102) (bound_result_bytes demo_runtime demo_bound_result),
         demo_request_key :=
           demo_account (demo_key 101) (request_state_bytes demo_runtime demo_request)),
      cpis = [], events = []\<rparr>"

lemma demo_keys_distinct:
  "distinct [demo_identity_key, demo_config_key, demo_result_key, demo_bound_key,
     demo_request_key, demo_treasury_key, demo_wallet, demo_admin]"
  by code_simp

lemma demo_data:
  "data_of demo_world demo_identity_key = identity_bytes demo_runtime demo_identity"
  "data_of demo_world demo_config_key = config_bytes demo_runtime demo_config"
  "data_of demo_world demo_result_key = verification_result_bytes demo_runtime demo_result"
  "data_of demo_world demo_bound_key = bound_result_bytes demo_runtime demo_bound_result"
  "data_of demo_world demo_request_key = request_state_bytes demo_runtime demo_request"
  using demo_keys_distinct by (auto simp: data_of_def demo_world_def demo_account_def)

lemma demo_owner:
  "owner_of demo_world demo_identity_key = demo_key 101"
  "owner_of demo_world demo_config_key = registry_program_id"
  "owner_of demo_world demo_result_key = demo_key 102"
  "owner_of demo_world demo_bound_key = demo_key 102"
  "owner_of demo_world demo_request_key = demo_key 101"
  using demo_keys_distinct by (auto simp: owner_of_def demo_world_def demo_account_def)

lemma demo_lamports: "lamports_of demo_world k = 5000"
  by (simp add: lamports_of_def demo_world_def demo_account_def)

lemma typed_bytes:
  "try_identity rt (identity_bytes rt s) = Inr s"
  "try_config rt (config_bytes rt c) = Inr c"
  "try_verification_result rt (verification_result_bytes rt r) = Inr r"
  "try_bound_result rt (bound_result_bytes rt q) = Inr q"
  "try_request_state rt (request_state_bytes rt n) = Inr n"
  by (simp_all add: try_identity_def identity_bytes_def identity.deserialize_serialize'
      try_config_def config_bytes_def config.deserialize_serialize'
      try_verification_result_def verification_result_bytes_def
      verification_result.deserialize_serialize'
      try_bound_result_def bound_result_bytes_def bound_result.deserialize_serialize'
      try_request_state_def request_state_bytes_def request_state.deserialize_serialize')

lemma length_typed_bytes:
  "length (identity_bytes rt s) = 593"
  "length (config_bytes rt c) = 185"
  "length (verification_result_bytes rt r) = 182"
  "length (bound_result_bytes rt q) = 198"
  "length (request_state_bytes rt n) = 50"
  by (simp_all add: identity_bytes_def identity.length_serialize identity_widths_def
      config_bytes_def config.length_serialize config_widths_def
      verification_result_bytes_def verification_result.length_serialize
      verification_result_widths_def bound_result_bytes_def bound_result.length_serialize
      bound_result_widths_def request_state_bytes_def request_state.length_serialize
      request_state_widths_def)

definition demo_receipt :: update_receipt_args where
  "demo_receipt = \<lparr>ur_validated_at = 1700700050, ur_assurance_tier = 1,
     ur_session_final_digest = None\<rparr>"

definition demo_ed25519 :: "byte list \<Rightarrow> instruction" where
  "demo_ed25519 message =
     \<lparr>ix_program_id = ED25519_PROGRAM_ID,
      ix_data = [1, 0, 80, 0, 255, 255, 16, 0, 255, 255, 48, 0, of_nat (length message), 0, 255, 255]
        @ elems demo_validator @ message\<rparr>"

definition demo_tx :: "i64 \<Rightarrow> byte list \<Rightarrow> tx" where
  "demo_tx now message =
     \<lparr>clock = now, is_signer = (\<lambda>k. True), is_writable = (\<lambda>k. True), cur_ix = 1,
      ix_at = (\<lambda>i. if i = 0 then Some (demo_ed25519 message) else None)\<rparr>"

definition demo_update_tx :: tx where
  "demo_update_tx = demo_tx 1700700100
     (case compute_update_receipt_v4_digest demo_runtime demo_wallet (demo_commitment 2) 1
         demo_receipt of Inr digest \<Rightarrow> elems digest | Inl _ \<Rightarrow> [])"

definition demo_update_accounts :: update_accounts where
  "demo_update_accounts =
     \<lparr>ua_authority = demo_wallet, ua_identity = demo_identity_key,
      ua_verification_result = demo_result_key, ua_protocol_config = demo_config_key,
      ua_treasury = demo_treasury_key, ua_verifier_program = demo_key 102\<rparr>"

lemma demo_config_loaded:
  "load_typed demo_runtime registry_program_id (try_config demo_runtime) demo_config_key
     demo_world = Inr demo_config"
  by (simp add: load_typed_Inr demo_data demo_owner demo_lamports typed_bytes)

lemma demo_config_pda:
  "create_program_address demo_runtime (protocol_config_seeds @ [[pc_bump demo_config]])
     registry_program_id = Some demo_config_key"
  by (simp add: demo_runtime_def demo_create_def demo_config_def demo_config_key_def demo_find_def)

lemma demo_treasury_pda:
  "pda_key demo_runtime protocol_treasury_seeds registry_program_id = demo_treasury_key"
  by (simp add: demo_runtime_def pda_key_def demo_treasury_key_def)

end
