(* ===== verification/Layout_Correct.thy ===== *)
theory Layout_Correct
  imports Demo
begin

text \<open>
  The account layouts across the programs. Each program reads accounts of the others as
  raw bytes at literal offsets; the lemmas show that those reads see the fields that the
  owning program wrote, and what happens to identities of earlier layouts.
\<close>

section \<open>Raw reads of the protocol configuration\<close>

lemma config_raw:
  assumes "try_config rt d = Inr c"
  shows "slice 8 32 d = elems (pc_admin c)"
    and "slice 56 2 d = u16_le (pc_max_trust_score c)"
    and "slice 58 2 d = u16_le (pc_base_trust_increment c)"
    and "slice 61 8 d = u64_le (pc_verification_fee c)"
    and "slice 69 8 d = u64_le (pc_migration_fee c)"
    and "slice 77 32 d = elems (pc_validator_pubkey c)"
    and "slice 109 2 d = u16_le (pc_current_projection_version c)"
    and "slice 111 2 d = u16_le (pc_minimum_supported_projection_version c)"
    and "slice 113 32 d = elems (pc_pending_authority c)"
    and "slice 145 32 d = elems (pc_secondary_validator_pubkey c)"
    and "slice 177 8 d = u64_le (pc_secondary_validator_valid_until c)"
  using config.fields_of_data [OF _ assms [unfolded try_config_def]]
  by (simp_all add: config_widths_def config_fields_def upt_rec)

lemma config_length: "try_config rt d = Inr c \<Longrightarrow> config_len \<le> length d"
  using config.deserialize_sound(1) [of "config_disc rt" d c]
  by (simp add: try_config_def config_widths_def config_consts)

lemma registry_config_reads:
  assumes "load_typed rt registry_program_id (try_config rt) k w = Inr c"
  defines "keys \<equiv> \<lparr>vk_primary = pc_validator_pubkey c,
      vk_secondary = pc_secondary_validator_pubkey c,
      vk_secondary_valid_until = pc_secondary_validator_valid_until c\<rparr>"
    and "policy \<equiv> ProjectionPolicy (pc_current_projection_version c)
      (pc_minimum_supported_projection_version c)"
  shows "read_receipt_config k w =
      (if pp_minimum policy \<le> pp_current policy
       then Inr (policy, pc_verification_fee c, keys)
       else Inl (AnchorErr entros_anchor_error.InvalidProtocolConfig)) \<and>
    read_update_config k version w =
      (if \<not> pp_minimum policy \<le> pp_current policy
       then Inl (AnchorErr entros_anchor_error.InvalidProtocolConfig)
       else if version < pp_minimum policy then Inl (AnchorErr ProjectionVersionTooOld)
       else if pp_current policy < version then Inl (AnchorErr ProjectionVersionTooNew)
       else Inr \<lparr>uc_policy = policy, uc_max_trust_score = pc_max_trust_score c,
         uc_base_trust_increment = pc_base_trust_increment c,
         uc_verification_fee = pc_verification_fee c, uc_keys = keys\<rparr>) \<and>
    migration_fee k w = Inr (pc_migration_fee c)"
proof -
  from assms(1) have owner: "owner_of w k = registry_program_id"
    and c: "try_config rt (data_of w k) = Inr c"
    by (auto simp: res_simps)
  note raw = config_raw [OF c]
  have len: "185 \<le> length (data_of w k)"
    using config_length [OF c] by (simp add: config_consts)
  have keys: "read_validator_key_policy (data_of w k) = keys"
    using len by (simp add: read_validator_key_policy_def pc_consts raw keys_def u64_le.dec_enc)
  have policy: "read_projection_policy (data_of w k) =
      (if pp_minimum policy \<le> pp_current policy then Inr policy
       else Inl entros_anchor_error.InvalidProtocolConfig)"
    using len by (simp add: read_projection_policy_def pc_consts raw policy_def u16_le.dec_enc)
  show ?thesis
    using len by (auto simp: read_receipt_config_def read_update_config_def migration_fee_def
        owner keys policy raw u16_le.dec_enc u64_le.dec_enc validate_identity_projection_def
        Let_def not_le not_less require_def)
qed

text \<open>
  C25: entros-anchor reads the configuration account as entros-registry wrote it. On
  every account that the registry accepts as a \<open>ProtocolConfig\<close>, the raw reads of the
  anchor's instructions return the projection window, the fees, the score parameters and
  the validator keys of the typed account, and reject exactly the inverted windows.
\<close>

theorem anchor_reads_registry_config:
  assumes "load_typed rt registry_program_id (try_config rt) k w = Inr c"
  defines "keys \<equiv> \<lparr>vk_primary = pc_validator_pubkey c,
      vk_secondary = pc_secondary_validator_pubkey c,
      vk_secondary_valid_until = pc_secondary_validator_valid_until c\<rparr>"
    and "policy \<equiv> ProjectionPolicy (pc_current_projection_version c)
      (pc_minimum_supported_projection_version c)"
  shows "read_receipt_config k w =
      (if pp_minimum policy \<le> pp_current policy
       then Inr (policy, pc_verification_fee c, keys)
       else Inl (AnchorErr entros_anchor_error.InvalidProtocolConfig)) \<and>
    read_update_config k version w =
      (if \<not> pp_minimum policy \<le> pp_current policy
       then Inl (AnchorErr entros_anchor_error.InvalidProtocolConfig)
       else if version < pp_minimum policy then Inl (AnchorErr ProjectionVersionTooOld)
       else if pp_current policy < version then Inl (AnchorErr ProjectionVersionTooNew)
       else Inr \<lparr>uc_policy = policy, uc_max_trust_score = pc_max_trust_score c,
         uc_base_trust_increment = pc_base_trust_increment c,
         uc_verification_fee = pc_verification_fee c, uc_keys = keys\<rparr>) \<and>
    migration_fee k w = Inr (pc_migration_fee c)"
  unfolding keys_def policy_def by (rule registry_config_reads [OF assms(1)])

theorem anchor_reads_registry_config_witness:
  "read_receipt_config demo_config_key demo_world = Inr (ProjectionPolicy 2 1, 10,
     \<lparr>vk_primary = demo_validator, vk_secondary = 0, vk_secondary_valid_until = 0\<rparr>) \<and>
   migration_fee demo_config_key demo_world = Inr 20"
  using anchor_reads_registry_config [OF demo_config_loaded, of 1]
  by (simp add: demo_config_def)

section \<open>Raw reads of a verification result\<close>

lemma verification_result_raw:
  assumes "try_verification_result rt d = Inr r"
  shows "slice 8 32 d = elems (vr_verifier r)"
    and "slice 72 8 d = u64_le (vr_verified_at r)"
    and "slice 81 32 d = elems (vr_challenge_nonce r)"
    and "slice 113 1 d = [vr_bump r]"
    and "slice 114 32 d = elems (vr_commitment_new r)"
    and "slice 146 32 d = elems (vr_commitment_prev r)"
    and "slice 0 8 d = verification_result_disc rt"
    and "182 \<le> length d"
proof -
  note typed = assms [unfolded try_verification_result_def]
  note fields = verification_result.fields_of_data [OF _ typed]
  show "slice 8 32 d = elems (vr_verifier r)" "slice 72 8 d = u64_le (vr_verified_at r)"
    "slice 81 32 d = elems (vr_challenge_nonce r)" "slice 113 1 d = [vr_bump r]"
    "slice 114 32 d = elems (vr_commitment_new r)" "slice 146 32 d = elems (vr_commitment_prev r)"
    using fields
    by (simp_all add: verification_result_widths_def verification_result_fields_def upt_rec)
  show "slice 0 8 d = verification_result_disc rt"
    using typed by (auto simp: deserialize_def slice_def split: if_splits)
  show "182 \<le> length d"
    using verification_result.deserialize_sound(1) [OF typed]
    by (simp add: verification_result_widths_def)
qed

lemma nth_of_slice: "slice a 1 d = [x] \<Longrightarrow> d ! a = x"
  by (cases "a < length d") (simp_all add: slice_def take_Suc_conv_app_nth hd_drop_conv_nth
      take_Suc nth_via_drop)

section \<open>Raw reads of an identity\<close>

lemma identity_raw:
  assumes "try_identity rt d = Inr s"
  shows "slice 8 32 d = elems (id_owner s)"
    and "slice 62 32 d = elems (id_current_commitment s)"
    and "slice 94 32 d = elems (id_mint s)"
    and "slice 126 1 d = [id_bump s]"
    and "slice 583 2 d = u16_le (id_projection_version s)"
    and "take 8 d = identity_disc rt"
    and "identity_len \<le> length d"
proof -
  note typed = assms [unfolded try_identity_def]
  note fields = identity.fields_of_data [OF _ typed]
  show "slice 8 32 d = elems (id_owner s)" "slice 62 32 d = elems (id_current_commitment s)"
    "slice 94 32 d = elems (id_mint s)" "slice 126 1 d = [id_bump s]"
    "slice 583 2 d = u16_le (id_projection_version s)"
    using fields by (simp_all add: identity_widths_def identity_fields_def upt_rec)
  show "take 8 d = identity_disc rt"
    using typed by (auto simp: deserialize_def split: if_splits)
  show "identity_len \<le> length d"
    using identity.deserialize_sound(1) [OF typed]
    by (simp add: identity_widths_def identity_len_def)
qed

lemma bound_identity_typed:
  assumes "try_identity rt d = Inr s" "length d = identity_len"
  shows "bound_identity rt b wallet prev d =
    (if id_owner s = wallet \<and> id_current_commitment s = prev
        \<and> id_bump s = pda_bump rt (identity_seeds wallet) (anchor_id b)
        \<and> id_mint s = pda_key rt (mint_seeds wallet) (anchor_id b)
     then Inr (id_mint s, id_projection_version s)
     else Inl verifier_error.InvalidRequestContext)"
  using identity_raw [OF assms(1)] assms(2) nth_of_slice [of 126 d]
  by (auto simp: bound_identity_def identity_len_def identity_disc_def elems_inject
      u16_le.dec_enc Let_def require_def)

text \<open>
  Entros-verifier reads an identity as entros-anchor stores it. The literal offsets
  of the bound verification see the owner, the commitment, the mint, the bump and the
  projection version of the typed account, so a proof is accepted for a context exactly
  when the identity is the caller's, carries the previous commitment and the derived mint.
\<close>

theorem verifier_reads_identity:
  assumes "try_identity rt d = Inr s" "length d = identity_len"
  shows "bound_identity rt b wallet prev d =
    (if id_owner s = wallet \<and> id_current_commitment s = prev
        \<and> id_bump s = pda_bump rt (identity_seeds wallet) (anchor_id b)
        \<and> id_mint s = pda_key rt (mint_seeds wallet) (anchor_id b)
     then Inr (id_mint s, id_projection_version s)
     else Inl verifier_error.InvalidRequestContext)"
  using assms by (rule bound_identity_typed)

theorem verifier_reads_identity_witness:
  "bound_identity demo_runtime (demo_build True) demo_wallet (demo_commitment 1)
     (identity_bytes demo_runtime demo_identity) = Inr (id_mint demo_identity, 1)"
  using verifier_reads_identity [OF typed_bytes(1), of demo_runtime demo_identity "demo_build True" demo_wallet
      "demo_commitment 1"]
  by (simp add: length_typed_bytes identity_len_def demo_identity_def demo_build_def pda_bump_def
      pda_key_def demo_pda_def demo_find_def demo_runtime_def)

section \<open>Identities of earlier layouts\<close>

lemma try_identity_total:
  assumes "take 8 d = identity_disc rt" "identity_len \<le> length d"
  shows "\<exists>s. try_identity rt d = Inr s"
proof -
  have len: "sum_list identity_widths \<le> length (drop 8 d)"
    using assms(2) by (simp add: identity_widths_def identity_len_def)
  from split_fields_some [OF len] obtain fs where
    fs: "split_fields identity_widths (drop 8 d) = Some fs" by blast
  then have "length fs = 13"
    using split_fields_sound [OF fs] by (auto simp: identity_widths_def map_eq_Cons_conv)
  then obtain s where "identity_of_fields fs = Some s"
    by (auto simp: identity_of_fields_def length_Suc_conv numeral_eq_Suc)
  then show ?thesis
    using assms fs by (auto simp: try_identity_def deserialize_def identity_len_def)
qed

lemma slice_zeros: "length d \<le> a \<Longrightarrow> slice a n (d @ replicate m 0) = replicate (min n (m - (a - length d))) 0"
  by (simp add: slice_def)

lemma from_le_zeros: "from_le (replicate n 0) = (0 :: 'a::len word)"
  by (induction n) simp_all

text \<open>
  C37: growing an identity of an earlier layout (543, 551 or 583 bytes) to the current
  one always gives a readable identity: its bytes are the old bytes followed by zeros, so
  the fields that the old layout had keep their values and the newer ones (reset time,
  announced wallet, projection version, rebaseline time) start at zero.
\<close>

theorem legacy_identity_decodes:
  assumes "take 8 d = identity_disc rt" "length d \<in> {543, 551, 583}"
  shows "\<exists>s. try_identity rt (d @ replicate (identity_len - length d) 0) = Inr s \<and>
    identity_bytes rt s = d @ replicate (identity_len - length d) 0 \<and>
    id_projection_version s = 0 \<and> id_last_rebaseline_timestamp s = 0 \<and>
    (length d \<le> 551 \<longrightarrow> id_new_wallet s = 0) \<and>
    (length d \<le> 543 \<longrightarrow> id_last_reset_timestamp s = 0)"
proof -
  let ?d = "d @ replicate (identity_len - length d) 0"
  have len: "length ?d = identity_len" using assms(2) by (auto simp: identity_len_def)
  moreover have "take 8 ?d = identity_disc rt" using assms by auto
  ultimately obtain s where s: "try_identity rt ?d = Inr s"
    using try_identity_total by (metis order_refl)
  note typed = s [unfolded try_identity_def]
  have bytes: "identity_bytes rt s = ?d"
    using identity.deserialize_sound(2) [OF typed] len
    by (simp add: identity_bytes_def identity_widths_def identity_len_def)
  have "slice 543 8 ?d = u64_le (id_last_reset_timestamp s)"
    "slice 551 32 ?d = elems (id_new_wallet s)"
    "slice 583 2 ?d = u16_le (id_projection_version s)"
    "slice 585 8 ?d = u64_le (id_last_rebaseline_timestamp s)"
    using identity.fields_of_data [OF _ typed]
    by (simp_all add: identity_widths_def identity_fields_def upt_rec)
  then have "length d \<le> 543 \<Longrightarrow> u64_le (id_last_reset_timestamp s) = replicate 8 0"
    "length d \<le> 551 \<Longrightarrow> elems (id_new_wallet s) = replicate 32 0"
    "u16_le (id_projection_version s) = replicate 2 0"
    "u64_le (id_last_rebaseline_timestamp s) = replicate 8 0"
    using assms(2) by (auto simp: slice_zeros identity_len_def)
  then have "length d \<le> 543 \<Longrightarrow> id_last_reset_timestamp s = 0"
    "length d \<le> 551 \<Longrightarrow> id_new_wallet s = 0"
    "id_projection_version s = 0" "id_last_rebaseline_timestamp s = 0"
    using from_le_zeros [of 8, where ?'a = 64] from_le_zeros [of 2, where ?'a = 16]
    by (metis u64_le.dec_enc, simp add: arr_eq_iff elems_zero, metis u16_le.dec_enc,
        metis u64_le.dec_enc)
  then show ?thesis using s bytes by blast
qed

theorem legacy_identity_decodes_witness:
  "\<exists>s. try_identity demo_runtime (identity_disc demo_runtime @ replicate 585 0) = Inr s \<and>
     id_projection_version s = 0 \<and> id_last_reset_timestamp s = 0"
  using legacy_identity_decodes [of "identity_disc demo_runtime @ replicate 535 0" demo_runtime]
  by (auto simp: identity_len_def replicate_add [symmetric])

end
