(* ===== verification/Effects.thy ===== *)
theory Effects
  imports Runtime
begin

text \<open>
  What the operations of the runtime and of the framework do to the accounts, under the
  laws of the parameters: the lemmas from which the effect of every instruction is read.
\<close>

section \<open>Transfers\<close>

lemma transfer_same:
  assumes "transfer_law rt" "transfer rt src dst n w = Inr w'"
  shows "data_of w' = data_of w" "owner_of w' = owner_of w"
  using transfer_frame [OF assms] by (simp_all add: fun_eq_iff)

lemma transfer_signed_same:
  assumes "transfer_law rt" "transfer_signed rt seeds src dst n w = Inr w'"
  shows "data_of w' = data_of w" "owner_of w' = owner_of w"
  using assms by (auto simp: transfer_law_def transfer_signed_def res_simps data_of_def owner_of_def
      fun_eq_iff)

section \<open>Creating, writing and closing accounts\<close>

lemma store_exact: "length d = length bs \<Longrightarrow> store bs d = bs"
  by (simp add: store_def copy_at_def)

lemma init_effect:
  assumes "init_law rt" "init_typed rt payer k space p w = Inr w'"
  shows "owner_of w k = system_program_id rt" "data_of w k = []"
    and "data_of w' = (data_of w)(k := replicate space 0)" "owner_of w' = (owner_of w)(k := p)"
proof -
  from assms(2) obtain A where A: "init_account rt payer k space p (accs w) = Inr A"
    and w': "w' = w\<lparr>accs := A\<rparr>"
    by (auto simp: init_typed_def res_simps)
  note law = assms(1) [unfolded init_law_def, rule_format, OF A]
  from law show "owner_of w k = system_program_id rt" "data_of w k = []"
    by (auto simp: owner_of_def data_of_def)
  from law show "data_of w' = (data_of w)(k := replicate space 0)"
    "owner_of w' = (owner_of w)(k := p)"
    by (auto simp: owner_of_def data_of_def w' fun_eq_iff)
qed

lemma exit_created:
  assumes "exit_typed bs k (emit e w1) = Inr w'" "data_of w1 = (data_of w)(k := replicate (length bs) 0)"
  shows "data_of w' = (data_of w)(k := bs)" "owner_of w' = owner_of w1"
  using assms by (auto simp: exit_typed_Inr store_exact fun_eq_iff)

lemma exit_created_silent:
  assumes "exit_typed bs k w1 = Inr w'" "data_of w1 = (data_of w)(k := replicate (length bs) 0)"
  shows "data_of w' = (data_of w)(k := bs)" "owner_of w' = owner_of w1"
  using assms by (auto simp: exit_typed_Inr store_exact fun_eq_iff)

lemma close_effect:
  assumes "close_law rt" "close_typed rt k dest w = Inr w'"
  shows "data_of w' = (data_of w)(k := [])" "owner_of w' = (owner_of w)(k := system_program_id rt)"
    and "lamports_of w' k = 0" "events w' = events w" "cpis w' = cpis w"
proof -
  from assms(2) obtain A where A: "close_account rt k dest (accs w) = Inr A"
    and w': "w' = w\<lparr>accs := A\<rparr>"
    by (auto simp: close_typed_def res_simps)
  note law = assms(1) [unfolded close_law_def, rule_format, OF A]
  from law show "data_of w' = (data_of w)(k := [])"
    "owner_of w' = (owner_of w)(k := system_program_id rt)" "lamports_of w' k = 0"
    by (auto simp: w' data_of_def owner_of_def lamports_of_def fun_eq_iff)
  show "events w' = events w" "cpis w' = cpis w" by (simp_all add: w')
qed

end
