(* ===== verification/Transitions.thy ===== *)
theory Transitions
  imports Main
begin

text \<open>
  Transition systems with an invariant, and what follows for their runs when a view of the
  state only grows, when an attribute changes in authorised steps only, when what a state
  holds comes from somewhere: the interfaces through which the properties of single steps
  become properties of runs.
\<close>

locale invariant_system =
  fixes step :: "'s \<Rightarrow> 's \<Rightarrow> bool"
    and inv :: "'s \<Rightarrow> bool"
  assumes step_inv: "inv s \<Longrightarrow> step s s' \<Longrightarrow> inv s'"
begin

lemma run_inv: "step\<^sup>*\<^sup>* s s' \<Longrightarrow> inv s \<Longrightarrow> inv s'"
  by (induction rule: rtranclp_induct) (auto intro: step_inv)

end

locale monotone_system = invariant_system step inv
  for step :: "'s \<Rightarrow> 's \<Rightarrow> bool" and inv :: "'s \<Rightarrow> bool" +
  fixes view :: "'s \<Rightarrow> 'v"
    and le :: "'v \<Rightarrow> 'v \<Rightarrow> bool"
  assumes le_refl: "le x x"
    and le_trans: "le x y \<Longrightarrow> le y z \<Longrightarrow> le x z"
    and step_le: "inv s \<Longrightarrow> step s s' \<Longrightarrow> le (view s) (view s')"
begin

lemma run_le: "step\<^sup>*\<^sup>* s s' \<Longrightarrow> inv s \<Longrightarrow> le (view s) (view s')"
proof (induction rule: rtranclp_induct)
  case base
  then show ?case by (simp add: le_refl)
next
  case (step y z)
  then show ?case using run_inv step_le le_trans by blast
qed

end

text \<open>
  A guarded attribute: it changes only in steps that carry an authorisation. Along a run
  without such a step it keeps its value.
\<close>

locale guarded_attribute = invariant_system step inv
  for step :: "'s \<Rightarrow> 's \<Rightarrow> bool" and inv :: "'s \<Rightarrow> bool" +
  fixes attr :: "'s \<Rightarrow> 'a"
    and authorised :: "'s \<Rightarrow> 's \<Rightarrow> bool"
  assumes step_guard: "inv s \<Longrightarrow> step s s' \<Longrightarrow> attr s' \<noteq> attr s \<Longrightarrow> authorised s s'"
begin

lemma run_unchanged:
  assumes "(\<lambda>s s'. step s s' \<and> \<not> authorised s s')\<^sup>*\<^sup>* s s'" "inv s"
  shows "attr s' = attr s \<and> inv s'"
  using assms
proof (induction rule: rtranclp_induct)
  case base
  then show ?case by simp
next
  case (step y z)
  then show ?case using step_inv step_guard by metis
qed

lemma run_changed:
  assumes "step\<^sup>*\<^sup>* s s'" "inv s" "attr s' \<noteq> attr s"
  shows "\<exists>x y. step\<^sup>*\<^sup>* s x \<and> step x y \<and> authorised x y \<and> step\<^sup>*\<^sup>* y s'"
  using assms
proof (induction rule: converse_rtranclp_induct)
  case base
  then show ?case by simp
next
  case (step x y)
  show ?case
  proof (cases "attr y = attr x")
    case True
    with step have "\<exists>u v. step\<^sup>*\<^sup>* y u \<and> step u v \<and> authorised u v \<and> step\<^sup>*\<^sup>* v s'"
      using step_inv by metis
    with step(1) show ?thesis by (meson converse_rtranclp_into_rtranclp)
  next
    case False
    then show ?thesis using step step_guard by blast
  qed
qed

end

text \<open>
  Provenance: what a state holds was held before the step or came from the step's source.
  Whatever a run ends with was there at its start or entered in one of its steps.
\<close>

locale provenance = invariant_system step inv
  for step :: "'s \<Rightarrow> 's \<Rightarrow> bool" and inv :: "'s \<Rightarrow> bool" +
  fixes holds :: "'s \<Rightarrow> 'a \<Rightarrow> bool"
    and source :: "'s \<Rightarrow> 's \<Rightarrow> 'a \<Rightarrow> bool"
  assumes step_source: "inv s \<Longrightarrow> step s s' \<Longrightarrow> holds s' x \<Longrightarrow> holds s x \<or> source s s' x"
begin

lemma run_source:
  assumes "step\<^sup>*\<^sup>* s s'" "inv s" "holds s' x"
  shows "holds s x \<or> (\<exists>u v. step\<^sup>*\<^sup>* s u \<and> source u v x \<and> step\<^sup>*\<^sup>* v s')"
  using assms
proof (induction rule: converse_rtranclp_induct)
  case base
  then show ?case by simp
next
  case (step u v)
  then have "holds v x \<or> (\<exists>y z. step\<^sup>*\<^sup>* v y \<and> source y z x \<and> step\<^sup>*\<^sup>* z s')"
    using step_inv by blast
  then show ?case
  proof
    assume "holds v x"
    then show ?thesis using step_source step by blast
  next
    assume "\<exists>y z. step\<^sup>*\<^sup>* v y \<and> source y z x \<and> step\<^sup>*\<^sup>* z s'"
    then show ?thesis using step(1) by (meson converse_rtranclp_into_rtranclp)
  qed
qed

end

end
