(* ===== verification/Registry_Correct.thy ===== *)
theory Registry_Correct
  imports Layout_Correct Effects Transitions
begin

text \<open>
  entros-registry as a transition system: one call of any of its instructions is a step,
  and so is whatever another program does without touching the accounts it does not own.
  Each instruction's effect on the accounts is one lemma; the properties are read off them.
\<close>

section \<open>Calls\<close>

text \<open>The instructions of the program, with their accounts and arguments.\<close>

datatype registry_call =
    InitializeProtocol pubkey pubkey u64 i64 u16 u16 u64 pubkey
  | UpdateProtocolConfig pubkey pubkey u64
  | SetValidatorPubkey pubkey pubkey pubkey
  | RotateValidatorPubkey pubkey pubkey pubkey i64
  | ProposeAuthority pubkey pubkey pubkey
  | AcceptAuthority pubkey pubkey
  | SetProjectionVersions pubkey pubkey u16 u16
  | WithdrawTreasury pubkey pubkey pubkey u64
  | MigrateAdmin pubkey pubkey pubkey
  | RegisterValidator pubkey pubkey pubkey pubkey u64
  | ComputeTrustScore pubkey u32 i64 "(i64, 10) arr"
  | UnstakeValidator pubkey pubkey pubkey

fun registry_exec :: "runtime \<Rightarrow> tx \<Rightarrow> registry_call \<Rightarrow> world \<Rightarrow> fault + world" where
  "registry_exec rt t (InitializeProtocol admin k stake expiry max_score increment fee key) w =
     initialize_protocol rt t admin k stake expiry max_score increment fee key w"
| "registry_exec rt t (UpdateProtocolConfig admin k fee) w = update_protocol_config rt t admin k fee w"
| "registry_exec rt t (SetValidatorPubkey admin k key) w = set_validator_pubkey rt t admin k key w"
| "registry_exec rt t (RotateValidatorPubkey admin k key grace) w =
     rotate_validator_pubkey rt t admin k key grace w"
| "registry_exec rt t (ProposeAuthority admin k new_authority) w =
     propose_authority rt t admin k new_authority w"
| "registry_exec rt t (AcceptAuthority signer k) w = accept_authority rt t signer k w"
| "registry_exec rt t (SetProjectionVersions admin k current minimum) w =
     set_projection_versions rt t admin k current minimum w"
| "registry_exec rt t (WithdrawTreasury admin k treasury amount) w =
     withdraw_treasury rt t admin k treasury amount w"
| "registry_exec rt t (MigrateAdmin new_admin k programdata) w =
     migrate_admin rt t new_admin k programdata w"
| "registry_exec rt t (RegisterValidator validator k state_key vault stake) w =
     register_validator rt t validator k state_key vault stake w"
| "registry_exec rt t (ComputeTrustScore k count creation recent) w =
     compute_trust_score rt t k count creation recent w"
| "registry_exec rt t (UnstakeValidator validator state_key vault) w =
     unstake_validator rt t validator state_key vault w"

definition registry_laws :: "runtime \<Rightarrow> bool" where
  "registry_laws rt \<longleftrightarrow> realloc_law rt \<and> transfer_law rt \<and> realloc_account_law rt \<and> init_law rt \<and>
     close_law rt \<and> registry_program_id \<noteq> system_program_id rt \<and>
     config_disc rt \<noteq> validator_state_disc rt"

section \<open>Effects\<close>

text \<open>Growing the configuration appends zeros.\<close>

definition grown :: "byte list \<Rightarrow> byte list" where
  "grown d = d @ replicate (config_len - length d) 0"

lemma length_grown: "length (grown d) = max config_len (length d)"
  by (simp add: grown_def)


lemma ensure_effect:
  assumes "registry_laws rt" "ensure_protocol_config_len rt k payer w = Inr w'"
  shows "data_of w' = (data_of w)(k := grown (data_of w k))" "owner_of w' = owner_of w"
proof -
  have laws: "realloc_law rt" "transfer_law rt"
    using assms(1) by (simp_all add: registry_laws_def)
  have "data_of w' = (data_of w)(k := grown (data_of w k)) \<and> owner_of w' = owner_of w"
  proof (cases "length (data_of w k) < config_len")
    case True
    then obtain w1 where w1: "resize rt k config_len w = Inr w1"
      and w': "w' = w1 \<or> (\<exists>n. transfer rt payer k n w1 = Inr w')"
      using assms(2) by (auto simp: ensure_protocol_config_len_def Let_def and_then_Inr split: if_splits)
    have "data_of w1 = (data_of w)(k := grown (data_of w k))" "owner_of w1 = owner_of w"
      using resize_frame [OF laws(1) w1] True by (auto simp: fun_eq_iff grown_def)
    with w' show ?thesis using transfer_same [OF laws(2)] by metis
  next
    case False
    then show ?thesis
      using assms(2) by (simp add: ensure_protocol_config_len_def grown_def)
  qed
  then show "data_of w' = (data_of w)(k := grown (data_of w k))" "owner_of w' = owner_of w"
    by simp_all
qed

text \<open>A step that rewritten one account of the registry and keeps every owner.\<close>

definition rewritten :: "pubkey \<Rightarrow> byte list \<Rightarrow> world \<Rightarrow> world \<Rightarrow> bool" where
  "rewritten k d w w' \<longleftrightarrow> data_of w' = (data_of w)(k := d) \<and> owner_of w' = owner_of w"

lemma rewritten_set_data:
  "registry_laws rt \<Longrightarrow> ensure_protocol_config_len rt k payer w = Inr w1 \<Longrightarrow>
     rewritten k d w (emit e (set_data k d w1))"
  by (auto simp: rewritten_def fun_eq_iff ensure_effect)

text \<open>The administrator signs the call and is the one stored at offset 8.\<close>

definition by_admin :: "runtime \<Rightarrow> tx \<Rightarrow> pubkey \<Rightarrow> pubkey \<Rightarrow> world \<Rightarrow> bool" where
  "by_admin rt t admin k w \<longleftrightarrow> is_signer t admin \<and> 40 \<le> length (data_of w k) \<and>
     arr_of (slice 8 32 (data_of w k)) = admin \<and>
     pda_key rt protocol_config_seeds registry_program_id = k"

lemma set_validator_effect:
  assumes "registry_laws rt" "set_validator_pubkey rt t admin k key w = Inr w'"
  shows "rewritten k (copy_at 177 (replicate 8 0) (copy_at 145 (replicate 32 0)
      (copy_at 77 (elems key) (grown (data_of w k))))) w w' \<and> by_admin rt t admin k w \<and> key \<noteq> 0"
  using assms(2) rewritten_set_data [OF assms(1)]
  by (auto simp: set_validator_pubkey_def res_simps Let_def config_consts by_admin_def
      ensure_effect [OF assms(1)])

lemma rotate_effect:
  assumes "registry_laws rt" "rotate_validator_pubkey rt t admin k key grace w = Inr w'"
  shows "\<exists>secondary valid_until.
    rotation_secondary (clock t) grace (if 109 \<le> length (data_of w k)
      then arr_of (slice 77 32 (data_of w k)) else 0) key = Inr (secondary, valid_until) \<and>
    rewritten k (copy_at 177 (u64_le valid_until) (copy_at 145 (elems secondary)
      (copy_at 77 (elems key) (grown (data_of w k))))) w w' \<and> by_admin rt t admin k w \<and>
    key \<noteq> 0 \<and> 0 \<le> sint grace \<and> sint grace \<le> max_validator_grace_period_secs"
  using assms(2) rewritten_set_data [OF assms(1)]
  by (auto simp: rotate_validator_pubkey_def res_simps Let_def offset_validator_pubkey_def
      offset_secondary_validator_pubkey_def offset_secondary_validator_valid_until_def by_admin_def
      ensure_effect [OF assms(1)] split: prod.splits)

lemma propose_effect:
  assumes "registry_laws rt" "propose_authority rt t admin k new_authority w = Inr w'"
  shows "rewritten k (copy_at 113 (elems new_authority) (grown (data_of w k))) w w' \<and>
    by_admin rt t admin k w"
  using assms(2) rewritten_set_data [OF assms(1)]
  by (auto simp: propose_authority_def res_simps Let_def offset_pending_authority_def by_admin_def
      ensure_effect [OF assms(1)])

lemma accept_effect:
  assumes "accept_authority rt t signer k w = Inr w'"
  shows "rewritten k (copy_at 113 (replicate 32 0) (copy_at 8 (elems signer) (data_of w k))) w w' \<and>
    is_signer t signer \<and> signer \<noteq> 0 \<and> 145 \<le> length (data_of w k) \<and>
    arr_of (slice 113 32 (data_of w k)) = signer \<and>
    pda_key rt protocol_config_seeds registry_program_id = k"
  using assms
  by (auto simp: accept_authority_def res_simps Let_def offset_pending_authority_def rewritten_def
      fun_eq_iff)

lemma set_projection_effect:
  assumes "registry_laws rt" "set_projection_versions rt t admin k current minimum w = Inr w'"
  shows "\<exists>c m. read_projection_versions (data_of w k) = Inr (c, m) \<and> c \<le> current \<and> m \<le> minimum \<and>
    minimum \<le> current \<and>
    rewritten k (copy_at 111 (u16_le minimum) (copy_at 109 (u16_le current)
      (grown (data_of w k)))) w w' \<and> by_admin rt t admin k w"
  using assms(2) rewritten_set_data [OF assms(1)]
  by (auto simp: set_projection_versions_def res_simps Let_def
      offset_current_projection_version_def offset_minimum_supported_projection_version_def
      by_admin_def validate_projection_transition_def ensure_effect [OF assms(1)])

lemma migrate_admin_effect:
  assumes "registry_laws rt" "migrate_admin rt t new_admin k programdata w = Inr w'"
  shows "rewritten k (copy_at 8 (elems new_admin) (take config_len (grown (data_of w k)))) w w' \<and>
    is_signer t new_admin \<and> 40 \<le> length (data_of w k) \<and>
    upgrade_authority (data_of w programdata) = Inr new_admin \<and>
    programdata = pda_key rt [elems registry_program_id] (bpf_loader_upgradeable_id rt) \<and>
    pda_key rt protocol_config_seeds registry_program_id = k"
proof -
  have laws: "realloc_law rt" "transfer_law rt"
    using assms(1) by (simp_all add: registry_laws_def)
  from assms(2) obtain w1 w3 e where w1: "resize rt k config_len w = Inr w1"
    and w3: "(if lamports_of (set_data k (copy_at 8 (elems new_admin) (data_of w1 k)) w1) k
        < minimum_balance rt config_len
      then transfer rt new_admin k (minimum_balance rt config_len - lamports_of (set_data k
        (copy_at 8 (elems new_admin) (data_of w1 k)) w1) k)
        (set_data k (copy_at 8 (elems new_admin) (data_of w1 k)) w1)
      else Inr (set_data k (copy_at 8 (elems new_admin) (data_of w1 k)) w1)) = Inr w3"
    and w': "w' = emit e w3"
    and guards: "is_signer t new_admin" "40 \<le> length (data_of w k)"
      "upgrade_authority (data_of w programdata) = Inr new_admin"
      "programdata = pda_key rt [elems registry_program_id] (bpf_loader_upgradeable_id rt)"
      "pda_key rt protocol_config_seeds registry_program_id = k"
    unfolding migrate_admin_def migrate_admin_accounts_def Let_def
    by (simp only: raw_config_accounts_Inr require_Inr and_then_Inr map_err_Inr) blast
  define w2 where "w2 = set_data k (copy_at 8 (elems new_admin) (data_of w1 k)) w1"
  from w3 have w3': "w3 = w2 \<or> (\<exists>n. transfer rt new_admin k n w2 = Inr w3)"
    unfolding w2_def [symmetric] by (auto split: if_splits)
  have "take config_len (grown d) = take config_len d @ replicate (config_len - length d) 0" for d
    by (simp add: grown_def)
  then have "data_of w2 = (data_of w)(k := copy_at 8 (elems new_admin)
      (take config_len (grown (data_of w k))))" "owner_of w2 = owner_of w"
    unfolding w2_def using resize_frame [OF laws(1) w1] by (simp_all add: fun_eq_iff)
  with w3' have "rewritten k (copy_at 8 (elems new_admin) (take config_len (grown (data_of w k)))) w w'"
    unfolding rewritten_def w' emit_simps using transfer_same [OF laws(2)] by metis
  with guards show ?thesis by simp
qed

lemma length_config_bytes [simp]: "length (config_bytes rt c) = config_len"
  by (simp add: config_bytes_def config.length_serialize config_widths_def config_consts)

lemma length_validator_state_bytes [simp]:
  "length (validator_state_bytes rt v) = validator_state_len"
  by (simp add: validator_state_bytes_def validator.length_serialize validator_state_widths_def
      validator_state_len_def)


lemma update_config_effect:
  assumes "registry_laws rt" "update_protocol_config rt t admin k fee w = Inr w'"
  shows "\<exists>c. try_config rt (data_of w k) = Inr c \<and> pc_admin c = admin \<and> is_signer t admin \<and>
    owner_of w k = registry_program_id \<and>
    rewritten k (config_bytes rt (c\<lparr>pc_verification_fee := fee\<rparr>)) w w'"
proof -
  from assms(2) obtain c A where c: "try_config rt (data_of w k) = Inr c"
    and guards: "pc_admin c = admin" "is_signer t admin" "owner_of w k = registry_program_id"
    and A: "realloc_account rt admin k config_len (accs w) = Inr A"
    and w': "exit_typed (config_bytes rt (c\<lparr>pc_verification_fee := fee\<rparr>)) k
      (emit (RegistryEvent (ProtocolConfigUpdated admin fee)) (w\<lparr>accs := A\<rparr>)) = Inr w'"
    unfolding update_protocol_config_def update_config_accounts_def Let_def realloc_typed_def
    by (simp only: mut_signer_Inr mut_account_Inr and_then_Inr load_typed_Inr require_Inr
        with_seeds_bump_Inr map_err_Inr) fastforce
  let ?w = "emit (RegistryEvent (ProtocolConfigUpdated admin fee)) (w\<lparr>accs := A\<rparr>)"
  from A assms(1) have "data_of ?w k = take config_len (data_of w k) @
      replicate (config_len - length (data_of w k)) 0"
    and other: "owner_of ?w j = owner_of w j" "j \<noteq> k \<Longrightarrow> data_of ?w j = data_of w j" for j
    by (auto simp: registry_laws_def realloc_account_law_def data_of_def owner_of_def emit_def)
  then have "length (data_of ?w k) = config_len" by simp
  then have "rewritten k (config_bytes rt (c\<lparr>pc_verification_fee := fee\<rparr>)) w w'"
    using w' other by (auto simp: exit_typed_Inr rewritten_def store_exact fun_eq_iff)
  with c guards show ?thesis by blast
qed

text \<open>Creating an account: it was an empty system account and now holds the stored value.\<close>

definition creates :: "runtime \<Rightarrow> pubkey \<Rightarrow> byte list \<Rightarrow> world \<Rightarrow> world \<Rightarrow> bool" where
  "creates rt k d w w' \<longleftrightarrow> owner_of w k = system_program_id rt \<and> data_of w k = [] \<and>
     data_of w' = (data_of w)(k := d) \<and> owner_of w' = (owner_of w)(k := registry_program_id)"




lemma initialize_effect:
  assumes "registry_laws rt"
    and "initialize_protocol rt t admin k stake expiry max_score increment fee key w = Inr w'"
  shows "\<exists>c. creates rt k (config_bytes rt c) w w' \<and> pc_admin c = admin \<and> is_signer t admin \<and>
    pc_current_projection_version c = 0 \<and> pc_minimum_supported_projection_version c = 0 \<and>
    pc_validator_pubkey c = key \<and> key \<noteq> 0 \<and>
    pda_key rt protocol_config_seeds registry_program_id = k"
proof -
  have law: "init_law rt" using assms(1) by (simp add: registry_laws_def)
  define c where "c = \<lparr>pc_admin = admin, pc_min_stake = stake, pc_challenge_expiry = expiry,
      pc_max_trust_score = max_score, pc_base_trust_increment = increment,
      pc_bump = pda_bump rt protocol_config_seeds registry_program_id,
      pc_verification_fee = fee, pc_migration_fee = 0, pc_validator_pubkey = key,
      pc_current_projection_version = 0, pc_minimum_supported_projection_version = 0,
      pc_pending_authority = 0, pc_secondary_validator_pubkey = 0,
      pc_secondary_validator_valid_until = 0\<rparr>"
  from assms(2) obtain w1 where
    w1: "init_typed rt admin k config_len registry_program_id w = Inr w1"
    and w': "exit_typed (config_bytes rt c) k w1 = Inr w'"
    and guards: "is_signer t admin" "key \<noteq> 0"
      "pda_key rt protocol_config_seeds registry_program_id = k"
    unfolding initialize_protocol_def initialize_accounts_def Let_def c_def
    by (simp only: mut_signer_Inr with_seeds_Inr and_then_Inr require_Inr) blast
  note init = init_effect [OF law w1]
  have "creates rt k (config_bytes rt c) w w'"
    using exit_created_silent [OF w'] init by (simp add: creates_def)
  moreover have "pc_admin c = admin \<and> pc_current_projection_version c = 0 \<and>
      pc_minimum_supported_projection_version c = 0 \<and> pc_validator_pubkey c = key"
    by (simp add: c_def)
  ultimately show ?thesis using guards by blast
qed

lemma register_effect:
  assumes "registry_laws rt" "register_validator rt t validator k state_key vault stake w = Inr w'"
  shows "\<exists>c v. try_config rt (data_of w k) = Inr c \<and> pc_min_stake c \<le> stake \<and>
    vs_authority v = validator \<and> vs_stake v = stake \<and> vs_is_active v \<and> is_signer t validator \<and>
    creates rt state_key (validator_state_bytes rt v) w w'"
proof -
  have laws: "init_law rt" "transfer_law rt" using assms(1) by (simp_all add: registry_laws_def)
  define v where "v = \<lparr>vs_authority = validator, vs_stake = stake, vs_registration_time = clock t,
      vs_is_active = True, vs_verifications_performed = 0,
      vs_bump = pda_bump rt (validator_seeds validator) registry_program_id\<rparr>"
  from assms(2) obtain c w1 w2 where c: "try_config rt (data_of w k) = Inr c"
    and w1: "init_typed rt validator state_key validator_state_len registry_program_id w = Inr w1"
    and w2: "transfer rt validator vault stake w1 = Inr w2"
    and w': "exit_typed (validator_state_bytes rt v) state_key
      (emit (RegistryEvent (ValidatorRegistered validator stake)) w2) = Inr w'"
    and guards: "is_signer t validator" "pc_min_stake c \<le> stake"
    unfolding register_validator_def register_accounts_def Let_def v_def
    by (simp only: mut_signer_Inr mut_account_Inr with_seeds_Inr with_seeds_bump_Inr load_typed_Inr
        and_then_Inr require_Inr) blast
  note init = init_effect [OF laws(1) w1] and same = transfer_same [OF laws(2) w2]
  have "creates rt state_key (validator_state_bytes rt v) w w'"
    using exit_created [OF w'] init same by (simp add: creates_def)
  moreover have "vs_authority v = validator \<and> vs_stake v = stake \<and> vs_is_active v"
    by (simp add: v_def)
  ultimately show ?thesis using c guards by blast
qed

lemma unstake_effect:
  assumes "registry_laws rt" "unstake_validator rt t validator state_key vault w = Inr w'"
  shows "\<exists>v. try_validator_state rt (data_of w state_key) = Inr v \<and> vs_authority v = validator \<and>
    is_signer t validator \<and> owner_of w state_key = registry_program_id \<and>
    data_of w' = (data_of w)(state_key := []) \<and>
    owner_of w' = (owner_of w)(state_key := system_program_id rt)"
proof -
  have laws: "close_law rt" "transfer_law rt" using assms(1) by (simp_all add: registry_laws_def)
  from assms(2) obtain v e w1 where v: "try_validator_state rt (data_of w state_key) = Inr v"
    and guards: "vs_authority v = validator" "is_signer t validator"
      "owner_of w state_key = registry_program_id"
    and w1: "transfer_signed rt (vault_seeds @ [[pda_bump rt vault_seeds registry_program_id]])
      vault validator (vs_stake v) w = Inr w1"
    and w': "close_typed rt state_key validator (emit e w1) = Inr w'"
    unfolding unstake_validator_def unstake_accounts_def Let_def
    by (simp only: mut_signer_Inr mut_account_Inr with_seeds_Inr with_seeds_bump_Inr load_typed_Inr
        and_then_Inr require_Inr) blast
  note same = transfer_signed_same [OF laws(2) w1]
  have "data_of w' = (data_of w1)(state_key := [])"
    "owner_of w' = (owner_of w1)(state_key := system_program_id rt)"
    using close_effect [OF laws(1) w'] by simp_all
  with same v guards show ?thesis by auto
qed

lemma withdraw_effect:
  assumes "registry_laws rt" "withdraw_treasury rt t admin k treasury amount w = Inr w'"
  shows "data_of w' = data_of w \<and> owner_of w' = owner_of w"
proof -
  have law: "transfer_law rt" using assms(1) by (simp add: registry_laws_def)
  from assms(2) obtain seeds e w1 where
    w1: "transfer_signed rt seeds treasury admin amount w = Inr w1" and w': "w' = emit e w1"
    unfolding withdraw_treasury_def withdraw_accounts_def Let_def
    by (simp only: mut_signer_Inr mut_account_Inr with_seeds_Inr with_seeds_bump_Inr load_typed_Inr
        and_then_Inr require_Inr) blast
  show ?thesis using transfer_signed_same [OF law w1] by (simp add: w')
qed

lemma preview_effect:
  "compute_trust_score rt t k count creation recent w = Inr w' \<Longrightarrow>
     data_of w' = data_of w \<and> owner_of w' = owner_of w"
  by (auto simp: compute_trust_score_def trust_score_accounts_def res_simps Let_def)

section \<open>The configuration account\<close>

definition config_account :: "runtime \<Rightarrow> pubkey" where
  "config_account rt = pda_key rt protocol_config_seeds registry_program_id"

text \<open>The configuration exists: it is the program's and carries the account type.\<close>

definition configured :: "runtime \<Rightarrow> world \<Rightarrow> bool" where
  "configured rt w \<longleftrightarrow> registry_laws rt \<and> owner_of w (config_account rt) = registry_program_id \<and>
     8 \<le> length (data_of w (config_account rt)) \<and>
     take 8 (data_of w (config_account rt)) = config_disc rt"

definition window :: "runtime \<Rightarrow> world \<Rightarrow> registry_error + (u16 \<times> u16)" where
  "window rt w = read_projection_versions (data_of w (config_account rt))"

definition stored_admin :: "runtime \<Rightarrow> world \<Rightarrow> pubkey" where
  "stored_admin rt w = arr_of (slice 8 32 (data_of w (config_account rt)))"

text \<open>
  A step of the system: a call of the registry, or whatever another program does; by the
  rules of the runtime only the owner of an account changes its data or gives it away.
\<close>

definition foreign_step :: "world \<Rightarrow> world \<Rightarrow> bool" where
  "foreign_step w w' \<longleftrightarrow> (\<forall>k. owner_of w k = registry_program_id \<longrightarrow>
     owner_of w' k = owner_of w k \<and> data_of w' k = data_of w k)"

inductive registry_step :: "runtime \<Rightarrow> world \<Rightarrow> world \<Rightarrow> bool" for rt where
  call: "registry_exec rt t c w = Inr w' \<Longrightarrow> registry_step rt w w'"
| foreign: "foreign_step w w' \<Longrightarrow> registry_step rt w w'"

inductive_cases registry_stepE: "registry_step rt w w'"

text \<open>
  What a call may do to the configuration, case by case. Everything below needs only
  this: creations and closings never hit the configuration, the typed instructions
  rewrite one field, and the raw ones write at their offsets.
\<close>

inductive config_effect :: "runtime \<Rightarrow> tx \<Rightarrow> world \<Rightarrow> registry_call \<Rightarrow> byte list \<Rightarrow> bool"
  for rt t w where
  same: "config_effect rt t w c (data_of w (config_account rt))"
| fee: "try_config rt (data_of w (config_account rt)) = Inr c \<Longrightarrow> is_signer t (pc_admin c) \<Longrightarrow>
    config_effect rt t w (UpdateProtocolConfig (pc_admin c) k fee)
      (config_bytes rt (c\<lparr>pc_verification_fee := fee\<rparr>))"
| keys: "by_admin rt t admin k w \<Longrightarrow> c = SetValidatorPubkey admin k key \<or>
      c = RotateValidatorPubkey admin k key grace \<Longrightarrow> key \<noteq> 0 \<Longrightarrow>
    config_effect rt t w c (copy_at 177 (u64_le valid_until) (copy_at 145 (elems (secondary :: pubkey))
      (copy_at 77 (elems key) (grown (data_of w (config_account rt))))))"
| propose: "by_admin rt t admin k w \<Longrightarrow>
    config_effect rt t w (ProposeAuthority admin k next_admin)
      (copy_at 113 (elems next_admin) (grown (data_of w (config_account rt))))"
| accept: "is_signer t signer \<Longrightarrow> signer \<noteq> 0 \<Longrightarrow> 145 \<le> length (data_of w (config_account rt)) \<Longrightarrow>
    arr_of (slice 113 32 (data_of w (config_account rt))) = signer \<Longrightarrow>
    config_effect rt t w (AcceptAuthority signer k)
      (copy_at 113 (replicate 32 0) (copy_at 8 (elems signer) (data_of w (config_account rt))))"
| versions: "by_admin rt t admin k w \<Longrightarrow>
    read_projection_versions (data_of w (config_account rt)) = Inr (old_current, old_minimum) \<Longrightarrow>
    old_current \<le> current \<Longrightarrow> old_minimum \<le> minimum \<Longrightarrow> minimum \<le> current \<Longrightarrow>
    config_effect rt t w (SetProjectionVersions admin k current minimum)
      (copy_at 111 (u16_le minimum) (copy_at 109 (u16_le current)
        (grown (data_of w (config_account rt)))))"
| recover: "is_signer t new_admin \<Longrightarrow> 40 \<le> length (data_of w (config_account rt)) \<Longrightarrow>
    upgrade_authority (data_of w programdata) = Inr new_admin \<Longrightarrow>
    programdata = pda_key rt [elems registry_program_id] (bpf_loader_upgradeable_id rt) \<Longrightarrow>
    config_effect rt t w (MigrateAdmin new_admin k programdata)
      (copy_at 8 (elems new_admin) (take config_len (grown (data_of w (config_account rt)))))"

inductive_cases config_effectE: "config_effect rt t w c d"

lemma rewritten_data: "rewritten k d w w' \<Longrightarrow> data_of w' j = (if j = k then d else data_of w j)"
  by (simp add: rewritten_def)

lemma rewritten_owner: "rewritten k d w w' \<Longrightarrow> owner_of w' = owner_of w"
  by (simp add: rewritten_def)

lemma exec_config_effect:
  assumes inv: "configured rt w" and run: "registry_exec rt t c w = Inr w'"
  shows "config_effect rt t w c (data_of w' (config_account rt)) \<and>
    owner_of w' (config_account rt) = registry_program_id"
proof -
  let ?K = "config_account rt"
  have laws: "registry_laws rt" and owner: "owner_of w ?K = registry_program_id"
    using inv by (simp_all add: configured_def)
  have created: "data_of w' ?K = data_of w ?K \<and> owner_of w' ?K = owner_of w ?K"
    if "creates rt k d w w'" for k d
    using that owner laws by (auto simp: creates_def registry_laws_def)
  have zeros: "replicate 8 0 = u64_le 0" "replicate 32 0 = elems (0 :: pubkey)"
    by (simp_all add: numeral_eq_Suc elems_zero)
  show ?thesis
  proof (cases c)
    case (InitializeProtocol admin k stake expiry max_score increment fee key)
    then show ?thesis using initialize_effect [OF laws] run created owner config_effect.same
      by (metis registry_exec.simps(1))
  next
    case (UpdateProtocolConfig admin k fee)
    then obtain g where g: "try_config rt (data_of w k) = Inr g" "pc_admin g = admin"
      "is_signer t admin" and rw: "rewritten k (config_bytes rt (g\<lparr>pc_verification_fee := fee\<rparr>)) w w'"
      using update_config_effect [OF laws] run by fastforce
    show ?thesis
    proof (cases "k = ?K")
      case True
      with g UpdateProtocolConfig rw owner show ?thesis
        using config_effect.fee [of rt w g t k fee]
        by (simp add: rewritten_data [OF rw] rewritten_owner [OF rw])
    next
      case False
      then show ?thesis using owner config_effect.same
        by (simp add: rewritten_data [OF rw] rewritten_owner [OF rw])
    qed
  next
    case (SetValidatorPubkey admin k key)
    then have "set_validator_pubkey rt t admin k key w = Inr w'" using run by simp
    from set_validator_effect [OF laws this] have k: "k = ?K" and
      rw: "rewritten k (copy_at 177 (replicate 8 0) (copy_at 145 (replicate 32 0)
        (copy_at 77 (elems key) (grown (data_of w k))))) w w'" and
      g: "by_admin rt t admin k w" "key \<noteq> 0"
      by (auto simp: by_admin_def config_account_def)
    show ?thesis using config_effect.keys [OF g(1) _ g(2), of c undefined 0 0] SetValidatorPubkey owner
      by (simp add: rewritten_data [OF rw] rewritten_owner [OF rw] k zeros)
  next
    case (RotateValidatorPubkey admin k key grace)
    then have "rotate_validator_pubkey rt t admin k key grace w = Inr w'" using run by simp
    from rotate_effect [OF laws this] obtain s v where k: "k = ?K" and
      rw: "rewritten k (copy_at 177 (u64_le v) (copy_at 145 (elems (s :: pubkey))
        (copy_at 77 (elems key) (grown (data_of w k))))) w w'" and
      g: "by_admin rt t admin k w" "key \<noteq> 0"
      by (auto simp: by_admin_def config_account_def)
    show ?thesis using config_effect.keys [OF g(1) _ g(2), of c grace v s] RotateValidatorPubkey owner
      by (simp add: rewritten_data [OF rw] rewritten_owner [OF rw] k)
  next
    case (ProposeAuthority admin k next_admin)
    then have "propose_authority rt t admin k next_admin w = Inr w'" using run by simp
    from propose_effect [OF laws this] have k: "k = ?K" and
      rw: "rewritten k (copy_at 113 (elems next_admin) (grown (data_of w k))) w w'" and
      g: "by_admin rt t admin k w"
      by (auto simp: by_admin_def config_account_def)
    show ?thesis using config_effect.propose [OF g, of next_admin] ProposeAuthority owner
      by (simp add: rewritten_data [OF rw] rewritten_owner [OF rw] k)
  next
    case (AcceptAuthority signer k)
    then have "accept_authority rt t signer k w = Inr w'" using run by simp
    from accept_effect [OF this] have k: "k = ?K" and
      rw: "rewritten k (copy_at 113 (replicate 32 0) (copy_at 8 (elems signer) (data_of w k))) w w'" and
      g: "is_signer t signer" "signer \<noteq> 0" "145 \<le> length (data_of w k)"
        "arr_of (slice 113 32 (data_of w k)) = signer"
      by (auto simp: config_account_def)
    show ?thesis using config_effect.accept [of t signer w rt k] g AcceptAuthority owner
      by (simp add: rewritten_data [OF rw] rewritten_owner [OF rw] k)
  next
    case (SetProjectionVersions admin k current minimum)
    then have "set_projection_versions rt t admin k current minimum w = Inr w'" using run by simp
    from set_projection_effect [OF laws this] obtain oc om where k: "k = ?K" and
      g: "by_admin rt t admin k w" "read_projection_versions (data_of w k) = Inr (oc, om)"
        "oc \<le> current" "om \<le> minimum" "minimum \<le> current" and
      rw: "rewritten k (copy_at 111 (u16_le minimum) (copy_at 109 (u16_le current)
        (grown (data_of w k)))) w w'"
      by (auto simp: by_admin_def config_account_def)
    show ?thesis using config_effect.versions [OF g(1) _ g(3-5)] g(2) SetProjectionVersions owner
      by (simp add: rewritten_data [OF rw] rewritten_owner [OF rw] k)
  next
    case (WithdrawTreasury admin k treasury amount)
    then show ?thesis using withdraw_effect [OF laws] run owner config_effect.same by fastforce
  next
    case (MigrateAdmin new_admin k programdata)
    then have "migrate_admin rt t new_admin k programdata w = Inr w'" using run by simp
    note g = migrate_admin_effect [OF laws this]
    then have k: "k = ?K" by (simp add: config_account_def)
    from g have rw: "rewritten k (copy_at 8 (elems new_admin)
        (take config_len (grown (data_of w k)))) w w'" by simp
    have "config_effect rt t w (MigrateAdmin new_admin k programdata)
        (copy_at 8 (elems new_admin) (take config_len (grown (data_of w ?K))))"
      by (rule config_effect.recover) (use g k in auto)
    then show ?thesis using MigrateAdmin owner
      by (simp add: rewritten_data [OF rw] rewritten_owner [OF rw] k)
  next
    case (RegisterValidator validator k state_key vault stake)
    then show ?thesis using register_effect [OF laws] run created owner config_effect.same
      by (metis registry_exec.simps(10))
  next
    case (ComputeTrustScore k count creation recent)
    then show ?thesis using preview_effect run owner config_effect.same by fastforce
  next
    case (UnstakeValidator validator state_key vault)
    then obtain v where v: "try_validator_state rt (data_of w state_key) = Inr v"
      and w': "data_of w' = (data_of w)(state_key := [])"
        "owner_of w' = (owner_of w)(state_key := system_program_id rt)"
      using unstake_effect [OF laws] run by fastforce
    have "take 8 (data_of w state_key) = validator_state_disc rt"
      using v by (auto simp: try_validator_state_def deserialize_def split: if_splits)
    then have "state_key \<noteq> ?K"
      using inv laws by (auto simp: configured_def registry_laws_def)
    then show ?thesis using w' owner config_effect.same by simp
  qed
qed

section \<open>The projection window\<close>

lemma window_grown: "read_projection_versions d = Inr v \<Longrightarrow> read_projection_versions (grown d) = Inr v"
proof (cases "length d \<le> 109")
  case True
  assume "read_projection_versions d = Inr v"
  with True have v: "v = (0, 0)" by (simp add: read_projection_versions_def config_consts)
  show ?thesis
    using True from_le_zeros [of 2, where ?'a = 16]
    by (simp add: v read_projection_versions_def config_consts grown_def slice_zeros Let_def)
next
  case False
  assume "read_projection_versions d = Inr v"
  with False show ?thesis
    by (simp add: read_projection_versions_def config_consts grown_def layout_simps require_def
        split: if_splits)
qed

lemma window_take: "config_len \<le> length d \<Longrightarrow>
    read_projection_versions (take config_len d) = read_projection_versions d"
  by (simp add: read_projection_versions_def config_consts slice_def drop_take)

lemmas window_take_185 = window_take [unfolded config_consts, simplified]

lemma window_elsewhere:
  "off + length bs \<le> length d \<Longrightarrow> off + length bs \<le> 109 \<or> 113 \<le> off \<Longrightarrow>
     read_projection_versions (copy_at off bs d) = read_projection_versions d"
  by (auto simp: read_projection_versions_def config_consts layout_simps)

lemma window_written:
  "113 \<le> length d \<Longrightarrow> minimum \<le> current \<Longrightarrow>
     read_projection_versions (copy_at 111 (u16_le minimum) (copy_at 109 (u16_le current) d)) =
       Inr (current, minimum)"
  by (simp add: read_projection_versions_def config_consts layout_simps u16_le.dec_enc)

lemma window_typed:
  assumes "try_config rt d = Inr c"
  shows "read_projection_versions d =
    (if pc_minimum_supported_projection_version c \<le> pc_current_projection_version c
     then Inr (pc_current_projection_version c, pc_minimum_supported_projection_version c)
     else Inl registry_error.InvalidProtocolConfig)"
  using config_length [OF assms] config_raw [OF assms]
  by (simp add: read_projection_versions_def config_consts u16_le.dec_enc)

lemmas grown_simps = length_grown config_consts layout_simps

text \<open>The window never shrinks: an order on the versions that an account shows.\<close>

fun window_le :: "registry_error + (u16 \<times> u16) \<Rightarrow> registry_error + (u16 \<times> u16) \<Rightarrow> bool" where
  "window_le (Inl e) v = True"
| "window_le (Inr (c, m)) (Inr (c', m')) = (c \<le> c' \<and> m \<le> m')"
| "window_le (Inr v) (Inl e) = False"

lemma window_le_refl: "window_le v v"
  by (cases v) auto

lemma window_le_trans: "window_le x y \<Longrightarrow> window_le y z \<Longrightarrow> window_le x z"
  by (cases x; cases y; cases z) auto

lemma effect_window:
  assumes "config_effect rt t w c d"
  shows "window_le (window rt w) (read_projection_versions d)"
proof (cases "window rt w")
  case (Inr v)
  then have v: "read_projection_versions (data_of w (config_account rt)) = Inr v"
    by (simp add: window_def)
  note v_grown = window_grown [OF v]
  from assms show ?thesis
  proof cases
    case (fee g k f)
    have "try_config rt (config_bytes rt (g\<lparr>pc_verification_fee := f\<rparr>)) = Inr (g\<lparr>pc_verification_fee := f\<rparr>)"
      by (rule typed_bytes(2))
    from window_typed [OF this] window_typed [OF fee(3)] show ?thesis
      using v unfolding fee(2) Inr by (auto split: if_splits)
  next
    case versions
    then show ?thesis using v Inr by (simp add: window_written grown_simps)
  qed (simp_all add: Inr v v_grown window_elsewhere window_take_185 grown_simps
      window_le_refl)
qed simp

lemma tag_copy_at:
  "8 \<le> off \<Longrightarrow> off + length bs \<le> length d \<Longrightarrow> take 8 (copy_at off bs d) = take 8 d"
  by (simp add: copy_at_def min_def)

lemma tag_grown: "8 \<le> length d \<Longrightarrow> take 8 (grown d) = take 8 d"
  by (simp add: grown_def)

lemma tag_take: "8 \<le> n \<Longrightarrow> take 8 (take n d) = take 8 d"
  by (simp add: min_def)

lemma effect_type:
  assumes "config_effect rt t w c d" "configured rt w"
  shows "8 \<le> length d \<and> take 8 d = config_disc rt"
proof -
  from assms(2) have "8 \<le> length (data_of w (config_account rt))"
    "take 8 (data_of w (config_account rt)) = config_disc rt"
    by (simp_all add: configured_def)
  with assms(1) show ?thesis
  proof cases
    case fee
    then show ?thesis by (simp add: config_bytes_def serialize_def)
  qed (simp_all add: tag_copy_at tag_grown tag_take grown_simps)
qed

lemma step_configured:
  assumes "configured rt w" "registry_step rt w w'"
  shows "configured rt w'"
  using assms(2)
proof (rule registry_stepE)
  fix t c
  assume "registry_exec rt t c w = Inr w'"
  from exec_config_effect [OF assms(1) this] effect_type [OF _ assms(1)] assms(1)
  show ?thesis by (auto simp: configured_def)
next
  assume "foreign_step w w'"
  then show ?thesis using assms(1) by (simp add: configured_def foreign_step_def)
qed

lemma step_window:
  assumes "configured rt w" "registry_step rt w w'"
  shows "window_le (window rt w) (window rt w')"
  using assms(2)
proof (rule registry_stepE)
  fix t c
  assume "registry_exec rt t c w = Inr w'"
  from exec_config_effect [OF assms(1) this] effect_window show ?thesis
    unfolding window_def by blast
next
  assume "foreign_step w w'"
  then show ?thesis
    using assms(1) by (simp add: configured_def foreign_step_def window_def window_le_refl)
qed

interpretation window: monotone_system "registry_step rt" "configured rt" "window rt" window_le
  for rt
  by unfold_locales (fact window_le_refl window_le_trans step_configured step_window)+

text \<open>
  C28: the projection window never shrinks. Along any run of registry calls (migration of
  the administrator, key rotations and layout growth included) and foreign steps, an
  account that shows a window keeps showing one, with a current and a minimum version
  at least as high.
\<close>

theorem projection_window_monotone:
  assumes "(registry_step rt)\<^sup>*\<^sup>* w w'" "configured rt w"
    and "read_projection_versions (data_of w (config_account rt)) = Inr (current, minimum)"
  shows "\<exists>current' minimum'.
    read_projection_versions (data_of w' (config_account rt)) = Inr (current', minimum') \<and>
    current \<le> current' \<and> minimum \<le> minimum'"
proof -
  have "window_le (window rt w) (window rt w')"
    using assms(1,2) by (rule window.run_le)
  then show ?thesis
    using assms(3) unfolding window_def by (cases "read_projection_versions (data_of w' (config_account rt))") auto
qed

section \<open>The administrator and the validator key\<close>

definition admin_change_authorised :: "runtime \<Rightarrow> world \<Rightarrow> world \<Rightarrow> bool" where
  "admin_change_authorised rt w w' \<longleftrightarrow> (\<exists>t c. registry_exec rt t c w = Inr w' \<and>
     ((\<exists>s k. c = AcceptAuthority s k \<and> is_signer t s \<and> s \<noteq> 0 \<and>
         arr_of (slice 113 32 (data_of w (config_account rt))) = s) \<or>
      (\<exists>a k p. c = MigrateAdmin a k p \<and> is_signer t a \<and>
         p = pda_key rt [elems registry_program_id] (bpf_loader_upgradeable_id rt) \<and>
         upgrade_authority (data_of w p) = Inr a)))"

lemma admin_elsewhere:
  "40 \<le> off \<Longrightarrow> off + length bs \<le> length d \<Longrightarrow> slice 8 32 (copy_at off bs d) = slice 8 32 d"
  by (simp add: layout_simps)

lemma admin_grown: "40 \<le> length d \<Longrightarrow> slice 8 32 (grown d) = slice 8 32 d"
  by (simp add: grown_def layout_simps)

lemma effect_admin:
  assumes "config_effect rt t w c d" "registry_exec rt t c w = Inr w'"
    and "d = data_of w' (config_account rt)" "\<not> admin_change_authorised rt w w'"
  shows "slice 8 32 d = slice 8 32 (data_of w (config_account rt))"
  using assms(1)
proof cases
  case (fee g k f)
  have "try_config rt (config_bytes rt (g\<lparr>pc_verification_fee := f\<rparr>)) = Inr (g\<lparr>pc_verification_fee := f\<rparr>)"
    by (rule typed_bytes(2))
  from config_raw(1) [OF this] config_raw(1) [OF fee(3)] show ?thesis unfolding fee(2) by simp
next
  case accept
  then show ?thesis using assms(2,4) unfolding admin_change_authorised_def by blast
next
  case recover
  then show ?thesis using assms(2,4) unfolding admin_change_authorised_def by blast
qed (auto simp: by_admin_def config_account_def admin_elsewhere admin_grown grown_simps)

lemma foreign_config:
  "configured rt w \<Longrightarrow> foreign_step w w' \<Longrightarrow>
     data_of w' (config_account rt) = data_of w (config_account rt)"
  by (simp add: configured_def foreign_step_def)

lemma step_admin:
  assumes "configured rt w" "registry_step rt w w'" "stored_admin rt w' \<noteq> stored_admin rt w"
  shows "admin_change_authorised rt w w'"
  using assms(2)
proof (rule registry_stepE)
  fix t c
  assume run: "registry_exec rt t c w = Inr w'"
  from exec_config_effect [OF assms(1) run] effect_admin [OF _ run refl] assms(3) show ?thesis
    unfolding stored_admin_def by metis
next
  assume "foreign_step w w'"
  then show ?thesis using assms(1,3) foreign_config by (simp add: stored_admin_def)
qed

interpretation admin: guarded_attribute "registry_step rt" "configured rt" "stored_admin rt"
    "admin_change_authorised rt" for rt
  by unfold_locales (fact step_configured step_admin)+

text \<open>
  C27: the administrator changes only by consent. If the stored administrator differs at
  the end of a run, some step of the run was an \<open>accept_authority\<close> signed by the key
  stored as pending, or a \<open>migrate_admin\<close> signed by the upgrade authority that the
  loader's program-data account names.
\<close>

theorem admin_changes_by_consent:
  assumes "(registry_step rt)\<^sup>*\<^sup>* w w'" "configured rt w"
    and "arr_of (slice 8 32 (data_of w' (config_account rt))) \<noteq>
      (arr_of (slice 8 32 (data_of w (config_account rt))) :: pubkey)"
  shows "\<exists>x y t. (registry_step rt)\<^sup>*\<^sup>* w x \<and> (registry_step rt)\<^sup>*\<^sup>* y w' \<and>
    ((\<exists>signer k. accept_authority rt t signer k x = Inr y \<and> is_signer t signer \<and> signer \<noteq> 0 \<and>
        arr_of (slice 113 32 (data_of x (config_account rt))) = signer) \<or>
     (\<exists>new_admin k p. migrate_admin rt t new_admin k p x = Inr y \<and> is_signer t new_admin \<and>
        p = pda_key rt [elems registry_program_id] (bpf_loader_upgradeable_id rt) \<and>
        upgrade_authority (data_of x p) = Inr new_admin))"
proof -
  from admin.run_changed [OF assms(1,2)] assms(3) obtain x y where
    run: "(registry_step rt)\<^sup>*\<^sup>* w x" "(registry_step rt)\<^sup>*\<^sup>* y w'"
    and "admin_change_authorised rt x y"
    unfolding stored_admin_def by blast
  then show ?thesis
    unfolding admin_change_authorised_def by (metis registry_exec.simps(6,9))
qed

text \<open>The key that validators sign with, as entros-anchor reads it.\<close>

definition primary_key :: "runtime \<Rightarrow> world \<Rightarrow> bytes32" where
  "primary_key rt w = vk_primary (read_validator_key_policy (data_of w (config_account rt)))"

definition key_change_authorised :: "runtime \<Rightarrow> world \<Rightarrow> world \<Rightarrow> bool" where
  "key_change_authorised rt w w' \<longleftrightarrow> (\<exists>t c. registry_exec rt t c w = Inr w' \<and>
     is_signer t (stored_admin rt w) \<and> primary_key rt w' \<noteq> 0 \<and>
     (\<exists>k key. c = SetValidatorPubkey (stored_admin rt w) k key \<or>
       (\<exists>grace. c = RotateValidatorPubkey (stored_admin rt w) k key grace)))"

definition primary_of :: "byte list \<Rightarrow> bytes32" where
  "primary_of d = (if 109 \<le> length d then arr_of (slice 77 32 d) else 0)"

lemma primary_key_of: "primary_key rt w = primary_of (data_of w (config_account rt))"
  by (simp add: primary_key_def primary_of_def read_validator_key_policy_def pc_consts Let_def
      split: prod.splits)

lemma primary_elsewhere:
  "off + length bs \<le> length d \<Longrightarrow> off + length bs \<le> 77 \<or> 109 \<le> off \<Longrightarrow>
     primary_of (copy_at off bs d) = primary_of d"
  by (auto simp: primary_of_def layout_simps)

lemma primary_grown: "109 \<le> length d \<Longrightarrow> primary_of (grown d) = primary_of d"
  by (simp add: primary_of_def grown_def layout_simps)

lemma primary_take: "primary_of (take 185 d) = primary_of d"
  by (simp add: primary_of_def slice_def drop_take)

lemma primary_typed: "try_config rt d = Inr c \<Longrightarrow> primary_of d = pc_validator_pubkey c"
  using config_raw(6) [of rt d c] config_length [of rt d c]
  by (simp add: primary_of_def config_consts)

text \<open>The configuration has had a validator key since its layout of 109 bytes.\<close>

definition keyed :: "runtime \<Rightarrow> world \<Rightarrow> bool" where
  "keyed rt w \<longleftrightarrow> configured rt w \<and> 109 \<le> length (data_of w (config_account rt))"

lemma effect_key:
  assumes "config_effect rt t w c d" "109 \<le> length (data_of w (config_account rt))"
  shows "109 \<le> length d \<and> (primary_of d = primary_of (data_of w (config_account rt)) \<or>
    primary_of d \<noteq> 0 \<and> is_signer t (stored_admin rt w) \<and>
    (\<exists>k key. c = SetValidatorPubkey (stored_admin rt w) k key \<or>
      (\<exists>grace. c = RotateValidatorPubkey (stored_admin rt w) k key grace)))"
  using assms(1)
proof cases
  case (fee g k f)
  have "try_config rt (config_bytes rt (g\<lparr>pc_verification_fee := f\<rparr>)) = Inr (g\<lparr>pc_verification_fee := f\<rparr>)"
    by (rule typed_bytes(2))
  from primary_typed [OF this] primary_typed [OF fee(3)] config_length [OF this] show ?thesis
    unfolding fee(2) by (simp add: config_consts)
next
  case (keys admin k key grace valid_until secondary)
  then have "primary_of d = key"
    by (simp add: primary_elsewhere grown_simps) (simp add: primary_of_def grown_simps)
  with keys show ?thesis
    by (auto simp: by_admin_def config_account_def stored_admin_def grown_simps)
qed (use assms(2) in \<open>simp_all add: primary_elsewhere primary_grown primary_take grown_simps\<close>)

lemma step_keyed: "keyed rt w \<Longrightarrow> registry_step rt w w' \<Longrightarrow> keyed rt w'"
  by (elim registry_stepE) (auto simp: keyed_def foreign_config dest: step_configured
      registry_step.intros exec_config_effect effect_key)

lemma step_key:
  assumes "keyed rt w" "registry_step rt w w'" "primary_key rt w' \<noteq> primary_key rt w"
  shows "key_change_authorised rt w w'"
  using assms(2)
proof (rule registry_stepE)
  fix t c
  assume run: "registry_exec rt t c w = Inr w'"
  from exec_config_effect [OF _ run] effect_key assms(1) have
    "primary_key rt w' = primary_key rt w \<or>
     primary_key rt w' \<noteq> 0 \<and> is_signer t (stored_admin rt w) \<and>
     (\<exists>k key. c = SetValidatorPubkey (stored_admin rt w) k key \<or>
       (\<exists>grace. c = RotateValidatorPubkey (stored_admin rt w) k key grace))"
    unfolding keyed_def primary_key_of by blast
  with assms(3) run show ?thesis unfolding key_change_authorised_def by metis
next
  assume "foreign_step w w'"
  then show ?thesis using assms(1,3) by (auto simp: primary_key_of keyed_def dest: foreign_config)
qed

interpretation key: guarded_attribute "registry_step rt" "keyed rt" "primary_key rt"
    "key_change_authorised rt" for rt
  by unfold_locales (fact step_keyed step_key)+

text \<open>
  C26: the validator key that entros-anchor trusts changes only in a call of
  \<open>set_validator_pubkey\<close> or \<open>rotate_validator_pubkey\<close> that the stored administrator
  signed, and never to the zero key, so no run can un-configure it.
\<close>

theorem validator_key_changes_by_admin:
  assumes "(registry_step rt)\<^sup>*\<^sup>* w w'" "configured rt w"
    and "109 \<le> length (data_of w (config_account rt))"
    and "vk_primary (read_validator_key_policy (data_of w' (config_account rt))) \<noteq>
      vk_primary (read_validator_key_policy (data_of w (config_account rt)))"
  shows "\<exists>x y t k key grace. (registry_step rt)\<^sup>*\<^sup>* w x \<and> (registry_step rt)\<^sup>*\<^sup>* y w' \<and>
    is_signer t (stored_admin rt x) \<and>
    vk_primary (read_validator_key_policy (data_of y (config_account rt))) \<noteq> 0 \<and>
    (set_validator_pubkey rt t (stored_admin rt x) k key x = Inr y \<or>
     rotate_validator_pubkey rt t (stored_admin rt x) k key grace x = Inr y)"
proof -
  from key.run_changed [OF assms(1)] assms(2-4) obtain x y where
    run: "(registry_step rt)\<^sup>*\<^sup>* w x" "(registry_step rt)\<^sup>*\<^sup>* y w'"
    and "key_change_authorised rt x y"
    unfolding primary_key_def keyed_def by blast
  then show ?thesis
    unfolding key_change_authorised_def primary_key_def by (metis registry_exec.simps(3,4))
qed

section \<open>Sample runs\<close>

lemma call_run: "registry_exec rt t c w = Inr w' \<Longrightarrow> (registry_step rt)\<^sup>*\<^sup>* w w'"
  by (blast intro: registry_step.call)

definition demo_config_world :: "protocol_config \<Rightarrow> world" where
  "demo_config_world c = set_data demo_config_key (config_bytes demo_runtime c) demo_world"

lemma demo_config_account: "config_account demo_runtime = demo_config_key"
  by (simp add: config_account_def pda_key_def demo_runtime_def demo_config_key_def)

lemma demo_registry_laws: "registry_laws demo_runtime"
proof -
  have "config_disc demo_runtime \<noteq> validator_state_disc demo_runtime" by code_simp
  moreover have "registry_program_id \<noteq> system_program_id demo_runtime" by code_simp
  ultimately show ?thesis
    by (simp add: registry_laws_def demo_realloc_law demo_transfer_law demo_realloc_account_law
        demo_init_law demo_close_law)
qed

lemma demo_config_data:
  "data_of (demo_config_world c) (config_account demo_runtime) = config_bytes demo_runtime c"
  "data_of (demo_config_world c) demo_config_key = config_bytes demo_runtime c"
  "owner_of (demo_config_world c) demo_config_key = registry_program_id"
  by (simp_all add: demo_config_world_def demo_config_account demo_owner)

lemma demo_configured: "configured demo_runtime (demo_config_world c)"
  by (simp add: configured_def demo_registry_laws demo_config_account demo_config_data
      config_consts) (simp add: config_bytes_def serialize_def)

lemmas demo_config_reads = demo_config_data config_raw [OF typed_bytes(2)]
  window_typed [OF typed_bytes(2)] length_typed_bytes config_consts

lemmas demo_raw_call = raw_config_accounts_def mut_signer_def mut_account_def with_seeds_def
  require_stored_admin_def demo_tx_def ensure_protocol_config_len_def
  demo_config_account [unfolded config_account_def]

lemma demo_set_versions:
  "\<exists>w'. set_projection_versions demo_runtime (demo_tx 0 []) demo_admin demo_config_key 3 2
     (demo_config_world demo_config) = Inr w'"
  by (simp add: set_projection_versions_def demo_raw_call validate_projection_transition_def
      demo_config_reads Let_def) (simp add: demo_config_def)

theorem projection_window_monotone_witness:
  "\<exists>w' current minimum.
     set_projection_versions demo_runtime (demo_tx 0 []) demo_admin demo_config_key 3 2
       (demo_config_world demo_config) = Inr w' \<and>
     read_projection_versions (data_of w' (config_account demo_runtime)) = Inr (current, minimum) \<and>
     2 \<le> current \<and> 1 \<le> minimum"
proof -
  from demo_set_versions obtain w' where run: "set_projection_versions demo_runtime (demo_tx 0 [])
      demo_admin demo_config_key 3 2 (demo_config_world demo_config) = Inr w'" by blast
  then have "registry_exec demo_runtime (demo_tx 0 [])
      (SetProjectionVersions demo_admin demo_config_key 3 2) (demo_config_world demo_config) = Inr w'"
    by simp
  then have "(registry_step demo_runtime)\<^sup>*\<^sup>* (demo_config_world demo_config) w'"
    by (rule call_run)
  moreover have "read_projection_versions
      (data_of (demo_config_world demo_config) (config_account demo_runtime)) = Inr (2, 1)"
    by (simp add: demo_config_reads) (simp add: demo_config_def)
  ultimately show ?thesis
    using projection_window_monotone demo_configured run by blast
qed

text \<open>A configuration whose administrator has named a successor.\<close>

definition demo_handover :: protocol_config where
  "demo_handover = demo_config\<lparr>pc_pending_authority := demo_wallet\<rparr>"

lemma demo_wallet_nonzero: "demo_wallet \<noteq> 0" "demo_wallet \<noteq> demo_admin" "demo_validator \<noteq> 0"
  "demo_wallet \<noteq> demo_validator"
  by code_simp+

lemma demo_accept:
  "\<exists>w'. accept_authority demo_runtime (demo_tx 0 []) demo_wallet demo_config_key
     (demo_config_world demo_handover) = Inr w'"
  by (simp add: accept_authority_def demo_raw_call demo_config_reads Let_def)
    (simp add: demo_handover_def demo_wallet_nonzero)

theorem admin_changes_by_consent_witness:
  "\<exists>w' x y t signer k.
     accept_authority demo_runtime (demo_tx 0 []) demo_wallet demo_config_key
       (demo_config_world demo_handover) = Inr w' \<and>
     (registry_step demo_runtime)\<^sup>*\<^sup>* (demo_config_world demo_handover) x \<and>
     (registry_step demo_runtime)\<^sup>*\<^sup>* y w' \<and>
     (accept_authority demo_runtime t signer k x = Inr y \<or>
      migrate_admin demo_runtime t signer k
        (pda_key demo_runtime [elems registry_program_id] (bpf_loader_upgradeable_id demo_runtime))
        x = Inr y)"
proof -
  from demo_accept obtain w' where run: "accept_authority demo_runtime (demo_tx 0 []) demo_wallet
      demo_config_key (demo_config_world demo_handover) = Inr w'" by blast
  then have "registry_exec demo_runtime (demo_tx 0 []) (AcceptAuthority demo_wallet demo_config_key)
      (demo_config_world demo_handover) = Inr w'" by simp
  then have steps: "(registry_step demo_runtime)\<^sup>*\<^sup>* (demo_config_world demo_handover) w'"
    by (rule call_run)
  from accept_effect [OF run] have "slice 8 32 (data_of w' demo_config_key) = elems demo_wallet"
    by (simp add: rewritten_def demo_config_reads layout_simps)
  then have "arr_of (slice 8 32 (data_of w' (config_account demo_runtime))) \<noteq>
      (arr_of (slice 8 32 (data_of (demo_config_world demo_handover)
        (config_account demo_runtime))) :: pubkey)"
    by (simp add: demo_config_account demo_config_reads)
      (simp add: demo_handover_def demo_config_def demo_wallet_nonzero)
  from admin_changes_by_consent [OF steps demo_configured this] run show ?thesis by blast
qed

lemma demo_set_key:
  "\<exists>w'. set_validator_pubkey demo_runtime (demo_tx 0 []) demo_admin demo_config_key demo_wallet
     (demo_config_world demo_config) = Inr w'"
  by (simp add: set_validator_pubkey_def demo_raw_call demo_config_reads demo_wallet_nonzero Let_def)
    (simp add: demo_config_def)

theorem validator_key_changes_by_admin_witness:
  "\<exists>w' x y t k key grace.
     set_validator_pubkey demo_runtime (demo_tx 0 []) demo_admin demo_config_key demo_wallet
       (demo_config_world demo_config) = Inr w' \<and>
     (registry_step demo_runtime)\<^sup>*\<^sup>* (demo_config_world demo_config) x \<and>
     is_signer t (stored_admin demo_runtime x) \<and>
     (set_validator_pubkey demo_runtime t (stored_admin demo_runtime x) k key x = Inr y \<or>
      rotate_validator_pubkey demo_runtime t (stored_admin demo_runtime x) k key grace x = Inr y)"
proof -
  from demo_set_key obtain w' where run: "set_validator_pubkey demo_runtime (demo_tx 0 []) demo_admin
      demo_config_key demo_wallet (demo_config_world demo_config) = Inr w'" by blast
  then have "registry_exec demo_runtime (demo_tx 0 [])
      (SetValidatorPubkey demo_admin demo_config_key demo_wallet)
      (demo_config_world demo_config) = Inr w'" by simp
  then have steps: "(registry_step demo_runtime)\<^sup>*\<^sup>* (demo_config_world demo_config) w'"
    by (rule call_run)
  have len: "109 \<le> length (data_of (demo_config_world demo_config) (config_account demo_runtime))"
    by (simp add: demo_config_reads)
  from set_validator_effect [OF demo_registry_laws run]
  have "primary_of (data_of w' demo_config_key) = demo_wallet"
    by (simp add: rewritten_def demo_config_reads primary_elsewhere length_grown layout_simps)
      (simp add: primary_of_def demo_config_reads length_grown layout_simps)
  then have "vk_primary (read_validator_key_policy (data_of w' (config_account demo_runtime))) \<noteq>
      vk_primary (read_validator_key_policy (data_of (demo_config_world demo_config)
        (config_account demo_runtime)))"
    unfolding primary_key_def [symmetric] primary_key_of
    by (simp add: demo_config_account demo_config_data primary_typed [OF typed_bytes(2)])
      (simp add: demo_config_def demo_wallet_nonzero)
  from validator_key_changes_by_admin [OF steps demo_configured len this] run show ?thesis by blast
qed

section \<open>Rotation and withdrawal\<close>

lemma rotated_policy:
  assumes "109 \<le> length d"
  shows "read_validator_key_policy (copy_at 177 (u64_le until) (copy_at 145 (elems secondary)
      (copy_at 77 (elems key) (grown d)))) =
    \<lparr>vk_primary = key, vk_secondary = secondary, vk_secondary_valid_until = until\<rparr>"
  using assms
  by (simp add: read_validator_key_policy_def pc_consts grown_simps u64_le.dec_enc le_max_iff_disj)

text \<open>
  C29: a rotation hands the anchor program over to the new key with a bounded overlap.
  After \<open>rotate_validator_pubkey\<close> the anchor accepts a receipt signed by the new key at
  any time, and one signed by the outgoing key exactly until the grace period (at most a
  day) is over; no third key is accepted.
\<close>

theorem rotation_overlap:
  assumes "registry_laws rt" "rotate_validator_pubkey rt t admin k key grace w = Inr w'"
    and "109 \<le> length (data_of w k)"
    and "vk_primary (read_validator_key_policy (data_of w k)) = old"
  shows "sint grace \<le> 86400 \<and>
    (\<forall>signed now. accepts (read_validator_key_policy (data_of w' k)) signed now \<longleftrightarrow>
      signed = elems key \<or>
      (signed = elems old \<and> old \<noteq> 0 \<and> 0 < sint grace \<and> sint now \<le> sint (clock t) + sint grace))"
proof -
  have old: "old = arr_of (slice 77 32 (data_of w k))"
    using assms(3,4) by (simp add: read_validator_key_policy_def pc_consts Let_def
        split: prod.splits)
  from rotate_effect [OF assms(1,2)] assms(3) obtain secondary until where
    sec: "rotation_secondary (clock t) grace old key = Inr (secondary, until)" and
    rw: "rewritten k (copy_at 177 (u64_le until) (copy_at 145 (elems (secondary :: pubkey))
      (copy_at 77 (elems key) (grown (data_of w k))))) w w'" and
    grace: "sint grace \<le> max_validator_grace_period_secs"
    unfolding old by auto
  have policy: "read_validator_key_policy (data_of w' k) =
      \<lparr>vk_primary = key, vk_secondary = secondary, vk_secondary_valid_until = until\<rparr>"
    using rotated_policy [OF assms(3)] by (simp add: rewritten_data [OF rw])
  have "accepts (read_validator_key_policy (data_of w' k)) signed now \<longleftrightarrow>
      signed = elems key \<or>
      (signed = elems old \<and> old \<noteq> 0 \<and> 0 < sint grace \<and> sint now \<le> sint (clock t) + sint grace)"
    for signed now
    using sec unfolding rotation_secondary_def policy accepts_def
    by (auto simp: checked_add_i64_def checked_i64_Some_iff res_simps split: if_splits)
  with grace show ?thesis by (simp add: config_consts)
qed

lemma demo_rotate:
  "\<exists>w'. rotate_validator_pubkey demo_runtime (demo_tx 1000 []) demo_admin demo_config_key
     demo_wallet 60 (demo_config_world demo_config) = Inr w'"
  by (simp add: rotate_validator_pubkey_def demo_raw_call demo_config_reads demo_wallet_nonzero
      rotation_secondary_def Let_def)
    (simp add: demo_config_def demo_wallet_nonzero checked_add_i64_def checked_i64_def i64_min_def
      i64_max_def)

theorem rotation_overlap_witness:
  "\<exists>w'. rotate_validator_pubkey demo_runtime (demo_tx 1000 []) demo_admin demo_config_key
       demo_wallet 60 (demo_config_world demo_config) = Inr w' \<and>
     accepts (read_validator_key_policy (data_of w' demo_config_key)) (elems demo_validator) 1060 \<and>
     \<not> accepts (read_validator_key_policy (data_of w' demo_config_key)) (elems demo_validator) 1061"
proof -
  from demo_rotate obtain w' where run: "rotate_validator_pubkey demo_runtime (demo_tx 1000 [])
      demo_admin demo_config_key demo_wallet 60 (demo_config_world demo_config) = Inr w'" by blast
  have old: "vk_primary (read_validator_key_policy (data_of (demo_config_world demo_config)
      demo_config_key)) = demo_validator"
    by (simp add: demo_config_data read_validator_key_policy_def pc_consts length_typed_bytes
        config_raw [OF typed_bytes(2)] config_consts) (simp add: demo_config_def)
  have len: "109 \<le> length (data_of (demo_config_world demo_config) demo_config_key)"
    by (simp add: demo_config_reads)
  from rotation_overlap [OF demo_registry_laws run len old] run show ?thesis
    by (auto simp: demo_tx_def demo_wallet_nonzero demo_wallet_nonzero [symmetric] elems_inject)
qed

text \<open>
  C38: a withdrawal never touches the rent of the treasury. On success the administrator
  signed, received exactly the amount, and the treasury lost exactly that and still holds
  the rent-exempt minimum (or nothing was withdrawn).
\<close>

theorem withdrawal_keeps_rent:
  assumes "transfer_amount_law rt" "withdraw_treasury rt t admin k treasury amount w = Inr w'"
    and "treasury \<noteq> admin"
  shows "is_signer t admin \<and> (\<exists>c. try_config rt (data_of w k) = Inr c \<and> pc_admin c = admin) \<and>
    uint (lamports_of w' treasury) = uint (lamports_of w treasury) - uint amount \<and>
    uint (lamports_of w' admin) = uint (lamports_of w admin) + uint amount \<and>
    (amount = 0 \<or> minimum_balance rt 0 \<le> lamports_of w' treasury)"
proof -
  from assms(2) obtain c seeds e w1 where
    g: "try_config rt (data_of w k) = Inr c" "pc_admin c = admin" "is_signer t admin" and
    amount: "amount \<le> saturating_sub (lamports_of w treasury) (minimum_balance rt 0)" and
    w1: "transfer_signed rt seeds treasury admin amount w = Inr w1" and w': "w' = emit e w1"
    unfolding withdraw_treasury_def withdraw_accounts_def Let_def
    by (simp only: mut_signer_Inr mut_account_Inr with_seeds_Inr with_seeds_bump_Inr load_typed_Inr
        and_then_Inr require_Inr) blast
  from w1 obtain A where A: "run_cpi rt (SystemTransfer treasury admin amount seeds) (accs w) = Inr A"
    and accs: "accs w1 = A" by (auto simp: transfer_signed_def res_simps)
  note moved = assms(1) [unfolded transfer_amount_law_def, rule_format, OF A assms(3)]
  then have paid: "uint (lamports_of w' treasury) = uint (lamports_of w treasury) - uint amount"
    "uint (lamports_of w' admin) = uint (lamports_of w admin) + uint amount"
    by (simp_all add: w' lamports_of_def accs)
  have "minimum_balance rt 0 \<le> lamports_of w' treasury" if "amount \<noteq> 0"
  proof -
    from amount that have le: "minimum_balance rt 0 \<le> lamports_of w treasury"
      by (auto simp: saturating_sub_def split: if_splits)
    with amount have "amount \<le> lamports_of w treasury - minimum_balance rt 0"
      by (simp add: saturating_sub_def)
    with le show ?thesis
      using paid(1) by (simp add: word_le_def uint_sub_lem [THEN iffD1])
  qed
  with g paid show ?thesis by blast
qed

lemma demo_withdraw:
  "\<exists>w'. withdraw_treasury demo_runtime (demo_tx 0 []) demo_admin demo_config_key demo_treasury_key
     3000 demo_world = Inr w'"
  using demo_keys_distinct
  by (simp add: withdraw_treasury_def withdraw_accounts_def mut_signer_def mut_account_def demo_tx_def demo_config_loaded
      with_seeds_bump_def demo_config_pda with_seeds_def demo_treasury_pda Let_def
      saturating_sub_def demo_lamports transfer_signed_def invoke_def)
    (simp add: demo_config_def demo_runtime_def demo_lamports [unfolded lamports_of_def])

theorem withdrawal_keeps_rent_witness:
  "\<exists>w'. withdraw_treasury demo_runtime (demo_tx 0 []) demo_admin demo_config_key
       demo_treasury_key 3000 demo_world = Inr w' \<and>
     uint (lamports_of w' demo_treasury_key) = 2000 \<and>
     minimum_balance demo_runtime 0 \<le> lamports_of w' demo_treasury_key"
proof -
  from demo_withdraw obtain w' where run: "withdraw_treasury demo_runtime (demo_tx 0 []) demo_admin
      demo_config_key demo_treasury_key 3000 demo_world = Inr w'" by blast
  have "demo_treasury_key \<noteq> demo_admin" using demo_keys_distinct by simp
  from withdrawal_keeps_rent [OF demo_transfer_amount_law run this] run show ?thesis
    by (simp add: demo_lamports)
qed

end
