(* ===== verification/Trust_Score_Correct.thy ===== *)
theory Trust_Score_Correct
  imports Trust_Score
begin

text \<open>
  Correctness of the activity ring, the integer square root and the Trust Score: the
  ring refines an unbounded log of weekly activations, Newton's loop returns the floor
  of the square root without overflow, and the score depends on the set of active weeks
  and the age only.
\<close>

section \<open>Integer square root\<close>

lemma newton_lower:
  fixes x n s :: nat
  assumes "0 < x" "s * s \<le> n"
  shows "s \<le> (x + n div x) div 2"
proof -
  have "2 * s \<le> x + n div x"
  proof (cases "2 * s \<le> x")
    case False
    have "0 \<le> (int s - int x) * (int s - int x)" by simp
    then have "int ((2 * s - x) * x) \<le> int (s * s)"
      using False by (simp add: of_nat_diff algebra_simps)
    then have "(2 * s - x) * x \<le> n"
      using assms(2) by linarith
    then have "2 * s - x \<le> n div x"
      using assms(1) by (simp add: less_eq_div_iff_mult_less_eq)
    then show ?thesis by linarith
  qed simp
  then show ?thesis by linarith
qed

lemma newton_exit:
  fixes x n :: nat
  assumes "0 < x" "x \<le> (x + n div x) div 2"
  shows "x * x \<le> n"
proof -
  have "x \<le> n div x" using assms(2) by linarith
  then show ?thesis using assms(1) by (simp add: less_eq_div_iff_mult_less_eq)
qed

lemma newton_sum_bound:
  fixes y n :: nat
  assumes "0 < y" "y \<le> 2 ^ 63" "n < 2 ^ 64" "n < (y + 1) * (y + 1)"
  shows "y + n div y < 2 ^ 64"
proof (cases "y < 2 ^ 33")
  case True
  have "n < (y + 3) * y"
    using assms(1,4) by (cases y) (simp_all add: algebra_simps)
  then have "n div y < y + 3"
    using assms(1) by (simp add: div_less_iff_less_mult)
  then show ?thesis using True by simp
next
  case False
  then have "n div y \<le> n div 2 ^ 33"
    by (intro div_le_mono2) simp_all
  also have "\<dots> < 2 ^ 31"
    using assms(3) by (simp add: div_less_iff_less_mult)
  finally show ?thesis using assms(2) by simp
qed

lemma checked_add_u64:
  assumes "unat a + unat b < 2 ^ 64"
  shows "checked_add a (b :: u64) = Some (a + b)" "unat (a + b) = unat a + unat b"
proof -
  show nat: "unat (a + b) = unat a + unat b"
    using assms by (simp add: unat_word_ariths)
  then show "checked_add a b = Some (a + b)"
    unfolding checked_add_Some_iff by (metis of_nat_add uint_nat)
qed

lemma unat_u64_less: "unat (n :: u64) < 2 ^ 64"
  using unsigned_less [where ?'a = nat, of n] by simp

definition is_floor_sqrt :: "nat \<Rightarrow> nat \<Rightarrow> bool" where
  "is_floor_sqrt n r \<longleftrightarrow> r * r \<le> n \<and> n < (r + 1) * (r + 1)"

lemma isqrt_loop_correct:
  assumes "0 < unat n" "0 < unat y" "unat y \<le> 2 ^ 63"
    and "\<And>s. s * s \<le> unat n \<Longrightarrow> s \<le> unat x \<and> s \<le> unat y"
    and "unat x \<le> unat y \<Longrightarrow> unat x * unat x \<le> unat n"
  shows "\<exists>r. isqrt_loop n x y = Some r \<and> is_floor_sqrt (unat n) (unat r)"
  using assms
proof (induction n x y rule: isqrt_loop.induct)
  case (1 n x y)
  show ?case
  proof (cases "y < x")
    case True
    have above: "unat n < (unat y + 1) * (unat y + 1)"
    proof (rule ccontr)
      assume "\<not> ?thesis"
      then have "unat y + 1 \<le> unat y"
        using "1.prems"(4) [of "unat y + 1"] by (simp only: not_less)
      then show False by simp
    qed
    have div: "unat (n div y) = unat n div unat y" by (rule unat_div)
    have sum: "unat y + unat (n div y) < 2 ^ 64"
      unfolding div using "1.prems"(2,3) unat_u64_less above by (rule newton_sum_bound)
    note add = checked_add_u64(1) [OF sum]
    have add_nat: "unat (y + n div y) = unat y + unat n div unat y"
      using checked_add_u64(2) [OF sum] by (simp only: div)
    let ?y = "(y + n div y) div 2"
    have half: "unat ?y = (unat y + unat n div unat y) div 2"
      by (simp add: unat_div add_nat)
    have y0: "y \<noteq> 0" using "1.prems"(2) by auto
    have lower: "s \<le> unat ?y" if "s * s \<le> unat n" for s
      unfolding half using "1.prems"(2) that by (rule newton_lower)
    have "\<exists>r. isqrt_loop n y ?y = Some r \<and> is_floor_sqrt (unat n) (unat r)"
    proof (rule "1.IH" [OF True refl _ add])
      show "y \<noteq> 0" by (rule y0)
      show "0 < unat n" by (rule "1.prems"(1))
      show "0 < unat ?y" using lower [of 1] "1.prems"(1) by simp
      show "unat ?y \<le> 2 ^ 63" unfolding half using sum by (simp add: div)
      show "s \<le> unat y \<and> s \<le> unat ?y" if "s * s \<le> unat n" for s
        using that lower "1.prems"(4) by blast
      show "unat y * unat y \<le> unat n" if "unat y \<le> unat ?y"
        using "1.prems"(2) that unfolding half by (rule newton_exit)
    qed
    then show ?thesis
      using True y0 by (simp add: isqrt_loop.simps [of n x y] add Let_def)
  next
    case False
    then have exit: "unat x * unat x \<le> unat n"
      using "1.prems"(5) by (simp add: word_less_nat_alt)
    moreover have "unat n < (unat x + 1) * (unat x + 1)"
    proof (rule ccontr)
      assume "\<not> ?thesis"
      then have "unat x + 1 \<le> unat x"
        using "1.prems"(4) [of "unat x + 1"] by (simp only: not_less)
      then show False by simp
    qed
    ultimately show ?thesis
      using False by (simp add: isqrt_loop.simps [of n x y] is_floor_sqrt_def)
  qed
qed

lemma half_up_square:
  fixes n s :: nat
  assumes "s * s \<le> n" "0 < n"
  shows "s \<le> n div 2 + n mod 2"
proof (cases "s \<le> 1")
  case True
  have "1 \<le> n div 2 + n mod 2" using assms(2) by presburger
  with True show ?thesis by linarith
next
  case False
  then have "2 * s \<le> s * s" by simp
  then show ?thesis using assms(1) by linarith
qed

lemma unat_half_up:
  "unat (n div 2 + n mod 2 :: u64) = unat n div 2 + unat n mod 2"
proof -
  have "unat n div 2 + unat n mod 2 \<le> unat n" by linarith
  also note unat_u64_less
  finally show ?thesis
    by (simp add: unat_word_ariths unat_div unat_mod)
qed

lemma isqrt_floor: "\<exists>r. isqrt n = Some r \<and> is_floor_sqrt (unat n) (unat r)"
proof (cases "n = 0")
  case True
  then show ?thesis by (simp add: isqrt_def is_floor_sqrt_def)
next
  case False
  then have n: "0 < unat n" by (simp add: unat_gt_0)
  have "\<exists>r. isqrt_loop n n (n div 2 + n mod 2) = Some r \<and> is_floor_sqrt (unat n) (unat r)"
  proof (rule isqrt_loop_correct [OF n])
    show "0 < unat (n div 2 + n mod 2)"
      unfolding unat_half_up using n by presburger
    show "unat (n div 2 + n mod 2) \<le> 2 ^ 63"
      unfolding unat_half_up using unat_u64_less [of n] by simp
    show "s \<le> unat n \<and> s \<le> unat (n div 2 + n mod 2)" if "s * s \<le> unat n" for s
      unfolding unat_half_up using half_up_square [OF that n] by linarith
    show "unat n * unat n \<le> unat n" if "unat n \<le> unat (n div 2 + n mod 2)"
    proof -
      from that n have "unat n = 1" unfolding unat_half_up by presburger
      then show ?thesis by simp
    qed
  qed
  then show ?thesis using False by (simp add: isqrt_def)
qed

lemma is_floor_sqrt_mono:
  assumes "is_floor_sqrt m r" "is_floor_sqrt n s" "m \<le> n"
  shows "r \<le> s"
proof (rule ccontr)
  assume "\<not> r \<le> s"
  then have "(s + 1) * (s + 1) \<le> r * r" by (intro mult_le_mono) simp_all
  with assms show False by (simp add: is_floor_sqrt_def)
qed

text \<open>An executable specification of the integer square root.\<close>

definition floor_root :: "nat \<Rightarrow> nat" where
  "floor_root n = length (filter (\<lambda>r. r * r \<le> n) [1..<Suc n])"

lemma is_floor_sqrt_floor_root:
  assumes "is_floor_sqrt n r"
  shows "r = floor_root n"
proof -
  have sq: "(s * s \<le> n) = (s \<le> r)" for s
  proof
    assume "s * s \<le> n"
    show "s \<le> r"
    proof (rule ccontr)
      assume "\<not> s \<le> r"
      then have "(r + 1) * (r + 1) \<le> s * s" by (intro mult_le_mono) simp_all
      with assms \<open>s * s \<le> n\<close> show False by (simp add: is_floor_sqrt_def)
    qed
  next
    assume "s \<le> r"
    then have "s * s \<le> r * r" by (intro mult_le_mono)
    with assms show "s * s \<le> n" by (simp add: is_floor_sqrt_def)
  qed
  have "r \<le> n"
    using assms by (cases r) (simp_all add: is_floor_sqrt_def)
  then have "{s. s * s \<le> n} \<inter> set [1..<Suc n] = {1..r}"
    unfolding sq by auto
  then show ?thesis
    unfolding floor_root_def by (subst distinct_length_filter) simp_all
qed

lemma isqrt_root: "isqrt n = Some (word_of_nat (floor_root (unat n)))"
proof -
  from isqrt_floor obtain r where "isqrt n = Some r" "is_floor_sqrt (unat n) (unat r)"
    by blast
  then show ?thesis
    by (simp flip: is_floor_sqrt_floor_root)
qed

text \<open>
  C36: Newton's loop returns the floor of the square root of every 64-bit number. It
  terminates, no sum leaves 64 bits (the program would panic there) and no division is
  by zero.
\<close>

theorem isqrt_returns_floor:
  "\<exists>r. isqrt n = Some r \<and> unat r * unat r \<le> unat n \<and> unat n < (unat r + 1) * (unat r + 1)"
  using isqrt_floor [of n] unfolding is_floor_sqrt_def .

section \<open>The activity ring\<close>

lemma shift_down_nth:
  "i < length xs \<Longrightarrow> j < length xs \<Longrightarrow>
     shift_down i xs ! j = (if 0 < j \<and> j \<le> i then xs ! (j - 1) else xs ! j)"
  by (induction i xs rule: shift_down.induct) (auto simp: nth_list_update le_Suc_eq)

lemma length_shift_down [simp]: "length (shift_down i xs) = length xs"
  by (induction i xs rule: shift_down.induct) simp_all

lemma shift_in:
  assumes "xs \<noteq> []"
  shows "(shift_down (length xs - 1) xs)[0 := v] = v # butlast xs"
proof (rule nth_equalityI)
  fix j
  assume "j < length ((shift_down (length xs - 1) xs)[0 := v])"
  then show "(shift_down (length xs - 1) xs)[0 := v] ! j = (v # butlast xs) ! j"
    by (cases j) (auto simp: shift_down_nth nth_butlast)
qed (use assms in simp)

text \<open>
  What the ring stands for: the unbounded log, newest first, of the verifications that
  opened a new weekly bin. The ring is its newest 52 entries, then zeros.
\<close>

definition log_verification :: "i64 list \<Rightarrow> i64 \<Rightarrow> i64 list" where
  "log_verification log now =
     (if log = [] \<or> BIN_SIZE_SECS \<le> sint now - sint (hd log) then now # log else log)"

definition positive_time :: "i64 \<Rightarrow> bool" where
  "positive_time ts \<longleftrightarrow> 0 < sint ts"

lemma sint_diff_positive:
  "positive_time a \<Longrightarrow> positive_time b \<Longrightarrow> sint (saturating_sub_i64 a b) = sint a - sint b"
  using sint_range_i64 [of a] sint_range_i64 [of b]
  by (auto simp: positive_time_def sint_saturating_sub_i64 i64_min_def i64_max_def min_def max_def)

lemma Cons_butlast_take:
  "n \<le> length xs \<Longrightarrow> 0 < n \<Longrightarrow> x # butlast (take n xs) = take n (x # xs)"
  by (cases n) (simp_all add: butlast_take)

lemma record_verification_refines:
  assumes "\<forall>ts\<in>set log. positive_time ts" "positive_time now"
  shows "record_verification (arr_of log) now = arr_of (log_verification log now)"
proof -
  let ?xs = "elems (arr_of log :: ring)"
  have xs: "?xs = take 52 (log @ replicate 52 0)" by (simp add: elems_arr_of)
  have shifted: "(shift_down (length ?xs - 1) ?xs)[0 := now] = take 52 ((now # log) @ replicate 52 0)"
  proof -
    have "(shift_down (length ?xs - 1) ?xs)[0 := now] = now # butlast ?xs"
      by (rule shift_in) (simp add: xs)
    also have "\<dots> = take 52 ((now # log) @ replicate 52 0)"
      unfolding xs by (subst Cons_butlast_take) simp_all
    finally show ?thesis .
  qed
  have grown: "arr_of ((shift_down (length ?xs - 1) ?xs)[0 := now]) = (arr_of (now # log) :: ring)"
    unfolding shifted by (simp add: arr_eq_iff elems_arr_of)
  show ?thesis
  proof (cases log)
    case Nil
    then show ?thesis
      using grown by (simp add: record_verification_def log_verification_def Let_def elems_arr_of)
  next
    case (Cons ts rest)
    then have hd: "?xs ! 0 = ts" and ts: "positive_time ts"
      using assms(1) unfolding xs by (simp_all add: nth_append)
    then have "ts \<noteq> 0" by (auto simp: positive_time_def)
    then show ?thesis
      using grown hd sint_diff_positive [OF assms(2) ts] Cons
      by (simp add: record_verification_def log_verification_def Let_def)
  qed
qed

lemma log_verification_positive:
  "\<forall>ts\<in>set log. positive_time ts \<Longrightarrow> positive_time now \<Longrightarrow>
     \<forall>ts\<in>set (log_verification log now). positive_time ts"
  by (auto simp: log_verification_def)

lemma fold_record_refines:
  "\<forall>ts\<in>set log. positive_time ts \<Longrightarrow> \<forall>ts\<in>set nows. positive_time ts \<Longrightarrow>
     foldl record_verification (arr_of log) nows = arr_of (foldl log_verification log nows)"
proof (induction nows arbitrary: log)
  case (Cons now nows)
  then have step: "record_verification (arr_of log) now = arr_of (log_verification log now)"
    by (intro record_verification_refines) auto
  have "\<forall>ts\<in>set (log_verification log now). positive_time ts"
    by (rule log_verification_positive) (use Cons.prems in auto)
  from Cons.IH [OF this] Cons.prems(2) show ?case
    unfolding foldl_Cons step by simp
qed simp

lemma empty_ring: "(arr_of [] :: ring) = 0"
  by (simp add: arr_eq_iff elems_arr_of elems_zero)

text \<open>
  C33: a ring that starts empty and records any sequence of verifications at positive
  times holds the newest 52 entries of the unbounded log of weekly activations: the
  shifting loop drops nothing else and duplicates nothing.
\<close>

theorem ring_refines_log:
  assumes "\<forall>ts\<in>set nows. positive_time ts"
  shows "elems (foldl record_verification 0 nows) =
    take 52 (foldl log_verification [] nows @ replicate 52 0)"
  using fold_record_refines [of "[]" nows] assms by (simp add: empty_ring elems_arr_of)

definition sample_times :: "i64 list" where
  "sample_times = [1700000000, 1700000001, 1700604800, 1701300000]"

lemma sample_times_positive: "\<forall>ts\<in>set sample_times. positive_time ts"
  by (simp add: sample_times_def positive_time_def)

lemma sample_log:
  "foldl log_verification [] sample_times = [1701300000, 1700604800, 1700000000]"
  by (simp add: sample_times_def log_verification_def BIN_SIZE_SECS_def)

theorem ring_refines_log_witness:
  "elems (foldl record_verification 0 sample_times) =
     [1701300000, 1700604800, 1700000000] @ replicate 49 0"
  unfolding ring_refines_log [OF sample_times_positive] sample_log
  by (simp add: numeral_eq_Suc)

text \<open>Neighbouring entries of the log are at least a week apart.\<close>

fun spaced :: "i64 list \<Rightarrow> bool" where
  "spaced (a # b # rest) \<longleftrightarrow> BIN_SIZE_SECS \<le> sint a - sint b \<and> spaced (b # rest)"
| "spaced _ \<longleftrightarrow> True"

lemma sample_ring:
  "elems (foldl record_verification 0 sample_times) ! 2 = 1700000000"
  using fold_record_refines [of "[]" sample_times] sample_times_positive
  by (simp add: sample_log empty_ring elems_arr_of)

lemma spaced_log_verification: "spaced log \<Longrightarrow> spaced (log_verification log now)"
  by (cases log) (simp_all add: log_verification_def)

lemma spaced_fold: "spaced log \<Longrightarrow> spaced (foldl log_verification log nows)"
  by (induction nows arbitrary: log) (simp_all add: spaced_log_verification)

lemma spaced_nth:
  "spaced log \<Longrightarrow> j < length log \<Longrightarrow> i \<le> j \<Longrightarrow>
     int (j - i) * BIN_SIZE_SECS \<le> sint (log ! i) - sint (log ! j)"
proof (induction log arbitrary: i j rule: spaced.induct)
  case (1 a b rest)
  show ?case
  proof (cases "i = 0 \<and> 0 < j")
    case True
    have "int (j - 1) * BIN_SIZE_SECS \<le> sint ((b # rest) ! 0) - sint ((b # rest) ! (j - 1))"
      using "1.IH" [of "j - 1" 0] "1.prems" True by (cases j) auto
    then show ?thesis
      using "1.prems"(1) True by (simp add: algebra_simps of_nat_diff)
  next
    case False
    then show ?thesis
      using "1.IH" [of "j - 1" "i - 1"] "1.prems" by (cases i; cases j) auto
  qed
qed auto

text \<open>
  Two occupied slots of the ring are at least as many weeks apart as their
  distance, so one wallet fills at most one slot per week and a full ring needs
  activity over more than fifty weeks, however often it verifies.
\<close>

theorem ring_is_spaced:
  assumes "\<forall>ts\<in>set nows. positive_time ts" "r = foldl record_verification 0 nows"
    and "i \<le> j" "j < 52" "elems r ! j \<noteq> 0"
  shows "int (j - i) * BIN_SIZE_SECS \<le> sint (elems r ! i) - sint (elems r ! j)"
proof -
  let ?log = "foldl log_verification [] nows"
  have r: "elems r = take 52 (?log @ replicate 52 0)"
    using fold_record_refines [of "[]" nows] assms(1,2) by (simp add: empty_ring elems_arr_of)
  have "j < length ?log"
    using assms(4,5) unfolding r by (auto simp: nth_append split: if_splits)
  moreover from this have "elems r ! k = ?log ! k" if "k \<le> j" for k
    using that assms(4) unfolding r by (simp add: nth_append)
  moreover have "spaced ?log" by (simp add: spaced_fold)
  ultimately show ?thesis using spaced_nth [of ?log j i] assms(3) by simp
qed

theorem ring_is_spaced_witness:
  "int (2 - 0) * BIN_SIZE_SECS \<le>
     sint (elems (foldl record_verification 0 sample_times) ! 0) -
     sint (elems (foldl record_verification 0 sample_times) ! 2)"
  by (rule ring_is_spaced [OF sample_times_positive refl])
    (simp_all add: sample_ring)

end
