(* ===== verification/Score_Correct.thy ===== *)
theory Score_Correct
  imports Trust_Score_Correct Demo
begin

text \<open>
  The Trust Score as a function of what it rewards: the set of active weeks and the age
  of the identity. Both programs compute it, and the registry's preview is the score
  that entros-anchor stores.
\<close>

section \<open>Weekly bins\<close>

text \<open>
  Week \<open>i\<close> before \<open>now\<close>. The division in the code rounds towards zero, so week 0 also
  holds the timestamps of the coming week.
\<close>

definition in_week :: "i64 \<Rightarrow> i64 \<Rightarrow> nat \<Rightarrow> bool" where
  "in_week now ts i \<longleftrightarrow>
     (let d = sint (saturating_sub_i64 now ts)
      in (if i = 0 then - BIN_SIZE_SECS < d else int i * BIN_SIZE_SECS \<le> d)
         \<and> d < int (i + 1) * BIN_SIZE_SECS)"

lemma sdiv_nonneg: "0 \<le> (d::int) \<Longrightarrow> 0 < b \<Longrightarrow> d sdiv b = d div b"
  by (cases "d = 0") (simp_all add: signed_divide_int_def)

lemma sdiv_neg: "(d::int) < 0 \<Longrightarrow> 0 < b \<Longrightarrow> d sdiv b = - ((- d) div b)"
  by (simp add: signed_divide_int_def)

lemma bin_index_week:
  assumes "i < NUM_BINS"
  shows "unat (bin_index now ts) = i \<longleftrightarrow> in_week now ts i"
proof -
  define d where "d = sint (saturating_sub_i64 now ts)"
  have i: "int i < 12" using assms by (simp add: NUM_BINS_def)
  have range: "- 9223372036854775808 \<le> d" "d \<le> 9223372036854775807"
    unfolding d_def using sint_range_i64 by (simp_all add: i64_min_def i64_max_def)
  have idx: "int (unat (bin_index now ts)) = (d sdiv 604800) mod 2 ^ 64"
    by (simp add: bin_index_def d_def BIN_SIZE_SECS_def unsigned_of_int take_bit_eq_mod
        flip: uint_nat)
  have week: "in_week now ts i \<longleftrightarrow>
      (if i = 0 then - 604800 < d else int i * 604800 \<le> d) \<and> d < int (i + 1) * 604800"
    by (simp add: in_week_def d_def BIN_SIZE_SECS_def Let_def)
  have "(d sdiv 604800) mod 2 ^ 64 = int i \<longleftrightarrow> in_week now ts i"
  proof (cases "0 \<le> d")
    case True
    then have q: "d sdiv 604800 = d div 604800" by (simp add: sdiv_nonneg)
    have "0 \<le> d div 604800" "d div 604800 < 18446744073709551616"
      using True range(2) zdiv_mono2 [of d 1 604800] by (simp_all add: pos_imp_zdiv_nonneg_iff)
    then have "d div 604800 mod 2 ^ 64 = d div 604800" by simp
    then show ?thesis
      unfolding q week using True by auto
  next
    case False
    then have q: "d sdiv 604800 = - ((- d) div 604800)" by (simp add: sdiv_neg)
    define k where "k = (- d) div 604800"
    have k: "0 \<le> k" "k < 2 ^ 60" unfolding k_def using False range by simp_all
    have "(- k) mod 2 ^ 64 = (if k = 0 then 0 else 2 ^ 64 - k)"
      using k by (simp add: zmod_zminus1_eq_if)
    then show ?thesis
      unfolding q week k_def [symmetric] using i k False unfolding k_def by auto
  qed
  then show ?thesis unfolding idx [symmetric] by (simp only: of_nat_eq_iff)
qed

lemma length_mark_bins [simp]: "length (mark_bins now tss bins) = length bins"
  by (induction now tss bins rule: mark_bins.induct) (simp_all add: Let_def)

lemma mark_bins_nth:
  "length bins = NUM_BINS \<Longrightarrow> i < NUM_BINS \<Longrightarrow>
     mark_bins now tss bins ! i = (bins ! i \<or> (\<exists>ts\<in>set tss. ts \<noteq> 0 \<and> in_week now ts i))"
proof (induction now tss bins rule: mark_bins.induct)
  case (2 now ts tss bins)
  have less: "bin_index now ts < of_nat NUM_BINS \<longleftrightarrow> unat (bin_index now ts) < NUM_BINS"
    by (simp add: word_less_nat_alt NUM_BINS_def)
  from 2 show ?case
    using bin_index_week [OF "2.prems"(2), of now ts]
    by (auto simp: less Let_def nth_list_update)
qed simp

section \<open>The base score\<close>

definition week_points :: "u16 \<Rightarrow> nat \<Rightarrow> int" where
  "week_points increment i = uint increment * int (NUM_BINS - i) div int NUM_BINS"

definition active_weeks :: "i64 \<Rightarrow> i64 set \<Rightarrow> nat set" where
  "active_weeks now tss = {i \<in> {..<NUM_BINS}. \<exists>ts\<in>tss. ts \<noteq> 0 \<and> in_week now ts i}"

definition base_points :: "u16 \<Rightarrow> i64 \<Rightarrow> i64 set \<Rightarrow> int" where
  "base_points increment now tss = (\<Sum>i\<in>active_weeks now tss. week_points increment i)"

lemma week_points_bounds: "0 \<le> week_points increment i" "week_points increment i \<le> 65535"
proof -
  have inc: "0 \<le> uint increment" "uint increment \<le> 65535"
    using uint_lt2p [of increment] by simp_all
  then have "uint increment * int (NUM_BINS - i) \<le> 65535 * 12"
    by (intro mult_mono) (simp_all add: NUM_BINS_def)
  then show "week_points increment i \<le> 65535"
    unfolding week_points_def by (simp add: NUM_BINS_def)
  show "0 \<le> week_points increment i"
    unfolding week_points_def by (simp add: NUM_BINS_def pos_imp_zdiv_nonneg_iff)
qed

lemma uint_bin_weight: "uint (bin_weight increment i) = week_points increment i"
proof -
  have inc: "0 \<le> uint increment" "uint increment \<le> 65535"
    using uint_lt2p [of increment] by simp_all
  have "unat (of_nat (NUM_BINS - i) :: u64) = NUM_BINS - i"
    by (simp add: NUM_BINS_def unsigned_of_nat take_bit_nat_eq_self)
  then have w: "uint (of_nat (NUM_BINS - i) :: u64) = int (NUM_BINS - i)"
    by (simp only: uint_nat)
  have u: "uint (ucast increment :: u64) = uint increment"
    using inc by (simp add: unsigned_ucast_eq take_bit_int_eq_self)
  have "uint increment * int (NUM_BINS - i) \<le> 65535 * 12"
    using inc by (intro mult_mono) (simp_all add: NUM_BINS_def)
  then have "uint (saturating_mul (ucast increment) (of_nat (NUM_BINS - i)) :: u64) =
      uint increment * int (NUM_BINS - i)"
    by (simp only: uint_saturating_mul w u) simp
  then show ?thesis
    by (simp add: bin_weight_def uint_div week_points_def NUM_BINS_def)
qed

lemma add_bins_sum:
  "uint score + 65535 * int (length bins) < 2 ^ 64 \<Longrightarrow>
     uint (add_bins increment i bins score) =
       uint score + (\<Sum>j<length bins. if bins ! j then week_points increment (i + j) else 0)"
proof (induction increment i bins score rule: add_bins.induct)
  case (2 increment i active rest score)
  let ?score = "if active then saturating_add score (bin_weight increment i) else score"
  have step: "uint ?score = uint score + (if active then week_points increment i else 0)"
    using "2.prems" week_points_bounds [of increment i]
    by (simp add: uint_saturating_add uint_bin_weight)
  have "uint ?score + 65535 * int (length rest) < 2 ^ 64"
    using "2.prems" step week_points_bounds [of increment i] by (simp split: if_splits)
  then show ?case
    using "2.IH" step by (simp add: sum.lessThan_Suc_shift del: sum.lessThan_Suc cong: if_cong)
qed simp

lemma base_score_points: "uint (base_score increment now tss) = base_points increment now (set tss)"
proof -
  let ?bins = "mark_bins now tss (replicate NUM_BINS False)"
  have "uint (base_score increment now tss) =
      (\<Sum>j<NUM_BINS. if ?bins ! j then week_points increment j else 0)"
    unfolding base_score_def
    by (subst add_bins_sum) (simp_all add: NUM_BINS_def cong: if_cong)
  also have "\<dots> = (\<Sum>j<NUM_BINS. if j \<in> active_weeks now (set tss) then week_points increment j else 0)"
    by (rule sum.cong) (simp_all add: mark_bins_nth active_weeks_def)
  also have "\<dots> = base_points increment now (set tss)"
    unfolding base_points_def active_weeks_def by (simp add: sum.inter_filter flip: sum.inter_filter)
  finally show ?thesis .
qed

text \<open>
  C32: the base score of any list of timestamps, in either program: the sum, over the
  weeks (of the last twelve) that hold a timestamp, of the increment weighted by
  recency. The saturating additions never saturate.
\<close>

theorem base_score_is_sum:
  "uint (base_score increment now tss) =
     (\<Sum>i\<in>{i \<in> {..<NUM_BINS}. \<exists>ts\<in>set tss. ts \<noteq> 0 \<and> in_week now ts i}.
        uint increment * int (NUM_BINS - i) div int NUM_BINS)"
  using base_score_points [of increment now tss]
  by (simp add: base_points_def active_weeks_def week_points_def)

section \<open>The age bonus\<close>

definition age_in_days :: "int \<Rightarrow> nat" where
  "age_in_days age_seconds = nat (max 0 (age_seconds div 86400))"

definition bonus_points :: "int \<Rightarrow> nat" where
  "bonus_points age_seconds = 4 * floor_root (min (age_in_days age_seconds) 365)"

lemma floor_root_365: "n \<le> 365 \<Longrightarrow> floor_root n \<le> 365"
proof -
  assume "n \<le> 365"
  have "floor_root n \<le> length [1..<Suc n]"
    unfolding floor_root_def by (rule length_filter_le)
  with \<open>n \<le> 365\<close> show ?thesis by (simp del: upt_Suc)
qed

lemma max_sdiv: "0 < b \<Longrightarrow> max (d sdiv b) 0 = max 0 ((d::int) div b)"
proof (cases "0 \<le> d")
  case False
  assume "0 < b"
  moreover from this False have "0 \<le> (- d) div b" by (simp add: pos_imp_zdiv_nonneg_iff)
  moreover have "d div b < 0" using \<open>0 < b\<close> False by (simp add: div_neg_pos_less0)
  ultimately show ?thesis using False by (simp add: sdiv_neg)
qed (auto simp: sdiv_nonneg)

lemma unat_age_days: "unat (age_days age) = age_in_days (sint age)"
proof -
  have "max 0 (sint age div 86400) < 2 ^ 64"
    using sint_range_i64 [of age] zdiv_mono2 [of "sint age" 1 86400]
    by (cases "0 \<le> sint age") (auto simp: i64_max_def neg_imp_zdiv_neg_iff not_le)
  then show ?thesis
    unfolding age_days_def age_in_days_def max_sdiv [of 86400, simplified]
    by (simp add: unsigned_of_int take_bit_int_eq_self)
qed

lemma age_bonus_points: "age_bonus age = Some (of_nat (bonus_points (sint age)))"
proof -
  let ?days = "min (age_days age) 365"
  have days: "unat ?days = min (age_in_days (sint age)) 365"
    by (simp add: min_def word_le_nat_alt unat_age_days)
  have root: "floor_root (min (age_in_days (sint age)) 365) \<le> 365"
    by (rule floor_root_365) simp
  then have "uint (of_nat (floor_root (min (age_in_days (sint age)) 365)) :: u64) * 4 < 2 ^ 64"
    by (simp add: unsigned_of_nat take_bit_nat_eq_self)
  then show ?thesis
    by (simp add: age_bonus_def isqrt_root days bonus_points_def)
qed

section \<open>The score\<close>

text \<open>The specification: points of the active weeks, plus the age bonus, capped.\<close>

definition score_points :: "u16 \<Rightarrow> u16 \<Rightarrow> i64 \<Rightarrow> i64 \<Rightarrow> i64 set \<Rightarrow> int" where
  "score_points max_score increment now creation tss =
     min (base_points increment now tss + int (bonus_points (sint now - sint creation)))
       (uint max_score)"

lemma base_points_nonneg: "0 \<le> base_points increment now tss"
  unfolding base_points_def by (rule sum_nonneg) (rule week_points_bounds)

lemma bonus_points_le: "bonus_points age \<le> 1460"
  using floor_root_365 [of "min (age_in_days age) 365"] by (simp add: bonus_points_def)

lemma capped_score:
  fixes max_score :: u16
  assumes "uint base = base_points increment now tss"
  shows "uint (ucast (min (saturating_add base (of_nat (bonus_points age)))
      (ucast max_score :: u64)) :: u16) =
    min (base_points increment now tss + int (bonus_points age)) (uint max_score)"
proof -
  have bonus: "uint (of_nat (bonus_points age) :: u64) = int (bonus_points age)"
    using bonus_points_le [of age] by (simp add: unsigned_of_nat take_bit_nat_eq_self)
  have m: "0 \<le> uint max_score" "uint max_score \<le> 65535"
    using uint_lt2p [of max_score] by simp_all
  then have cap: "uint (ucast max_score :: u64) = uint max_score"
    by (simp add: unsigned_ucast_eq take_bit_int_eq_self)
  let ?m = "min (saturating_add base (of_nat (bonus_points age))) (ucast max_score :: u64)"
  have "uint ?m = min (base_points increment now tss + int (bonus_points age)) (uint max_score)"
    unfolding min_def word_le_def uint_saturating_add cap
    using m by (simp add: uint_saturating_add bonus assms cap min_def)
  moreover from this have "0 \<le> uint ?m" "uint ?m < 65536"
    using m base_points_nonneg by simp_all
  ultimately show ?thesis
    by (simp add: unsigned_ucast_eq take_bit_int_eq_self)
qed

lemma anchor_score_points:
  "anchor_trust_score max_score increment now creation r =
     (if i64_min \<le> sint now - sint creation \<and> sint now - sint creation \<le> i64_max
      then Inr (word_of_int (score_points max_score increment now creation (set (elems r))))
      else Inl (AnchorErr entros_anchor_error.ArithmeticOverflow))"
proof (cases "checked_sub_i64 now creation")
  case None
  then show ?thesis
    by (auto simp: anchor_trust_score_def checked_sub_i64_def checked_i64_def)
next
  case (Some age)
  then have age: "sint age = sint now - sint creation"
    by (simp add: checked_sub_i64_def checked_i64_Some)
  have range: "i64_min \<le> sint now - sint creation \<and> sint now - sint creation \<le> i64_max"
    using Some by (auto simp: checked_sub_i64_def checked_i64_def split: if_splits)
  let ?base = "base_score increment now (elems r)"
  let ?m = "ucast (min (saturating_add ?base (of_nat (bonus_points (sint age))))
      (ucast max_score :: u64)) :: u16"
  have "anchor_trust_score max_score increment now creation r = Inr ?m"
    by (simp add: anchor_trust_score_def Some age_bonus_points Let_def)
  moreover have "uint ?m = score_points max_score increment now creation (set (elems r))"
    using capped_score [OF base_score_points, of increment now "elems r" "sint age" max_score]
    by (simp only: score_points_def age)
  then have "word_of_int (score_points max_score increment now creation (set (elems r))) = ?m"
    by (metis word_of_int_uint)
  ultimately show ?thesis using range by simp
qed

text \<open>
  C30: the score that an update stores is exactly the specified one: it never panics
  (Newton's square root stays in 64 bits, the additions do not saturate), fails only when
  the age leaves 64 bits, and is the capped sum of the points of the active weeks and
  four times the integer square root of the age in days (at most a year).
\<close>

theorem anchor_score_exact:
  "anchor_trust_score max_score increment now creation r =
     (let age = sint now - sint creation;
          weeks = {i \<in> {..<NUM_BINS}. \<exists>ts\<in>set (elems r). ts \<noteq> 0 \<and> in_week now ts i};
          base = (\<Sum>i\<in>weeks. uint increment * int (NUM_BINS - i) div int NUM_BINS);
          bonus = 4 * int (floor_root (min (nat (max 0 (age div 86400))) 365))
      in if i64_min \<le> age \<and> age \<le> i64_max
         then Inr (word_of_int (min (base + bonus) (uint max_score)))
         else Inl (AnchorErr entros_anchor_error.ArithmeticOverflow))"
  unfolding anchor_score_points
  by (simp add: score_points_def base_points_def active_weeks_def week_points_def
      bonus_points_def age_in_days_def Let_def)

lemma anchor_score_bounded:
  "anchor_trust_score max_score increment now creation r = Inr s \<Longrightarrow> s \<le> max_score"
proof -
  assume "anchor_trust_score max_score increment now creation r = Inr s"
  then have s: "s = word_of_int (score_points max_score increment now creation (set (elems r)))"
    by (simp add: anchor_score_points split: if_splits)
  have "0 \<le> score_points max_score increment now creation (set (elems r))"
    "score_points max_score increment now creation (set (elems r)) \<le> uint max_score"
    by (simp_all add: score_points_def base_points_nonneg)
  moreover have "uint max_score \<le> 65535" using uint_lt2p [of max_score] by simp
  ultimately show ?thesis
    unfolding s by (simp add: word_le_def unsigned_of_int take_bit_int_eq_self)
qed

text \<open>The preview: the score of the same timestamps.\<close>

lemma registry_score:
  assumes "load_typed rt registry_program_id (try_config rt) k w = Inr config"
    and "compute_trust_score rt t k count creation recent w = Inr w'"
  shows "w' = emit (RegistryEvent (TrustScoreComputed count creation (word_of_int (score_points
      (pc_max_trust_score config) (pc_base_trust_increment config) (clock t) creation
      (set (elems recent)))))) w"
proof -
  let ?base = "base_score (pc_base_trust_increment config) (clock t) (elems recent)"
  from assms obtain age where age: "checked_sub_i64 (clock t) creation = Some age"
    and w': "w' = emit (RegistryEvent (TrustScoreComputed count creation
        (ucast (min (saturating_add (saturating_add ?base 0) (of_nat (bonus_points (sint age))))
          (ucast (pc_max_trust_score config) :: u64))))) w"
    by (auto simp: compute_trust_score_def trust_score_accounts_def res_simps Let_def age_bonus_points)
  have "saturating_add ?base 0 = ?base"
    using uint_lt2p [of ?base] by (simp add: saturating_add_def)
  moreover have "sint age = sint (clock t) - sint creation"
    using age by (simp add: checked_sub_i64_def checked_i64_Some)
  ultimately show ?thesis
    using capped_score [OF base_score_points, of "pc_base_trust_increment config" "clock t"
        "elems recent" "sint age" "pc_max_trust_score config"]
    by (metis w' score_points_def word_of_int_uint)
qed

text \<open>
  C31: the preview of entros-registry is the score that entros-anchor stores: for the
  same configuration, clock, creation time and non-zero timestamps (whatever their order
  and number, ten or fifty-two), the event carries the value that an update would write.
\<close>

theorem preview_equals_stored_score:
  assumes "load_typed rt registry_program_id (try_config rt) k w = Inr config"
    and "compute_trust_score rt t k count creation recent w = Inr w'"
    and "set (elems recent) - {0} = set (elems ring) - {0}"
  shows "\<exists>s. anchor_trust_score (pc_max_trust_score config) (pc_base_trust_increment config)
      (clock t) creation ring = Inr s \<and>
    events w' = events w @ [RegistryEvent (TrustScoreComputed count creation s)]"
proof -
  have "active_weeks now (set (elems recent)) = active_weeks now (set (elems ring))" for now
    using assms(3) unfolding active_weeks_def by blast
  then have same: "score_points m inc now creation (set (elems recent)) =
      score_points m inc now creation (set (elems ring))" for m inc now
    by (simp add: score_points_def base_points_def)
  from assms(1,2) have "checked_sub_i64 (clock t) creation \<noteq> None"
    by (auto simp: compute_trust_score_def trust_score_accounts_def res_simps Let_def)
  then have "i64_min \<le> sint (clock t) - sint creation \<and> sint (clock t) - sint creation \<le> i64_max"
    by (auto simp: checked_sub_i64_def checked_i64_def split: if_splits)
  then show ?thesis
    unfolding anchor_score_points registry_score [OF assms(1,2)] same by simp
qed

definition demo_recent :: "i64 list" where "demo_recent = [1700000000, 1700600000]"

lemma demo_preview_runs:
  "\<exists>w'. compute_trust_score demo_runtime (demo_tx 1700700100 []) demo_config_key 2 1700000000
     (arr_of demo_recent) demo_world = Inr w'"
  by (simp add: compute_trust_score_def trust_score_accounts_def demo_config_loaded with_seeds_bump_def demo_config_pda
      demo_tx_def checked_sub_i64_def checked_i64_def i64_min_def i64_max_def age_bonus_points
      Let_def)

lemma demo_recent_elems:
  "set (elems (arr_of demo_recent :: (i64, 10) arr)) - {0} = set (elems (arr_of demo_recent :: ring)) - {0}"
  by (simp add: elems_arr_of demo_recent_def)

theorem preview_equals_stored_score_witness:
  "\<exists>w' s. compute_trust_score demo_runtime (demo_tx 1700700100 []) demo_config_key 2 1700000000
       (arr_of demo_recent) demo_world = Inr w' \<and>
     anchor_trust_score 10000 100 1700700100 1700000000 (arr_of demo_recent) = Inr s \<and>
     events w' = [RegistryEvent (TrustScoreComputed 2 1700000000 s)]"
proof -
  from demo_preview_runs obtain w' where
    run: "compute_trust_score demo_runtime (demo_tx 1700700100 []) demo_config_key 2 1700000000
      (arr_of demo_recent) demo_world = Inr w'" by blast
  from preview_equals_stored_score [OF demo_config_loaded this demo_recent_elems] run
  show ?thesis by (auto simp: demo_config_def demo_tx_def demo_world_def)
qed

end
