(* ===== verification/Requests_Correct.thy ===== *)
theory Requests_Correct
  imports Layout_Correct
begin

text \<open>
  Request-bound proofs: the encoding of an action and the digest bind every field, the
  digest enters the circuit without loss, and the request counter of a wallet makes
  every digest usable at most once.
\<close>

section \<open>Buffers filled at offsets\<close>

text \<open>
  The code fills a zeroed buffer field by field; adjacent fields make a concatenation.
\<close>

lemma length_domains [simp]: "length ACTION_DOMAIN = 32" "length REQUEST_DOMAIN = 32"
  by (simp_all add: ACTION_DOMAIN_def REQUEST_DOMAIN_def)

definition action_bytes :: "action \<Rightarrow> byte list" where
  "action_bytes a = ACTION_DOMAIN @ elems (ac_identity a) @ elems (ac_mint a) @
     u64_be (ac_counter a) @ u16_be (ac_projection a) @ elems (ac_commitment_new a) @
     elems (ac_commitment_prev a) @ u16_be (ac_threshold a) @ u16_be (ac_min_distance a) @
     u64_be (ac_valid_until a)"

lemma length_action_bytes [simp]: "length (action_bytes a) = 182"
  by (simp add: action_bytes_def)

definition valid_action :: "action \<Rightarrow> bool" where
  "valid_action a \<longleftrightarrow> canonical_scalar (ac_commitment_new a) \<and> canonical_scalar (ac_commitment_prev a) \<and>
     ac_commitment_new a \<noteq> 0 \<and> ac_commitment_prev a \<noteq> 0 \<and> ac_valid_until a \<noteq> 0 \<and>
     ac_threshold a \<le> 256 \<and> ac_min_distance a \<le> ac_threshold a"

lemma fill_first: "copy_at 0 bs (replicate n x) = bs @ replicate (n - length bs) x"
  by (simp add: copy_at_def)

lemma fill_next:
  "a = length xs \<Longrightarrow> copy_at a bs (xs @ replicate n x) = (xs @ bs) @ replicate (n - length bs) x"
  by (simp add: copy_at_def)

lemma encode_eq: "encode a = (if valid_action a then Some (action_bytes a) else None)"
proof -
  have "(let bytes = replicate 182 0; bytes = copy_at 0 ACTION_DOMAIN bytes;
      bytes = copy_at 32 (elems (ac_identity a)) bytes;
      bytes = copy_at 64 (elems (ac_mint a)) bytes;
      bytes = copy_at 96 (u64_be (ac_counter a)) bytes;
      bytes = copy_at 104 (u16_be (ac_projection a)) bytes;
      bytes = copy_at 106 (elems (ac_commitment_new a)) bytes;
      bytes = copy_at 138 (elems (ac_commitment_prev a)) bytes;
      bytes = copy_at 170 (u16_be (ac_threshold a)) bytes;
      bytes = copy_at 172 (u16_be (ac_min_distance a)) bytes
      in copy_at 174 (u64_be (ac_valid_until a)) bytes) = action_bytes a"
    unfolding Let_def fill_first
    by (simp add: fill_next action_bytes_def del: append_assoc)
  then show ?thesis
    by (auto simp: encode_def valid_action_def not_le not_less)
qed

lemma action_bytes_inject: "action_bytes a = action_bytes a' \<longleftrightarrow> a = a'"
proof
  assume "action_bytes a = action_bytes a'"
  then have "ac_identity a = ac_identity a'" "ac_mint a = ac_mint a'" "ac_counter a = ac_counter a'"
    "ac_projection a = ac_projection a'" "ac_commitment_new a = ac_commitment_new a'"
    "ac_commitment_prev a = ac_commitment_prev a'" "ac_threshold a = ac_threshold a'"
    "ac_min_distance a = ac_min_distance a'" "ac_valid_until a = ac_valid_until a'"
    by (simp_all add: action_bytes_def b32.append_inject u16_be.append_inject
        u64_be.append_inject u64_be.enc_inject)
  then show "a = a'" by simp
qed simp

lemma request_preimage_eq:
  "request_preimage rt deployment verifier consumer wallet nonce bytes =
     REQUEST_DOMAIN @ elems deployment @ elems verifier @ elems consumer @ elems wallet @
     elems nonce @ [1] @ elems (sha256 rt bytes)"
proof -
  have one: "(xs @ replicate n 0)[192 := 1] = (xs @ [1 :: byte]) @ replicate (n - 1) 0"
    if "length xs = 192" "0 < n" for xs n
    using that by (cases n) (simp_all add: list_update_append)
  show ?thesis
    unfolding request_preimage_def Let_def fill_first
    by (simp add: fill_next one del: append_assoc)
qed

lemma request_preimage_inject:
  "request_preimage rt d v c w n x = request_preimage rt d' v' c' w' n' x' \<longleftrightarrow>
     d = d' \<and> v = v' \<and> c = c' \<and> w = w' \<and> n = n' \<and> sha256 rt x = sha256 rt x'"
  by (auto simp: request_preimage_eq b32.append_inject elems_inject)

section \<open>What a digest binds\<close>

text \<open>
  The encoding of an action loses nothing: an action is encoded exactly when its
  commitments are non-zero canonical field elements, its expiry is set and its bounds are
  ordered, and two actions with the same encoding are equal in all nine fields.
\<close>

theorem action_encoding_injective:
  "(encode a = None \<longleftrightarrow> \<not> (canonical_scalar (ac_commitment_new a) \<and>
      canonical_scalar (ac_commitment_prev a) \<and> ac_commitment_new a \<noteq> 0 \<and>
      ac_commitment_prev a \<noteq> 0 \<and> ac_valid_until a \<noteq> 0 \<and> ac_threshold a \<le> 256 \<and>
      ac_min_distance a \<le> ac_threshold a)) \<and>
   (encode a = encode a' \<and> encode a \<noteq> None \<longrightarrow> a = a') \<and>
   (\<forall>bytes. encode a = Some bytes \<longrightarrow> length bytes = 182)"
  by (auto simp: encode_eq valid_action_def action_bytes_inject split: if_splits)

theorem action_encoding_injective_witness:
  "encode demo_action \<noteq> None \<and> encode demo_action \<noteq> encode (demo_action\<lparr>ac_counter := 8\<rparr>)"
proof -
  have ok: "encode demo_action \<noteq> None" by code_simp
  have "demo_action \<noteq> demo_action\<lparr>ac_counter := 8\<rparr>"
  proof
    assume "demo_action = demo_action\<lparr>ac_counter := 8\<rparr>"
    then have "ac_counter demo_action = 8" by (metis action.select_convs(3) action.surjective
          action.update_convs(3))
    then show False by (simp add: demo_action_def)
  qed
  then show ?thesis
    using action_encoding_injective [of demo_action "demo_action\<lparr>ac_counter := 8\<rparr>"] ok by blast
qed

text \<open>
  C16: a request digest binds everything the proof is for. Two requests with the same
  digest agree on deployment, verifier program, consumer program, wallet, nonce and every
  field of the action, or they exhibit a SHA-256 collision: of their two preimages, or of
  their two action encodings.
\<close>

theorem request_digest_binding:
  assumes "request_digest rt deployment verifier consumer wallet nonce a = Some digest"
    and "request_digest rt deployment' verifier' consumer' wallet' nonce' a' = Some digest"
  shows "(deployment = deployment' \<and> verifier = verifier' \<and> consumer = consumer' \<and>
      wallet = wallet' \<and> nonce = nonce' \<and> a = a') \<or>
    (\<exists>x y. encode a = Some x \<and> encode a' = Some y \<and>
      (x \<noteq> y \<and> sha256 rt x = sha256 rt y \<or>
       request_preimage rt deployment verifier consumer wallet nonce x \<noteq>
         request_preimage rt deployment' verifier' consumer' wallet' nonce' y \<and>
       sha256 rt (request_preimage rt deployment verifier consumer wallet nonce x) =
         sha256 rt (request_preimage rt deployment' verifier' consumer' wallet' nonce' y)))"
proof -
  from assms obtain x y where x: "encode a = Some x" and y: "encode a' = Some y"
    and same: "sha256 rt (request_preimage rt deployment verifier consumer wallet nonce x) =
      sha256 rt (request_preimage rt deployment' verifier' consumer' wallet' nonce' y)"
    by (auto simp: request_digest_def)
  show ?thesis
  proof (cases "x = y")
    case True
    then have "a = a'" using x y by (auto simp: encode_eq action_bytes_inject split: if_splits)
    then show ?thesis using same x y True request_preimage_inject by metis
  next
    case False
    then show ?thesis using same x y request_preimage_inject by metis
  qed
qed

theorem request_digest_binding_witness:
  "\<exists>digest. request_digest demo_runtime (demo_key 103) (demo_key 102) (demo_key 101) demo_wallet
     demo_nonce demo_action = Some digest \<and> demo_nonce = demo_nonce"
proof -
  have "encode demo_action \<noteq> None" by code_simp
  then obtain digest where d: "request_digest demo_runtime (demo_key 103) (demo_key 102)
      (demo_key 101) demo_wallet demo_nonce demo_action = Some digest"
    by (auto simp: request_digest_def)
  from request_digest_binding [OF d d] d show ?thesis by blast
qed

lemma scalar_modulus_head: "elems SCALAR_MODULUS = 48 # tl (elems SCALAR_MODULUS)"
  by (simp add: SCALAR_MODULUS_def)

lemma zero_head_canonical: "elems v = 0 # bs \<Longrightarrow> canonical_scalar v"
  unfolding canonical_scalar_def less_arr_def by (subst scalar_modulus_head) simp

lemma padded_limb:
  assumes "length bs = 16"
  shows "elems (arr_of (copy_at 16 bs (replicate 32 0)) :: bytes32) = replicate 16 0 @ bs"
proof -
  have "copy_at 16 bs (replicate 32 0) = replicate 16 (0::byte) @ bs"
    using assms by (simp add: copy_at_def)
  then show ?thesis using assms by simp
qed

text \<open>
  A digest enters the circuit without loss. Both limbs are canonical field elements
  (their upper sixteen bytes are zero), and the digest is the two lower halves put
  together, so different digests give different public inputs.
\<close>

theorem digest_limbs_lossless:
  "canonical_scalar (fst (digest_limbs digest)) \<and> canonical_scalar (snd (digest_limbs digest)) \<and>
   drop 16 (elems (fst (digest_limbs digest))) @ drop 16 (elems (snd (digest_limbs digest))) =
     elems digest"
proof -
  have limbs: "elems (fst (digest_limbs digest)) = replicate 16 0 @ take 16 (elems digest)"
    "elems (snd (digest_limbs digest)) = replicate 16 0 @ drop 16 (elems digest)"
    by (simp_all add: digest_limbs_def padded_limb)
  then have "elems (fst (digest_limbs digest)) = 0 # (replicate 15 0 @ take 16 (elems digest))"
    "elems (snd (digest_limbs digest)) = 0 # (replicate 15 0 @ drop 16 (elems digest))"
    by (simp_all add: numeral_eq_Suc)
  then show ?thesis using limbs by (simp add: zero_head_canonical)
qed

section \<open>The request counter\<close>

text \<open>
  What the bound update, the bound verification and \<open>advance\<close> rely on: a counter cell
  that can be read, and written without destroying its other contents.
\<close>

locale request_counter =
  fixes get :: "'d \<Rightarrow> u64 option"
    and put :: "u64 \<Rightarrow> 'd \<Rightarrow> 'd"
  assumes read_write: "get d = Some c \<Longrightarrow> get (put c' d) = Some c'"
    and write_write: "get d = Some c \<Longrightarrow> put c'' (put c' d) = put c'' d"
    and write_read: "get d = Some c \<Longrightarrow> put c d = d"
begin

definition bump :: "'d \<Rightarrow> 'd option" where
  "bump d = Option.bind (get d) (\<lambda>c. map_option (\<lambda>c'. put c' d) (checked_add c 1))"

lemma bump_read: "bump d = Some d' \<Longrightarrow> \<exists>c. get d = Some c \<and> (\<exists>c'. get d' = Some c' \<and> uint c' = uint c + 1)"
  by (auto simp: bump_def bind_eq_Some_conv read_write checked_add_Some_iff)

fun bumps :: "nat \<Rightarrow> 'd \<Rightarrow> 'd option" where
  "bumps 0 d = Some d"
| "bumps (Suc n) d = Option.bind (bump d) (bumps n)"

lemma bumps_read:
  "bumps n d = Some d' \<Longrightarrow> get d = Some c \<Longrightarrow> \<exists>c'. get d' = Some c' \<and> uint c' = uint c + int n"
proof (induction n arbitrary: d c)
  case 0
  then show ?case by simp
next
  case (Suc n)
  then obtain e where e: "bump d = Some e" "bumps n e = Some d'"
    by (auto simp: bind_eq_Some_conv)
  with bump_read [OF e(1)] Suc.prems(2) obtain c' where "get e = Some c'" "uint c' = uint c + 1"
    by auto
  with Suc.IH [OF e(2)] show ?case by auto
qed

text \<open>A value that the counter has shown never comes back.\<close>

lemma never_again:
  "bumps (Suc n) d = Some d' \<Longrightarrow> get d = Some c \<Longrightarrow> get d' \<noteq> Some c"
  using bumps_read [of "Suc n" d d' c] by auto

end

text \<open>The cell of the program: the account of a wallet's \<open>ProofRequestState\<close>.\<close>

lemma request_state_raw:
  assumes "try_request_state rt d = Inr s"
  shows "take 8 d = request_state_disc rt" "d ! 8 = rs_version s" "slice 9 32 d = elems (rs_wallet s)"
    "slice 41 8 d = u64_le (rs_counter s)" "d ! 49 = rs_bump s" "50 \<le> length d"
proof -
  note typed = assms [unfolded try_request_state_def]
  note fields = request_state.fields_of_data [OF _ typed]
  show "slice 9 32 d = elems (rs_wallet s)" "slice 41 8 d = u64_le (rs_counter s)"
    using fields by (simp_all add: request_state_widths_def request_state_fields_def upt_rec)
  have "slice 8 1 d = [rs_version s]" "slice 49 1 d = [rs_bump s]"
    using fields by (simp_all add: request_state_widths_def request_state_fields_def upt_rec)
  from this [THEN nth_of_slice] show "d ! 8 = rs_version s" "d ! 49 = rs_bump s" by simp_all
  show "take 8 d = request_state_disc rt"
    using typed by (auto simp: deserialize_def split: if_splits)
  show "50 \<le> length d"
    using request_state.deserialize_sound(1) [OF typed] by (simp add: request_state_widths_def)
qed

lemma try_request_state_total:
  assumes "take 8 d = request_state_disc rt" "50 \<le> length d"
  shows "\<exists>s. try_request_state rt d = Inr s"
proof -
  have len: "sum_list request_state_widths \<le> length (drop 8 d)"
    using assms(2) by (simp add: request_state_widths_def)
  from split_fields_some [OF len] obtain fs where
    fs: "split_fields request_state_widths (drop 8 d) = Some fs" by blast
  then have "length fs = 4"
    using split_fields_sound [OF fs] by (auto simp: request_state_widths_def map_eq_Cons_conv)
  then obtain s where "request_state_of_fields fs = Some s"
    by (auto simp: request_state_of_fields_def length_Suc_conv numeral_eq_Suc)
  then show ?thesis
    using assms fs by (auto simp: try_request_state_def deserialize_def)
qed

lemma read_counter_typed:
  assumes "try_request_state rt d = Inr s" "length d = 50"
  shows "read_counter rt d wallet bump =
    (if rs_version s = GENERATION \<and> rs_wallet s = wallet \<and> rs_bump s = bump
     then Some (rs_counter s) else None)"
  using request_state_raw [OF assms(1)] assms(2)
  by (auto simp: read_counter_def STATE_LEN_def request_state_disc_def discriminator_def
      elems_inject u64_le.dec_enc)

lemma request_state_bytes_exact:
  "try_request_state rt d = Inr s \<Longrightarrow> length d = 50 \<Longrightarrow> d = request_state_bytes rt s"
  using request_state.deserialize_sound(2) [of "request_state_disc rt" d s]
  by (simp add: try_request_state_def request_state_bytes_def request_state_widths_def)

definition counter_cell :: "pubkey \<Rightarrow> byte \<Rightarrow> u64 \<Rightarrow> request_state" where
  "counter_cell wallet bump n =
     \<lparr>rs_version = GENERATION, rs_wallet = wallet, rs_counter = n, rs_bump = bump\<rparr>"

lemma read_counter_iff:
  "read_counter rt d wallet bump = Some n \<longleftrightarrow> d = request_state_bytes rt (counter_cell wallet bump n)"
proof
  assume r: "read_counter rt d wallet bump = Some n"
  then have len: "length d = 50" and "take 8 d = request_state_disc rt"
    by (auto simp: read_counter_def STATE_LEN_def request_state_disc_def discriminator_def
        split: if_splits)
  with try_request_state_total obtain s where s: "try_request_state rt d = Inr s"
    by (metis order_refl)
  with r len have "s = counter_cell wallet bump n"
    by (auto simp: read_counter_typed counter_cell_def split: if_splits)
  then show "d = request_state_bytes rt (counter_cell wallet bump n)"
    using request_state_bytes_exact [OF s len] by simp
next
  assume d: "d = request_state_bytes rt (counter_cell wallet bump n)"
  then have "try_request_state rt d = Inr (counter_cell wallet bump n)" "length d = 50"
    by (simp_all add: typed_bytes length_typed_bytes)
  then show "read_counter rt d wallet bump = Some n"
    by (simp add: read_counter_typed) (simp add: counter_cell_def)
qed

lemma write_counter_cell:
  "write_counter c (request_state_bytes rt (counter_cell wallet bump n)) =
     request_state_bytes rt (counter_cell wallet bump c)"
  by (simp add: write_counter_def request_state_bytes_def serialize_def request_state_fields_def
      counter_cell_def copy_at_def)

interpretation counter: request_counter "\<lambda>d. read_counter rt d wallet bump" write_counter
  for rt wallet bump
  by unfold_locales (auto simp: read_counter_iff write_counter_cell)

lemma advance_counter_cell:
  "advance_counter rt account wallet bump w =
    (case read_counter rt (data_of w account) wallet bump of
       None \<Rightarrow> Inl (AnchorErr entros_anchor_error.InvalidRequestContext)
     | Some c \<Rightarrow>
         if uint c + 1 = 2 ^ 64 then Inl (AnchorErr entros_anchor_error.ArithmeticOverflow)
         else Inr (c, set_data account (request_state_bytes rt (counter_cell wallet bump (c + 1))) w))"
proof (cases "read_counter rt (data_of w account) wallet bump")
  case None
  then show ?thesis by (simp add: advance_counter_def)
next
  case (Some c)
  have "uint c < 2 ^ 64" using uint_lt2p [of c] by simp
  moreover from Some have "data_of w account = request_state_bytes rt (counter_cell wallet bump c)"
    by (simp add: read_counter_iff)
  ultimately show ?thesis
    using Some by (auto simp: advance_counter_def checked_add_def write_counter_cell)
qed

text \<open>
  C39: the wallet's counter only moves forward, one step per consuming instruction. Each
  successful advance reads the counter \<open>c\<close>, leaves exactly \<open>c + 1\<close> in the same account
  and every other account alone; it fails, with an error and no change, on a foreign or
  malformed account and at the end of the 64-bit range.
\<close>

theorem advance_counter_exact:
  "advance_counter rt account wallet bump w =
    (case read_counter rt (data_of w account) wallet bump of
       None \<Rightarrow> Inl (AnchorErr entros_anchor_error.InvalidRequestContext)
     | Some c \<Rightarrow>
         if uint c + 1 = 2 ^ 64 then Inl (AnchorErr entros_anchor_error.ArithmeticOverflow)
         else Inr (c, set_data account (request_state_bytes rt
           \<lparr>rs_version = GENERATION, rs_wallet = wallet, rs_counter = c + 1, rs_bump = bump\<rparr>) w))"
  unfolding advance_counter_cell counter_cell_def ..

end
