(* ===== verification/Receipts_Correct.thy ===== *)
theory Receipts_Correct
  imports Requests_Correct
begin

text \<open>
  Validator receipts: the messages that are accepted are exactly the encodings of the
  three formats, a message speaks for one wallet, commitment, purpose and version only,
  the digest of the fourth format binds its fields, and a message is only taken from a
  single-signature Ed25519 instruction that refers to its own data.
\<close>

section \<open>Messages as concatenations\<close>

lemma slices_concat:
  assumes "sum_list ns = length (d :: byte list)"
  shows "concat (map (\<lambda>i. slice (sum_list (take i ns)) (ns ! i) d) [0..<length ns]) = d"
proof -
  from split_fields_some [of ns d] assms obtain fs where fs: "split_fields ns d = Some fs" by auto
  note sound = split_fields_sound [OF fs]
  then have "length fs = length ns" by (metis length_map)
  moreover have "fs ! i = slice (sum_list (take i ns)) (ns ! i) d" if "i < length ns" for i
    using split_fields_nth [OF fs that] .
  ultimately have "fs = map (\<lambda>i. slice (sum_list (take i ns)) (ns ! i) d) [0..<length ns]"
    by (intro nth_equalityI) simp_all
  with sound assms show ?thesis by simp
qed

lemma slice_single: "i < length d \<Longrightarrow> slice i 1 d = [d ! i]"
  by (simp add: slice_def take_Suc hd_drop_conv_nth)

definition receipt_v1 :: "pubkey \<Rightarrow> bytes32 \<Rightarrow> i64 \<Rightarrow> byte list" where
  "receipt_v1 wallet commitment ts = elems wallet @ elems commitment @ u64_le ts"

definition receipt_v2 :: "receipt_purpose \<Rightarrow> u16 \<Rightarrow> pubkey \<Rightarrow> bytes32 \<Rightarrow> i64 \<Rightarrow> byte list" where
  "receipt_v2 purpose version wallet commitment ts =
     RECEIPT_V2_DOMAIN @ [purpose_code purpose] @ u16_le version @ elems wallet @
     elems commitment @ u64_le ts"

definition receipt_v3 ::
  "receipt_purpose \<Rightarrow> u16 \<Rightarrow> pubkey \<Rightarrow> bytes32 \<Rightarrow> i64 \<Rightarrow> receipt_session \<Rightarrow> byte list" where
  "receipt_v3 purpose version wallet commitment ts s =
     RECEIPT_V3_DOMAIN @ [purpose_code purpose] @ u16_le version @ elems wallet @
     elems commitment @ u64_le ts @ elems (final_digest s) @ [assurance_tier s]"

lemma length_receipt_domains [simp]:
  "length RECEIPT_V2_DOMAIN = 28" "length RECEIPT_V3_DOMAIN = 28" "length RECEIPT_V4_DOMAIN = 28"
  by (simp_all add: RECEIPT_V2_DOMAIN_def RECEIPT_V3_DOMAIN_def RECEIPT_V4_DOMAIN_def)

lemma length_receipts [simp]:
  "length (receipt_v1 wallet commitment ts) = 72"
  "length (receipt_v2 purpose version wallet commitment ts) = 103"
  "length (receipt_v3 purpose version wallet commitment ts s) = 136"
  by (simp_all add: receipt_v1_def receipt_v2_def receipt_v3_def)

lemma receipt_v1_slices:
  assumes "length (m :: byte list) = 72"
  shows "m = slice 0 32 m @ slice 32 32 m @ slice 64 8 m"
  using slices_concat [of "[32, 32, 8]" m] assms by (simp add: upt_rec)

lemma receipt_v2_slices:
  assumes "length (m :: byte list) = 103"
  shows "m = slice 0 28 m @ [m ! 28] @ slice 29 2 m @ slice 31 32 m @ slice 63 32 m @ slice 95 8 m"
  using slices_concat [of "[28, 1, 2, 32, 32, 8]" m] assms slice_single [of 28 m]
  by (simp add: upt_rec)

lemma receipt_v3_slices:
  assumes "length (m :: byte list) = 136"
  shows "m = slice 0 28 m @ [m ! 28] @ slice 29 2 m @ slice 31 32 m @ slice 63 32 m @ slice 95 8 m @
    slice 103 32 m @ [m ! 135]"
  using slices_concat [of "[28, 1, 2, 32, 32, 8, 32, 1]" m] assms slice_single [of 28 m]
    slice_single [of 135 m]
  by (simp add: upt_rec)

lemma receipt_payload_v1:
  assumes "length (m :: byte list) = 72"
  shows "receipt_payload m purpose version = Inr (rw, rc, ts, session) \<longleftrightarrow>
    purpose = Mint \<and> version = 0 \<and> session = None \<and> length rw = 32 \<and> length rc = 32 \<and>
    m = rw @ rc @ u64_le ts"
proof
  assume "receipt_payload m purpose version = Inr (rw, rc, ts, session)"
  then have p: "purpose = Mint" "version = 0" "session = None" "rw = slice 0 32 m"
    "rc = slice 32 32 m" "ts = from_le (slice 64 8 m)"
    using assms by (auto simp: receipt_payload_def receipt_lens res_simps)
  moreover have "u64_le ts = slice 64 8 m"
    unfolding p(6) by (rule u64_le.enc_dec) (use assms in simp)
  ultimately show "purpose = Mint \<and> version = 0 \<and> session = None \<and> length rw = 32 \<and> length rc = 32 \<and>
    m = rw @ rc @ u64_le ts"
    using receipt_v1_slices [OF assms] assms by simp
next
  assume "purpose = Mint \<and> version = 0 \<and> session = None \<and> length rw = 32 \<and> length rc = 32 \<and>
    m = rw @ rc @ u64_le ts"
  then show "receipt_payload m purpose version = Inr (rw, rc, ts, session)"
    by (simp add: receipt_payload_def receipt_lens layout_simps u64_le.dec_enc)
      (simp add: slice_def u64_le.dec_enc)
qed

lemma receipt_payload_v2:
  assumes "length (m :: byte list) = 103"
  shows "receipt_payload m purpose version = Inr (rw, rc, ts, session) \<longleftrightarrow>
    session = None \<and> length rw = 32 \<and> length rc = 32 \<and>
    m = RECEIPT_V2_DOMAIN @ [purpose_code purpose] @ u16_le version @ rw @ rc @ u64_le ts"
proof
  assume "receipt_payload m purpose version = Inr (rw, rc, ts, session)"
  then have p: "slice 0 28 m = RECEIPT_V2_DOMAIN" "m ! 28 = purpose_code purpose"
    "version = from_le (slice 29 2 m)" "session = None" "rw = slice 31 32 m"
    "rc = slice 63 32 m" "ts = from_le (slice 95 8 m)"
    using assms by (auto simp: receipt_payload_def receipt_lens res_simps)
  moreover have "u64_le ts = slice 95 8 m" "u16_le version = slice 29 2 m"
    unfolding p(3,7) by (rule u64_le.enc_dec u16_le.enc_dec, use assms in simp)+
  ultimately show "session = None \<and> length rw = 32 \<and> length rc = 32 \<and>
    m = RECEIPT_V2_DOMAIN @ [purpose_code purpose] @ u16_le version @ rw @ rc @ u64_le ts"
    using receipt_v2_slices [OF assms] assms by simp
next
  assume "session = None \<and> length rw = 32 \<and> length rc = 32 \<and>
    m = RECEIPT_V2_DOMAIN @ [purpose_code purpose] @ u16_le version @ rw @ rc @ u64_le ts"
  then show "receipt_payload m purpose version = Inr (rw, rc, ts, session)"
    by (simp add: receipt_payload_def receipt_lens slice_def nth_append u16_le.dec_enc u64_le.dec_enc
        Let_def drop_Cons')
qed

lemma receipt_payload_v3:
  assumes "length (m :: byte list) = 136"
  shows "receipt_payload m purpose version = Inr (rw, rc, ts, session) \<longleftrightarrow>
    (\<exists>s. session = Some s \<and> assurance_tier s \<le> MAX_ASSURANCE_TIER \<and> length rw = 32 \<and> length rc = 32 \<and>
    m = RECEIPT_V3_DOMAIN @ [purpose_code purpose] @ u16_le version @ rw @ rc @ u64_le ts @
      elems (final_digest s) @ [assurance_tier s])"
proof
  assume "receipt_payload m purpose version = Inr (rw, rc, ts, session)"
  then have p: "slice 0 28 m = RECEIPT_V3_DOMAIN" "m ! 28 = purpose_code purpose"
    "version = from_le (slice 29 2 m)" "rw = slice 31 32 m"
    "rc = slice 63 32 m" "ts = from_le (slice 95 8 m)" "m ! 135 \<le> MAX_ASSURANCE_TIER"
    "session = Some \<lparr>final_digest = arr_of (slice 103 32 m), assurance_tier = m ! 135\<rparr>"
    using assms by (auto simp: receipt_payload_def receipt_lens res_simps Let_def)
  moreover have "u64_le ts = slice 95 8 m" "u16_le version = slice 29 2 m"
    unfolding p(3,6) by (rule u64_le.enc_dec u16_le.enc_dec, use assms in simp)+
  ultimately show "\<exists>s. session = Some s \<and> assurance_tier s \<le> MAX_ASSURANCE_TIER \<and> length rw = 32 \<and>
    length rc = 32 \<and> m = RECEIPT_V3_DOMAIN @ [purpose_code purpose] @ u16_le version @ rw @ rc @
      u64_le ts @ elems (final_digest s) @ [assurance_tier s]"
    using receipt_v3_slices [OF assms] assms by simp
next
  assume "\<exists>s. session = Some s \<and> assurance_tier s \<le> MAX_ASSURANCE_TIER \<and> length rw = 32 \<and>
    length rc = 32 \<and> m = RECEIPT_V3_DOMAIN @ [purpose_code purpose] @ u16_le version @ rw @ rc @
      u64_le ts @ elems (final_digest s) @ [assurance_tier s]"
  then show "receipt_payload m purpose version = Inr (rw, rc, ts, session)"
    by (auto simp: receipt_payload_def receipt_lens slice_def nth_append u16_le.dec_enc u64_le.dec_enc
        Let_def drop_Cons')
qed

definition fresh :: "i64 \<Rightarrow> i64 \<Rightarrow> bool" where
  "fresh ts now \<longleftrightarrow> sint ts \<le> sint now \<and> sint now - sint ts \<le> MAX_RECEIPT_AGE_SECS"

lemma fresh_saturating:
  "sint ts \<le> sint now \<and> sint (saturating_sub_i64 now ts) \<le> MAX_RECEIPT_AGE_SECS \<longleftrightarrow> fresh ts now"
  by (auto simp: fresh_def sint_saturating_sub_i64 MAX_RECEIPT_AGE_SECS_def i64_min_def i64_max_def)

lemma receipt_accepted:
  "verify_receipt_payload m wallet commitment purpose version now = Inr session \<longleftrightarrow>
    (\<exists>ts. fresh ts now \<and>
      (m = receipt_v1 wallet commitment ts \<and> purpose = Mint \<and> version = 0 \<and> session = None \<or>
       m = receipt_v2 purpose version wallet commitment ts \<and> session = None \<or>
       (\<exists>s. m = receipt_v3 purpose version wallet commitment ts s \<and>
          assurance_tier s \<le> MAX_ASSURANCE_TIER \<and> session = Some s)))"
  (is "?lhs \<longleftrightarrow> ?rhs")
proof -
  have accepted: "?lhs \<longleftrightarrow> (\<exists>ts. fresh ts now \<and>
      receipt_payload m purpose version = Inr (elems wallet, elems commitment, ts, session))"
    unfolding verify_receipt_payload_def fresh_saturating [symmetric]
    by (auto simp: and_then_Inr require_Inr split: prod.splits)
  have format: "receipt_payload m purpose version = Inr (elems wallet, elems commitment, ts, session) \<longleftrightarrow>
      (m = receipt_v1 wallet commitment ts \<and> purpose = Mint \<and> version = 0 \<and> session = None \<or>
       m = receipt_v2 purpose version wallet commitment ts \<and> session = None \<or>
       (\<exists>s. m = receipt_v3 purpose version wallet commitment ts s \<and>
          assurance_tier s \<le> MAX_ASSURANCE_TIER \<and> session = Some s))" for ts
  proof (cases "length m = 72 \<or> length m = 103 \<or> length m = 136")
    case True
    then consider "length m = 72" | "length m = 103" | "length m = 136" by blast
    then show ?thesis
    proof cases
      case 1
      then have "m \<noteq> receipt_v2 purpose version wallet commitment ts"
        "m \<noteq> receipt_v3 purpose version wallet commitment ts s" for s by auto
      with receipt_payload_v1 [OF 1] show ?thesis by (auto simp: receipt_v1_def)
    next
      case 2
      then have "m \<noteq> receipt_v1 wallet commitment ts"
        "m \<noteq> receipt_v3 purpose version wallet commitment ts s" for s by auto
      with receipt_payload_v2 [OF 2] show ?thesis by (auto simp: receipt_v2_def)
    next
      case 3
      then have "m \<noteq> receipt_v1 wallet commitment ts"
        "m \<noteq> receipt_v2 purpose version wallet commitment ts" by auto
      with receipt_payload_v3 [OF 3] show ?thesis by (auto simp: receipt_v3_def)
    qed
  next
    case False
    then have "m \<noteq> receipt_v1 wallet commitment ts" "m \<noteq> receipt_v2 purpose version wallet commitment ts"
      "m \<noteq> receipt_v3 purpose version wallet commitment ts s" for s by auto
    moreover have "receipt_payload m purpose version = Inl MalformedReceiptMessage"
      using False by (simp add: receipt_payload_def receipt_lens)
    ultimately show ?thesis by simp
  qed
  show ?thesis unfolding accepted format ..
qed

lemma purpose_code_inject [simp]: "purpose_code p = purpose_code q \<longleftrightarrow> p = q"
  by (cases p; cases q) simp_all

lemma receipt_v1_inject:
  "receipt_v1 wallet commitment ts = receipt_v1 wallet' commitment' ts' \<longleftrightarrow>
     wallet = wallet' \<and> commitment = commitment' \<and> ts = ts'"
  by (simp add: receipt_v1_def b32.append_inject u64_le.enc_inject)

lemma receipt_v2_inject:
  "receipt_v2 purpose version wallet commitment ts = receipt_v2 purpose' version' wallet' commitment' ts' \<longleftrightarrow>
     purpose = purpose' \<and> version = version' \<and> wallet = wallet' \<and> commitment = commitment' \<and> ts = ts'"
  by (simp add: receipt_v2_def b32.append_inject u16_le.append_inject u64_le.enc_inject)

lemma receipt_v3_inject:
  "receipt_v3 purpose version wallet commitment ts s =
     receipt_v3 purpose' version' wallet' commitment' ts' s' \<longleftrightarrow>
     purpose = purpose' \<and> version = version' \<and> wallet = wallet' \<and> commitment = commitment' \<and>
     ts = ts' \<and> s = s'"
  by (auto simp: receipt_v3_def b32.append_inject u16_le.append_inject u64_le.append_inject
      elems_inject)

lemma receipt_formats_apart:
  "receipt_v1 w c ts \<noteq> receipt_v2 p v w' c' ts'" "receipt_v2 p v w' c' ts' \<noteq> receipt_v1 w c ts"
  "receipt_v1 w c ts \<noteq> receipt_v3 p v w' c' ts' s" "receipt_v3 p v w' c' ts' s \<noteq> receipt_v1 w c ts"
  "receipt_v2 p' v' w c ts \<noteq> receipt_v3 p v w' c' ts' s"
  "receipt_v3 p v w' c' ts' s \<noteq> receipt_v2 p' v' w c ts"
  by (auto dest: arg_cong [of _ _ length])

text \<open>
  C19: the accepted receipts are exactly the encodings of their three formats: for the
  caller's wallet, the commitment of the call, the purpose and projection version of the
  call, a time not in the future and at most 300 seconds old. The oldest format speaks for
  minting at version zero only, and the session of the newest is returned as signed, with
  an assurance tier of at most two. Every other message is refused.
\<close>

theorem accepted_receipts:
  "verify_receipt_payload m wallet commitment purpose version now = Inr session \<longleftrightarrow>
    (\<exists>ts. sint ts \<le> sint now \<and> sint now - sint ts \<le> 300 \<and>
      (m = elems wallet @ elems commitment @ u64_le ts \<and>
         purpose = Mint \<and> version = 0 \<and> session = None \<or>
       m = RECEIPT_V2_DOMAIN @ [purpose_code purpose] @ u16_le version @ elems wallet @
           elems commitment @ u64_le ts \<and> session = None \<or>
       (\<exists>s. m = RECEIPT_V3_DOMAIN @ [purpose_code purpose] @ u16_le version @ elems wallet @
              elems commitment @ u64_le ts @ elems (final_digest s) @ [assurance_tier s] \<and>
            assurance_tier s \<le> 2 \<and> session = Some s)))"
  unfolding receipt_accepted fresh_def receipt_v1_def receipt_v2_def receipt_v3_def
    MAX_RECEIPT_AGE_SECS_def MAX_ASSURANCE_TIER_def conj_assoc ..

text \<open>
  C21: a receipt speaks for one call. A message that is accepted for a wallet, a
  commitment, a purpose and a projection version, at whatever time, is accepted for no
  other combination: a receipt for minting does not reset, one wallet's does not serve
  another, and the same message always carries the same session.
\<close>

theorem receipt_speaks_for_one_call:
  assumes "verify_receipt_payload m wallet commitment purpose version now = Inr session"
    and "verify_receipt_payload m wallet' commitment' purpose' version' now' = Inr session'"
  shows "wallet = wallet' \<and> commitment = commitment' \<and> purpose = purpose' \<and> version = version' \<and>
    session = session'"
  using assms unfolding receipt_accepted
  by (elim exE conjE disjE)
    (simp_all add: receipt_v1_inject receipt_v2_inject receipt_v3_inject receipt_formats_apart)

theorem receipt_speaks_for_one_call_witness:
  "verify_receipt_payload (receipt_v2 Reset 2 demo_wallet (demo_commitment 2) 1700700000)
      demo_wallet (demo_commitment 2) Reset 2 1700700300 = Inr None \<and>
   verify_receipt_payload (receipt_v2 Reset 2 demo_wallet (demo_commitment 2) 1700700000)
      demo_wallet (demo_commitment 2) Mint 2 1700700300 \<noteq> Inr None"
proof -
  have ok: "verify_receipt_payload (receipt_v2 Reset 2 demo_wallet (demo_commitment 2) 1700700000)
      demo_wallet (demo_commitment 2) Reset 2 1700700300 = Inr None"
    unfolding receipt_accepted
    by (intro exI [of _ 1700700000]) (simp add: fresh_def MAX_RECEIPT_AGE_SECS_def)
  then show ?thesis using receipt_speaks_for_one_call [OF ok] by blast
qed

section \<open>The signature\<close>

text \<open>
  What the runtime's Ed25519 program has checked when a transaction executes: entry \<open>k\<close> of
  an instruction names a signature, a key and a message by offsets into the data of
  instructions of the transaction (index \<open>0xFFFF\<close>: its own data), and the signature is
  valid. Signature validity itself is the parameter \<open>verify\<close>.
\<close>

definition entry_source :: "tx \<Rightarrow> byte list \<Rightarrow> u16 \<Rightarrow> byte list option" where
  "entry_source t d j =
     (if j = ED25519_IX_INDEX_CURRENT then Some d else map_option ix_data (ix_at t (unat j)))"

definition entry_checked ::
  "(byte list \<Rightarrow> byte list \<Rightarrow> byte list \<Rightarrow> bool) \<Rightarrow> tx \<Rightarrow> byte list \<Rightarrow> nat \<Rightarrow> bool" where
  "entry_checked verify t d k \<longleftrightarrow>
     (let base = 2 + 14 * k
      in case (entry_source t d (header_u16 d (base + 2)), entry_source t d (header_u16 d (base + 6)),
               entry_source t d (header_u16 d (base + 12)))
         of (Some ds, Some dk, Some dm) \<Rightarrow>
              verify (slice (header_usize d base) 64 ds) (slice (header_usize d (base + 4)) 32 dk)
                (slice (header_usize d (base + 8)) (header_usize d (base + 10)) dm)
          | _ \<Rightarrow> False)"

definition ed25519_law :: "(byte list \<Rightarrow> byte list \<Rightarrow> byte list \<Rightarrow> bool) \<Rightarrow> tx \<Rightarrow> bool" where
  "ed25519_law verify t \<longleftrightarrow> (\<forall>i ix. ix_at t i = Some ix \<longrightarrow> ix_program_id ix = ED25519_PROGRAM_ID \<longrightarrow>
     (\<forall>k < unat (ix_data ix ! 0). entry_checked verify t (ix_data ix) k))"

lemma load_preceding_inv:
  assumes "load_preceding_ed25519_receipt t keys sizes now = Inr m"
  shows "\<exists>ix key. is_configured keys \<and> cur_ix t \<noteq> 0 \<and> ix_at t (cur_ix t - 1) = Some ix \<and>
    ix_program_id ix = ED25519_PROGRAM_ID \<and> ix_data ix ! 0 = 1 \<and>
    header_u16 (ix_data ix) 4 = ED25519_IX_INDEX_CURRENT \<and>
    header_u16 (ix_data ix) 8 = ED25519_IX_INDEX_CURRENT \<and>
    header_u16 (ix_data ix) 14 = ED25519_IX_INDEX_CURRENT \<and>
    key = slice (header_usize (ix_data ix) 6) 32 (ix_data ix) \<and> length key = 32 \<and>
    accepts keys key now \<and> m = slice (header_usize (ix_data ix) 10) (header_usize (ix_data ix) 12) (ix_data ix) \<and>
    length m \<in> set sizes"
  using assms
  by (auto simp: load_preceding_ed25519_receipt_def parse_ed25519_receipt_def res_simps Let_def
      ed25519_consts not_less split: if_splits)

lemma loaded_is_signed:
  assumes "load_preceding_ed25519_receipt t keys sizes now = Inr m" "ed25519_law verify t"
  shows "\<exists>signature key. verify signature key m \<and> accepts keys key now \<and> length key = 32"
proof -
  from load_preceding_inv [OF assms(1)] obtain ix key where
    ix: "ix_at t (cur_ix t - 1) = Some ix" "ix_program_id ix = ED25519_PROGRAM_ID" "ix_data ix ! 0 = 1"
    and own: "header_u16 (ix_data ix) 4 = ED25519_IX_INDEX_CURRENT"
      "header_u16 (ix_data ix) 8 = ED25519_IX_INDEX_CURRENT"
      "header_u16 (ix_data ix) 14 = ED25519_IX_INDEX_CURRENT"
    and key: "key = slice (header_usize (ix_data ix) 6) 32 (ix_data ix)" "length key = 32"
      "accepts keys key now"
    and m: "m = slice (header_usize (ix_data ix) 10) (header_usize (ix_data ix) 12) (ix_data ix)"
    by blast
  have "entry_checked verify t (ix_data ix) 0"
    using assms(2) ix unfolding ed25519_law_def by simp
  then have "verify (slice (header_usize (ix_data ix) 2) 64 (ix_data ix)) key m"
    using own by (simp add: entry_checked_def entry_source_def Let_def key(1) m)
  with key show ?thesis by blast
qed

lemma receipt_signed:
  assumes "verify_validator_receipt t keys wallet commitment purpose version now = Inr session"
    and "ed25519_law verify t"
  shows "\<exists>signature key m. verify signature key m \<and> accepts keys key now \<and> is_configured keys \<and>
    verify_receipt_payload m wallet commitment purpose version now = Inr session"
proof -
  from assms(1) obtain m where
    m: "load_preceding_ed25519_receipt t keys [RECEIPT_V1_MESSAGE_LEN, RECEIPT_V2_MESSAGE_LEN,
      RECEIPT_V3_MESSAGE_LEN] now = Inr m"
    and payload: "verify_receipt_payload m wallet commitment purpose version now = Inr session"
    by (auto simp: verify_validator_receipt_def and_then_Inr map_err_Inr)
  from loaded_is_signed [OF m assms(2)] obtain signature key where
    "verify signature key m" "accepts keys key now" by blast
  moreover have "is_configured keys" using load_preceding_inv [OF m] by blast
  ultimately show ?thesis using payload by blast
qed

text \<open>
  C20: an accepted receipt was signed by a validator. If the transaction executes (its
  Ed25519 instructions passed the runtime's check) and \<open>verify_validator_receipt\<close>
  succeeds, then some signature over the encoding of this call's receipt verifies under the
  primary validator key, or under the outgoing key while its grace period lasts. The offsets of
  the instruction header cannot be turned to a message that was not the one signed.
\<close>

theorem receipt_is_signed:
  assumes "verify_validator_receipt t keys wallet commitment purpose version now = Inr session"
    and "ed25519_law verify t"
  shows "\<exists>signature key m. verify signature key m \<and>
    (key = elems (vk_primary keys) \<or> key = elems (vk_secondary keys) \<and> vk_secondary keys \<noteq> 0 \<and>
       sint now \<le> sint (vk_secondary_valid_until keys)) \<and> vk_primary keys \<noteq> 0 \<and>
    verify_receipt_payload m wallet commitment purpose version now = Inr session"
  using receipt_signed [OF assms] by (fastforce simp: accepts_def is_configured_def split: if_splits)

lemma demo_header:
  assumes "length m = 32 \<or> length m = 103"
  defines "d \<equiv> ix_data (demo_ed25519 m)"
  shows "d ! 0 = 1" "header_u16 d 4 = ED25519_IX_INDEX_CURRENT"
    "header_u16 d 8 = ED25519_IX_INDEX_CURRENT" "header_u16 d 14 = ED25519_IX_INDEX_CURRENT"
    "header_usize d 6 = 16" "header_usize d 10 = 48" "header_usize d 12 = length m"
    "slice 16 32 d = elems demo_validator" "slice 48 (length m) d = m" "length d = 48 + length m"
  using assms(1)
  by (auto simp: d_def demo_ed25519_def header_u16_def header_usize_def ED25519_IX_INDEX_CURRENT_def
      slice_def nth_append)

text \<open>The signature scheme of the example: the key signs everything.\<close>

definition demo_signed :: "byte list \<Rightarrow> byte list \<Rightarrow> byte list \<Rightarrow> bool" where
  "demo_signed signature key m \<longleftrightarrow> key = elems demo_validator"

lemma demo_tx_law:
  assumes "length m = 32 \<or> length m = 103"
  shows "ed25519_law demo_signed (demo_tx now m)"
  using demo_header [OF assms]
  by (auto simp: ed25519_law_def demo_tx_def entry_checked_def entry_source_def demo_signed_def Let_def
      simp del: add_2_eq_Suc add_2_eq_Suc' split: if_splits)

definition demo_keys :: validator_key_policy where
  "demo_keys = \<lparr>vk_primary = demo_validator, vk_secondary = 0, vk_secondary_valid_until = 0\<rparr>"

lemma demo_loaded:
  assumes "length m = 32 \<or> length m = 103" "length m \<in> set sizes"
  shows "load_preceding_ed25519_receipt (demo_tx now m) demo_keys sizes now = Inr m"
proof -
  have "demo_validator \<noteq> 0" by code_simp
  moreover have "ix_program_id (demo_ed25519 m) = ED25519_PROGRAM_ID" by (simp add: demo_ed25519_def)
  ultimately show ?thesis
    using demo_header [OF assms(1)] assms(2)
    by (simp add: load_preceding_ed25519_receipt_def is_configured_def demo_keys_def demo_tx_def
        parse_ed25519_receipt_def ed25519_consts accepts_def Let_def)
qed

theorem receipt_is_signed_witness:
  "\<exists>signature m. demo_signed signature (elems demo_validator) m \<and>
     verify_receipt_payload m demo_wallet (demo_commitment 2) Reset 2 1700700300 = Inr None"
proof -
  let ?m = "receipt_v2 Reset 2 demo_wallet (demo_commitment 2) 1700700000"
  have "verify_receipt_payload ?m demo_wallet (demo_commitment 2) Reset 2 1700700300 = Inr None"
    unfolding receipt_accepted
    by (intro exI [of _ 1700700000]) (simp add: fresh_def MAX_RECEIPT_AGE_SECS_def)
  then have "verify_validator_receipt (demo_tx 1700700300 ?m) demo_keys demo_wallet
      (demo_commitment 2) Reset 2 1700700300 = Inr None"
    by (simp add: verify_validator_receipt_def demo_loaded receipt_lens)
  from receipt_is_signed [OF this demo_tx_law] show ?thesis
    by (auto simp: demo_signed_def)
qed

section \<open>Update receipts\<close>

definition update_preimage ::
  "pubkey \<Rightarrow> bytes32 \<Rightarrow> u16 \<Rightarrow> update_receipt_args \<Rightarrow> byte list" where
  "update_preimage wallet commitment version receipt =
     RECEIPT_V4_DOMAIN @ [purpose_code Update] @ u16_le version @ elems wallet @ elems commitment @
     u64_le (ur_validated_at receipt) @
     elems (case ur_session_final_digest receipt of Some digest \<Rightarrow> digest | None \<Rightarrow> 0) @
     [ur_assurance_tier receipt]"

definition valid_update_receipt :: "update_receipt_args \<Rightarrow> bool" where
  "valid_update_receipt receipt \<longleftrightarrow> ur_assurance_tier receipt \<le> MAX_ASSURANCE_TIER \<and>
     ur_session_final_digest receipt \<noteq> Some 0"

lemma set_first: "k = length xs \<Longrightarrow> 0 < n \<Longrightarrow>
    (xs @ replicate n 0)[k := v] = (xs @ [v :: byte]) @ replicate (n - 1) 0"
  by (cases n) (simp_all add: list_update_append)

lemma set_last: "k = length xs \<Longrightarrow> (xs @ [u])[k := v] = xs @ [v :: byte]"
  by (simp add: list_update_append)

lemma build_v4_eq:
  "build_update_receipt_v4_preimage wallet commitment version receipt =
     (if \<not> ur_assurance_tier receipt \<le> MAX_ASSURANCE_TIER then Inl InvalidAssuranceTier
      else if ur_session_final_digest receipt = Some 0 then Inl MalformedReceiptMessage
      else Inr (update_preimage wallet commitment version receipt))"
proof (cases "ur_session_final_digest receipt")
  case None
  have last: "(xs @ replicate 33 0)[135 := v] = xs @ replicate 32 0 @ [v :: byte]"
    if "length xs = 103" for xs v
    using that by (simp add: list_update_append numeral_eq_Suc)
  show ?thesis
    unfolding build_update_receipt_v4_preimage_def Let_def fill_first receipt_lens None
    by (simp add: fill_next set_first last require_def update_preimage_def None elems_zero
        del: append_assoc)
next
  case (Some digest)
  show ?thesis
    unfolding build_update_receipt_v4_preimage_def Let_def fill_first receipt_lens Some
    by (simp add: fill_next set_first set_last require_def update_preimage_def Some
        del: append_assoc)
qed

lemma update_preimage_inject:
  assumes "valid_update_receipt receipt" "valid_update_receipt receipt'"
  shows "update_preimage wallet commitment version receipt =
      update_preimage wallet' commitment' version' receipt' \<longleftrightarrow>
    wallet = wallet' \<and> commitment = commitment' \<and> version = version' \<and> receipt = receipt'"
  using assms
  by (cases receipt; cases receipt')
    (auto simp: update_preimage_def valid_update_receipt_def b32.append_inject u16_le.append_inject
      u64_le.append_inject elems_inject split: option.splits)

text \<open>
  C18: the digest of an update receipt binds the whole call. Two calls that build the same
  digest agree on the wallet, the new commitment, the projection version, the time of
  validation, the assurance tier and the session (an absent session is not an all-zero
  one), or their two preimages are a SHA-256 collision. Tiers above two and all-zero
  sessions build nothing.
\<close>

theorem update_receipt_binding:
  assumes "compute_update_receipt_v4_digest rt wallet commitment version receipt = Inr digest"
    and "compute_update_receipt_v4_digest rt wallet' commitment' version' receipt' = Inr digest"
  shows "ur_assurance_tier receipt \<le> 2 \<and> ur_session_final_digest receipt \<noteq> Some 0 \<and>
    (wallet = wallet' \<and> commitment = commitment' \<and> version = version' \<and> receipt = receipt' \<or>
     (\<exists>x y. build_update_receipt_v4_preimage wallet commitment version receipt = Inr x \<and>
       build_update_receipt_v4_preimage wallet' commitment' version' receipt' = Inr y \<and>
       x \<noteq> y \<and> sha256 rt x = sha256 rt y))"
proof -
  have valid: "valid_update_receipt receipt" "valid_update_receipt receipt'"
    and builds: "build_update_receipt_v4_preimage wallet commitment version receipt =
      Inr (update_preimage wallet commitment version receipt)"
      "build_update_receipt_v4_preimage wallet' commitment' version' receipt' =
      Inr (update_preimage wallet' commitment' version' receipt')"
    and same: "sha256 rt (update_preimage wallet commitment version receipt) =
      sha256 rt (update_preimage wallet' commitment' version' receipt')"
    using assms by (auto simp: compute_update_receipt_v4_digest_def and_then_Inr build_v4_eq
        valid_update_receipt_def account_hash_def split: if_splits)
  have "ur_assurance_tier receipt \<le> 2" "ur_session_final_digest receipt \<noteq> Some 0"
    using valid(1) by (simp_all add: valid_update_receipt_def MAX_ASSURANCE_TIER_def)
  with update_preimage_inject [OF valid] builds same show ?thesis by metis
qed

lemma demo_digest:
  "compute_update_receipt_v4_digest demo_runtime demo_wallet (demo_commitment 2) 1 demo_receipt =
    Inr (sha256 demo_runtime (update_preimage demo_wallet (demo_commitment 2) 1 demo_receipt))"
  by (simp add: compute_update_receipt_v4_digest_def build_v4_eq account_hash_def demo_receipt_def
      MAX_ASSURANCE_TIER_def)

theorem update_receipt_binding_witness:
  "\<exists>digest. compute_update_receipt_v4_digest demo_runtime demo_wallet (demo_commitment 2) 1
     demo_receipt = Inr digest \<and> ur_assurance_tier demo_receipt \<le> 2"
  using update_receipt_binding [OF demo_digest demo_digest] demo_digest by blast

lemma verify_update_receipt_inv:
  assumes "verify_update_receipt_digest rt t keys wallet commitment version receipt now = Inr session"
  shows "load_preceding_ed25519_receipt t keys [RECEIPT_V4_DIGEST_LEN] now =
      Inr (elems (sha256 rt (update_preimage wallet commitment version receipt))) \<and>
    valid_update_receipt receipt \<and> fresh (ur_validated_at receipt) now \<and>
    session = map_option (\<lambda>digest. \<lparr>final_digest = digest,
      assurance_tier = ur_assurance_tier receipt\<rparr>) (ur_session_final_digest receipt)"
  using assms fresh_saturating [of "ur_validated_at receipt" now]
  by (auto simp: verify_update_receipt_digest_def compute_update_receipt_v4_digest_def build_v4_eq
      and_then_Inr map_err_Inr require_Inr account_hash_def valid_update_receipt_def split: if_splits)

lemma update_receipt_signed:
  assumes "verify_update_receipt_digest rt t keys wallet commitment version receipt now = Inr session"
    and "ed25519_law verify t"
  shows "\<exists>signature key.
    verify signature key (elems (sha256 rt (update_preimage wallet commitment version receipt))) \<and>
    accepts keys key now \<and> is_configured keys"
proof -
  note loaded = conjunct1 [OF verify_update_receipt_inv [OF assms(1)]]
  from load_preceding_inv [OF loaded] have "is_configured keys" by blast
  with loaded_is_signed [OF loaded assms(2)] show ?thesis by blast
qed

text \<open>
  C17: an accepted update was signed by a validator. If \<open>verify_update_receipt_digest\<close>
  succeeds, the preceding Ed25519 instruction carries a signature, valid under an accepted
  validator key, over the SHA-256 digest of exactly this update: the version-4 domain, the
  update purpose, the projection version, the wallet, the commitment that is about to be
  stored, the validation time (at most 300 seconds ago, not in the future), the session and
  the tier. The caller's arguments decide nothing that the validator did not sign.
\<close>

theorem update_receipt_is_signed:
  assumes "verify_update_receipt_digest rt t keys wallet commitment version receipt now = Inr session"
    and "ed25519_law verify t"
  shows "\<exists>signature key. verify signature key (elems (sha256 rt
      (RECEIPT_V4_DOMAIN @ [4] @ u16_le version @ elems wallet @ elems commitment @
       u64_le (ur_validated_at receipt) @
       (case ur_session_final_digest receipt of Some digest \<Rightarrow> elems digest | None \<Rightarrow> replicate 32 0) @
       [ur_assurance_tier receipt]))) \<and>
    vk_primary keys \<noteq> 0 \<and>
    (key = elems (vk_primary keys) \<or> key = elems (vk_secondary keys) \<and> vk_secondary keys \<noteq> 0 \<and>
       sint now \<le> sint (vk_secondary_valid_until keys)) \<and>
    sint (ur_validated_at receipt) \<le> sint now \<and> sint now - sint (ur_validated_at receipt) \<le> 300 \<and>
    (case session of None \<Rightarrow> ur_session_final_digest receipt = None
      | Some s \<Rightarrow> ur_session_final_digest receipt = Some (final_digest s) \<and>
          assurance_tier s = ur_assurance_tier receipt \<and> final_digest s \<noteq> 0)"
proof -
  have preimage: "update_preimage wallet commitment version receipt =
      RECEIPT_V4_DOMAIN @ [4] @ u16_le version @ elems wallet @ elems commitment @
       u64_le (ur_validated_at receipt) @
       (case ur_session_final_digest receipt of Some digest \<Rightarrow> elems digest | None \<Rightarrow> replicate 32 0) @
       [ur_assurance_tier receipt]"
    by (simp add: update_preimage_def elems_zero split: option.splits)
  note inv = verify_update_receipt_inv [OF assms(1)]
  have "case session of None \<Rightarrow> ur_session_final_digest receipt = None
      | Some s \<Rightarrow> ur_session_final_digest receipt = Some (final_digest s) \<and>
          assurance_tier s = ur_assurance_tier receipt \<and> final_digest s \<noteq> 0"
    using inv by (auto simp: valid_update_receipt_def split: option.splits)
  with update_receipt_signed [OF assms] inv show ?thesis
    unfolding preimage by (auto simp: accepts_def fresh_def MAX_RECEIPT_AGE_SECS_def is_configured_def
        split: if_splits)
qed

lemma demo_update_tx_eq: "demo_update_tx = demo_tx 1700700100
    (elems (sha256 demo_runtime (update_preimage demo_wallet (demo_commitment 2) 1 demo_receipt)))"
  by (simp add: demo_update_tx_def demo_digest)

lemma demo_update_receipt:
  "verify_update_receipt_digest demo_runtime demo_update_tx demo_keys demo_wallet (demo_commitment 2) 1
     demo_receipt 1700700100 = Inr None"
proof -
  have "load_preceding_ed25519_receipt demo_update_tx demo_keys [RECEIPT_V4_DIGEST_LEN] 1700700100 =
      Inr (elems (sha256 demo_runtime (update_preimage demo_wallet (demo_commitment 2) 1 demo_receipt)))"
    unfolding demo_update_tx_eq by (rule demo_loaded) (simp_all add: receipt_lens)
  moreover have "fresh (ur_validated_at demo_receipt) 1700700100"
    by (simp add: fresh_def demo_receipt_def MAX_RECEIPT_AGE_SECS_def)
  ultimately show ?thesis
    using fresh_saturating [of "ur_validated_at demo_receipt" 1700700100]
    by (simp add: verify_update_receipt_digest_def demo_digest) (simp add: demo_receipt_def)
qed

theorem update_receipt_is_signed_witness:
  "verify_update_receipt_digest demo_runtime demo_update_tx demo_keys demo_wallet (demo_commitment 2) 1
     demo_receipt 1700700100 = Inr None \<and>
   (\<exists>signature. demo_signed signature (elems (vk_primary demo_keys)) (elems (sha256 demo_runtime
      (update_preimage demo_wallet (demo_commitment 2) 1 demo_receipt))))"
proof -
  have law: "ed25519_law demo_signed demo_update_tx"
    unfolding demo_update_tx_eq by (rule demo_tx_law) simp
  from update_receipt_is_signed [OF demo_update_receipt law] demo_update_receipt show ?thesis
    by (simp add: demo_signed_def demo_keys_def)
qed

end
