(* ===== verification/Verifier_Correct.thy ===== *)
theory Verifier_Correct
  imports Requests_Correct Effects
begin

text \<open>
  entros-verifier: the field encoding of the 16-bit inputs, what a stored verification
  result guarantees, the compact call as the full one, and that entros-anchor accepts
  what the verifier stored.
\<close>

section \<open>Field elements\<close>

lemma elems_encode_u16: "elems (encode_u16_field_element v) = replicate 30 0 @ u16_be v"
proof -
  have "copy_at 30 (u16_be v) (replicate 32 0) = replicate 30 0 @ u16_be v"
    by (simp add: copy_at_def)
  then show ?thesis by (simp add: encode_u16_field_element_def)
qed

lemma decode_encode: "decode_u16_from_field_element (encode_u16_field_element v) = Inr v"
  by (simp add: decode_u16_from_field_element_def elems_encode_u16 slice_def u16_be.dec_enc)

lemma decode_sound:
  assumes "decode_u16_from_field_element fe = Inr v"
  shows "fe = encode_u16_field_element v"
proof -
  from assms have zero: "\<forall>b\<in>set (take 30 (elems fe)). b = 0"
    and v: "v = from_be (slice 30 2 (elems fe))"
    by (auto simp: decode_u16_from_field_element_def res_simps)
  have "take 30 (elems fe) = replicate 30 0"
    using replicate_eqI [of "take 30 (elems fe)" 30 0] zero by simp
  moreover have "u16_be v = slice 30 2 (elems fe)"
    unfolding v by (rule u16_be.enc_dec) simp
  then have "drop 30 (elems fe) = u16_be v" by (simp add: slice_def)
  ultimately have "elems fe = replicate 30 0 @ u16_be v" by (metis append_take_drop_id)
  then show ?thesis by (simp add: arr_eq_iff elems_encode_u16)
qed

text \<open>
  The 16-bit public inputs have one encoding. Decoding accepts exactly the field
  elements that encoding produces and returns the encoded number; every other element,
  also one that is congruent modulo two to the sixteen, is refused.
\<close>

theorem u16_field_element_roundtrip:
  "decode_u16_from_field_element fe =
     (if \<exists>v. fe = encode_u16_field_element v
      then Inr (from_be (drop 30 (elems fe))) else Inl InvalidPublicInputs) \<and>
   decode_u16_from_field_element (encode_u16_field_element n) = Inr n"
proof -
  have "decode_u16_from_field_element fe = Inl InvalidPublicInputs"
    if "\<nexists>v. fe = encode_u16_field_element v"
  proof (cases "decode_u16_from_field_element fe")
    case (Inl e)
    then show ?thesis by (auto simp: decode_u16_from_field_element_def require_Inl split: if_splits)
  next
    case (Inr v)
    then show ?thesis using decode_sound that by blast
  qed
  moreover have "decode_u16_from_field_element fe = Inr (from_be (drop 30 (elems fe)))"
    if "fe = encode_u16_field_element v" for v
    using that by (simp add: decode_encode elems_encode_u16 u16_be.dec_enc)
  ultimately show ?thesis by (auto simp: decode_encode)
qed

section \<open>Stored results\<close>

text \<open>
  The compact call is the full call: \<open>verify_proof_compact\<close> behaves, errors included,
  as \<open>verify_proof\<close> on the same proof with the two bounds as field elements.
\<close>

lemma compact_is_verify_proof:
  "verify_proof_compact rt b t verifier key nonce proof new prev threshold min_distance w =
   verify_proof rt b t verifier key (elems proof)
     [new, prev, encode_u16_field_element threshold, encode_u16_field_element min_distance] nonce w"
  by (simp add: verify_proof_compact_def verify_proof_def)

definition verified_result ::
  "runtime \<Rightarrow> build \<Rightarrow> tx \<Rightarrow> pubkey \<Rightarrow> byte list \<Rightarrow> bytes32 \<Rightarrow> bytes32 \<Rightarrow> u16 \<Rightarrow> u16 \<Rightarrow> bytes32 \<Rightarrow>
   verification_result" where
  "verified_result rt b t verifier proof new prev threshold min_distance nonce =
     \<lparr>vr_verifier = verifier, vr_proof_hash = proof_hash proof, vr_verified_at = clock t,
      vr_is_valid = True, vr_challenge_nonce = nonce,
      vr_bump = pda_bump rt (verification_seeds verifier nonce) (verifier_id b),
      vr_commitment_new = new, vr_commitment_prev = prev, vr_threshold = threshold,
      vr_min_distance = min_distance\<rparr>"

lemma verify_proof_inv:
  assumes "init_law rt" "verify_proof rt b t verifier key proof inputs nonce w = Inr w'"
  shows "\<exists>new prev threshold min_distance.
    inputs = [new, prev, encode_u16_field_element threshold, encode_u16_field_element min_distance] \<and>
    new \<noteq> 0 \<and> prev \<noteq> 0 \<and> nonce \<noteq> 0 \<and> \<not> request_bound_v1 b \<and> is_signer t verifier \<and>
    3 \<le> min_distance \<and> min_distance < threshold \<and> threshold \<le> 96 \<and>
    length proof = 256 \<and> groth16_verify rt VERIFYINGKEY (slice 0 64 proof) (slice 64 128 proof)
      (slice 192 64 proof) inputs \<and>
    key = pda_key rt (verification_seeds verifier nonce) (verifier_id b) \<and>
    owner_of w key = system_program_id rt \<and> data_of w key = [] \<and>
    data_of w' = (data_of w)(key := verification_result_bytes rt
      (verified_result rt b t verifier proof new prev threshold min_distance nonce)) \<and>
    owner_of w' = (owner_of w)(key := verifier_id b)"
proof -
  let ?bump = "pda_bump rt (verification_seeds verifier nonce) (verifier_id b)"
  from assms(2) obtain w1 where signer: "is_signer t verifier"
    and key: "pda_key rt (verification_seeds verifier nonce) (verifier_id b) = key"
    and w1: "init_typed rt verifier key verification_result_len (verifier_id b) w = Inr w1"
    and len: "length inputs = 4"
    and store: "verify_and_store rt b t verifier key proof (arr_of inputs) nonce ?bump w1 = Inr w'"
    unfolding verify_proof_def verify_accounts_def
    by (simp only: mut_signer_Inr with_seeds_Inr and_then_Inr require_Inr) blast
  from len obtain new prev x y where inputs: "inputs = [new, prev, x, y]"
    by (auto simp: length_Suc_conv numeral_eq_Suc)
  have arr: "elems (arr_of inputs :: (bytes32, 4) arr) = inputs" using len by simp
  from store [unfolded verify_and_store_def Let_def arr] obtain threshold min_distance where
    gates: "\<not> request_bound_v1 b" "nonce \<noteq> 0" "new \<noteq> 0" "prev \<noteq> 0"
    and dec: "decode_u16_from_field_element x = Inr threshold"
      "decode_u16_from_field_element y = Inr min_distance"
    and bounds: "validate_hamming_bounds threshold min_distance = Inr ()"
    and groth: "groth16_verify_proof rt proof inputs = Inr ()"
    and exit: "exit_typed (verification_result_bytes rt
        (verified_result rt b t verifier proof new prev threshold min_distance nonce)) key
        (emit (VerifierEvent (VerificationComplete verifier True nonce)) w1) = Inr w'"
    by (auto simp: res_simps inputs verified_result_def simp del: exit_typed_Inr)
  note init = init_effect [OF assms(1) w1]
  have "verification_result_len = length (verification_result_bytes rt r)" for r
    by (simp add: verification_result_len_def length_typed_bytes)
  with exit_created [OF exit] init have
    w': "data_of w' = (data_of w)(key := verification_result_bytes rt
      (verified_result rt b t verifier proof new prev threshold min_distance nonce))"
    "owner_of w' = (owner_of w)(key := verifier_id b)"
    by metis+
  have "inputs = [new, prev, encode_u16_field_element threshold,
      encode_u16_field_element min_distance]"
    using decode_sound dec by (simp add: inputs)
  moreover have "3 \<le> min_distance" "min_distance < threshold" "threshold \<le> 96"
    using bounds by (auto simp: validate_hamming_bounds_def MAX_THRESHOLD_def
        MIN_DISTANCE_FLOOR_def res_simps)
  moreover have "length proof = 256" "groth16_verify rt VERIFYINGKEY (slice 0 64 proof) (slice 64 128 proof)
      (slice 192 64 proof) inputs"
    using groth by (auto simp: groth16_verify_proof_def res_simps)
  ultimately show ?thesis using signer key gates init(1,2) w' by blast
qed

text \<open>
  C22: a stored verification result is evidence of a verified proof. If \<open>verify_proof\<close>
  succeeds, the account it leaves at the caller's address decodes to a valid result for
  exactly the commitments and bounds that the Groth16 check accepted; the commitments and
  the nonce are non-zero, the distance bounds are 3 <= min < threshold <= 96, the caller
  signed, the account did not exist before, and no other account changed.
\<close>

theorem stored_result_is_verified:
  assumes "init_law rt" "verify_proof rt b t verifier key proof inputs nonce w = Inr w'"
  shows "\<exists>r. try_verification_result rt (data_of w' key) = Inr r \<and> owner_of w' key = verifier_id b \<and>
    vr_is_valid r \<and> vr_verifier r = verifier \<and> is_signer t verifier \<and>
    vr_verified_at r = clock t \<and> vr_challenge_nonce r = nonce \<and> nonce \<noteq> 0 \<and>
    inputs = [vr_commitment_new r, vr_commitment_prev r,
      encode_u16_field_element (vr_threshold r), encode_u16_field_element (vr_min_distance r)] \<and>
    groth16_verify rt VERIFYINGKEY (slice 0 64 proof) (slice 64 128 proof) (slice 192 64 proof) inputs \<and>
    vr_commitment_new r \<noteq> 0 \<and> vr_commitment_prev r \<noteq> 0 \<and>
    3 \<le> vr_min_distance r \<and> vr_min_distance r < vr_threshold r \<and> vr_threshold r \<le> 96 \<and>
    data_of w key = [] \<and> (\<forall>k. k \<noteq> key \<longrightarrow> data_of w' k = data_of w k \<and> owner_of w' k = owner_of w k)"
proof -
  from verify_proof_inv [OF assms] obtain new prev threshold min_distance where
    i: "inputs = [new, prev, encode_u16_field_element threshold, encode_u16_field_element min_distance]"
    and g: "new \<noteq> 0" "prev \<noteq> 0" "nonce \<noteq> 0" "is_signer t verifier" "3 \<le> min_distance"
      "min_distance < threshold" "threshold \<le> 96" "data_of w key = []"
      "groth16_verify rt VERIFYINGKEY (slice 0 64 proof) (slice 64 128 proof) (slice 192 64 proof) inputs"
    and w': "data_of w' = (data_of w)(key := verification_result_bytes rt
      (verified_result rt b t verifier proof new prev threshold min_distance nonce))"
      "owner_of w' = (owner_of w)(key := verifier_id b)"
    by blast
  show ?thesis
    by (rule exI [of _ "verified_result rt b t verifier proof new prev threshold min_distance nonce"])
      (use g in \<open>simp add: w' typed_bytes verified_result_def i\<close>)
qed

section \<open>The anchor reads the result\<close>

lemma read_legacy_typed:
  assumes "try_verification_result rt (data_of w k) = Inr r"
    and "verification_result_disc rt = VERIFICATION_RESULT_DISCRIMINATOR"
  shows "read_legacy_result rt b now authority k w = Inr (new, prev) \<longleftrightarrow>
    \<not> request_bound_v1 b \<and> owner_of w k = verifier_id b \<and> vr_verifier r = authority \<and>
    vr_challenge_nonce r \<noteq> 0 \<and>
    create_program_address rt (verification_seeds authority (vr_challenge_nonce r) @ [[vr_bump r]])
      (verifier_id b) = Some k \<and>
    sint (vr_verified_at r) \<le> sint now \<and>
    sint (saturating_sub_i64 now (vr_verified_at r)) \<le> 600 \<and>
    new = vr_commitment_new r \<and> prev = vr_commitment_prev r"
  using verification_result_raw [OF assms(1)] assms(2) nth_of_slice [of 113 "data_of w k" "vr_bump r"]
  by (auto simp: read_legacy_result_def res_simps vr_consts Let_def u64_le.dec_enc
      verification_seeds_def)

text \<open>
  C23: the two programs fit together: whatever \<open>verify_proof\<close> stored, an update of the
  same wallet can consume for ten minutes. Every check of the anchor on the raw account
  (owner, length, discriminator, wallet, nonce, derived address, age) passes, and it reads
  the two commitments that were proved.
\<close>

theorem verified_result_is_consumable:
  assumes "init_law rt" "pda_law rt"
    and "verification_result_disc rt = VERIFICATION_RESULT_DISCRIMINATOR"
    and "verify_proof rt b t verifier key proof inputs nonce w = Inr w'"
    and "sint (clock t) \<le> sint now" "sint now - sint (clock t) \<le> 600"
  shows "read_legacy_result rt b now verifier key w' = Inr (inputs ! 0, inputs ! 1)"
proof -
  from verify_proof_inv [OF assms(1,4)] obtain new prev threshold min_distance where
    i: "inputs = [new, prev, encode_u16_field_element threshold, encode_u16_field_element min_distance]"
    and g: "nonce \<noteq> 0" "\<not> request_bound_v1 b"
      "key = pda_key rt (verification_seeds verifier nonce) (verifier_id b)"
    and w': "data_of w' = (data_of w)(key := verification_result_bytes rt
      (verified_result rt b t verifier proof new prev threshold min_distance nonce))"
      "owner_of w' = (owner_of w)(key := verifier_id b)"
    by blast
  let ?r = "verified_result rt b t verifier proof new prev threshold min_distance nonce"
  have typed: "try_verification_result rt (data_of w' key) = Inr ?r"
    by (simp add: w' typed_bytes)
  have pda: "create_program_address rt (verification_seeds verifier nonce @
      [[pda_bump rt (verification_seeds verifier nonce) (verifier_id b)]]) (verifier_id b) = Some key"
    using assms(2) by (simp add: pda_law_def g(3))
  have "sint (saturating_sub_i64 now (clock t)) \<le> 600"
    using assms(6) by (simp add: sint_saturating_sub_i64 i64_min_def)
  with read_legacy_typed [OF typed assms(3), of b now verifier new prev] g pda assms(5)
  show ?thesis by (simp add: w' verified_result_def i)
qed

section \<open>A sample verification\<close>

definition demo_proof :: "byte list" where "demo_proof = replicate 256 5"

definition demo_inputs :: "bytes32 list" where
  "demo_inputs = [demo_commitment 2, demo_commitment 1, encode_u16_field_element 90,
     encode_u16_field_element 10]"

definition demo_blank_world :: world where
  "demo_blank_world = \<lparr>accs = (\<lambda>k. demo_account demo_system []), cpis = [], events = []\<rparr>"

lemma demo_nonzero: "demo_nonce \<noteq> 0" "demo_commitment 1 \<noteq> 0" "demo_commitment 2 \<noteq> 0"
  "demo_commitment 2 \<noteq> demo_commitment 1"
  by code_simp+

lemma demo_disc: "verification_result_disc demo_runtime = VERIFICATION_RESULT_DISCRIMINATOR"
  by code_simp

lemma demo_verifies:
  "\<exists>w'. verify_proof demo_runtime (demo_build False) (demo_tx 1700700000 []) demo_wallet
     demo_result_key demo_proof demo_inputs demo_nonce demo_blank_world = Inr w'"
proof -
  have "length (elems (arr_of demo_inputs :: (bytes32, 4) arr)) = 4" by simp
  have arr: "elems (arr_of demo_inputs :: (bytes32, 4) arr) = demo_inputs"
    by (simp add: demo_inputs_def)
  show ?thesis
    by (simp add: verify_proof_def verify_accounts_def mut_signer_def with_seeds_def demo_tx_def
        pda_key_def demo_build_def demo_result_key_def init_typed_def
        verify_and_store_def Let_def arr demo_nonzero validate_hamming_bounds_def MAX_THRESHOLD_def
        MIN_DISTANCE_FLOOR_def groth16_verify_proof_def NR_PUBLIC_INPUTS_def)
      (simp add: demo_inputs_def demo_nonzero decode_encode demo_proof_def demo_runtime_def demo_init_def
        demo_blank_world_def demo_account_def exit_typed_def length_typed_bytes data_of_def
        verification_result_len_def emit_def)
qed

theorem stored_result_is_verified_witness:
  "\<exists>w' r. verify_proof demo_runtime (demo_build False) (demo_tx 1700700000 []) demo_wallet
       demo_result_key demo_proof demo_inputs demo_nonce demo_blank_world = Inr w' \<and>
     try_verification_result demo_runtime (data_of w' demo_result_key) = Inr r \<and>
     vr_is_valid r \<and> vr_commitment_new r = demo_commitment 2"
proof -
  from demo_verifies obtain w' where run: "verify_proof demo_runtime (demo_build False)
      (demo_tx 1700700000 []) demo_wallet demo_result_key demo_proof demo_inputs demo_nonce
      demo_blank_world = Inr w'" by blast
  from stored_result_is_verified [OF demo_init_law run] run show ?thesis
    by (fastforce simp: demo_inputs_def)
qed

theorem verified_result_is_consumable_witness:
  "\<exists>w'. verify_proof demo_runtime (demo_build False) (demo_tx 1700700000 []) demo_wallet
       demo_result_key demo_proof demo_inputs demo_nonce demo_blank_world = Inr w' \<and>
     read_legacy_result demo_runtime (demo_build False) 1700700600 demo_wallet demo_result_key w' =
       Inr (demo_commitment 2, demo_commitment 1)"
proof -
  from demo_verifies obtain w' where run: "verify_proof demo_runtime (demo_build False)
      (demo_tx 1700700000 []) demo_wallet demo_result_key demo_proof demo_inputs demo_nonce
      demo_blank_world = Inr w'" by blast
  from verified_result_is_consumable [OF demo_init_law demo_pda_law demo_disc run, of 1700700600] run
  show ?thesis by (simp add: demo_inputs_def demo_tx_def)
qed

end
