(* ===== verification/Bound_Correct.thy ===== *)
theory Bound_Correct
  imports Verifier_Correct Transitions
begin

text \<open>
  Request-bound proofs end to end: what \<open>verify_proof_bound\<close> stores, that the anchor
  program recomputes the same digest and accepts it, and that it does so once.
\<close>

section \<open>What the verifier stores\<close>

definition bound_verified ::
  "runtime \<Rightarrow> build \<Rightarrow> tx \<Rightarrow> pubkey \<Rightarrow> bytes32 \<Rightarrow> bytes32 \<Rightarrow> bytes32 \<Rightarrow> u16 \<Rightarrow> u16 \<Rightarrow> u64 \<Rightarrow> u64 \<Rightarrow> bytes32 \<Rightarrow>
   bound_result" where
  "bound_verified rt b t verifier nonce new prev threshold min_distance counter valid_until digest =
     \<lparr>br_version = GENERATION, br_wallet = verifier, br_nonce = nonce, br_commitment_new = new,
      br_commitment_prev = prev, br_threshold = threshold, br_min_distance = min_distance,
      br_counter = counter, br_valid_until = valid_until, br_verified_at = clock t,
      br_request_digest = digest,
      br_bump = pda_bump rt (bound_seeds verifier nonce) (verifier_id b)\<rparr>"

lemma verify_bound_inv:
  assumes "init_law rt"
    and "verify_bound rt b t verifier key identity_key state_key nonce proof new prev threshold
      min_distance valid_until w = Inr w'"
  shows "\<exists>w1 mint projection counter digest.
    data_of w1 = (data_of w)(key := replicate bound_result_len 0) \<and>
    owner_of w1 = (owner_of w)(key := verifier_id b) \<and>
    data_of w key = [] \<and> owner_of w key = system_program_id rt \<and>
    key = pda_key rt (bound_seeds verifier nonce) (verifier_id b) \<and>
    identity_key = pda_key rt (identity_seeds verifier) (anchor_id b) \<and>
    state_key = pda_key rt (request_state_seeds verifier) (anchor_id b) \<and>
    owner_of w1 identity_key = anchor_id b \<and> owner_of w1 state_key = anchor_id b \<and>
    is_signer t verifier \<and> request_bound_v1 b \<and> nonce \<noteq> 0 \<and> new \<noteq> 0 \<and> prev \<noteq> 0 \<and>
    3 \<le> min_distance \<and> min_distance < threshold \<and> threshold \<le> 96 \<and>
    valid_window (clock t) valid_until = Inr () \<and>
    bound_identity rt b verifier prev (data_of w1 identity_key) = Inr (mint, projection) \<and>
    read_counter rt (data_of w1 state_key) verifier
      (pda_bump rt (request_state_seeds verifier) (anchor_id b)) = Some counter \<and>
    request_digest rt (deployment_domain b) (verifier_id b) (anchor_id b) verifier nonce
      \<lparr>ac_identity = identity_key, ac_mint = mint, ac_counter = counter, ac_projection = projection,
       ac_commitment_new = new, ac_commitment_prev = prev, ac_threshold = threshold,
       ac_min_distance = min_distance, ac_valid_until = valid_until\<rparr> = Some digest \<and>
    groth16_verify rt (bound_verifying_key b) (slice 0 64 (elems proof)) (slice 64 128 (elems proof))
      (slice 192 64 (elems proof))
      [new, prev, encode_u16_field_element threshold, encode_u16_field_element min_distance,
       fst (digest_limbs digest), snd (digest_limbs digest)] \<and>
    data_of w' = (data_of w)(key := bound_result_bytes rt (bound_verified rt b t verifier nonce new
      prev threshold min_distance counter valid_until digest)) \<and>
    owner_of w' = (owner_of w)(key := verifier_id b)"
proof -
  from assms(2) obtain w1 mint projection counter digest u v where
    w1: "init_typed rt verifier key bound_result_len (verifier_id b) w = Inr w1"
    and acc: "is_signer t verifier" "pda_key rt (bound_seeds verifier nonce) (verifier_id b) = key"
      "pda_key rt (identity_seeds verifier) (anchor_id b) = identity_key"
      "owner_of w1 identity_key = anchor_id b"
      "pda_key rt (request_state_seeds verifier) (anchor_id b) = state_key"
      "owner_of w1 state_key = anchor_id b"
    and gates: "request_bound_v1 b" "nonce \<noteq> 0" "valid_window (clock t) valid_until = Inr u"
      "validate_hamming_bounds threshold min_distance = Inr v" "new \<noteq> 0 \<and> prev \<noteq> 0"
      "bound_identity rt b verifier prev (data_of w1 identity_key) = Inr (mint, projection)"
      "read_counter rt (data_of w1 state_key) verifier
        (pda_bump rt (request_state_seeds verifier) (anchor_id b)) = Some counter"
    and digest: "request_digest rt (deployment_domain b) (verifier_id b) (anchor_id b) verifier nonce
      \<lparr>ac_identity = identity_key, ac_mint = mint, ac_counter = counter, ac_projection = projection,
       ac_commitment_new = new, ac_commitment_prev = prev, ac_threshold = threshold,
       ac_min_distance = min_distance, ac_valid_until = valid_until\<rparr> = Some digest"
    and groth: "groth16_verify rt (bound_verifying_key b) (slice 0 64 (elems proof)) (slice 64 128 (elems proof))
      (slice 192 64 (elems proof))
      [new, prev, encode_u16_field_element threshold, encode_u16_field_element min_distance,
       fst (digest_limbs digest), snd (digest_limbs digest)]"
    and exit: "exit_typed (bound_result_bytes rt (bound_verified rt b t verifier nonce new
      prev threshold min_distance counter valid_until digest)) key w1 = Inr w'"
    unfolding verify_bound_def bound_accounts_def Let_def bound_verified_def
    by (simp only: mut_signer_Inr with_seeds_Inr and_then_Inr require_Inr map_err_Inr ok_or_Inr
        split_paired_Ex prod.case) blast
  note init = init_effect [OF assms(1) w1]
  have "bound_result_len = length (bound_result_bytes rt r)" for r
    by (simp add: bound_result_len_def length_typed_bytes)
  with exit_created_silent [OF exit] init have w': "data_of w' = (data_of w)(key :=
      bound_result_bytes rt (bound_verified rt b t verifier nonce new prev threshold min_distance
        counter valid_until digest))" "owner_of w' = (owner_of w)(key := verifier_id b)"
    by metis+
  have "3 \<le> min_distance" "min_distance < threshold" "threshold \<le> 96"
    using gates(4) by (auto simp: validate_hamming_bounds_def MAX_THRESHOLD_def
        MIN_DISTANCE_FLOOR_def res_simps)
  moreover have "valid_window (clock t) valid_until = Inr ()" using gates(3) by simp
  ultimately show ?thesis using acc gates(1,2,5-7) digest groth w' init by blast
qed

section \<open>The anchor consumes it\<close>

lemma sint_nonneg_uint: "0 \<le> sint (x :: 64 word) \<Longrightarrow> uint x = sint x"
  using sint_range_i64 [of x] uint_sint [of x]
  by (simp add: take_bit_int_eq_self i64_max_def)

lemma valid_window_inv:
  "valid_window now valid_until = Inr () \<Longrightarrow>
     0 \<le> sint now \<and> sint now \<le> uint valid_until \<and> uint valid_until \<le> sint now + 300 \<and> valid_until \<noteq> 0"
  by (auto simp: valid_window_def res_simps Let_def sint_nonneg_uint checked_add_Some_iff
      word_le_def MAX_REQUEST_LIFETIME_def)

text \<open>All checks of the bound branch, read from the last to the first.\<close>

lemma consume_bound_inv:
  assumes "consume_bound_result rt b t now wallet identity_key identity key state_key w = Inr (r, w')"
  shows "\<exists>c. request_bound_v1 b \<and> owner_of w key = verifier_id b \<and>
    data_of w key = bound_result_bytes rt r \<and>
    state_key = pda_key rt (request_state_seeds wallet) (anchor_id b) \<and>
    owner_of w state_key = anchor_id b \<and>
    read_counter rt (data_of w state_key) wallet
      (pda_bump rt (request_state_seeds wallet) (anchor_id b)) = Some c \<and>
    br_counter r = c \<and> br_wallet r = wallet \<and> br_nonce r \<noteq> 0 \<and>
    create_program_address rt (bound_seeds wallet (br_nonce r) @ [[br_bump r]]) (verifier_id b) = Some key \<and>
    sint (br_verified_at r) \<le> sint now \<and> 0 \<le> sint now \<and> now \<le> br_valid_until r \<and>
    request_digest rt (deployment_domain b) (verifier_id b) (anchor_id b) wallet (br_nonce r)
      (bound_action identity_key identity c r) = Some (br_request_digest r) \<and>
    is_writable t state_key \<and> uint c + 1 < 2 ^ 64 \<and>
    w' = set_data state_key (request_state_bytes rt (counter_cell wallet
      (pda_bump rt (request_state_seeds wallet) (anchor_id b)) (c + 1))) w"
proof -
  let ?bump = "pda_bump rt (request_state_seeds wallet) (anchor_id b)"
  from assms obtain c u next_counter where
    load: "load_bound_result rt b key w = Inr r" and gates: "request_bound_v1 b"
      "state_key = pda_key rt (request_state_seeds wallet) (anchor_id b)"
      "owner_of w state_key = anchor_id b" "is_writable t state_key"
    and c: "read_counter rt (data_of w state_key) wallet ?bump = Some c"
    and check: "check_bound_result rt b now wallet key c r = Inr u"
    and digest: "request_digest rt (deployment_domain b) (verifier_id b) (anchor_id b) wallet
      (br_nonce r) (bound_action identity_key identity c r) = Some (br_request_digest r)"
    and inc: "checked_add c 1 = Some next_counter"
    and w': "w' = set_data state_key (write_counter next_counter (data_of w state_key)) w"
    unfolding consume_bound_result_def Let_def
    by (simp only: require_Inr and_then_Inr ok_or_Inr) auto
  have typed: "owner_of w key = verifier_id b" "length (data_of w key) = 198"
    "try_bound_result rt (data_of w key) = Inr r"
    using load by (auto simp: load_bound_result_def res_simps bound_result_len_def Let_def)
  then have stored: "data_of w key = bound_result_bytes rt r"
    using bound_result.deserialize_sound(2) [of "bound_result_disc rt" "data_of w key" r]
    by (simp add: try_bound_result_def bound_result_bytes_def bound_result_widths_def)
  have inc': "next_counter = c + 1" "uint c + 1 < 2 ^ 64"
    using inc by (auto simp: checked_add_def split: if_splits)
  have fields: "br_counter r = c" "br_wallet r = wallet" "br_nonce r \<noteq> 0"
    "create_program_address rt (bound_seeds wallet (br_nonce r) @ [[br_bump r]]) (verifier_id b) = Some key"
    "sint (br_verified_at r) \<le> sint now" "0 \<le> sint now" "now \<le> br_valid_until r"
    using check by (auto simp: check_bound_result_def res_simps bound_seeds_def)
  have "write_counter (c + 1) (data_of w state_key) =
      request_state_bytes rt (counter_cell wallet ?bump (c + 1))"
    unfolding c [unfolded read_counter_iff] by (rule write_counter_cell)
  then have w'': "w' = set_data state_key (request_state_bytes rt (counter_cell wallet ?bump (c + 1))) w"
    unfolding w' inc'(1) by (rule arg_cong)
  show ?thesis
    by (rule exI [of _ c], intro conjI) (fact gates typed(1) stored c fields digest inc' w'')+
qed

text \<open>
  C24: a bound proof that the verifier accepted is one that the anchor consumes. For the
  identity that the proof was about, at any time up to its expiry, the anchor recomputes
  the request digest from its own state and finds the one stored; it accepts the result,
  returns the proved commitments (the previous one is the identity's current one), and
  advances the wallet's counter by one.
\<close>

theorem bound_proof_is_consumable:
  assumes "init_law rt" "pda_law rt" "anchor_id b \<noteq> verifier_id b"
    and "verify_bound rt b t wallet key identity_key state_key nonce proof new prev threshold
      min_distance valid_until w = Inr w'"
    and "try_identity rt (data_of w' identity_key) = Inr identity"
    and "read_counter rt (data_of w' state_key) wallet
      (pda_bump rt (request_state_seeds wallet) (anchor_id b)) = Some c" "uint c + 1 < 2 ^ 64"
    and "sint (clock t) \<le> sint now" "sint now \<le> uint valid_until" "is_writable t' state_key"
  shows "\<exists>r w''. consume_bound_result rt b t' now wallet identity_key identity key state_key w' =
      Inr (r, w'') \<and>
    br_commitment_new r = new \<and> br_commitment_prev r = prev \<and>
    id_current_commitment identity = prev \<and>
    read_counter rt (data_of w'' state_key) wallet
      (pda_bump rt (request_state_seeds wallet) (anchor_id b)) = Some (c + 1)"
proof -
  let ?bump = "pda_bump rt (request_state_seeds wallet) (anchor_id b)"
  from verify_bound_inv [OF assms(1,4)] obtain w1 mint projection counter digest where
    w1: "data_of w1 = (data_of w)(key := replicate bound_result_len 0)"
      "owner_of w1 = (owner_of w)(key := verifier_id b)"
    and keys: "key = pda_key rt (bound_seeds wallet nonce) (verifier_id b)"
      "state_key = pda_key rt (request_state_seeds wallet) (anchor_id b)"
      "owner_of w1 identity_key = anchor_id b" "owner_of w1 state_key = anchor_id b"
    and gates: "request_bound_v1 b" "nonce \<noteq> 0" "valid_window (clock t) valid_until = Inr ()"
      "bound_identity rt b wallet prev (data_of w1 identity_key) = Inr (mint, projection)"
      "read_counter rt (data_of w1 state_key) wallet ?bump = Some counter"
    and digest: "request_digest rt (deployment_domain b) (verifier_id b) (anchor_id b) wallet nonce
      \<lparr>ac_identity = identity_key, ac_mint = mint, ac_counter = counter, ac_projection = projection,
       ac_commitment_new = new, ac_commitment_prev = prev, ac_threshold = threshold,
       ac_min_distance = min_distance, ac_valid_until = valid_until\<rparr> = Some digest"
    and w': "data_of w' = (data_of w)(key := bound_result_bytes rt (bound_verified rt b t wallet
      nonce new prev threshold min_distance counter valid_until digest))"
      "owner_of w' = (owner_of w)(key := verifier_id b)"
    by blast
  let ?r = "bound_verified rt b t wallet nonce new prev threshold min_distance counter valid_until digest"
  have apart: "identity_key \<noteq> key" "state_key \<noteq> key"
    using w1(2) keys(3,4) assms(3) by auto
  then have same: "data_of w' identity_key = data_of w1 identity_key"
    "data_of w' state_key = data_of w1 state_key" "owner_of w' state_key = anchor_id b"
    using w' w1 keys(4) by simp_all
  have counter: "counter = c" using gates(5) assms(6) same(2) by simp
  have "length (data_of w1 identity_key) = identity_len"
    using gates(4) by (simp add: bound_identity_def res_simps identity_len_def)
  from bound_identity_typed [OF _ this, of rt identity b wallet prev] assms(5) same(1) gates(4)
  have identity: "id_current_commitment identity = prev" "mint = id_mint identity"
    "projection = id_projection_version identity"
    by (auto split: if_splits)
  have action: "bound_action identity_key identity c ?r =
      \<lparr>ac_identity = identity_key, ac_mint = mint, ac_counter = counter, ac_projection = projection,
       ac_commitment_new = new, ac_commitment_prev = prev, ac_threshold = threshold,
       ac_min_distance = min_distance, ac_valid_until = valid_until\<rparr>"
    by (simp add: bound_action_def bound_verified_def identity counter)
  have pda: "create_program_address rt [ascii ''verification_bound'', elems wallet, elems nonce,
      [pda_bump rt (bound_seeds wallet nonce) (verifier_id b)]] (verifier_id b) = Some key"
    using assms(2) unfolding pda_law_def keys(1) by (metis append_Cons append_Nil bound_seeds_def)
  note window = valid_window_inv [OF gates(3)]
  have now: "0 \<le> sint now" "now \<le> valid_until" "0 < valid_until"
    using window assms(8,9) by (auto simp: word_le_def sint_nonneg_uint word_neq_0_conv)
  have filled: "bound_result_bytes rt ?r \<noteq> []"
    using length_typed_bytes(4) [of rt ?r] by auto
  have load: "load_bound_result rt b key w' = Inr ?r"
    using w' filled
    by (simp add: load_bound_result_def typed_bytes length_typed_bytes bound_result_len_def)
  have check: "check_bound_result rt b now wallet key c ?r = Inr ()"
    using now assms(8) gates(2) pda
    by (simp add: check_bound_result_def bound_verified_def counter)
  have inc: "checked_add c 1 = Some (c + 1)" using assms(7) by (simp add: checked_add_def)
  have "consume_bound_result rt b t' now wallet identity_key identity key state_key w' =
      Inr (?r, set_data state_key (write_counter (c + 1) (data_of w' state_key)) w')"
    unfolding consume_bound_result_def Let_def load
    using gates(1) keys(2) same(3) assms(6,10) check action digest
    by (simp add: inc) (simp add: bound_verified_def)
  moreover have "read_counter rt (write_counter (c + 1) (data_of w' state_key)) wallet ?bump =
      Some (c + 1)"
    using assms(6) by (rule counter.read_write)
  ultimately show ?thesis using identity(1) by (auto simp: bound_verified_def)
qed

section \<open>The counter of a wallet\<close>

text \<open>
  The account in which a wallet counts, the count, and what advancing and preparing do to
  it; \<open>Wallet_Accounts\<close> follows it along the runs of the programs.
\<close>

definition counter_account :: "runtime \<Rightarrow> build \<Rightarrow> pubkey \<Rightarrow> pubkey" where
  "counter_account rt b wallet = pda_key rt (request_state_seeds wallet) (anchor_id b)"

definition counter_bump :: "runtime \<Rightarrow> build \<Rightarrow> pubkey \<Rightarrow> byte" where
  "counter_bump rt b wallet = pda_bump rt (request_state_seeds wallet) (anchor_id b)"

definition counting :: "runtime \<Rightarrow> build \<Rightarrow> pubkey \<Rightarrow> world \<Rightarrow> bool" where
  "counting rt b wallet w \<longleftrightarrow> anchor_id b \<noteq> system_program_id rt \<and>
     owner_of w (counter_account rt b wallet) = anchor_id b \<and>
     read_counter rt (data_of w (counter_account rt b wallet)) wallet (counter_bump rt b wallet) \<noteq> None"

definition count_of :: "runtime \<Rightarrow> build \<Rightarrow> pubkey \<Rightarrow> world \<Rightarrow> int" where
  "count_of rt b wallet w = (case read_counter rt (data_of w (counter_account rt b wallet)) wallet
     (counter_bump rt b wallet) of Some c \<Rightarrow> uint c | None \<Rightarrow> 0)"

lemma read_cell: "read_counter rt (request_state_bytes rt (counter_cell wallet bump n)) wallet bump = Some n"
  by (simp add: read_counter_iff)

lemma uint_succ: "uint (c :: u64) + 1 < 2 ^ 64 \<Longrightarrow> uint (c + 1) = uint c + 1"
  by (simp add: uint_word_ariths)

lemma advance_counts:
  assumes "counting rt b wallet w" "advance rt b t account wallet payer w = Inr w'"
  shows "counting rt b wallet w'" "count_of rt b wallet w' = count_of rt b wallet w + 1"
    and "account = counter_account rt b wallet" "is_signer t payer"
    and "owner_of w' = owner_of w" "\<And>k. k \<noteq> account \<Longrightarrow> data_of w' k = data_of w k"
proof -
  have owner: "owner_of w (counter_account rt b wallet) = anchor_id b"
    "anchor_id b \<noteq> system_program_id rt"
    using assms(1) by (simp_all add: counting_def)
  from assms(2) owner obtain n where account: "account = counter_account rt b wallet"
    and "is_signer t payer"
    and adv: "advance_counter rt account wallet (counter_bump rt b wallet) w = Inr (n, w')"
    unfolding advance_def Let_def counter_account_def [symmetric] counter_bump_def [symmetric]
    by (auto simp: require_Inr and_then_Inr split: prod.splits)
  from assms(1) obtain c where
    c: "read_counter rt (data_of w account) wallet (counter_bump rt b wallet) = Some c"
    by (auto simp: counting_def account)
  with adv have ok: "uint c + 1 \<noteq> 2 ^ 64" and w': "w' = set_data account (request_state_bytes rt
      (counter_cell wallet (counter_bump rt b wallet) (c + 1))) w"
    by (auto simp: advance_counter_cell split: if_splits)
  have "uint c + 1 < 2 ^ 64" using ok uint_lt2p [of c] by simp
  then show "count_of rt b wallet w' = count_of rt b wallet w + 1"
    using c by (simp add: count_of_def w' account read_cell uint_succ)
  show "counting rt b wallet w'"
    using owner by (simp add: counting_def w' account read_cell)
  show "account = counter_account rt b wallet" "is_signer t payer" by fact+
  show "owner_of w' = owner_of w" "\<And>k. k \<noteq> account \<Longrightarrow> data_of w' k = data_of w k"
    by (simp_all add: w' fun_eq_iff)
qed

lemma prepare_counts:
  assumes "counting rt b wallet w" "prepare rt b t wallet account w = Inr w'"
  shows "data_of w' = data_of w" "owner_of w' = owner_of w"
proof -
  let ?K = "counter_account rt b wallet"
  have owner: "owner_of w ?K = anchor_id b" "anchor_id b \<noteq> system_program_id rt"
    using assms(1) by (simp_all add: counting_def)
  from assms(1) obtain c where
    d: "data_of w ?K = request_state_bytes rt (counter_cell wallet (counter_bump rt b wallet) c)"
    by (auto simp: counting_def read_counter_iff)
  have account: "account = ?K"
    using assms(2) by (auto simp: prepare_def request_state_account_def res_simps counter_account_def)
  have load: "request_state_account rt b t wallet account w = Inr (w1, s) \<Longrightarrow>
      w1 = w \<and> s = counter_cell wallet (counter_bump rt b wallet) c" for w1 s
    using owner by (auto simp: request_state_account_def res_simps account d typed_bytes)
  have cell: "rs_version (counter_cell wallet (counter_bump rt b wallet) c) = 1"
    by (simp add: counter_cell_def GENERATION_def)
  from assms(2) obtain w1 s where acc: "request_state_account rt b t wallet account w = Inr (w1, s)"
    unfolding prepare_def and_then_Inr by auto
  from assms(2) have "exit_typed (request_state_bytes rt (counter_cell wallet
      (counter_bump rt b wallet) c)) account w = Inr w'"
    unfolding prepare_def Let_def acc and_then_eval prod.case conjunct1 [OF load [OF acc]]
      conjunct2 [OF load [OF acc]] cell
    by (simp add: require_Inr)
  then have "w' = set_data ?K (store (data_of w ?K) (data_of w ?K)) w"
    by (simp add: exit_typed_Inr account d)
  moreover have "store d d = d" for d by (simp add: store_exact)
  ultimately show "data_of w' = data_of w" "owner_of w' = owner_of w"
    by (simp_all add: fun_eq_iff)
qed

section \<open>A sample request\<close>

definition demo_action_at :: "u64 \<Rightarrow> action" where
  "demo_action_at c = demo_action\<lparr>ac_counter := c\<rparr>"

definition demo_bound_at :: "u64 \<Rightarrow> bound_result" where
  "demo_bound_at c = demo_bound_result\<lparr>br_counter := c, br_request_digest :=
     the (request_digest demo_runtime (demo_key 103) (demo_key 102) (demo_key 101) demo_wallet
       demo_nonce (demo_action_at c))\<rparr>"

lemma demo_digest_at:
  "request_digest demo_runtime (demo_key 103) (demo_key 102) (demo_key 101) demo_wallet demo_nonce
     (demo_action_at c) = Some (br_request_digest (demo_bound_at c))"
proof -
  have "canonical_scalar (demo_commitment 2)" "canonical_scalar (demo_commitment 1)"
    by code_simp+
  then have "encode (demo_action_at c) \<noteq> None"
    by (simp add: encode_eq valid_action_def demo_action_at_def demo_action_def demo_nonzero)
  then show ?thesis by (auto simp: demo_bound_at_def request_digest_def)
qed

text \<open>
  A world in which the wallet's counter shows \<open>c\<close> and the stored result \<open>d\<close>; another account
  of the verifier holds the same result once more.
\<close>

definition demo_counter_world :: "u64 \<Rightarrow> u64 \<Rightarrow> world" where
  "demo_counter_world c d = set_data demo_bound_key (bound_result_bytes demo_runtime (demo_bound_at d))
     (set_data demo_request_key (request_state_bytes demo_runtime (counter_cell demo_wallet 255 c))
     (set_data demo_result_key (bound_result_bytes demo_runtime (demo_bound_at d)) demo_world))"

lemma demo_request_pda:
  "pda_key demo_runtime (request_state_seeds demo_wallet) (demo_key 101) = demo_request_key"
  "pda_bump demo_runtime seeds p = 255"
  by (simp_all add: pda_key_def pda_bump_def demo_runtime_def demo_request_key_def demo_pda_def
      demo_find_def)

lemma demo_mint_pda: "pda_key demo_runtime (mint_seeds demo_wallet) (demo_key 101) =
    demo_pda (mint_seeds demo_wallet)"
  by (simp add: pda_key_def demo_pda_def demo_runtime_def)

lemma demo_bound_create:
  "create_program_address demo_runtime [ascii ''verification_bound'', elems demo_wallet,
     elems demo_nonce, [255]] (demo_key 102) = Some demo_bound_key"
  by (simp add: demo_runtime_def demo_create_def demo_bound_key_def demo_find_def bound_seeds_def)

lemma demo_counter_data:
  "data_of (demo_counter_world c d) demo_bound_key = bound_result_bytes demo_runtime (demo_bound_at d)"
  "data_of (demo_counter_world c d) demo_request_key =
     request_state_bytes demo_runtime (counter_cell demo_wallet 255 c)"
  "data_of (demo_counter_world c d) demo_result_key = bound_result_bytes demo_runtime (demo_bound_at d)"
  "owner_of (demo_counter_world c d) k = owner_of demo_world k"
  using demo_keys_distinct by (auto simp: demo_counter_world_def)

lemma demo_consume:
  assumes "uint c + 1 < 2 ^ 64"
  shows "consume_bound_result demo_runtime (demo_build True) (demo_tx 1700700100 m) 1700700100
    demo_wallet demo_identity_key demo_identity demo_bound_key demo_request_key
    (demo_counter_world c c) = Inr (demo_bound_at c, set_data demo_request_key
      (request_state_bytes demo_runtime (counter_cell demo_wallet 255 (c + 1))) (demo_counter_world c c))"
proof -
  have fields: "br_version (demo_bound_at c) = 1" "br_wallet (demo_bound_at c) = demo_wallet"
    "br_counter (demo_bound_at c) = c" "br_nonce (demo_bound_at c) = demo_nonce"
    "br_bump (demo_bound_at c) = 255" "br_verified_at (demo_bound_at c) = 1700700000"
    "br_valid_until (demo_bound_at c) = 1700700200"
    by (simp_all add: demo_bound_at_def demo_bound_result_def)
  have action: "bound_action demo_identity_key demo_identity c (demo_bound_at c) = demo_action_at c"
    by (simp add: bound_action_def demo_action_at_def demo_action_def demo_identity_def
        demo_bound_at_def demo_bound_result_def)
  have filled: "bound_result_bytes demo_runtime (demo_bound_at c) \<noteq> []"
    using length_typed_bytes(4) [of demo_runtime "demo_bound_at c"] by auto
  have "load_bound_result demo_runtime (demo_build True) demo_bound_key (demo_counter_world c c) =
      Inr (demo_bound_at c)"
    using filled by (simp add: load_bound_result_def demo_counter_data demo_owner typed_bytes
        length_typed_bytes bound_result_len_def demo_build_def)
  then show ?thesis
    using assms
    by (simp add: consume_bound_result_def Let_def demo_request_pda demo_counter_data demo_owner
        read_cell check_bound_result_def fields GENERATION_def demo_nonzero demo_bound_create action
        demo_digest_at demo_tx_def checked_add_def write_counter_cell demo_build_def)
qed

text \<open>The same wallet before the proof: the result does not exist yet.\<close>

definition demo_request_world :: world where
  "demo_request_world = demo_world\<lparr>accs := (accs demo_world)
     (demo_bound_key := demo_account demo_system [],
      demo_request_key := demo_account (demo_key 101)
        (request_state_bytes demo_runtime (counter_cell demo_wallet 255 7)))\<rparr>"

lemma demo_request_accounts:
  "acc_owner (accs demo_request_world demo_bound_key) = demo_system"
  "acc_data (accs demo_request_world demo_bound_key) = []"
  "data_of demo_request_world demo_identity_key = identity_bytes demo_runtime demo_identity"
  "data_of demo_request_world demo_request_key =
     request_state_bytes demo_runtime (counter_cell demo_wallet 255 7)"
  "owner_of demo_request_world demo_identity_key = demo_key 101"
  "owner_of demo_request_world demo_request_key = demo_key 101"
  using demo_keys_distinct demo_data(1) demo_owner(1)
  by (auto simp: demo_request_world_def demo_account_def data_of_def owner_of_def)

lemma demo_verify_bound:
  "\<exists>w'. verify_bound demo_runtime (demo_build True) (demo_tx 1700700000 []) demo_wallet demo_bound_key
     demo_identity_key demo_request_key demo_nonce (arr_of demo_proof) (demo_commitment 2)
     (demo_commitment 1) 90 10 1700700200 demo_request_world = Inr w'"
proof -
  obtain A where init: "init_account demo_runtime demo_wallet demo_bound_key bound_result_len
      (demo_key 102) (accs demo_request_world) = Inr A"
    and A: "A = (accs demo_request_world)(demo_bound_key := \<lparr>acc_owner = demo_key 102,
      acc_lamports = max 1000 (acc_lamports (accs demo_request_world demo_bound_key)),
      acc_data = replicate bound_result_len 0\<rparr>)"
    by (simp add: demo_runtime_def demo_init_def demo_request_accounts)
  let ?w = "demo_request_world\<lparr>accs := A\<rparr>"
  have reads: "data_of ?w demo_identity_key = identity_bytes demo_runtime demo_identity"
    "data_of ?w demo_request_key = request_state_bytes demo_runtime (counter_cell demo_wallet 255 7)"
    "owner_of ?w demo_identity_key = demo_key 101" "owner_of ?w demo_request_key = demo_key 101"
    "length (data_of ?w demo_bound_key) = 198"
    using demo_keys_distinct demo_request_accounts
    by (auto simp: A data_of_def owner_of_def bound_result_len_def)
  have identity: "bound_identity demo_runtime (demo_build True) demo_wallet (demo_commitment 1)
      (identity_bytes demo_runtime demo_identity) = Inr (demo_pda (mint_seeds demo_wallet), 1)"
    by (subst bound_identity_typed [OF typed_bytes(1)])
      (simp_all add: length_typed_bytes identity_len_def demo_identity_def demo_request_pda
        demo_build_def demo_mint_pda)
  have identity_pda: "pda_key demo_runtime (identity_seeds demo_wallet) (demo_key 101) = demo_identity_key"
    by (simp add: pda_key_def demo_runtime_def demo_identity_key_def demo_pda_def)
  have bound_pda: "pda_key demo_runtime (bound_seeds demo_wallet demo_nonce) (demo_key 102) = demo_bound_key"
    by (simp add: pda_key_def demo_runtime_def demo_bound_key_def)
  have window: "valid_window 1700700000 1700700200 = Inr ()"
    by (simp add: valid_window_def checked_add_def MAX_REQUEST_LIFETIME_def)
  have action: "\<lparr>ac_identity = demo_identity_key, ac_mint = demo_pda (mint_seeds demo_wallet),
      ac_counter = 7, ac_projection = 1, ac_commitment_new = demo_commitment 2,
      ac_commitment_prev = demo_commitment 1, ac_threshold = 90, ac_min_distance = 10,
      ac_valid_until = 1700700200\<rparr> = demo_action_at 7"
    by (simp add: demo_action_at_def demo_action_def)
  have groth: "groth16_verify demo_runtime key x y z v" for key x y z v
    by (simp add: demo_runtime_def)
  show ?thesis
    using reads identity identity_pda bound_pda init
    by (simp add: verify_bound_def bound_accounts_def mut_signer_def with_seeds_def demo_tx_def
        init_typed_def demo_build_def demo_nonzero window validate_hamming_bounds_def
        MAX_THRESHOLD_def MIN_DISTANCE_FLOOR_def demo_request_pda read_cell action demo_digest_at
        groth Let_def exit_typed_def length_typed_bytes)
qed

theorem bound_proof_is_consumable_witness:
  "\<exists>w' r w''. verify_bound demo_runtime (demo_build True) (demo_tx 1700700000 []) demo_wallet
       demo_bound_key demo_identity_key demo_request_key demo_nonce (arr_of demo_proof)
       (demo_commitment 2) (demo_commitment 1) 90 10 1700700200 demo_request_world = Inr w' \<and>
     consume_bound_result demo_runtime (demo_build True) (demo_tx 1700700100 []) 1700700100
       demo_wallet demo_identity_key demo_identity demo_bound_key demo_request_key w' = Inr (r, w'') \<and>
     br_commitment_new r = demo_commitment 2"
proof -
  from demo_verify_bound obtain w' where run: "verify_bound demo_runtime (demo_build True)
      (demo_tx 1700700000 []) demo_wallet demo_bound_key demo_identity_key demo_request_key demo_nonce
      (arr_of demo_proof) (demo_commitment 2) (demo_commitment 1) 90 10 1700700200
      demo_request_world = Inr w'" by blast
  have "data_of w' k = data_of demo_request_world k" if "k \<noteq> demo_bound_key" for k
    using verify_bound_inv [OF demo_init_law run] that by auto
  then have "data_of w' demo_identity_key = identity_bytes demo_runtime demo_identity"
    "data_of w' demo_request_key = request_state_bytes demo_runtime (counter_cell demo_wallet 255 7)"
    using demo_keys_distinct demo_request_accounts by auto
  then have identity: "try_identity demo_runtime (data_of w' demo_identity_key) = Inr demo_identity"
    and counter: "read_counter demo_runtime (data_of w' demo_request_key) demo_wallet
      (pda_bump demo_runtime (request_state_seeds demo_wallet) (anchor_id (demo_build True))) = Some 7"
    by (simp_all add: typed_bytes demo_request_pda read_cell)
  have "anchor_id (demo_build True) \<noteq> verifier_id (demo_build True)" by code_simp
  from bound_proof_is_consumable [OF demo_init_law demo_pda_law this run identity counter,
      of 1700700100 "demo_tx 1700700100 []"] run
  show ?thesis by (auto simp: demo_tx_def)
qed

end
