(* ===== verification/Identity_Effects.thy ===== *)
theory Identity_Effects
  imports Receipts_Correct Bound_Correct
begin

text \<open>
  What the blocks that the identity instructions share do to the accounts: growing an
  identity, loading and saving it, paying a fee, closing a verification result.
\<close>

section \<open>The deployment\<close>

text \<open>
  What the theorems on whole instructions assume of the parameters: the laws of the runtime
  and of the framework, and that the three programs and the system program are different
  programs.
\<close>

definition deployment_law :: "runtime \<Rightarrow> build \<Rightarrow> bool" where
  "deployment_law rt b \<longleftrightarrow> realloc_law rt \<and> transfer_law rt \<and> init_law rt \<and> close_law rt \<and>
     pda_law rt \<and> foreign_law rt (anchor_id b) \<and> foreign_law rt (verifier_id b) \<and>
     foreign_law rt registry_program_id \<and>
     distinct [anchor_id b, verifier_id b, registry_program_id, system_program_id rt]"

lemma deployment_laws:
  assumes "deployment_law rt b"
  shows "realloc_law rt" "transfer_law rt" "init_law rt" "close_law rt" "pda_law rt"
    and "foreign_law rt (anchor_id b)" "foreign_law rt (verifier_id b)"
    and "foreign_law rt registry_program_id"
    and "anchor_id b \<noteq> verifier_id b" "anchor_id b \<noteq> registry_program_id"
    and "verifier_id b \<noteq> registry_program_id" "anchor_id b \<noteq> system_program_id rt"
    and "verifier_id b \<noteq> system_program_id rt" "registry_program_id \<noteq> system_program_id rt"
  using assms by (auto simp: deployment_law_def)

lemma demo_deployment: "deployment_law demo_runtime (demo_build bound)"
proof -
  have "distinct [demo_key 101, demo_key 102, registry_program_id, demo_system]" by code_simp
  then show ?thesis
    by (auto simp: deployment_law_def demo_realloc_law demo_transfer_law demo_init_law demo_close_law
        demo_pda_law demo_foreign_law demo_build_def)
      (simp_all add: demo_runtime_def)
qed

section \<open>Identity accounts\<close>

text \<open>An account after the growth to the current layout, and the identity it holds then.\<close>

definition grown_identity :: "byte list \<Rightarrow> byte list" where
  "grown_identity d = d @ replicate (identity_len - length d) 0"

definition identity_at :: "runtime \<Rightarrow> world \<Rightarrow> pubkey \<Rightarrow> framework_error + identity_state" where
  "identity_at rt w k = try_identity rt (grown_identity (data_of w k))"

lemma length_grown_identity: "length (grown_identity d) = max identity_len (length d)"
  by (auto simp: grown_identity_def)

lemma grown_identity_long: "identity_len \<le> length d \<Longrightarrow> grown_identity d = d"
  by (simp add: grown_identity_def)

lemma grow_effect:
  assumes "realloc_law rt" "transfer_law rt" "grow_identity rt k payer w = Inr w'"
  shows "data_of w' = (data_of w)(k := grown_identity (data_of w k))" "owner_of w' = owner_of w"
    and "events w' = events w"
proof -
  consider "identity_len \<le> length (data_of w k)" "w' = w"
    | w1 where "length (data_of w k) < identity_len" "resize rt k identity_len w = Inr w1"
        "w' = w1 \<or> (\<exists>n. transfer rt payer k n w1 = Inr w')"
    using assms(3)
    by (auto simp: grow_identity_def Let_def not_less and_then_Inr split: if_splits)
  then show "data_of w' = (data_of w)(k := grown_identity (data_of w k))" "owner_of w' = owner_of w"
    "events w' = events w"
  proof (atomize (full), cases)
    case 1
    then show "data_of w' = (data_of w)(k := grown_identity (data_of w k)) \<and> owner_of w' = owner_of w \<and>
        events w' = events w"
      by (simp add: grown_identity_long)
  next
    case (2 w1)
    have "data_of w1 = (data_of w)(k := grown_identity (data_of w k))" "owner_of w1 = owner_of w"
      using resize_frame [OF assms(1) 2(2)] 2(1) by (auto simp: grown_identity_def fun_eq_iff)
    moreover have "events w1 = events w" using 2(2) by (auto simp: resize_Inr)
    ultimately show "data_of w' = (data_of w)(k := grown_identity (data_of w k)) \<and> owner_of w' = owner_of w \<and>
        events w' = events w"
      using 2(3) transfer_same [OF assms(2)] transfer_log(1) by metis
  qed
qed

lemma load_identity_Inr:
  "load_identity rt k authority w = Inr i \<longleftrightarrow>
     try_identity rt (data_of w k) = Inr i \<and> id_owner i = authority"
  by (auto simp: load_identity_def res_simps)

lemma identity_len_widths: "8 + sum_list identity_widths = identity_len"
  by (simp add: identity_widths_def identity_len_def)

lemma try_stored_identity:
  "identity_len \<le> length d \<Longrightarrow> try_identity rt (store (identity_bytes rt i) d) = Inr i"
  unfolding try_identity_def identity_bytes_def
  by (rule identity.load_stored) (simp_all add: identity_len_widths)

lemma length_stored_identity:
  "identity_len \<le> length d \<Longrightarrow> length (store (identity_bytes rt i) d) = length d"
  unfolding identity_bytes_def by (rule identity.length_store) (simp_all add: identity_len_widths)

lemma save_effect:
  assumes "save_identity rt k i w = Inr w'"
  shows "data_of w' = (data_of w)(k := data_of w' k)" "owner_of w' = owner_of w"
    and "try_identity rt (data_of w' k) = Inr i" "length (data_of w' k) = length (data_of w k)"
    and "identity_at rt w' k = Inr i" "events w' = events w"
proof -
  from assms have len: "identity_len \<le> length (data_of w k)"
    and w': "w' = set_data k (store (identity_bytes rt i) (data_of w k)) w"
    by (auto simp: save_identity_def res_simps)
  show "data_of w' = (data_of w)(k := data_of w' k)" "owner_of w' = owner_of w"
    "events w' = events w"
    by (simp_all add: w' fun_eq_iff)
  show typed: "try_identity rt (data_of w' k) = Inr i"
    using len by (simp add: w' try_stored_identity)
  show same: "length (data_of w' k) = length (data_of w k)"
    using len by (simp add: w' length_stored_identity)
  show "identity_at rt w' k = Inr i"
    using typed len same by (simp add: identity_at_def grown_identity_long)
qed

lemma pay_fee_effect:
  assumes "transfer_law rt" "pay_fee rt payer treasury fee w = Inr w'"
  shows "data_of w' = data_of w" "owner_of w' = owner_of w" "events w' = events w"
  using assms(2) transfer_same [OF assms(1)] transfer_log(1)
  by (auto simp: pay_fee_def split: if_splits)

definition session_events :: "pubkey \<Rightarrow> receipt_purpose \<Rightarrow> u16 \<Rightarrow> receipt_session option \<Rightarrow> event list" where
  "session_events k p v session = (case session of None \<Rightarrow> []
     | Some s \<Rightarrow> [ReceiptSessionBound k (purpose_code p) v (final_digest s) (assurance_tier s)])"

lemma emit_session_simps [simp]:
  "events (emit_receipt_session k p v s w) = events w @ session_events k p v s"
  "data_of (emit_receipt_session k p v s w) = data_of w"
  "owner_of (emit_receipt_session k p v s w) = owner_of w"
  "lamports_of (emit_receipt_session k p v s w) = lamports_of w"
  by (cases s; simp add: emit_receipt_session_def session_events_def)+

section \<open>Closing the result\<close>

lemma length_instruction_disc [simp]: "length (instruction_disc rt name) = 8"
  by (simp add: instruction_disc_def)

lemma close_result_effect:
  assumes "close_law rt"
    and "close_verification_result_cpi rt b t program verifier key nonce w = Inr w'"
  shows "program = verifier_id b" "is_signer t verifier" "owner_of w key = verifier_id b"
    and "data_of w' = (data_of w)(key := [])"
    and "owner_of w' = (owner_of w)(key := system_program_id rt)" "events w' = events w"
    and "nonce = None \<Longrightarrow>
      \<exists>r. try_verification_result rt (data_of w key) = Inr r \<and> vr_verifier r = verifier"
proof -
  from assms(2) have program: "program = verifier_id b"
    and entry: "verifier_close_entry rt b t verifier key (close_instruction_data rt nonce) w = Inr w'"
    by (auto simp: close_verification_result_cpi_def require_Inr)
  show "program = verifier_id b" by fact
  from entry consider
      n where "close_bound_verification_result rt b t verifier key n w = Inr w'" "nonce \<noteq> None"
    | "close_verification_result rt b t verifier key w = Inr w'"
    by (cases nonce) (auto simp: verifier_close_entry_def close_instruction_data_def split: if_splits)
  then have "is_signer t verifier \<and> owner_of w key = verifier_id b \<and>
      close_typed rt key verifier w = Inr w' \<and>
      (nonce = None \<longrightarrow>
        (\<exists>r. try_verification_result rt (data_of w key) = Inr r \<and> vr_verifier r = verifier))"
    by cases (auto simp: close_bound_verification_result_def close_verification_result_def res_simps)
  then have signer: "is_signer t verifier" and owner: "owner_of w key = verifier_id b"
    and closed: "close_typed rt key verifier w = Inr w'"
    and typed: "nonce = None \<longrightarrow>
        (\<exists>r. try_verification_result rt (data_of w key) = Inr r \<and> vr_verifier r = verifier)"
    by auto
  show "is_signer t verifier" "owner_of w key = verifier_id b" by fact+
  show "data_of w' = (data_of w)(key := [])"
    "owner_of w' = (owner_of w)(key := system_program_id rt)" "events w' = events w"
    by (rule close_effect [OF assms(1) closed])+
  show "nonce = None \<Longrightarrow>
      \<exists>r. try_verification_result rt (data_of w key) = Inr r \<and> vr_verifier r = verifier"
    using typed by simp
qed

end
