(* ===== verification/Frames.thy ===== *)
theory Frames
  imports Registry_Correct Identity_Effects
begin

text \<open>
  Who may touch which account. \<open>kept p k\<close> says that a stretch of execution left the
  account \<open>k\<close> alone as far as program \<open>p\<close> is concerned: if it is \<open>p\<close>'s, nothing changed,
  and if it became \<open>p\<close>'s, it is blank. The relation composes, and every operation of the
  runtime and of the framework keeps all accounts but the one it is about.
\<close>

definition kept :: "pubkey \<Rightarrow> pubkey \<Rightarrow> world \<Rightarrow> world \<Rightarrow> bool" where
  "kept p k w w' \<longleftrightarrow>
     (owner_of w k = p \<longrightarrow> data_of w' k = data_of w k \<and> owner_of w' k = p) \<and>
     (owner_of w k \<noteq> p \<longrightarrow> owner_of w' k = p \<longrightarrow> blank (data_of w' k))"

lemma kept_refl: "kept p k w w"
  by (simp add: kept_def)

lemma kept_trans: "kept p k w w1 \<Longrightarrow> kept p k w1 w2 \<Longrightarrow> kept p k w w2"
  by (auto simp: kept_def)

lemma kept_same: "data_of w' k = data_of w k \<Longrightarrow> owner_of w' k = owner_of w k \<Longrightarrow> kept p k w w'"
  by (simp add: kept_def)

lemma kept_foreign: "owner_of w k \<noteq> p \<Longrightarrow> owner_of w' k \<noteq> p \<Longrightarrow> kept p k w w'"
  by (simp add: kept_def)

lemma blank_simps [simp]: "blank []" "blank (replicate n 0)"
  by (simp_all add: blank_def)

section \<open>Operations\<close>

lemma kept_emit: "kept p k w (emit e w)"
  by (simp add: kept_def)

lemma kept_session: "kept p k w (emit_receipt_session o1 q v s w)"
  by (simp add: kept_def)

lemma kept_set_data: "owner_of w j \<noteq> p \<or> k \<noteq> j \<Longrightarrow> kept p k w (set_data j d w)"
  by (auto simp: kept_def)

lemma kept_exit: "exit_typed bs j w = Inr w' \<Longrightarrow> owner_of w j \<noteq> p \<or> k \<noteq> j \<Longrightarrow> kept p k w w'"
  by (auto simp: exit_typed_Inr kept_set_data)

lemma kept_invoke: "foreign_law rt p \<Longrightarrow> invoke rt c w = Inr w' \<Longrightarrow> kept p k w w'"
  by (auto simp: foreign_law_def kept_def invoke_Inr data_of_def owner_of_def)

lemma kept_transfer: "foreign_law rt p \<Longrightarrow> transfer rt src dst n w = Inr w' \<Longrightarrow> kept p k w w'"
  by (simp add: transfer_def kept_invoke)

lemma kept_pay_fee: "foreign_law rt p \<Longrightarrow> pay_fee rt payer treasury fee w = Inr w' \<Longrightarrow> kept p k w w'"
  by (auto simp: pay_fee_def kept_refl kept_transfer split: if_splits)

lemma kept_invoke_all:
  "foreign_law rt p \<Longrightarrow> invoke_all rt cs w = Inr w' \<Longrightarrow> kept p k w w'"
  by (induction cs arbitrary: w) (auto simp: kept_refl and_then_Inr intro: kept_trans kept_invoke)

lemma kept_token:
  "foreign_law rt p \<Longrightarrow> create_identity_token rt b ta w = Inr w' \<Longrightarrow> kept p k w w'"
  by (auto simp: create_identity_token_def and_then_Inr intro: kept_invoke_all)

lemma kept_init:
  assumes "init_law rt" "init_typed rt payer j space q w = Inr w'" "p \<noteq> system_program_id rt"
  shows "kept p k w w'"
  using init_effect [OF assms(1,2)] assms(3) by (simp add: kept_def)

lemma kept_close:
  assumes "close_law rt" "close_typed rt j dest w = Inr w'"
    and "p \<noteq> system_program_id rt" "owner_of w j \<noteq> p \<or> k \<noteq> j"
  shows "kept p k w w'"
  using close_effect [OF assms(1,2)] assms(3,4) by (auto simp: kept_def)

section \<open>Advancing and preparing a counter\<close>

text \<open>An account that carries the discriminator of a type.\<close>

definition tagged :: "byte list \<Rightarrow> byte list \<Rightarrow> bool" where
  "tagged disc d \<longleftrightarrow> take 8 d = disc \<and> 8 \<le> length d"

lemma tagged_serialize: "length disc = 8 \<Longrightarrow> tagged disc (serialize disc fs)"
  by (simp add: tagged_def serialize_def)

lemma tagged_store: "tagged disc bs \<Longrightarrow> tagged disc (store bs d)"
  by (auto simp: tagged_def store_def copy_at_def)

lemma tagged_deserialize: "deserialize disc ns f d = Inr x \<Longrightarrow> tagged disc d"
  by (auto simp: deserialize_def tagged_def split: if_splits)

lemma tagged_bytes:
  "tagged (request_state_disc rt) (request_state_bytes rt s)"
  "tagged (encrypted_baseline_disc rt) (encrypted_baseline_bytes rt e)"
  "tagged (identity_disc rt) (identity_bytes rt i)"
  by (simp_all add: request_state_bytes_def encrypted_baseline_bytes_def identity_bytes_def
      tagged_serialize)

text \<open>As far as the program of \<open>b\<close> and every other program go, only \<open>j\<close> is written.\<close>

definition writes_only :: "runtime \<Rightarrow> build \<Rightarrow> pubkey \<Rightarrow> world \<Rightarrow> world \<Rightarrow> bool" where
  "writes_only rt b j w w' \<longleftrightarrow> (\<forall>k p. p \<noteq> system_program_id rt \<longrightarrow> foreign_law rt p \<longrightarrow>
     k \<noteq> j \<or> p \<noteq> anchor_id b \<longrightarrow> kept p k w w')"

lemma writes_only_trans:
  "writes_only rt b j w w1 \<Longrightarrow> writes_only rt b j w1 w2 \<Longrightarrow> writes_only rt b j w w2"
  unfolding writes_only_def using kept_trans by blast

lemma writes_only_kept:
  "(\<And>p k. foreign_law rt p \<Longrightarrow> kept p k w w') \<Longrightarrow> writes_only rt b j w w'"
  by (simp add: writes_only_def)

lemma writes_only_set: "owner_of w j = anchor_id b \<Longrightarrow> writes_only rt b j w (set_data j d w)"
  by (auto simp: writes_only_def kept_set_data)

text \<open>
  An account of the type with this discriminator is created or written: it has the type
  afterwards, and before, unless it is new.
\<close>

definition tagged_write :: "runtime \<Rightarrow> build \<Rightarrow> byte list \<Rightarrow> pubkey \<Rightarrow> world \<Rightarrow> world \<Rightarrow> bool" where
  "tagged_write rt b disc j w w' \<longleftrightarrow> writes_only rt b j w w' \<and>
     owner_of w' j = anchor_id b \<and> tagged disc (data_of w' j) \<and>
     (owner_of w j = system_program_id rt \<or> owner_of w j = anchor_id b \<and> tagged disc (data_of w j))"

lemma advance_counter_write:
  assumes "advance_counter rt j wallet bump w = Inr (c, w')" "owner_of w j = anchor_id b"
  shows "tagged_write rt b (request_state_disc rt) j w w'"
proof -
  from assms(1) obtain n where n: "read_counter rt (data_of w j) wallet bump = Some n"
    and w': "w' = set_data j (request_state_bytes rt (counter_cell wallet bump (n + 1))) w"
    by (auto simp: advance_counter_cell split: option.splits if_splits)
  from n have "tagged (request_state_disc rt) (data_of w j)" by (simp add: read_counter_iff tagged_bytes)
  then show ?thesis
    using assms(2) by (auto simp: tagged_write_def w' tagged_bytes intro!: writes_only_set)
qed

lemma create_request_state_inv:
  assumes "create_request_state rt b j wallet bump payer w = Inr w'"
  shows "\<exists>w1 w2 w3 c1 c2 bs. (w1 = w \<or> (\<exists>n. transfer rt payer j n w = Inr w1)) \<and>
    invoke rt c1 w1 = Inr w2 \<and> invoke rt c2 w2 = Inr w3 \<and> exit_typed bs j w3 = Inr w'"
proof -
  from assms obtain w1 w2 w3 where
    "(if lamports_of w j < minimum_balance rt STATE_LEN
       then transfer rt payer j (minimum_balance rt STATE_LEN - lamports_of w j) w else Inr w) = Inr w1"
    "invoke rt (SystemAllocate j STATE_LEN (request_state_seeds wallet @ [[bump]])) w1 = Inr w2"
    "invoke rt (SystemAssign j (anchor_id b) (request_state_seeds wallet @ [[bump]])) w2 = Inr w3"
    "exit_typed (request_state_bytes rt \<lparr>rs_version = GENERATION, rs_wallet = wallet, rs_counter = 0,
      rs_bump = bump\<rparr>) j w3 = Inr w'"
    unfolding create_request_state_def Let_def by (simp only: and_then_Inr) blast
  moreover from this(1) have "w1 = w \<or> (\<exists>n. transfer rt payer j n w = Inr w1)"
    by (auto split: if_splits)
  ultimately show ?thesis by blast
qed

lemma create_request_state_writes:
  assumes "create_request_state rt b j wallet bump payer w = Inr w'" "owner_of w' j = anchor_id b"
  shows "writes_only rt b j w w'"
proof -
  from create_request_state_inv [OF assms(1)] obtain w1 w2 w3 c1 c2 bs where
    t: "w1 = w \<or> (\<exists>n. transfer rt payer j n w = Inr w1)"
    and i: "invoke rt c1 w1 = Inr w2" "invoke rt c2 w2 = Inr w3"
    and e: "exit_typed bs j w3 = Inr w'"
    by blast
  have "kept p k w w3" if "foreign_law rt p" for p k
    using t i that kept_trans kept_transfer kept_invoke kept_refl by metis
  then have "writes_only rt b j w w3" by (rule writes_only_kept)
  moreover have "writes_only rt b j w3 w'"
    using e assms(2) by (auto simp: exit_typed_Inr intro!: writes_only_set)
  ultimately show ?thesis by (rule writes_only_trans)
qed

lemma advance_write:
  assumes "deployment_law rt b" "advance rt b t j wallet payer w = Inr w'"
  shows "tagged_write rt b (request_state_disc rt) j w w'" "is_signer t payer" "j = counter_account rt b wallet"
proof -
  from assms(2) obtain w1 c where
    j: "j = counter_account rt b wallet" and signer: "is_signer t payer"
    and first: "(if owner_of w j = system_program_id rt \<and> data_of w j = []
      then create_request_state rt b j wallet (counter_bump rt b wallet) payer w else Inr w) = Inr w1"
    and owner: "owner_of w1 j = anchor_id b"
    and adv: "advance_counter rt j wallet (counter_bump rt b wallet) w1 = Inr (c, w')"
    unfolding advance_def Let_def counter_account_def counter_bump_def
    by (simp only: require_Inr and_then_Inr split_paired_Ex prod.case) auto
  show "is_signer t payer" "j = counter_account rt b wallet" by fact+
  note writ = advance_counter_write [OF adv owner]
  show "tagged_write rt b (request_state_disc rt) j w w'"
  proof (cases "owner_of w j = system_program_id rt \<and> data_of w j = []")
    case True
    with first have "writes_only rt b j w w1"
      using create_request_state_writes owner by simp
    with writ True show ?thesis
      unfolding tagged_write_def using writes_only_trans by blast
  next
    case False
    with first writ show ?thesis by simp
  qed
qed

lemma writes_only_init:
  "init_law rt \<Longrightarrow> init_typed rt payer j space p w = Inr w' \<Longrightarrow> writes_only rt b j' w w'"
  by (auto simp: writes_only_def kept_init)

lemma writes_only_exit:
  "exit_typed bs j w = Inr w' \<Longrightarrow> owner_of w j = anchor_id b \<Longrightarrow> writes_only rt b j w w'"
  by (auto simp: exit_typed_Inr writes_only_set)

lemma prepare_write:
  assumes "deployment_law rt b" "prepare rt b t authority j w = Inr w'"
  shows "tagged_write rt b (request_state_disc rt) j w w'"
proof -
  note laws = deployment_laws [OF assms(1)]
  from assms(2) obtain w1 s s' where acc: "request_state_account rt b t authority j w = Inr (w1, s)"
    and exit: "exit_typed (request_state_bytes rt s') j w1 = Inr w'"
    unfolding prepare_def Let_def
    by (simp only: require_Inr and_then_Inr split_paired_Ex prod.case) auto
  have start: "writes_only rt b j w w1 \<and> owner_of w1 j = anchor_id b \<and>
      (owner_of w j = system_program_id rt \<or>
       owner_of w j = anchor_id b \<and> tagged (request_state_disc rt) (data_of w j))"
  proof (cases "owner_of w j = system_program_id rt")
    case True
    with acc have init: "init_typed rt authority j STATE_LEN (anchor_id b) w = Inr w1"
      by (auto simp: request_state_account_def mut_signer_Inr with_seeds_Inr and_then_Inr)
    show ?thesis using True writes_only_init [OF laws(3) init] init_effect(4) [OF laws(3) init] by simp
  next
    case False
    with acc have "w1 = w" "owner_of w j = anchor_id b" "try_request_state rt (data_of w j) = Inr s"
      by (auto simp: request_state_account_def mut_signer_Inr with_seeds_Inr and_then_Inr
          mut_account_Inr require_Inr load_typed_Inr)
    then show ?thesis
      by (auto simp: try_request_state_def writes_only_kept kept_refl dest: tagged_deserialize)
  qed
  have "tagged (request_state_disc rt) (data_of w' j)" "owner_of w' j = owner_of w1 j"
    using exit by (auto simp: exit_typed_Inr tagged_store tagged_bytes)
  with start writes_only_exit [OF exit] show ?thesis
    unfolding tagged_write_def using writes_only_trans by metis
qed

lemma baseline_write:
  assumes "deployment_law rt b" "set_encrypted_baseline rt b t authority ik j blob w = Inr w'"
  shows "tagged_write rt b (encrypted_baseline_disc rt) j w w'"
proof -
  note laws = deployment_laws [OF assms(1)]
  from assms(2) obtain w1 e x where acc: "baseline_account rt b t authority j w = Inr w1"
    and exit: "exit_typed (encrypted_baseline_bytes rt x) j (emit e w1) = Inr w'"
    unfolding set_encrypted_baseline_def
    by (simp only: mut_signer_Inr with_seeds_Inr require_Inr and_then_Inr) blast
  have start: "writes_only rt b j w w1 \<and> owner_of w1 j = anchor_id b \<and>
      (owner_of w j = system_program_id rt \<or>
       owner_of w j = anchor_id b \<and> tagged (encrypted_baseline_disc rt) (data_of w j))"
  proof (cases "owner_of w j = system_program_id rt")
    case True
    with acc have init: "init_typed rt authority j encrypted_baseline_len (anchor_id b) w = Inr w1"
      by (auto simp: baseline_account_def with_seeds_Inr)
    show ?thesis using True writes_only_init [OF laws(3) init] init_effect(4) [OF laws(3) init] by simp
  next
    case False
    with acc have "w1 = w" "owner_of w j = anchor_id b"
      "\<exists>x. try_encrypted_baseline rt (data_of w j) = Inr x"
      by (auto simp: baseline_account_def with_seeds_Inr and_then_Inr
          mut_account_Inr require_Inr load_typed_Inr)
    then show ?thesis
      by (auto simp: try_encrypted_baseline_def writes_only_kept kept_refl dest: tagged_deserialize)
  qed
  have "tagged (encrypted_baseline_disc rt) (data_of w' j)" "owner_of w' j = owner_of w1 j"
    using exit by (auto simp: exit_typed_Inr tagged_store tagged_bytes)
  moreover have "writes_only rt b j w1 (emit e w1)" by (simp add: writes_only_kept kept_emit)
  ultimately show ?thesis
    using start writes_only_exit [OF exit] writes_only_trans
    unfolding tagged_write_def by (metis emit_simps(2))
qed

end
