(* ===== verification/Update_Correct.thy ===== *)
theory Update_Correct
  imports Identity_Effects Score_Correct
begin

text \<open>
  The update instructions: what a successful update presupposes, what it leaves behind,
  and that neither the verification result nor the validator receipt serves twice.
\<close>

section \<open>The steps of an update\<close>

lemma process_update_inv:
  assumes "process_anchor_update rt b t ua receipt expected bound_state w = Inr w'"
  shows "\<exists>w1 i cfg new prev nonce w2 session w3 i' w4 w5.
    (bound_state \<noteq> None) = request_bound_v1 b \<and>
    owner_of w (ua_identity ua) = anchor_id b \<and>
    grow_identity rt (ua_identity ua) (ua_authority ua) w = Inr w1 \<and>
    load_identity rt (ua_identity ua) (ua_authority ua) w1 = Inr i \<and>
    read_update_config (ua_protocol_config ua) (id_projection_version i) w1 = Inr cfg \<and>
    consume_result rt b t ua i bound_state w1 = Inr (new, prev, nonce, w2) \<and>
    check_commitments new prev expected i = Inr () \<and>
    verify_update_receipt_digest rt t (uc_keys cfg) (ua_authority ua) new
      (id_projection_version i) receipt (clock t) = Inr session \<and>
    sint (id_last_verification_timestamp i) \<le> sint (ur_validated_at receipt) \<and>
    close_verification_result_cpi rt b t (ua_verifier_program ua) (ua_authority ua)
      (ua_verification_result ua) nonce w2 = Inr w3 \<and>
    updated_identity cfg (clock t) new i = Inr i' \<and>
    save_identity rt (ua_identity ua) i' w3 = Inr w4 \<and>
    pay_fee rt (ua_authority ua) (ua_treasury ua) (uc_verification_fee cfg) w4 = Inr w5 \<and>
    w' = emit_receipt_session (id_owner i') Update (id_projection_version i') session
       (emit (AnchorUpdated (id_owner i') (id_verification_count i') (id_trust_score i') new) w5)"
  using assms unfolding process_anchor_update_def Let_def
  by (simp only: require_Inr and_then_Inr split_paired_Ex prod.case) auto

lemma check_commitments_Inr:
  "check_commitments new prev expected i = Inr () \<longleftrightarrow>
     new \<noteq> 0 \<and> (case expected of Some e \<Rightarrow> new = e | None \<Rightarrow> True) \<and>
     prev = id_current_commitment i \<and> new \<noteq> prev"
  by (auto simp: check_commitments_def require_Inr)

lemma consume_result_legacy:
  "consume_result rt b t ua i None w = Inr (new, prev, nonce, w') \<longleftrightarrow>
     read_legacy_result rt b (clock t) (ua_authority ua) (ua_verification_result ua) w = Inr (new, prev) \<and>
     nonce = None \<and> w' = w"
  by (auto simp: consume_result_def and_then_Inr split: prod.splits)

lemma consume_result_bound:
  "consume_result rt b t ua i (Some state_key) w = Inr (new, prev, nonce, w') \<longleftrightarrow>
     (\<exists>r. consume_bound_result rt b t (clock t) (ua_authority ua) (ua_identity ua) i
        (ua_verification_result ua) state_key w = Inr (r, w') \<and>
      new = br_commitment_new r \<and> prev = br_commitment_prev r \<and> nonce = Some (br_nonce r))"
  by (auto simp: consume_result_def and_then_Inr split: prod.splits)

lemma updated_identity_inv:
  assumes "updated_identity cfg now new i = Inr i'"
  shows "uint (id_verification_count i) + 1 < 2 ^ 32 \<and>
    anchor_trust_score (uc_max_trust_score cfg) (uc_base_trust_increment cfg) now
      (id_creation_timestamp i) (record_verification (id_recent_timestamps i) now) =
      Inr (id_trust_score i') \<and>
    i' = i\<lparr>id_current_commitment := new, id_verification_count := id_verification_count i + 1,
      id_last_verification_timestamp := now,
      id_recent_timestamps := record_verification (id_recent_timestamps i) now,
      id_trust_score := id_trust_score i'\<rparr>"
  using assms
  by (auto simp: updated_identity_def and_then_Inr ok_or_Inr Let_def checked_add_def split: if_splits)

lemma updated_identity_fields:
  assumes "updated_identity cfg now new i = Inr i'"
  shows "id_current_commitment i' = new" "id_owner i' = id_owner i" "id_mint i' = id_mint i"
    and "id_verification_count i' = id_verification_count i + 1"
    and "id_last_verification_timestamp i' = now"
    and "id_projection_version i' = id_projection_version i"
    and "id_last_rebaseline_timestamp i' = id_last_rebaseline_timestamp i"
    and "id_last_reset_timestamp i' = id_last_reset_timestamp i"
    and "id_new_wallet i' = id_new_wallet i"
  using assms
  by (auto simp: updated_identity_def and_then_Inr ok_or_Inr Let_def checked_add_def split: if_splits)

text \<open>Whoever read the typed and the raw account saw the discriminator of the program.\<close>

lemma read_legacy_checked:
  assumes "read_legacy_result rt b now authority k w = Inr (new, prev)"
    and "try_verification_result rt (data_of w k) = Inr r"
  shows "\<not> request_bound_v1 b \<and> owner_of w k = verifier_id b \<and> vr_verifier r = authority \<and>
    vr_challenge_nonce r \<noteq> 0 \<and>
    create_program_address rt (verification_seeds authority (vr_challenge_nonce r) @ [[vr_bump r]])
      (verifier_id b) = Some k \<and>
    sint (vr_verified_at r) \<le> sint now \<and> sint now - sint (vr_verified_at r) \<le> 600 \<and>
    new = vr_commitment_new r \<and> prev = vr_commitment_prev r"
proof -
  have "slice 0 8 (data_of w k) = VERIFICATION_RESULT_DISCRIMINATOR"
    using assms(1) unfolding read_legacy_result_def Let_def by (simp only: require_Inr)
  then have "verification_result_disc rt = VERIFICATION_RESULT_DISCRIMINATOR"
    using verification_result_raw(7) [OF assms(2)] by simp
  note checked = iffD1 [OF read_legacy_typed [OF assms(2) this] assms(1)]
  then have "sint now - sint (vr_verified_at r) \<le> 600"
    by (auto simp: sint_saturating_sub_i64 i64_min_def i64_max_def split: if_splits)
  with checked show ?thesis by blast
qed

section \<open>Legacy updates\<close>

text \<open>The two legacy instructions are the same update, with and without a stated commitment.\<close>

definition legacy_update ::
  "runtime \<Rightarrow> build \<Rightarrow> tx \<Rightarrow> update_accounts \<Rightarrow> update_receipt_args \<Rightarrow> world \<Rightarrow> world \<Rightarrow> bool" where
  "legacy_update rt b t ua receipt w w' \<longleftrightarrow>
     (\<exists>new. update_anchor rt b t ua new receipt w = Inr w') \<or>
     update_anchor_compact rt b t ua receipt w = Inr w'"

lemma update_context_Inr:
  "update_context rt b t ua r = Inr x \<longleftrightarrow>
     is_signer t (ua_authority ua) \<and> is_writable t (ua_authority ua) \<and> is_writable t (ua_identity ua) \<and>
     pda_key rt (identity_seeds (ua_authority ua)) (anchor_id b) = ua_identity ua \<and>
     is_writable t (ua_verification_result ua) \<and>
     pda_key rt protocol_config_seeds registry_program_id = ua_protocol_config ua \<and>
     is_writable t (ua_treasury ua) \<and>
     pda_key rt protocol_treasury_seeds registry_program_id = ua_treasury ua \<and>
     ua_verifier_program ua = verifier_id b \<and> r = Inr x"
  by (auto simp: update_context_def res_simps)

text \<open>The facts about one successful legacy update from which all its properties
       follow.\<close>

definition legacy_facts ::
  "runtime \<Rightarrow> build \<Rightarrow> tx \<Rightarrow> update_accounts \<Rightarrow>
       update_receipt_args \<Rightarrow> world \<Rightarrow> world \<Rightarrow>
   identity_state \<Rightarrow> update_config \<Rightarrow> verification_result \<Rightarrow>
       receipt_session option \<Rightarrow>
   identity_state \<Rightarrow> bool" where
  "legacy_facts rt b t ua receipt w w' i cfg r session i' \<longleftrightarrow>
     owner_of w (ua_identity ua) = anchor_id b \<and>
     identity_at rt w (ua_identity ua) = Inr i \<and>
     ua_authority ua = id_owner i \<and>
     read_update_config (ua_protocol_config ua) (id_projection_version i) w = Inr cfg \<and>
     try_verification_result rt (data_of w (ua_verification_result ua)) = Inr r \<and>
     owner_of w (ua_verification_result ua) = verifier_id b \<and>
     vr_verifier r = id_owner i \<and>
     create_program_address rt (verification_seeds (id_owner i) (vr_challenge_nonce r) @
       [[vr_bump r]]) (verifier_id b) = Some (ua_verification_result ua) \<and>
     sint (vr_verified_at r) \<le> sint (clock t) \<and>
     sint (clock t) - sint (vr_verified_at r) \<le> 600 \<and>
     vr_commitment_prev r = id_current_commitment i \<and>
     vr_commitment_new r = id_current_commitment i' \<and>
     id_current_commitment i' \<noteq> 0 \<and>
     id_current_commitment i' \<noteq> id_current_commitment i \<and>
     verify_update_receipt_digest rt t (uc_keys cfg) (id_owner i) (id_current_commitment i')
       (id_projection_version i) receipt (clock t) = Inr session \<and>
     sint (id_last_verification_timestamp i) \<le> sint (ur_validated_at receipt) \<and>
     updated_identity cfg (clock t) (id_current_commitment i') i = Inr i' \<and>
     identity_at rt w' (ua_identity ua) = Inr i' \<and>
     data_of w' = (data_of w)(ua_verification_result ua := [], ua_identity ua := data_of w'
       (ua_identity ua)) \<and>
     owner_of w' = (owner_of w)(ua_verification_result ua := system_program_id rt) \<and>
     events w' = events w @ AnchorUpdated (id_owner i) (id_verification_count i')
       (id_trust_score i') (id_current_commitment i') # session_events (id_owner i) Update (id_projection_version i) session"

lemma legacy_factsD:
  assumes "legacy_facts rt b t ua receipt w w' i cfg r session i'"
  shows "owner_of w (ua_identity ua) = anchor_id b"
    "identity_at rt w (ua_identity ua) = Inr i"
    "ua_authority ua = id_owner i"
    "read_update_config (ua_protocol_config ua) (id_projection_version i) w = Inr cfg"
    "try_verification_result rt (data_of w (ua_verification_result ua)) = Inr r"
    "owner_of w (ua_verification_result ua) = verifier_id b"
    "vr_verifier r = id_owner i"
    "create_program_address rt (verification_seeds (id_owner i) (vr_challenge_nonce r) @
       [[vr_bump r]]) (verifier_id b) = Some (ua_verification_result ua)"
    "sint (vr_verified_at r) \<le> sint (clock t)"
    "sint (clock t) - sint (vr_verified_at r) \<le> 600"
    "vr_commitment_prev r = id_current_commitment i"
    "vr_commitment_new r = id_current_commitment i'"
    "id_current_commitment i' \<noteq> 0"
    "id_current_commitment i' \<noteq> id_current_commitment i"
    "verify_update_receipt_digest rt t (uc_keys cfg) (id_owner i) (id_current_commitment i')
       (id_projection_version i) receipt (clock t) = Inr session"
    "sint (id_last_verification_timestamp i) \<le> sint (ur_validated_at receipt)"
    "updated_identity cfg (clock t) (id_current_commitment i') i = Inr i'"
    "identity_at rt w' (ua_identity ua) = Inr i'"
    "data_of w' = (data_of w)(ua_verification_result ua := [], ua_identity ua := data_of w'
       (ua_identity ua))"
    "owner_of w' = (owner_of w)(ua_verification_result ua := system_program_id rt)"
    "events w' = events w @ AnchorUpdated (id_owner i) (id_verification_count i')
       (id_trust_score i') (id_current_commitment i') # session_events (id_owner i) Update (id_projection_version i) session"
  using assms unfolding legacy_facts_def by blast+

lemma read_update_config_cong:
  assumes "owner_of w k = owner_of w' k" "data_of w k = data_of w' k"
  shows "read_update_config k v w = read_update_config k v w'"
  using assms by (simp add: read_update_config_def)

lemma legacy_update_facts:
  assumes deployed: "deployment_law rt b"
    and run: "process_anchor_update rt b t ua receipt expected None w = Inr w'"
  shows "\<exists>i cfg r session i'. legacy_facts rt b t ua receipt w w' i cfg r session i' \<and>
    (case expected of Some e \<Rightarrow> vr_commitment_new r = e | None \<Rightarrow> True)"
proof -
  let ?ik = "ua_identity ua" and ?rk = "ua_verification_result ua"
  note laws = deployment_laws [OF deployed]
  from process_update_inv [OF run] obtain w1 i cfg new prev nonce w2 session w3 i' w4 w5 where
    owner: "owner_of w ?ik = anchor_id b"
    and grow: "grow_identity rt ?ik (ua_authority ua) w = Inr w1"
    and load: "load_identity rt ?ik (ua_authority ua) w1 = Inr i"
    and cfg: "read_update_config (ua_protocol_config ua) (id_projection_version i) w1 = Inr cfg"
    and consume: "consume_result rt b t ua i None w1 = Inr (new, prev, nonce, w2)"
    and commit: "check_commitments new prev expected i = Inr ()"
    and receipt: "verify_update_receipt_digest rt t (uc_keys cfg) (ua_authority ua) new
      (id_projection_version i) receipt (clock t) = Inr session"
    and order: "sint (id_last_verification_timestamp i) \<le> sint (ur_validated_at receipt)"
    and close: "close_verification_result_cpi rt b t (ua_verifier_program ua) (ua_authority ua)
      ?rk nonce w2 = Inr w3"
    and upd: "updated_identity cfg (clock t) new i = Inr i'"
    and save: "save_identity rt ?ik i' w3 = Inr w4"
    and fee: "pay_fee rt (ua_authority ua) (ua_treasury ua) (uc_verification_fee cfg) w4 = Inr w5"
    and w': "w' = emit_receipt_session (id_owner i') Update (id_projection_version i') session
       (emit (AnchorUpdated (id_owner i') (id_verification_count i') (id_trust_score i') new) w5)"
    by blast
  have legacy: "read_legacy_result rt b (clock t) (ua_authority ua) ?rk w1 = Inr (new, prev)"
    and same: "nonce = None" "w2 = w1"
    using consume by (simp_all add: consume_result_legacy)
  note grow = grow_effect [OF laws(1,2) grow]
  note close = close_result_effect [OF laws(4) close]
  note save = save_effect [OF save]
  note fee = pay_fee_effect [OF laws(2) fee]
  from close(7) same obtain r where r1: "try_verification_result rt (data_of w1 ?rk) = Inr r" by auto
  note checked = read_legacy_checked [OF legacy r1]
  have apart: "?ik \<noteq> ?rk" using owner close(3) laws(9) same grow(2) by auto
  have rk: "data_of w1 ?rk = data_of w ?rk" "owner_of w1 ?rk = owner_of w ?rk"
    using apart grow by simp_all
  have r: "try_verification_result rt (data_of w ?rk) = Inr r" using r1 rk by simp
  have identity: "identity_at rt w ?ik = Inr i" "id_owner i = ua_authority ua"
    using load grow(1) by (simp_all add: load_identity_Inr identity_at_def)
  have "owner_of w1 (ua_protocol_config ua) = registry_program_id"
    using cfg by (auto simp: read_update_config_def require_Inr)
  then have "ua_protocol_config ua \<noteq> ?ik" using owner laws(10) grow(2) by auto
  then have cfg': "read_update_config (ua_protocol_config ua) (id_projection_version i) w = Inr cfg"
    using cfg read_update_config_cong [of w1 "ua_protocol_config ua" w] grow by simp
  have stored: "identity_at rt w' ?ik = Inr i'"
    using save(5) fee by (simp add: identity_at_def w')
  have last: "data_of w' = data_of w4" "owner_of w' = owner_of w4" by (simp_all add: w' fee)
  have "data_of w4 = (data_of w3)(?ik := data_of w4 ?ik)" by (rule save(1))
  also have "\<dots> = (data_of w)(?rk := [], ?ik := data_of w4 ?ik)"
    using apart by (simp add: close(4) same grow(1) fun_upd_twist)
  finally have data: "data_of w' = (data_of w)(?rk := [], ?ik := data_of w' ?ik)"
    using last by simp
  have owners: "owner_of w' = (owner_of w)(?rk := system_program_id rt)"
    by (simp add: last save(2) close(5) same grow(2))
  have events: "events w' = events w @ AnchorUpdated (id_owner i') (id_verification_count i')
      (id_trust_score i') new # session_events (id_owner i') Update (id_projection_version i') session"
    by (simp add: w' fee save(6) close(6) same grow(3))
  note commits = commit [unfolded check_commitments_Inr]
  note fields = updated_identity_fields [OF upd]
  have auth: "ua_authority ua = id_owner i" and new: "new = id_current_commitment i'"
    using identity(2) fields(1) by simp_all
  have read: "owner_of w ?rk = verifier_id b" "vr_verifier r = id_owner i"
    "create_program_address rt (verification_seeds (id_owner i) (vr_challenge_nonce r) @ [[vr_bump r]])
      (verifier_id b) = Some ?rk"
    "sint (vr_verified_at r) \<le> sint (clock t)" "sint (clock t) - sint (vr_verified_at r) \<le> 600"
    "vr_commitment_prev r = id_current_commitment i" "vr_commitment_new r = id_current_commitment i'"
    "id_current_commitment i' \<noteq> 0" "id_current_commitment i' \<noteq> id_current_commitment i"
    using checked rk commits unfolding auth new by auto
  have "legacy_facts rt b t ua receipt w w' i cfg r session i'"
    unfolding legacy_facts_def
    by (intro conjI) (fact owner identity(1) auth cfg' r read receipt [unfolded new auth] order
        upd [unfolded new] stored data owners events [unfolded new fields(2,6)])+
  moreover have "case expected of Some e \<Rightarrow> vr_commitment_new r = e | None \<Rightarrow> True"
    using commits checked by (simp split: option.splits)
  ultimately show ?thesis by blast
qed

lemma legacy_update_obtain:
  assumes "deployment_law rt b" "legacy_update rt b t ua receipt w w'"
  obtains i cfg r session i' where "legacy_facts rt b t ua receipt w w' i cfg r session i'"
    "is_signer t (ua_authority ua)"
    "ua_identity ua = pda_key rt (identity_seeds (ua_authority ua)) (anchor_id b)"
    "ua_protocol_config ua = pda_key rt protocol_config_seeds registry_program_id"
proof -
  from assms(2) obtain expected where
    run: "process_anchor_update rt b t ua receipt expected None w = Inr w'"
    and ctx: "is_signer t (ua_authority ua)"
      "ua_identity ua = pda_key rt (identity_seeds (ua_authority ua)) (anchor_id b)"
      "ua_protocol_config ua = pda_key rt protocol_config_seeds registry_program_id"
    by (auto simp: legacy_update_def update_anchor_def update_anchor_compact_def update_context_Inr
        require_Inr)
  from legacy_update_facts [OF assms(1) run] ctx that show ?thesis by blast
qed

text \<open>
  C5: a commitment changes only with a fresh proof and a fresh validator receipt. If
  \<open>update_anchor\<close> or \<open>update_anchor_compact\<close> succeeds, the owner of the identity signed;
  the result account is the verifier program's, at the owner's derived address, at most
  600 seconds old, and proves the step from the commitment stored before to the one stored
  after, which is neither zero nor the old one; and some signature that the runtime has
  checked, under a validator key that the registry's configuration accepts now, covers this
  wallet, this new commitment and the identity's projection version, given at most 300
  seconds ago and not before the last verification.
\<close>

theorem update_needs_proof_and_receipt:
  assumes "deployment_law rt b" "ed25519_law verify t"
    and "legacy_update rt b t ua receipt w w'"
  shows "\<exists>i i' r cfg signature key.
    identity_at rt w (ua_identity ua) = Inr i \<and> identity_at rt w' (ua_identity ua) = Inr i' \<and>
    is_signer t (id_owner i) \<and> ua_authority ua = id_owner i \<and>
    ua_identity ua = pda_key rt (identity_seeds (id_owner i)) (anchor_id b) \<and>
    owner_of w (ua_verification_result ua) = verifier_id b \<and>
    try_verification_result rt (data_of w (ua_verification_result ua)) = Inr r \<and>
    vr_verifier r = id_owner i \<and>
    create_program_address rt (verification_seeds (id_owner i) (vr_challenge_nonce r) @ [[vr_bump r]])
      (verifier_id b) = Some (ua_verification_result ua) \<and>
    sint (vr_verified_at r) \<le> sint (clock t) \<and> sint (clock t) - sint (vr_verified_at r) \<le> 600 \<and>
    vr_commitment_prev r = id_current_commitment i \<and>
    vr_commitment_new r = id_current_commitment i' \<and>
    id_current_commitment i' \<noteq> 0 \<and> id_current_commitment i' \<noteq> id_current_commitment i \<and>
    read_update_config (pda_key rt protocol_config_seeds registry_program_id)
      (id_projection_version i) w = Inr cfg \<and>
    accepts (uc_keys cfg) key (clock t) \<and> is_configured (uc_keys cfg) \<and>
    verify signature key (elems (sha256 rt (update_preimage (id_owner i) (id_current_commitment i')
      (id_projection_version i) receipt))) \<and>
    sint (id_last_verification_timestamp i) \<le> sint (ur_validated_at receipt) \<and>
    sint (ur_validated_at receipt) \<le> sint (clock t) \<and>
    sint (clock t) - sint (ur_validated_at receipt) \<le> 300"
proof -
  from legacy_update_obtain [OF assms(1,3)] obtain i cfg r session i' where
    facts: "legacy_facts rt b t ua receipt w w' i cfg r session i'"
    and signer: "is_signer t (ua_authority ua)"
    and ik: "ua_identity ua = pda_key rt (identity_seeds (ua_authority ua)) (anchor_id b)"
    and ck: "ua_protocol_config ua = pda_key rt protocol_config_seeds registry_program_id"
    by blast
  note f = legacy_factsD [OF facts]
  from update_receipt_signed [OF f(15) assms(2)] obtain signature key where
    signed: "verify signature key (elems (sha256 rt (update_preimage (id_owner i)
      (id_current_commitment i') (id_projection_version i) receipt)))"
      "accepts (uc_keys cfg) key (clock t)" "is_configured (uc_keys cfg)" by blast
  have age: "sint (ur_validated_at receipt) \<le> sint (clock t)"
    "sint (clock t) - sint (ur_validated_at receipt) \<le> 300"
    using verify_update_receipt_inv [OF f(15)] by (auto simp: fresh_def MAX_RECEIPT_AGE_SECS_def)
  show ?thesis
    by (rule exI [of _ i], rule exI [of _ i'], rule exI [of _ r], rule exI [of _ cfg],
        rule exI [of _ signature], rule exI [of _ key], intro conjI)
      (fact f(2-14,16,18) signer [unfolded f(3)] ik [unfolded f(3)] f(4) [unfolded ck] signed age)+
qed

text \<open>
  C7: what a successful update leaves behind. The identity gets the new commitment, one
  more verification (the 32-bit counter does not wrap), the present time, the activity ring
  with this verification recorded and the score of that ring, which is at most the
  configured maximum; owner, mint, age, projection version and cooldown times stay. The
  verification result is closed, no other account changes its data or owner, and the
  \<open>AnchorUpdated\<close> event carries exactly the stored values.
\<close>

theorem update_effect:
  assumes "deployment_law rt b" "legacy_update rt b t ua receipt w w'"
    and "identity_at rt w (ua_identity ua) = Inr i"
  shows "\<exists>i' cfg session. identity_at rt w' (ua_identity ua) = Inr i' \<and>
    read_update_config (ua_protocol_config ua) (id_projection_version i) w = Inr cfg \<and>
    i' = i\<lparr>id_current_commitment := id_current_commitment i',
      id_verification_count := id_verification_count i + 1,
      id_last_verification_timestamp := clock t,
      id_recent_timestamps := record_verification (id_recent_timestamps i) (clock t),
      id_trust_score := id_trust_score i'\<rparr> \<and>
    uint (id_verification_count i) + 1 < 2 ^ 32 \<and>
    anchor_trust_score (uc_max_trust_score cfg) (uc_base_trust_increment cfg) (clock t)
      (id_creation_timestamp i) (record_verification (id_recent_timestamps i) (clock t)) =
      Inr (id_trust_score i') \<and>
    id_trust_score i' \<le> uc_max_trust_score cfg \<and>
    data_of w' (ua_verification_result ua) = [] \<and>
    owner_of w' (ua_verification_result ua) = system_program_id rt \<and>
    (\<forall>k. k \<noteq> ua_identity ua \<longrightarrow> k \<noteq> ua_verification_result ua \<longrightarrow> data_of w' k = data_of w k) \<and>
    (\<forall>k. k \<noteq> ua_verification_result ua \<longrightarrow> owner_of w' k = owner_of w k) \<and>
    events w' = events w @ AnchorUpdated (id_owner i) (id_verification_count i') (id_trust_score i')
      (id_current_commitment i') # session_events (id_owner i) Update (id_projection_version i) session"
proof -
  obtain j cfg r session i' where
    facts: "legacy_facts rt b t ua receipt w w' j cfg r session i'"
    by (rule legacy_update_obtain [OF assms(1,2)])
  note f = legacy_factsD [OF facts]
  have j: "j = i" using f(2) assms(3) by simp
  note upd = updated_identity_inv [OF f(17)]
  have score: "id_trust_score i' \<le> uc_max_trust_score cfg"
    using upd anchor_score_bounded by blast
  have apart: "ua_verification_result ua \<noteq> ua_identity ua"
    using f(1,6) deployment_laws(9) [OF assms(1)] by auto
  have data: "data_of w' (ua_verification_result ua) = []"
    "\<And>k. k \<noteq> ua_identity ua \<Longrightarrow> k \<noteq> ua_verification_result ua \<Longrightarrow> data_of w' k = data_of w k"
    by (subst f(19), simp add: apart)+
  show ?thesis
    by (rule exI [of _ i'], rule exI [of _ cfg], rule exI [of _ session], intro conjI allI impI)
      (use f(4,18,21) upd score data j in \<open>simp_all add: f(20)\<close>)
qed

text \<open>
  C8: nothing serves twice. After an update, whatever the next transaction contains, an
  update with the same result account fails (its owner is the system program now), and so
  does one of the same identity with a receipt that the validator gave before the first
  update, the same receipt of an earlier second included.
\<close>

theorem update_not_replayed:
  assumes "deployment_law rt b" "legacy_update rt b t ua receipt w w1"
    and "ua_verification_result ua2 = ua_verification_result ua \<or>
      ua_identity ua2 = ua_identity ua \<and> sint (ur_validated_at receipt2) < sint (clock t)"
  shows "\<not> legacy_update rt b t2 ua2 receipt2 w1 w2"
proof
  assume second: "legacy_update rt b t2 ua2 receipt2 w1 w2"
  obtain i cfg r session i1 where "legacy_facts rt b t ua receipt w w1 i cfg r session i1"
    by (rule legacy_update_obtain [OF assms(1,2)])
  note f = legacy_factsD [OF this]
  obtain j cfg2 r2 session2 i2 where "legacy_facts rt b t2 ua2 receipt2 w1 w2 j cfg2 r2 session2 i2"
    by (rule legacy_update_obtain [OF assms(1) second])
  note g = legacy_factsD [OF this]
  from assms(3) show False
  proof
    assume "ua_verification_result ua2 = ua_verification_result ua"
    then have "owner_of w1 (ua_verification_result ua2) = system_program_id rt" by (simp add: f(20))
    then show False using g(6) deployment_laws(13) [OF assms(1)] by auto
  next
    assume again: "ua_identity ua2 = ua_identity ua \<and> sint (ur_validated_at receipt2) < sint (clock t)"
    then have "j = i1" using f(18) g(2) by simp
    then have "id_last_verification_timestamp j = clock t"
      using updated_identity_fields(5) [OF f(17)] by simp
    then show False using g(16) again by simp
  qed
qed

lemma process_update_expected:
  "process_anchor_update rt b t ua receipt None bound_state w = Inr w' \<longleftrightarrow>
     (\<exists>e. process_anchor_update rt b t ua receipt (Some e) bound_state w = Inr w')"
  unfolding process_anchor_update_def Let_def
  by (simp only: require_Inr and_then_Inr split_paired_Ex prod.case option.case simp_thms)
    (auto simp: check_commitments_def require_Inr)

text \<open>
  The compact instruction is the update whose caller states the commitment of the
  result: it succeeds exactly when some stated commitment would, with the same outcome.
\<close>

theorem compact_update_is_update:
  "update_anchor_compact rt b t ua receipt w = Inr w' \<longleftrightarrow>
     (\<exists>new. update_anchor rt b t ua new receipt w = Inr w')"
proof -
  have "process_anchor_update rt b t ua receipt (Some e) None w = Inr w' \<Longrightarrow> e \<noteq> 0" for e
    unfolding process_anchor_update_def Let_def by (auto simp: require_Inr and_then_Inr)
  then show ?thesis
    by (auto simp: update_anchor_compact_def update_anchor_def update_context_Inr require_Inr
        process_update_expected)
qed

section \<open>Bound updates\<close>

lemma bound_update_facts:
  assumes deployed: "deployment_law rt b"
    and run: "process_anchor_update rt b t ua receipt None (Some sk) w = Inr w'"
  shows "\<exists>i cfg r session i'.
    identity_at rt w (ua_identity ua) = Inr i \<and> ua_authority ua = id_owner i \<and>
    owner_of w (ua_identity ua) = anchor_id b \<and> request_bound_v1 b \<and>
    read_update_config (ua_protocol_config ua) (id_projection_version i) w = Inr cfg \<and>
    owner_of w (ua_verification_result ua) = verifier_id b \<and>
    data_of w (ua_verification_result ua) = bound_result_bytes rt r \<and>
    sk = counter_account rt b (id_owner i) \<and>
    read_counter rt (data_of w sk) (id_owner i) (counter_bump rt b (id_owner i)) = Some (br_counter r) \<and>
    br_wallet r = id_owner i \<and> br_nonce r \<noteq> 0 \<and> sint (br_verified_at r) \<le> sint (clock t) \<and>
    sint (clock t) \<le> uint (br_valid_until r) \<and>
    request_digest rt (deployment_domain b) (verifier_id b) (anchor_id b) (id_owner i) (br_nonce r)
      (bound_action (ua_identity ua) i (br_counter r) r) = Some (br_request_digest r) \<and>
    uint (br_counter r) + 1 < 2 ^ 64 \<and> br_commitment_prev r = id_current_commitment i \<and>
    br_commitment_new r = id_current_commitment i' \<and> id_current_commitment i' \<noteq> 0 \<and>
    id_current_commitment i' \<noteq> id_current_commitment i \<and>
    verify_update_receipt_digest rt t (uc_keys cfg) (id_owner i) (id_current_commitment i')
      (id_projection_version i) receipt (clock t) = Inr session \<and>
    sint (id_last_verification_timestamp i) \<le> sint (ur_validated_at receipt) \<and>
    updated_identity cfg (clock t) (id_current_commitment i') i = Inr i' \<and>
    identity_at rt w' (ua_identity ua) = Inr i' \<and>
    data_of w' = (data_of w)(sk := request_state_bytes rt (counter_cell (id_owner i)
        (counter_bump rt b (id_owner i)) (br_counter r + 1)), ua_verification_result ua := [],
      ua_identity ua := data_of w' (ua_identity ua)) \<and>
    owner_of w' = (owner_of w)(ua_verification_result ua := system_program_id rt) \<and>
    events w' = events w @ AnchorUpdated (id_owner i) (id_verification_count i') (id_trust_score i')
      (id_current_commitment i') # session_events (id_owner i) Update (id_projection_version i) session \<and>
    distinct [ua_identity ua, ua_verification_result ua, sk]"
proof -
  let ?ik = "ua_identity ua" and ?rk = "ua_verification_result ua"
  note laws = deployment_laws [OF deployed]
  from process_update_inv [OF run] obtain w1 i cfg new prev nonce w2 session w3 i' w4 w5 where
    owner: "owner_of w ?ik = anchor_id b"
    and grow: "grow_identity rt ?ik (ua_authority ua) w = Inr w1"
    and load: "load_identity rt ?ik (ua_authority ua) w1 = Inr i"
    and cfg: "read_update_config (ua_protocol_config ua) (id_projection_version i) w1 = Inr cfg"
    and consume: "consume_result rt b t ua i (Some sk) w1 = Inr (new, prev, nonce, w2)"
    and commit: "check_commitments new prev None i = Inr ()"
    and receipt: "verify_update_receipt_digest rt t (uc_keys cfg) (ua_authority ua) new
      (id_projection_version i) receipt (clock t) = Inr session"
    and order: "sint (id_last_verification_timestamp i) \<le> sint (ur_validated_at receipt)"
    and close: "close_verification_result_cpi rt b t (ua_verifier_program ua) (ua_authority ua)
      ?rk nonce w2 = Inr w3"
    and upd: "updated_identity cfg (clock t) new i = Inr i'"
    and save: "save_identity rt ?ik i' w3 = Inr w4"
    and fee: "pay_fee rt (ua_authority ua) (ua_treasury ua) (uc_verification_fee cfg) w4 = Inr w5"
    and w': "w' = emit_receipt_session (id_owner i') Update (id_projection_version i') session
       (emit (AnchorUpdated (id_owner i') (id_verification_count i') (id_trust_score i') new) w5)"
    by blast
  note grow = grow_effect [OF laws(1,2) grow]
  note close = close_result_effect [OF laws(4) close]
  note save = save_effect [OF save]
  note fee = pay_fee_effect [OF laws(2) fee]
  note fields = updated_identity_fields [OF upd]
  have identity: "identity_at rt w ?ik = Inr i" and auth: "ua_authority ua = id_owner i"
    using load grow(1) by (simp_all add: load_identity_Inr identity_at_def)
  from consume obtain r where
    bound: "consume_bound_result rt b t (clock t) (id_owner i) ?ik i ?rk sk w1 = Inr (r, w2)"
    and new: "new = id_current_commitment i'" "br_commitment_new r = id_current_commitment i'"
      "prev = br_commitment_prev r"
    using fields(1) by (auto simp: consume_result_bound auth)
  from consume_bound_inv [OF bound, folded counter_account_def counter_bump_def] obtain c where
    c: "request_bound_v1 b" "owner_of w1 ?rk = verifier_id b" "data_of w1 ?rk = bound_result_bytes rt r"
      "sk = counter_account rt b (id_owner i)" "owner_of w1 sk = anchor_id b"
      "read_counter rt (data_of w1 sk) (id_owner i) (counter_bump rt b (id_owner i)) = Some c"
      "br_counter r = c" "br_wallet r = id_owner i" "br_nonce r \<noteq> 0"
      "sint (br_verified_at r) \<le> sint (clock t)" "0 \<le> sint (clock t)" "clock t \<le> br_valid_until r"
      "request_digest rt (deployment_domain b) (verifier_id b) (anchor_id b) (id_owner i) (br_nonce r)
        (bound_action ?ik i c r) = Some (br_request_digest r)" "uint c + 1 < 2 ^ 64"
    and w2: "w2 = set_data sk (request_state_bytes rt (counter_cell (id_owner i)
        (counter_bump rt b (id_owner i)) (c + 1))) w1"
    by blast
  note w2 = w2 [folded c(7)]
  note c = c(1-6) [folded c(7)] c(8-) [folded c(7)]
  have "data_of w1 sk = request_state_bytes rt (counter_cell (id_owner i)
      (counter_bump rt b (id_owner i)) (br_counter r))"
    using c(6) by (simp add: read_counter_iff c)
  then have "length (data_of w1 sk) = 50" by (simp add: length_typed_bytes)
  moreover have "50 < length (data_of w1 ?ik)"
    by (simp add: grow(1) length_grown_identity identity_len_def)
  ultimately have apart: "distinct [?ik, ?rk, sk]"
    using owner c(2,5) laws(9) grow(2) by auto
  have same: "data_of w1 ?rk = data_of w ?rk" "data_of w1 sk = data_of w sk" "owner_of w1 = owner_of w"
    using apart grow by auto
  have "owner_of w1 (ua_protocol_config ua) = registry_program_id"
    using cfg by (auto simp: read_update_config_def require_Inr)
  then have "ua_protocol_config ua \<noteq> ?ik" using owner laws(10) grow(2) by auto
  then have cfg': "read_update_config (ua_protocol_config ua) (id_projection_version i) w = Inr cfg"
    using cfg read_update_config_cong [of w1 "ua_protocol_config ua" w] grow by simp
  have stored: "identity_at rt w' ?ik = Inr i'"
    using save(5) fee by (simp add: identity_at_def w')
  have last: "data_of w' = data_of w4" "owner_of w' = owner_of w4" by (simp_all add: w' fee)
  let ?cell = "request_state_bytes rt (counter_cell (id_owner i) (counter_bump rt b (id_owner i))
    (br_counter r + 1))"
  have "data_of w2 = (data_of w1)(sk := ?cell)" by (simp add: w2 fun_eq_iff)
  then have w3: "data_of w3 = ((data_of w)(?ik := grown_identity (data_of w ?ik), sk := ?cell))(?rk := [])"
    by (simp add: close(4) grow(1))
  have "data_of w4 = (data_of w3)(?ik := data_of w4 ?ik)" by (rule save(1))
  also have "\<dots> = (data_of w)(sk := ?cell, ?rk := [], ?ik := data_of w4 ?ik)"
    unfolding w3 using apart by (auto simp: fun_eq_iff)
  finally have data: "data_of w' = (data_of w)(sk := ?cell, ?rk := [], ?ik := data_of w' ?ik)"
    using last by simp
  have "owner_of w2 = owner_of w1" by (simp add: w2 fun_eq_iff)
  then have owners: "owner_of w' = (owner_of w)(?rk := system_program_id rt)"
    by (simp add: last save(2) close(5) grow(2))
  have events: "events w' = events w @ AnchorUpdated (id_owner i') (id_verification_count i')
      (id_trust_score i') new # session_events (id_owner i') Update (id_projection_version i') session"
    by (simp add: w' fee save(6) close(6) w2 grow(3))
  have valid: "sint (clock t) \<le> uint (br_valid_until r)"
    using c(10,11) by (simp add: word_le_def sint_nonneg_uint)
  have comm: "br_commitment_prev r = id_current_commitment i" "id_current_commitment i' \<noteq> 0"
    "id_current_commitment i' \<noteq> id_current_commitment i"
    using commit unfolding check_commitments_Inr new by auto
  show ?thesis
    by (rule exI [of _ i], rule exI [of _ cfg], rule exI [of _ r], rule exI [of _ session],
        rule exI [of _ i'], intro conjI)
      (fact identity auth owner cfg' c(1,4,7-9,12,13) c(2,3,6) [unfolded same] valid comm new(2)
        receipt [unfolded new(1) auth] order upd [unfolded new(1)] stored data owners
        events [unfolded new(1) fields(2,6)] apart)+
qed

text \<open>
  C6: the request-bound update. If \<open>update_anchor_bound\<close> succeeds, the owner signed; the
  consumed result is the one stored by the verifier program for this wallet, unexpired, and
  its digest is the one of exactly this update: this identity, its mint and projection
  version, the old and the new commitment and the present counter. A signature over the
  update under an accepted validator key was checked by the runtime. Afterwards the request
  counter is one higher and the result is closed. The identity holds the new commitment, one
  more verification, the present time, the ring with this verification and the score of that
  ring; its other fields stay. No other account changes its data, no account but the result
  its owner, and the events added are exactly \<open>AnchorUpdated\<close> with the stored values and the
  session of the receipt. Balances (the fee and rent) are not part of the claim.
\<close>

theorem bound_update_effect:
  assumes "deployment_law rt b" "ed25519_law verify t"
    and "update_anchor_bound rt b t ua sk receipt w = Inr w'"
  shows "\<exists>i i' r signature key cfg session.
    identity_at rt w (ua_identity ua) = Inr i \<and> identity_at rt w' (ua_identity ua) = Inr i' \<and>
    is_signer t (id_owner i) \<and> request_bound_v1 b \<and>
    owner_of w (ua_verification_result ua) = verifier_id b \<and>
    try_bound_result rt (data_of w (ua_verification_result ua)) = Inr r \<and>
    br_wallet r = id_owner i \<and> sint (clock t) \<le> uint (br_valid_until r) \<and>
    br_commitment_prev r = id_current_commitment i \<and>
    br_commitment_new r = id_current_commitment i' \<and>
    id_current_commitment i' \<noteq> 0 \<and> id_current_commitment i' \<noteq> id_current_commitment i \<and>
    request_digest rt (deployment_domain b) (verifier_id b) (anchor_id b) (id_owner i) (br_nonce r)
      \<lparr>ac_identity = ua_identity ua, ac_mint = id_mint i, ac_counter = br_counter r,
       ac_projection = id_projection_version i, ac_commitment_new = id_current_commitment i',
       ac_commitment_prev = id_current_commitment i, ac_threshold = br_threshold r,
       ac_min_distance = br_min_distance r, ac_valid_until = br_valid_until r\<rparr> =
      Some (br_request_digest r) \<and>
    read_update_config (pda_key rt protocol_config_seeds registry_program_id)
      (id_projection_version i) w = Inr cfg \<and> accepts (uc_keys cfg) key (clock t) \<and>
    verify signature key (elems (sha256 rt (update_preimage (id_owner i) (id_current_commitment i')
      (id_projection_version i) receipt))) \<and>
    read_counter rt (data_of w sk) (id_owner i)
      (pda_bump rt (request_state_seeds (id_owner i)) (anchor_id b)) = Some (br_counter r) \<and>
    read_counter rt (data_of w' sk) (id_owner i)
      (pda_bump rt (request_state_seeds (id_owner i)) (anchor_id b)) = Some (br_counter r + 1) \<and>
    uint (br_counter r + 1) = uint (br_counter r) + 1 \<and>
    data_of w' (ua_verification_result ua) = [] \<and>
    owner_of w' (ua_verification_result ua) = system_program_id rt \<and>
    i' = i\<lparr>id_current_commitment := id_current_commitment i',
      id_verification_count := id_verification_count i + 1,
      id_last_verification_timestamp := clock t,
      id_recent_timestamps := record_verification (id_recent_timestamps i) (clock t),
      id_trust_score := id_trust_score i'\<rparr> \<and>
    uint (id_verification_count i) + 1 < 2 ^ 32 \<and>
    anchor_trust_score (uc_max_trust_score cfg) (uc_base_trust_increment cfg) (clock t)
      (id_creation_timestamp i) (record_verification (id_recent_timestamps i) (clock t)) =
      Inr (id_trust_score i') \<and>
    (\<forall>k. k \<notin> {ua_identity ua, ua_verification_result ua, sk} \<longrightarrow> data_of w' k = data_of w k) \<and>
    (\<forall>k. k \<noteq> ua_verification_result ua \<longrightarrow> owner_of w' k = owner_of w k) \<and>
    events w' = events w @ AnchorUpdated (id_owner i) (id_verification_count i') (id_trust_score i')
      (id_current_commitment i') # session_events (id_owner i) Update (id_projection_version i) session"
proof -
  from assms(3) have run: "process_anchor_update rt b t ua receipt None (Some sk) w = Inr w'"
    and signer: "is_signer t (ua_authority ua)"
    and ck: "ua_protocol_config ua = pda_key rt protocol_config_seeds registry_program_id"
    by (auto simp: update_anchor_bound_def update_bound_context_def update_context_Inr
        mut_account_Inr with_seeds_Inr require_Inr)
  from bound_update_facts [OF assms(1) run] obtain i cfg r session i' where
    i: "identity_at rt w (ua_identity ua) = Inr i" "ua_authority ua = id_owner i" "request_bound_v1 b"
      "read_update_config (ua_protocol_config ua) (id_projection_version i) w = Inr cfg"
    and r: "owner_of w (ua_verification_result ua) = verifier_id b"
      "data_of w (ua_verification_result ua) = bound_result_bytes rt r"
      "br_wallet r = id_owner i" "sint (clock t) \<le> uint (br_valid_until r)"
      "br_commitment_prev r = id_current_commitment i" "br_commitment_new r = id_current_commitment i'"
      "id_current_commitment i' \<noteq> 0" "id_current_commitment i' \<noteq> id_current_commitment i"
    and digest: "request_digest rt (deployment_domain b) (verifier_id b) (anchor_id b) (id_owner i)
      (br_nonce r) (bound_action (ua_identity ua) i (br_counter r) r) = Some (br_request_digest r)"
    and count: "read_counter rt (data_of w sk) (id_owner i) (counter_bump rt b (id_owner i)) =
        Some (br_counter r)" "uint (br_counter r) + 1 < 2 ^ 64"
    and receipt: "verify_update_receipt_digest rt t (uc_keys cfg) (id_owner i)
      (id_current_commitment i') (id_projection_version i) receipt (clock t) = Inr session"
    and upd: "updated_identity cfg (clock t) (id_current_commitment i') i = Inr i'"
    and stored: "identity_at rt w' (ua_identity ua) = Inr i'"
    and data: "data_of w' = (data_of w)(sk := request_state_bytes rt (counter_cell (id_owner i)
        (counter_bump rt b (id_owner i)) (br_counter r + 1)), ua_verification_result ua := [],
      ua_identity ua := data_of w' (ua_identity ua))"
    and owners: "owner_of w' = (owner_of w)(ua_verification_result ua := system_program_id rt)"
    and events: "events w' = events w @ AnchorUpdated (id_owner i) (id_verification_count i')
      (id_trust_score i') (id_current_commitment i') #
      session_events (id_owner i) Update (id_projection_version i) session"
    and apart: "distinct [ua_identity ua, ua_verification_result ua, sk]"
    by blast
  from update_receipt_signed [OF receipt assms(2)] obtain signature key where
    signed: "verify signature key (elems (sha256 rt (update_preimage (id_owner i)
      (id_current_commitment i') (id_projection_version i) receipt)))"
      "accepts (uc_keys cfg) key (clock t)" by blast
  have cells: "data_of w' sk = request_state_bytes rt (counter_cell (id_owner i)
      (counter_bump rt b (id_owner i)) (br_counter r + 1))" "data_of w' (ua_verification_result ua) = []"
    "\<forall>k. k \<notin> {ua_identity ua, ua_verification_result ua, sk} \<longrightarrow> data_of w' k = data_of w k"
    by (subst data, use apart in auto)+
  have counted: "read_counter rt (data_of w' sk) (id_owner i) (counter_bump rt b (id_owner i)) =
      Some (br_counter r + 1)"
    by (simp add: cells(1) read_cell)
  have typed: "try_bound_result rt (data_of w (ua_verification_result ua)) = Inr r"
    by (simp add: r(2) typed_bytes)
  have closed: "owner_of w' (ua_verification_result ua) = system_program_id rt"
    "\<forall>k. k \<noteq> ua_verification_result ua \<longrightarrow> owner_of w' k = owner_of w k" by (simp_all add: owners)
  note stored_fields = updated_identity_inv [OF upd]
  show ?thesis
    by (rule exI [of _ i], rule exI [of _ i'], rule exI [of _ r], rule exI [of _ signature],
        rule exI [of _ key], rule exI [of _ cfg], rule exI [of _ session], intro conjI)
      (fact i(1,3) i(4) [unfolded ck] signer [unfolded i(2)] r(1,3-8) typed signed cells(2,3) stored closed
        digest [unfolded bound_action_def r(5,6)] count(1) [unfolded counter_bump_def]
        counted [unfolded counter_bump_def] uint_succ [OF count(2)]
        stored_fields [THEN conjunct1] stored_fields [THEN conjunct2, THEN conjunct1]
        stored_fields [THEN conjunct2, THEN conjunct2] events)+
qed

section \<open>Sample updates\<close>

lemma demo_discs_differ:
  "instruction_disc demo_runtime ''global:close_verification_result'' \<noteq>
     instruction_disc demo_runtime ''global:close_bound_verification_result''"
  by code_simp

lemma demo_close_legacy:
  assumes "owner_of w demo_result_key = demo_key 102"
    and "data_of w demo_result_key = verification_result_bytes demo_runtime demo_result"
  shows "\<exists>w'. close_verification_result_cpi demo_runtime (demo_build False) demo_update_tx
      (demo_key 102) demo_wallet demo_result_key None w = Inr w' \<and>
    (\<forall>k. k \<noteq> demo_result_key \<longrightarrow> data_of w' k = data_of w k) \<and>
    (\<forall>k. k \<notin> {demo_result_key, demo_wallet} \<longrightarrow> lamports_of w' k = lamports_of w k) \<and>
    lamports_of w' demo_wallet = lamports_of w demo_wallet + lamports_of w demo_result_key"
proof -
  have "demo_key 102 \<noteq> 0" by code_simp
  then have load: "load_typed demo_runtime (demo_key 102) (try_verification_result demo_runtime)
      demo_result_key w = Inr demo_result"
    using assms by (simp add: load_typed_Inr typed_bytes) (simp add: demo_runtime_def demo_system_def)
  show ?thesis
    using demo_keys_distinct demo_discs_differ
    by (simp add: close_verification_result_cpi_def demo_build_def verifier_close_entry_def
        close_instruction_data_def close_verification_result_def mut_signer_def mut_account_def
        demo_update_tx_eq demo_tx_def load close_typed_def)
      (auto simp: demo_result_def demo_runtime_def demo_close_def data_of_def lamports_of_def)
qed

lemma demo_updated:
  assumes "uc_max_trust_score cfg = 10000" "uc_base_trust_increment cfg = 100"
  shows "\<exists>i'. updated_identity cfg 1700700100 (demo_commitment 2) demo_identity = Inr i'"
  by (simp add: updated_identity_def assms demo_identity_def checked_add_def anchor_score_points
      i64_min_def i64_max_def Let_def)

lemma demo_pay:
  assumes "lamports_of w demo_wallet \<in> {5000, 10000}" "lamports_of w demo_treasury_key = 5000"
  shows "\<exists>w'. pay_fee demo_runtime demo_wallet demo_treasury_key 10 w = Inr w'"
  using assms demo_keys_distinct
  by (auto simp: pay_fee_def transfer_def invoke_def demo_runtime_def lamports_of_def)

text \<open>An update of the sample identity, whichever way its result is consumed.\<close>

lemma demo_process:
  fixes ua :: update_accounts
  assumes ua: "ua_authority ua = demo_wallet" "ua_identity ua = demo_identity_key"
      "ua_protocol_config ua = demo_config_key" "ua_treasury ua = demo_treasury_key"
    and gate: "(bs \<noteq> None) = bound"
    and w: "data_of w demo_identity_key = identity_bytes demo_runtime demo_identity"
      "owner_of w demo_identity_key = demo_key 101"
      "data_of w demo_config_key = config_bytes demo_runtime demo_config"
      "owner_of w demo_config_key = registry_program_id" "lamports_of w demo_config_key = 5000"
    and consume: "consume_result demo_runtime (demo_build bound) demo_update_tx ua demo_identity bs w =
      Inr (demo_commitment 2, demo_commitment 1, nonce, w2)"
    and close: "close_verification_result_cpi demo_runtime (demo_build bound) demo_update_tx
      (ua_verifier_program ua) demo_wallet (ua_verification_result ua) nonce w2 = Inr w3"
    and w3: "data_of w3 demo_identity_key = identity_bytes demo_runtime demo_identity"
      "lamports_of w3 demo_wallet \<in> {5000, 10000}" "lamports_of w3 demo_treasury_key = 5000"
    and expected: "expected \<in> {None, Some (demo_commitment 2)}"
  shows "\<exists>w'. process_anchor_update demo_runtime (demo_build bound) demo_update_tx ua demo_receipt
    expected bs w = Inr w'"
proof -
  have grow: "grow_identity demo_runtime demo_identity_key demo_wallet w = Inr w"
    by (simp add: grow_identity_def w length_typed_bytes identity_len_def)
  have load: "load_identity demo_runtime demo_identity_key demo_wallet w = Inr demo_identity"
    by (simp add: load_identity_Inr w typed_bytes) (simp add: demo_identity_def)
  have "load_typed demo_runtime registry_program_id (try_config demo_runtime) demo_config_key w =
      Inr demo_config"
    by (simp add: load_typed_Inr w typed_bytes)
  from registry_config_reads [OF this, of 1] obtain cfg where
    cfg: "read_update_config demo_config_key 1 w = Inr cfg" "uc_max_trust_score cfg = 10000"
      "uc_base_trust_increment cfg = 100" "uc_verification_fee cfg = 10" "uc_keys cfg = demo_keys"
    by (simp add: demo_config_def demo_keys_def)
  have commit: "check_commitments (demo_commitment 2) (demo_commitment 1) expected demo_identity = Inr ()"
    using expected demo_nonzero by (auto simp: check_commitments_Inr demo_identity_def)
  obtain i' where upd: "updated_identity cfg 1700700100 (demo_commitment 2) demo_identity = Inr i'"
    using demo_updated [OF cfg(2,3)] by blast
  let ?w4 = "set_data demo_identity_key (store (identity_bytes demo_runtime i')
    (data_of w3 demo_identity_key)) w3"
  have save: "save_identity demo_runtime demo_identity_key i' w3 = Inr ?w4"
    by (simp add: save_identity_def w3 length_typed_bytes identity_len_def)
  obtain w5 where fee: "pay_fee demo_runtime demo_wallet demo_treasury_key 10 ?w4 = Inr w5"
    using demo_pay [of ?w4] w3(2,3) by auto
  have version: "id_projection_version demo_identity = 1"
    and order: "sint (id_last_verification_timestamp demo_identity) \<le> sint (ur_validated_at demo_receipt)"
    by (simp_all add: demo_identity_def demo_receipt_def)
  have build: "anchor_id (demo_build bound) = demo_key 101" "request_bound_v1 (demo_build bound) = bound"
    "clock demo_update_tx = 1700700100"
    by (simp_all add: demo_build_def demo_update_tx_eq demo_tx_def)
  have nonzero: "case expected of Some e \<Rightarrow> e \<noteq> 0 | None \<Rightarrow> True"
    using expected demo_nonzero by auto
  show ?thesis
    unfolding process_anchor_update_def Let_def
    using gate order nonzero
    by (simp add: ua build w(2) grow load version cfg(1,4,5) consume commit demo_update_receipt close
        upd save fee)
qed

lemma demo_context:
  fixes ua :: update_accounts
  assumes "ua_authority ua = demo_wallet" "ua_identity ua = demo_identity_key"
    "ua_protocol_config ua = demo_config_key" "ua_treasury ua = demo_treasury_key"
    "ua_verifier_program ua = demo_key 102"
  shows "update_context demo_runtime (demo_build bound) demo_update_tx ua r = r"
  using assms demo_treasury_pda
  by (simp add: update_context_def mut_signer_def mut_account_def with_seeds_def demo_update_tx_eq
      demo_tx_def demo_build_def)
    (simp add: pda_key_def demo_runtime_def demo_identity_key_def demo_pda_def demo_config_key_def)

lemma demo_update_runs:
  "\<exists>w'. update_anchor demo_runtime (demo_build False) demo_update_tx demo_update_accounts
     (demo_commitment 2) demo_receipt demo_world = Inr w'"
proof -
  obtain w3 where close: "close_verification_result_cpi demo_runtime (demo_build False) demo_update_tx
      (demo_key 102) demo_wallet demo_result_key None demo_world = Inr w3"
    and w3: "\<forall>k. k \<noteq> demo_result_key \<longrightarrow> data_of w3 k = data_of demo_world k"
      "\<forall>k. k \<notin> {demo_result_key, demo_wallet} \<longrightarrow> lamports_of w3 k = lamports_of demo_world k"
      "lamports_of w3 demo_wallet = 5000 + 5000"
    using demo_close_legacy [OF demo_owner(3) demo_data(3)] by (auto simp: demo_lamports)
  have "create_program_address demo_runtime (verification_seeds demo_wallet demo_nonce @ [[255]])
      (demo_key 102) = Some demo_result_key"
    by (simp add: demo_runtime_def demo_create_def demo_result_key_def demo_find_def)
  then have "read_legacy_result demo_runtime (demo_build False) 1700700100 demo_wallet demo_result_key
      demo_world = Inr (demo_commitment 2, demo_commitment 1)"
    using read_legacy_typed [OF _ demo_disc, of demo_world demo_result_key demo_result]
    by (simp add: demo_data demo_owner typed_bytes)
      (simp add: demo_result_def demo_build_def demo_nonzero sint_saturating_sub_i64 i64_min_def
        i64_max_def)
  then have consume: "consume_result demo_runtime (demo_build False) demo_update_tx demo_update_accounts
      demo_identity None demo_world = Inr (demo_commitment 2, demo_commitment 1, None, demo_world)"
    by (simp add: consume_result_def demo_update_accounts_def demo_update_tx_eq demo_tx_def)
  have "\<exists>w'. process_anchor_update demo_runtime (demo_build False) demo_update_tx demo_update_accounts
      demo_receipt (Some (demo_commitment 2)) None demo_world = Inr w'"
    by (rule demo_process [OF _ _ _ _ _ _ _ _ _ _ consume])
      (use close w3 demo_keys_distinct in \<open>auto simp: demo_update_accounts_def demo_data demo_owner
        demo_lamports\<close>)
  then show ?thesis
    by (simp add: update_anchor_def demo_context demo_update_accounts_def demo_nonzero)
qed

lemma demo_legacy_update:
  "\<exists>w'. legacy_update demo_runtime (demo_build False) demo_update_tx demo_update_accounts demo_receipt
     demo_world w'"
  using demo_update_runs by (auto simp: legacy_update_def)

lemma demo_update_law: "ed25519_law demo_signed demo_update_tx"
  unfolding demo_update_tx_eq by (rule demo_tx_law) simp

lemma demo_identity_at:
  "data_of w demo_identity_key = identity_bytes demo_runtime demo_identity \<Longrightarrow>
     identity_at demo_runtime w demo_identity_key = Inr demo_identity"
  by (simp add: identity_at_def grown_identity_long length_typed_bytes identity_len_def typed_bytes)

theorem update_needs_proof_and_receipt_witness:
  "\<exists>w' i' signature. update_anchor demo_runtime (demo_build False) demo_update_tx demo_update_accounts
       (demo_commitment 2) demo_receipt demo_world = Inr w' \<and>
     identity_at demo_runtime w' demo_identity_key = Inr i' \<and>
     id_current_commitment i' = demo_commitment 2 \<and>
     demo_signed signature (elems demo_validator) (elems (sha256 demo_runtime
       (update_preimage demo_wallet (demo_commitment 2) 1 demo_receipt)))"
proof -
  from demo_update_runs obtain w' where run: "update_anchor demo_runtime (demo_build False)
      demo_update_tx demo_update_accounts (demo_commitment 2) demo_receipt demo_world = Inr w'" by blast
  then have legacy: "legacy_update demo_runtime (demo_build False) demo_update_tx demo_update_accounts
      demo_receipt demo_world w'" by (auto simp: legacy_update_def)
  from update_needs_proof_and_receipt [OF demo_deployment demo_update_law legacy] obtain i' r where
    "identity_at demo_runtime w' demo_identity_key = Inr i'"
    "try_verification_result demo_runtime (data_of demo_world demo_result_key) = Inr r"
    "vr_commitment_new r = id_current_commitment i'"
    by (auto simp: demo_update_accounts_def)
  then have "identity_at demo_runtime w' demo_identity_key = Inr i'"
    "id_current_commitment i' = demo_commitment 2"
    by (auto simp: demo_data typed_bytes demo_result_def)
  with run show ?thesis by (auto simp: demo_signed_def)
qed

theorem update_effect_witness:
  "\<exists>w' i'. legacy_update demo_runtime (demo_build False) demo_update_tx demo_update_accounts demo_receipt
       demo_world w' \<and> identity_at demo_runtime w' demo_identity_key = Inr i' \<and>
     id_verification_count i' = 2 \<and> id_last_verification_timestamp i' = 1700700100"
proof -
  from demo_legacy_update obtain w' where run: "legacy_update demo_runtime (demo_build False)
      demo_update_tx demo_update_accounts demo_receipt demo_world w'" by blast
  from update_effect [OF demo_deployment run, of demo_identity] obtain i' where
    stored: "identity_at demo_runtime w' demo_identity_key = Inr i'"
    and "i' = demo_identity\<lparr>id_current_commitment := id_current_commitment i',
      id_verification_count := id_verification_count demo_identity + 1,
      id_last_verification_timestamp := clock demo_update_tx,
      id_recent_timestamps := record_verification (id_recent_timestamps demo_identity)
        (clock demo_update_tx), id_trust_score := id_trust_score i'\<rparr>"
    by (auto simp: demo_update_accounts_def demo_identity_at demo_data)
  from arg_cong [OF this(2), of id_verification_count]
    arg_cong [OF this(2), of id_last_verification_timestamp]
  have "id_verification_count i' = 2" "id_last_verification_timestamp i' = 1700700100"
    by (simp_all add: demo_identity_def demo_update_tx_eq demo_tx_def)
  with run stored show ?thesis by blast
qed

text \<open>A bound update: the counter and the stored result show seven.\<close>

definition demo_bound_accounts :: update_accounts where
  "demo_bound_accounts = demo_update_accounts\<lparr>ua_verification_result := demo_bound_key\<rparr>"

lemma demo_close_bound:
  assumes "owner_of w demo_bound_key = demo_key 102"
    and "data_of w demo_bound_key = bound_result_bytes demo_runtime (demo_bound_at c)"
  shows "\<exists>w'. close_verification_result_cpi demo_runtime (demo_build True) demo_update_tx
      (demo_key 102) demo_wallet demo_bound_key (Some demo_nonce) w = Inr w' \<and>
    (\<forall>k. k \<noteq> demo_bound_key \<longrightarrow> data_of w' k = data_of w k) \<and>
    (\<forall>k. k \<notin> {demo_bound_key, demo_wallet} \<longrightarrow> lamports_of w' k = lamports_of w k) \<and>
    lamports_of w' demo_wallet = lamports_of w demo_wallet + lamports_of w demo_bound_key"
proof -
  have "demo_key 102 \<noteq> 0" by code_simp
  then have load: "load_typed demo_runtime (demo_key 102) (try_bound_result demo_runtime)
      demo_bound_key w = Inr (demo_bound_at c)"
    using assms by (simp add: load_typed_Inr typed_bytes) (simp add: demo_runtime_def demo_system_def)
  have fields: "br_bump (demo_bound_at c) = 255" "br_wallet (demo_bound_at c) = demo_wallet"
    by (simp_all add: demo_bound_at_def demo_bound_result_def)
  have pda: "create_program_address demo_runtime (bound_seeds demo_wallet demo_nonce @ [[255]])
      (demo_key 102) = Some demo_bound_key"
    using demo_bound_create by (simp add: bound_seeds_def)
  have nonce: "slice 8 32 (instruction_disc demo_runtime name @ elems demo_nonce) = elems demo_nonce"
    for name by (simp add: slice_def)
  show ?thesis
    using demo_keys_distinct pda
    by (simp add: close_verification_result_cpi_def demo_build_def verifier_close_entry_def nonce
        close_instruction_data_def close_bound_verification_result_def mut_signer_def mut_account_def
        demo_update_tx_eq demo_tx_def load close_typed_def with_seeds_bump_def fields)
      (auto simp: demo_runtime_def demo_close_def data_of_def lamports_of_def)
qed

theorem update_not_replayed_witness:
  "\<exists>w1. legacy_update demo_runtime (demo_build False) demo_update_tx demo_update_accounts demo_receipt
       demo_world w1 \<and>
     (\<forall>w2. \<not> legacy_update demo_runtime (demo_build False) demo_update_tx demo_update_accounts
       demo_receipt w1 w2)"
proof -
  from demo_legacy_update obtain w1 where run: "legacy_update demo_runtime (demo_build False)
      demo_update_tx demo_update_accounts demo_receipt demo_world w1" by blast
  from update_not_replayed [OF demo_deployment run, of demo_update_accounts] run show ?thesis by blast
qed

lemma demo_bound_runs:
  "\<exists>w'. update_anchor_bound demo_runtime (demo_build True) demo_update_tx demo_bound_accounts
     demo_request_key demo_receipt (demo_counter_world 7 7) = Inr w'"
proof -
  let ?w = "demo_counter_world 7 7"
  let ?w2 = "set_data demo_request_key
      (request_state_bytes demo_runtime (counter_cell demo_wallet 255 (7 + 1))) ?w"
  have data: "data_of ?w demo_identity_key = identity_bytes demo_runtime demo_identity"
    "data_of ?w demo_config_key = config_bytes demo_runtime demo_config"
    "lamports_of ?w k = 5000" for k
    using demo_keys_distinct by (auto simp: demo_counter_world_def demo_data demo_lamports)
  have owners: "owner_of ?w demo_identity_key = demo_key 101"
    "owner_of ?w demo_config_key = registry_program_id" "owner_of ?w demo_bound_key = demo_key 102"
    "owner_of ?w demo_request_key = demo_key 101"
    by (simp_all add: demo_counter_data demo_owner)
  have "data_of ?w2 demo_bound_key = bound_result_bytes demo_runtime (demo_bound_at 7)"
    using demo_keys_distinct by (auto simp: demo_counter_data)
  then obtain w3 where close: "close_verification_result_cpi demo_runtime (demo_build True) demo_update_tx
      (demo_key 102) demo_wallet demo_bound_key (Some demo_nonce) ?w2 = Inr w3"
    and w3: "\<forall>k. k \<noteq> demo_bound_key \<longrightarrow> data_of w3 k = data_of ?w2 k"
      "\<forall>k. k \<notin> {demo_bound_key, demo_wallet} \<longrightarrow> lamports_of w3 k = lamports_of ?w2 k"
      "lamports_of w3 demo_wallet = 5000 + 5000"
    using demo_close_bound [of ?w2 7] owners(3) data(3) by auto
  have consume: "consume_result demo_runtime (demo_build True) demo_update_tx demo_bound_accounts
      demo_identity (Some demo_request_key) ?w =
      Inr (demo_commitment 2, demo_commitment 1, Some demo_nonce, ?w2)"
    using demo_consume [of 7 "elems (sha256 demo_runtime
      (update_preimage demo_wallet (demo_commitment 2) 1 demo_receipt))"]
    by (simp add: consume_result_def demo_bound_accounts_def demo_update_accounts_def
        demo_update_tx_eq) (simp add: demo_tx_def demo_bound_at_def demo_bound_result_def)
  have "\<exists>w'. process_anchor_update demo_runtime (demo_build True) demo_update_tx demo_bound_accounts
      demo_receipt None (Some demo_request_key) ?w = Inr w'"
    by (rule demo_process [OF _ _ _ _ _ _ _ _ _ _ consume, where ?w3.0 = w3])
      (use close w3 data owners demo_keys_distinct in
        \<open>auto simp: demo_bound_accounts_def demo_update_accounts_def\<close>)
  moreover have ctx: "update_context demo_runtime (demo_build True) demo_update_tx demo_bound_accounts r = r"
    for r :: "fault + world"
    by (rule demo_context) (simp_all add: demo_bound_accounts_def demo_update_accounts_def)
  have "ua_authority demo_bound_accounts = demo_wallet" "anchor_id (demo_build True) = demo_key 101"
    "is_writable demo_update_tx demo_request_key"
    by (simp_all add: demo_bound_accounts_def demo_update_accounts_def demo_build_def
        demo_update_tx_eq demo_tx_def)
  then have "update_anchor_bound demo_runtime (demo_build True) demo_update_tx demo_bound_accounts
      demo_request_key demo_receipt ?w = process_anchor_update demo_runtime (demo_build True)
      demo_update_tx demo_bound_accounts demo_receipt None (Some demo_request_key) ?w"
    using owners(4) by (simp add: update_anchor_bound_def update_bound_context_def ctx
        mut_account_def with_seeds_def demo_request_pda)
  ultimately show ?thesis by simp
qed

theorem bound_update_effect_witness:
  "\<exists>w' i'. update_anchor_bound demo_runtime (demo_build True) demo_update_tx demo_bound_accounts
       demo_request_key demo_receipt (demo_counter_world 7 7) = Inr w' \<and>
     identity_at demo_runtime w' demo_identity_key = Inr i' \<and>
     id_current_commitment i' \<noteq> id_current_commitment demo_identity \<and>
     id_verification_count i' = id_verification_count demo_identity + 1"
proof -
  from demo_bound_runs obtain w' where run: "update_anchor_bound demo_runtime (demo_build True)
      demo_update_tx demo_bound_accounts demo_request_key demo_receipt (demo_counter_world 7 7) = Inr w'"
    by blast
  have "data_of (demo_counter_world 7 7) demo_identity_key = identity_bytes demo_runtime demo_identity"
    using demo_keys_distinct by (auto simp: demo_counter_world_def demo_data)
  note before = demo_identity_at [OF this]
  have ik: "ua_identity demo_bound_accounts = demo_identity_key"
    by (simp add: demo_bound_accounts_def demo_update_accounts_def)
  from bound_update_effect [OF demo_deployment demo_update_law run, unfolded ik before]
  obtain i' score where i': "identity_at demo_runtime w' demo_identity_key = Inr i'"
      "id_current_commitment i' \<noteq> id_current_commitment demo_identity"
    and fields: "i' = demo_identity\<lparr>id_current_commitment := id_current_commitment i',
      id_verification_count := id_verification_count demo_identity + 1,
      id_last_verification_timestamp := clock demo_update_tx,
      id_recent_timestamps := record_verification (id_recent_timestamps demo_identity)
        (clock demo_update_tx), id_trust_score := score\<rparr>"
    by blast
  have "id_verification_count i' = id_verification_count demo_identity + 1"
    by (subst fields) simp
  then show ?thesis using run i' by blast
qed

end
