(* ===== verification/Identity_Machine.thy ===== *)
theory Identity_Machine
  imports Frames Update_Correct
begin

text \<open>
  The life of an identity as a state machine: minted, updated, reset, rebaselined, handed
  to a new wallet. Every instruction of entros-anchor refines it: seen through
  \<open>identity_of\<close>, it makes one of these transitions on one identity, with the signatures
  that the transition asks for, or none.
\<close>

section \<open>Identities in a world\<close>

definition identity_of :: "runtime \<Rightarrow> build \<Rightarrow> world \<Rightarrow> pubkey \<Rightarrow> identity_state option" where
  "identity_of rt b w k =
     (if owner_of w k = anchor_id b then (case identity_at rt w k of Inr i \<Rightarrow> Some i | Inl _ \<Rightarrow> None)
      else None)"

text \<open>The account types of entros-anchor have different discriminators, none of them zero.\<close>

definition type_law :: "runtime \<Rightarrow> bool" where
  "type_law rt \<longleftrightarrow> distinct [identity_disc rt, request_state_disc rt, encrypted_baseline_disc rt,
     replicate 8 0]"

lemma identity_of_Some:
  "identity_of rt b w k = Some i \<longleftrightarrow> owner_of w k = anchor_id b \<and> identity_at rt w k = Inr i"
  by (auto simp: identity_of_def split: sum.splits)

lemma identity_at_tag: "identity_at rt w k = Inr i \<Longrightarrow> take 8 (grown_identity (data_of w k)) = identity_disc rt"
  by (auto simp: identity_at_def try_identity_def deserialize_def split: if_splits)

lemma blank_grown: "blank d \<Longrightarrow> grown_identity d = replicate (max identity_len (length d)) 0"
proof -
  assume "blank d"
  then obtain n where d: "d = replicate n 0"
    using replicate_eqI [of d "length d" 0] by (auto simp: blank_def)
  show ?thesis unfolding d by (simp add: grown_identity_def replicate_add [symmetric])
qed

lemma blank_no_identity:
  assumes "type_law rt" "blank (data_of w k)"
  shows "identity_of rt b w k = None"
proof (rule ccontr)
  assume "identity_of rt b w k \<noteq> None"
  then obtain i where "identity_at rt w k = Inr i" by (auto simp: identity_of_Some)
  from identity_at_tag [OF this] have "identity_disc rt = replicate 8 0"
    by (simp add: blank_grown [OF assms(2)] identity_len_def min_absorb1)
  then show False using assms(1) by (simp add: type_law_def)
qed

lemma tagged_no_identity:
  assumes "tagged disc (data_of w k)" "disc \<noteq> identity_disc rt"
  shows "identity_of rt b w k = None"
proof (rule ccontr)
  assume "identity_of rt b w k \<noteq> None"
  then obtain i where "identity_at rt w k = Inr i" by (auto simp: identity_of_Some)
  from identity_at_tag [OF this] assms show False
    by (auto simp: tagged_def grown_identity_def)
qed

lemma foreign_no_identity: "owner_of w k \<noteq> anchor_id b \<Longrightarrow> identity_of rt b w k = None"
  by (simp add: identity_of_def)

lemma kept_identity:
  assumes "type_law rt" "kept (anchor_id b) k w w'"
  shows "identity_of rt b w' k = identity_of rt b w k"
proof (cases "owner_of w k = anchor_id b")
  case True
  with assms(2) show ?thesis by (simp add: kept_def identity_of_def identity_at_def)
next
  case False
  show ?thesis
  proof (cases "owner_of w' k = anchor_id b")
    case True
    with assms(2) False have "blank (data_of w' k)" by (simp add: kept_def)
    then show ?thesis using blank_no_identity [OF assms(1)] foreign_no_identity [OF False] by metis
  next
    case False
    with \<open>owner_of w k \<noteq> anchor_id b\<close> show ?thesis by (simp add: foreign_no_identity)
  qed
qed

lemma tagged_write_identity:
  assumes "type_law rt" "deployment_law rt b" "tagged_write rt b disc j w w'" "disc \<noteq> identity_disc rt"
  shows "identity_of rt b w' k = identity_of rt b w k"
proof (cases "k = j")
  case True
  have "identity_of rt b w j = None"
    using assms(3,4) deployment_laws(12) [OF assms(2)]
    by (auto simp: tagged_write_def intro: tagged_no_identity foreign_no_identity)
  moreover have "identity_of rt b w' j = None"
    using assms(3,4) by (auto simp: tagged_write_def intro: tagged_no_identity)
  ultimately show ?thesis using True by simp
next
  case False
  then have "kept (anchor_id b) k w w'"
    using assms(3) deployment_laws(6,12) [OF assms(2)]
    by (simp add: tagged_write_def writes_only_def)
  then show ?thesis by (rule kept_identity [OF assms(1)])
qed

lemma tagged_write_foreign:
  assumes "deployment_law rt b" "tagged_write rt b disc j w w'"
    and "p = registry_program_id \<or> p = verifier_id b"
  shows "kept p k w w'"
  using assms(2,3) deployment_laws [OF assms(1)]
  by (auto simp: tagged_write_def writes_only_def)

section \<open>The machine\<close>

definition registry_keys :: "runtime \<Rightarrow> world \<Rightarrow> validator_key_policy" where
  "registry_keys rt w = read_validator_key_policy (data_of w (config_account rt))"

definition registry_policy :: "runtime \<Rightarrow> world \<Rightarrow> entros_anchor_error + projection_policy" where
  "registry_policy rt w = read_projection_policy (data_of w (config_account rt))"

text \<open>A validator key that the registry accepts now has signed this receipt, resp. update.\<close>

definition receipt_given ::
  "(byte list \<Rightarrow> byte list \<Rightarrow> byte list \<Rightarrow> bool) \<Rightarrow> runtime \<Rightarrow> i64 \<Rightarrow> world \<Rightarrow> pubkey \<Rightarrow> bytes32 \<Rightarrow>
   receipt_purpose \<Rightarrow> u16 \<Rightarrow> bool" where
  "receipt_given verify rt now w wallet commitment purpose version \<longleftrightarrow>
     (\<exists>signature key m session. verify signature key m \<and> accepts (registry_keys rt w) key now \<and>
        is_configured (registry_keys rt w) \<and>
        verify_receipt_payload m wallet commitment purpose version now = Inr session)"

definition update_given ::
  "(byte list \<Rightarrow> byte list \<Rightarrow> byte list \<Rightarrow> bool) \<Rightarrow> runtime \<Rightarrow> i64 \<Rightarrow> world \<Rightarrow> identity_state \<Rightarrow> bytes32 \<Rightarrow> bool" where
  "update_given verify rt now w i commitment \<longleftrightarrow>
     (\<exists>signature key receipt. accepts (registry_keys rt w) key now \<and> is_configured (registry_keys rt w) \<and>
        verify signature key (elems (sha256 rt (update_preimage (id_owner i) commitment
          (id_projection_version i) receipt))) \<and>
        fresh (ur_validated_at receipt) now \<and>
        sint (id_last_verification_timestamp i) \<le> sint (ur_validated_at receipt))"

text \<open>The verifier program holds a proof of the step from one commitment to the next.\<close>

definition step_proved :: "runtime \<Rightarrow> build \<Rightarrow> world \<Rightarrow> pubkey \<Rightarrow> bytes32 \<Rightarrow> bytes32 \<Rightarrow> bool" where
  "step_proved rt b w wallet prev new \<longleftrightarrow> (\<exists>rk. owner_of w rk = verifier_id b \<and>
     ((\<exists>r. try_verification_result rt (data_of w rk) = Inr r \<and> vr_verifier r = wallet \<and>
         vr_commitment_prev r = prev \<and> vr_commitment_new r = new) \<or>
      (\<exists>r. try_bound_result rt (data_of w rk) = Inr r \<and> br_wallet r = wallet \<and>
         br_commitment_prev r = prev \<and> br_commitment_new r = new)))"

text \<open>
  The transitions. Each writes the identity after it out field by field and uses none of
  the code's definitions of that identity, so that the refinement compares the two. The
  activity ring and the score are named by their functions, which \<open>Trust_Score_Correct\<close>
  and \<open>Score_Correct\<close> specify.
\<close>

inductive identity_event ::
  "(byte list \<Rightarrow> byte list \<Rightarrow> byte list \<Rightarrow> bool) \<Rightarrow> runtime \<Rightarrow> build \<Rightarrow> tx \<Rightarrow> world \<Rightarrow> world \<Rightarrow>
   pubkey \<Rightarrow> identity_state option \<Rightarrow> identity_state option \<Rightarrow> bool"
  for verify rt b t w w' k where
  same: "identity_event verify rt b t w w' k x x"
| minted: "k = pda_key rt (identity_seeds user) (anchor_id b) \<Longrightarrow> is_signer t user \<Longrightarrow>
    mint = pda_key rt (mint_seeds user) (anchor_id b) \<Longrightarrow> new \<noteq> 0 \<Longrightarrow>
    registry_policy rt w = Inr policy \<Longrightarrow>
    receipt_given verify rt (clock t) w user new Mint (pp_current policy) \<Longrightarrow>
    identity_event verify rt b t w w' k None
      (Some \<lparr>id_owner = user, id_creation_timestamp = clock t,
        id_last_verification_timestamp = clock t, id_verification_count = 0, id_trust_score = 0,
        id_current_commitment = new, id_mint = mint,
        id_bump = pda_bump rt (identity_seeds user) (anchor_id b), id_recent_timestamps = 0,
        id_last_reset_timestamp = 0, id_new_wallet = 0, id_projection_version = pp_current policy,
        id_last_rebaseline_timestamp = 0\<rparr>)"
| updated: "is_signer t (id_owner i) \<Longrightarrow> k = pda_key rt (identity_seeds (id_owner i)) (anchor_id b) \<Longrightarrow>
    registry_policy rt w = Inr policy \<Longrightarrow> pp_minimum policy \<le> id_projection_version i \<Longrightarrow>
    id_projection_version i \<le> pp_current policy \<Longrightarrow> new \<noteq> 0 \<Longrightarrow> new \<noteq> id_current_commitment i \<Longrightarrow>
    step_proved rt b w (id_owner i) (id_current_commitment i) new \<Longrightarrow>
    update_given verify rt (clock t) w i new \<Longrightarrow>
    read_update_config (config_account rt) (id_projection_version i) w = Inr cfg \<Longrightarrow>
    uint (id_verification_count i) + 1 < 2 ^ 32 \<Longrightarrow>
    anchor_trust_score (uc_max_trust_score cfg) (uc_base_trust_increment cfg) (clock t)
      (id_creation_timestamp i) (record_verification (id_recent_timestamps i) (clock t)) = Inr score \<Longrightarrow>
    identity_event verify rt b t w w' k (Some i)
      (Some (i\<lparr>id_current_commitment := new, id_verification_count := id_verification_count i + 1,
        id_last_verification_timestamp := clock t,
        id_recent_timestamps := record_verification (id_recent_timestamps i) (clock t),
        id_trust_score := score\<rparr>))"
| reset: "is_signer t (id_owner i) \<Longrightarrow> k = pda_key rt (identity_seeds (id_owner i)) (anchor_id b) \<Longrightarrow>
    new \<noteq> 0 \<Longrightarrow> RESET_COOLDOWN_SECS \<le> sint (clock t) - sint (id_last_reset_timestamp i) \<Longrightarrow>
    registry_policy rt w = Inr policy \<Longrightarrow>
    receipt_given verify rt (clock t) w (id_owner i) new Reset (pp_current policy) \<Longrightarrow>
    identity_event verify rt b t w w' k (Some i)
      (Some (i\<lparr>id_current_commitment := new, id_verification_count := 0, id_trust_score := 0,
        id_recent_timestamps := 0, id_last_verification_timestamp := clock t,
        id_last_reset_timestamp := clock t, id_projection_version := pp_current policy\<rparr>))"
| rebaselined: "is_signer t (id_owner i) \<Longrightarrow>
    k = pda_key rt (identity_seeds (id_owner i)) (anchor_id b) \<Longrightarrow> new \<noteq> 0 \<Longrightarrow>
    REBASELINE_COOLDOWN_SECS \<le> sint (clock t) - sint (id_last_rebaseline_timestamp i) \<Longrightarrow>
    registry_policy rt w = Inr policy \<Longrightarrow> id_projection_version i < pp_current policy \<Longrightarrow>
    receipt_given verify rt (clock t) w (id_owner i) new Rebaseline (pp_current policy) \<Longrightarrow>
    identity_event verify rt b t w w' k (Some i)
      (Some (i\<lparr>id_current_commitment := new, id_projection_version := pp_current policy,
        id_last_rebaseline_timestamp := clock t, id_last_verification_timestamp := clock t\<rparr>))"
| announced: "k = pda_key rt (identity_seeds wallet) (anchor_id b) \<Longrightarrow> is_signer t wallet \<Longrightarrow>
    is_signer t next_wallet \<Longrightarrow>
    identity_event verify rt b t w w' k (Some i) (Some (i\<lparr>id_new_wallet := next_wallet\<rparr>))"
| moved_in: "k = pda_key rt (identity_seeds user) (anchor_id b) \<Longrightarrow> is_signer t user \<Longrightarrow>
    mint = pda_key rt (mint_seeds user) (anchor_id b) \<Longrightarrow>
    identity_of rt b w k_old = Some old \<Longrightarrow> id_new_wallet old = user \<Longrightarrow>
    identity_of rt b w' k_old = None \<Longrightarrow>
    identity_event verify rt b t w w' k None
      (Some (old\<lparr>id_owner := user, id_mint := mint,
        id_bump := pda_bump rt (identity_seeds user) (anchor_id b), id_new_wallet := 0\<rparr>))"
| moved_out: "is_signer t (id_new_wallet i) \<Longrightarrow>
    identity_of rt b w' (pda_key rt (identity_seeds (id_new_wallet i)) (anchor_id b)) =
      Some (i\<lparr>id_owner := id_new_wallet i,
        id_mint := pda_key rt (mint_seeds (id_new_wallet i)) (anchor_id b),
        id_bump := pda_bump rt (identity_seeds (id_new_wallet i)) (anchor_id b),
        id_new_wallet := 0\<rparr>) \<Longrightarrow>
    identity_event verify rt b t w w' k (Some i) None"

inductive_cases identity_eventE: "identity_event verify rt b t w w' k x y"

definition refines ::
  "(byte list \<Rightarrow> byte list \<Rightarrow> byte list \<Rightarrow> bool) \<Rightarrow> runtime \<Rightarrow> build \<Rightarrow> tx \<Rightarrow> world \<Rightarrow> world \<Rightarrow> bool" where
  "refines verify rt b t w w' \<longleftrightarrow>
     (\<forall>k. identity_event verify rt b t w w' k (identity_of rt b w k) (identity_of rt b w' k))"

lemma refines_one:
  assumes "\<And>k. k \<noteq> j \<Longrightarrow> identity_of rt b w' k = identity_of rt b w k"
    and "identity_event verify rt b t w w' j (identity_of rt b w j) (identity_of rt b w' j)"
  shows "refines verify rt b t w w'"
  unfolding refines_def using assms identity_event.same by metis

lemma refines_same:
  assumes "\<And>k. identity_of rt b w' k = identity_of rt b w k"
  shows "refines verify rt b t w w'"
  by (simp add: refines_def assms identity_event.same)

end
