(* ===== verification/Refinement.thy ===== *)
theory Refinement
  imports Identity_Machine
begin

text \<open>
  Every instruction of entros-anchor is a transition of the identity machine and leaves the
  accounts of the registry alone.
\<close>

section \<open>What the instructions share\<close>

text \<open>The deployment, the account types and the signatures of the transaction.\<close>

definition sound_call ::
  "(byte list \<Rightarrow> byte list \<Rightarrow> byte list \<Rightarrow> bool) \<Rightarrow> runtime \<Rightarrow> build \<Rightarrow> tx \<Rightarrow> world \<Rightarrow> bool" where
  "sound_call verify rt b t w \<longleftrightarrow> deployment_law rt b \<and> type_law rt \<and> ed25519_law verify t \<and>
     owner_of w (config_account rt) = registry_program_id"

lemma sound_callD:
  assumes "sound_call verify rt b t w"
  shows "deployment_law rt b" "type_law rt" "ed25519_law verify t"
    and "owner_of w (config_account rt) = registry_program_id"
  using assms by (auto simp: sound_call_def)

definition registry_kept :: "world \<Rightarrow> world \<Rightarrow> bool" where
  "registry_kept w w' \<longleftrightarrow> (\<forall>k. kept registry_program_id k w w')"

lemma registry_kept_refl: "registry_kept w w"
  by (simp add: registry_kept_def kept_refl)

lemma registry_kept_trans: "registry_kept w w1 \<Longrightarrow> registry_kept w1 w2 \<Longrightarrow> registry_kept w w2"
  unfolding registry_kept_def using kept_trans by blast

lemma registry_kept_config:
  assumes "registry_kept w w'" "owner_of w (config_account rt) = registry_program_id"
  shows "data_of w' (config_account rt) = data_of w (config_account rt)"
    "owner_of w' (config_account rt) = registry_program_id"
  using assms by (simp_all add: registry_kept_def kept_def)

text \<open>Reading the configuration later in the call sees what the registry had stored.\<close>

lemma receipt_config:
  assumes "registry_kept w w1" "owner_of w (config_account rt) = registry_program_id"
    and "read_receipt_config (config_account rt) w1 = Inr (policy, fee, keys)"
  shows "registry_policy rt w = Inr policy" "keys = registry_keys rt w"
  using assms(3) registry_kept_config [OF assms(1,2)]
  by (auto simp: read_receipt_config_def require_Inr and_then_Inr map_err_Inr registry_policy_def
      registry_keys_def Let_def)

lemma update_config:
  assumes "read_update_config (config_account rt) version w = Inr cfg"
  shows "\<exists>policy. registry_policy rt w = Inr policy \<and> pp_minimum policy \<le> version \<and>
    version \<le> pp_current policy" "uc_keys cfg = registry_keys rt w"
  using assms
  by (auto simp: read_update_config_def require_Inr and_then_Inr map_err_Inr registry_policy_def
      registry_keys_def Let_def validate_identity_projection_def)

lemma receipt_given:
  assumes "verify_validator_receipt t (registry_keys rt w) wallet new purpose version (clock t) = Inr session"
    and "ed25519_law verify t"
  shows "receipt_given verify rt (clock t) w wallet new purpose version"
  unfolding receipt_given_def using receipt_signed [OF assms] by blast

lemma identity_of_cong:
  "data_of w' k = data_of w k \<Longrightarrow> owner_of w' k = owner_of w k \<Longrightarrow> identity_of rt b w' k = identity_of rt b w k"
  by (simp add: identity_of_def identity_at_def)

section \<open>Updates\<close>

lemma update_given_lemma:
  assumes "verify_update_receipt_digest rt t keys (id_owner i) new (id_projection_version i) receipt
      (clock t) = Inr session" "ed25519_law verify t" "keys = registry_keys rt w"
    and "sint (id_last_verification_timestamp i) \<le> sint (ur_validated_at receipt)"
  shows "update_given verify rt (clock t) w i new"
  using update_receipt_signed [OF assms(1,2)] verify_update_receipt_inv [OF assms(1)] assms(3,4)
  unfolding update_given_def by blast

text \<open>The computed identity is the one the machine's transition writes out.\<close>

lemma updated_event:
  assumes "is_signer t (id_owner i)" "k = pda_key rt (identity_seeds (id_owner i)) (anchor_id b)"
    and cfg: "read_update_config (config_account rt) (id_projection_version i) w = Inr cfg"
    and "new \<noteq> 0" "new \<noteq> id_current_commitment i"
    and "step_proved rt b w (id_owner i) (id_current_commitment i) new"
    and receipt: "verify_update_receipt_digest rt t (uc_keys cfg) (id_owner i) new
      (id_projection_version i) receipt (clock t) = Inr session"
      "sint (id_last_verification_timestamp i) \<le> sint (ur_validated_at receipt)"
    and law: "ed25519_law verify t" and upd: "updated_identity cfg (clock t) new i = Inr i'"
  shows "identity_event verify rt b t w w' k (Some i) (Some i')"
proof -
  from update_config(1) [OF cfg] obtain policy where policy: "registry_policy rt w = Inr policy"
    "pp_minimum policy \<le> id_projection_version i" "id_projection_version i \<le> pp_current policy"
    by blast
  note given = update_given_lemma [OF receipt(1) law update_config(2) [OF cfg] receipt(2)]
  note inv = updated_identity_inv [OF upd]
  from identity_event.updated [OF assms(1,2) policy assms(4-6) given cfg] inv show ?thesis by metis
qed

lemma legacy_update_refines:
  assumes sound: "sound_call verify rt b t w" and run: "legacy_update rt b t ua receipt w w'"
  shows "refines verify rt b t w w'" "registry_kept w w'"
proof -
  note s = sound_callD [OF sound] and laws = deployment_laws [OF sound_callD(1) [OF sound]]
  obtain i cfg r session i' where facts: "legacy_facts rt b t ua receipt w w' i cfg r session i'"
    and ctx: "is_signer t (ua_authority ua)"
      "ua_identity ua = pda_key rt (identity_seeds (ua_authority ua)) (anchor_id b)"
      "ua_protocol_config ua = config_account rt"
    using legacy_update_obtain [OF s(1) run] unfolding config_account_def by metis
  note f = legacy_factsD [OF facts]
  let ?ik = "ua_identity ua" and ?rk = "ua_verification_result ua"
  have apart: "?rk \<noteq> ?ik" using f(1,6) laws(9) by auto
  have old: "identity_of rt b w ?ik = Some i" using f(1,2) by (simp add: identity_of_Some)
  have new: "identity_of rt b w' ?ik = Some i'"
    using f(1,18) apart by (simp add: identity_of_Some f(20))
  have data: "data_of w' k = data_of w k" if "k \<noteq> ?ik" "k \<noteq> ?rk" for k
    by (subst f(19)) (simp add: that)
  have cfg: "read_update_config (config_account rt) (id_projection_version i) w = Inr cfg"
    using f(4) ctx(3) by simp
  have proved: "step_proved rt b w (id_owner i) (id_current_commitment i) (id_current_commitment i')"
    unfolding step_proved_def using f(5-7,11,12) by blast
  have event: "identity_event verify rt b t w w' ?ik (Some i) (Some i')"
    by (rule updated_event [OF _ _ cfg f(13,14) proved f(15,16) s(3) f(17)]) (use ctx f(3) in simp_all)
  show "refines verify rt b t w w'"
  proof (rule refines_one [where j = ?ik])
    show "identity_of rt b w' k = identity_of rt b w k" if "k \<noteq> ?ik" for k
    proof (cases "k = ?rk")
      case True
      then show ?thesis using f(6) laws(9,12) by (simp add: foreign_no_identity f(20))
    next
      case False
      then show ?thesis using that data by (intro identity_of_cong) (simp_all add: f(20))
    qed
    show "identity_event verify rt b t w w' ?ik (identity_of rt b w ?ik) (identity_of rt b w' ?ik)"
      unfolding old new by (rule event)
  qed
  show "registry_kept w w'"
    unfolding registry_kept_def
  proof
    fix k
    show "kept registry_program_id k w w'"
    proof (cases "k \<in> {?ik, ?rk}")
      case True
      then have "owner_of w k \<noteq> registry_program_id" "owner_of w' k \<noteq> registry_program_id"
        using f(1,6) laws(10,11,14) apart by (auto simp: f(20))
      then show ?thesis by (rule kept_foreign)
    next
      case False
      then show ?thesis using data by (intro kept_same) (simp_all add: f(20))
    qed
  qed
qed

lemma bound_update_refines:
  assumes sound: "sound_call verify rt b t w"
    and run: "update_anchor_bound rt b t ua sk receipt w = Inr w'"
  shows "refines verify rt b t w w'" "registry_kept w w'"
proof -
  note s = sound_callD [OF sound] and laws = deployment_laws [OF sound_callD(1) [OF sound]]
  from run have proc: "process_anchor_update rt b t ua receipt None (Some sk) w = Inr w'"
    and ctx: "is_signer t (ua_authority ua)"
      "ua_identity ua = pda_key rt (identity_seeds (ua_authority ua)) (anchor_id b)"
      "ua_protocol_config ua = config_account rt"
      "owner_of w sk = anchor_id b"
    by (auto simp: update_anchor_bound_def update_bound_context_def update_context_Inr
        mut_account_Inr with_seeds_Inr require_Inr config_account_def)
  let ?ik = "ua_identity ua" and ?rk = "ua_verification_result ua"
  from bound_update_facts [OF s(1) proc] obtain i cfg r session i' where
    i: "identity_at rt w ?ik = Inr i" "ua_authority ua = id_owner i" "owner_of w ?ik = anchor_id b"
      "read_update_config (ua_protocol_config ua) (id_projection_version i) w = Inr cfg"
    and r: "owner_of w ?rk = verifier_id b" "data_of w ?rk = bound_result_bytes rt r"
      "br_wallet r = id_owner i" "br_commitment_prev r = id_current_commitment i"
      "br_commitment_new r = id_current_commitment i'"
      "id_current_commitment i' \<noteq> 0" "id_current_commitment i' \<noteq> id_current_commitment i"
    and count: "read_counter rt (data_of w sk) (id_owner i) (counter_bump rt b (id_owner i)) =
        Some (br_counter r)"
    and receipt: "verify_update_receipt_digest rt t (uc_keys cfg) (id_owner i)
      (id_current_commitment i') (id_projection_version i) receipt (clock t) = Inr session"
      "sint (id_last_verification_timestamp i) \<le> sint (ur_validated_at receipt)"
    and upd: "updated_identity cfg (clock t) (id_current_commitment i') i = Inr i'"
    and stored: "identity_at rt w' ?ik = Inr i'"
    and data: "data_of w' = (data_of w)(sk := request_state_bytes rt (counter_cell (id_owner i)
        (counter_bump rt b (id_owner i)) (br_counter r + 1)), ?rk := [], ?ik := data_of w' ?ik)"
    and owners: "owner_of w' = (owner_of w)(?rk := system_program_id rt)"
    and apart: "distinct [?ik, ?rk, sk]"
    by blast
  have old: "identity_of rt b w ?ik = Some i" using i(1,3) by (simp add: identity_of_Some)
  have new: "identity_of rt b w' ?ik = Some i'"
    using i(3) stored apart by (simp add: identity_of_Some owners)
  have same: "data_of w' k = data_of w k" if "k \<notin> {?ik, ?rk, sk}" for k
    by (subst data) (use that in simp)
  have cells: "data_of w' sk = request_state_bytes rt (counter_cell (id_owner i)
      (counter_bump rt b (id_owner i)) (br_counter r + 1))"
    by (subst data) (use apart in auto)
  have cfg: "read_update_config (config_account rt) (id_projection_version i) w = Inr cfg"
    using i(4) ctx(3) by simp
  have "try_bound_result rt (data_of w ?rk) = Inr r" by (simp add: r(2) typed_bytes)
  then have proved: "step_proved rt b w (id_owner i) (id_current_commitment i) (id_current_commitment i')"
    unfolding step_proved_def using r(1,3-5) by blast
  have event: "identity_event verify rt b t w w' ?ik (Some i) (Some i')"
    by (rule updated_event [OF _ _ cfg r(6,7) proved receipt s(3) upd]) (use ctx i(2) in simp_all)
  have no_counter: "tagged (request_state_disc rt) d \<Longrightarrow> d = data_of v sk \<Longrightarrow> identity_of rt b v sk = None"
    for d v using tagged_no_identity s(2) by (auto simp: type_law_def)
  show "refines verify rt b t w w'"
  proof (rule refines_one [where j = ?ik])
    show "identity_of rt b w' k = identity_of rt b w k" if other: "k \<noteq> ?ik" for k
    proof -
      consider "k = ?rk" | "k = sk" | "k \<notin> {?ik, ?rk, sk}" using other by blast
      then show ?thesis
      proof cases
        case 1
        then show ?thesis using r(1) laws(9,12) by (simp add: foreign_no_identity owners)
      next
        case 2
        have "tagged (request_state_disc rt) (data_of w sk)" "tagged (request_state_disc rt) (data_of w' sk)"
          using count by (simp_all add: read_counter_iff cells tagged_bytes)
        then show ?thesis using 2 no_counter by simp
      next
        case 3
        then show ?thesis using same by (intro identity_of_cong) (simp_all add: owners)
      qed
    qed
    show "identity_event verify rt b t w w' ?ik (identity_of rt b w ?ik) (identity_of rt b w' ?ik)"
      unfolding old new by (rule event)
  qed
  show "registry_kept w w'"
    unfolding registry_kept_def
  proof
    fix k
    show "kept registry_program_id k w w'"
    proof (cases "k \<in> {?ik, ?rk, sk}")
      case True
      then have "owner_of w k \<noteq> registry_program_id" "owner_of w' k \<noteq> registry_program_id"
        using i(3) r(1) ctx(4) laws(10,11,14) apart by (auto simp: owners)
      then show ?thesis by (rule kept_foreign)
    next
      case False
      then show ?thesis using same by (intro kept_same) (simp_all add: owners)
    qed
  qed
qed

section \<open>Quiet steps\<close>

text \<open>The steps of an instruction that concern no identity and nothing of the registry.\<close>

definition quiet :: "runtime \<Rightarrow> build \<Rightarrow> world \<Rightarrow> world \<Rightarrow> bool" where
  "quiet rt b w w' \<longleftrightarrow> registry_kept w w' \<and> (\<forall>k. identity_of rt b w' k = identity_of rt b w k) \<and>
     (\<forall>k. owner_of w k = anchor_id b \<longrightarrow> owner_of w' k = anchor_id b)"

lemma quietD:
  assumes "quiet rt b w w'"
  shows "registry_kept w w'" "identity_of rt b w' k = identity_of rt b w k"
    and "owner_of w k = anchor_id b \<Longrightarrow> owner_of w' k = anchor_id b"
  using assms by (auto simp: quiet_def)

lemma quiet_trans: "quiet rt b w w1 \<Longrightarrow> quiet rt b w1 w2 \<Longrightarrow> quiet rt b w w2"
  unfolding quiet_def using registry_kept_trans by metis

lemma quiet_kept:
  assumes "sound_call verify rt b t v"
    and "\<And>p k. foreign_law rt p \<Longrightarrow> p \<noteq> system_program_id rt \<Longrightarrow> kept p k w w'"
  shows "quiet rt b w w'"
proof -
  note s = sound_callD [OF assms(1)] and laws = deployment_laws [OF sound_callD(1) [OF assms(1)]]
  note mine = assms(2) [OF laws(6,12)]
  show ?thesis
    using kept_identity [OF s(2) mine] assms(2) [OF laws(8,14)] mine
    by (auto simp: quiet_def registry_kept_def kept_def)
qed

lemma quiet_ops:
  assumes "sound_call verify rt b t v"
  shows "init_typed rt payer j space q w = Inr w' \<Longrightarrow> quiet rt b w w'"
    and "create_identity_token rt b ta w = Inr w' \<Longrightarrow> quiet rt b w w'"
    and "pay_fee rt payer treasury fee w = Inr w' \<Longrightarrow> quiet rt b w w'"
    and "invoke rt c w = Inr w' \<Longrightarrow> quiet rt b w w'"
    and "quiet rt b w (emit e w)"
    and "quiet rt b w (emit_receipt_session o1 q1 v1 s1 w)"
    and "quiet rt b w w"
  by (rule quiet_kept [OF assms], erule (1) kept_init [OF deployment_laws(3) [OF sound_callD(1) [OF assms]]])
    (rule quiet_kept [OF assms], simp only: kept_refl kept_emit kept_session
      kept_token kept_pay_fee kept_invoke)+

lemma quiet_write:
  assumes "sound_call verify rt b t v" "tagged_write rt b disc j w w'" "disc \<noteq> identity_disc rt"
  shows "quiet rt b w w'"
proof -
  note s = sound_callD [OF assms(1)] and laws = deployment_laws [OF sound_callD(1) [OF assms(1)]]
  have "kept (anchor_id b) k w w'" if "k \<noteq> j" for k
    using assms(2) laws(6,12) that by (auto simp: tagged_write_def writes_only_def)
  moreover have "owner_of w' j = anchor_id b" using assms(2) by (simp add: tagged_write_def)
  ultimately have "owner_of w k = anchor_id b \<Longrightarrow> owner_of w' k = anchor_id b" for k
    by (cases "k = j") (auto simp: kept_def)
  then show ?thesis
    using tagged_write_identity [OF s(2,1) assms(2,3)] tagged_write_foreign [OF s(1) assms(2)]
    by (simp add: quiet_def registry_kept_def)
qed

text \<open>The counter that a request-bound build advances first.\<close>

lemma quiet_advance:
  assumes "sound_call verify rt b t v" "advance rt b t j wallet payer w = Inr w1"
  shows "quiet rt b w w1"
  by (rule quiet_write [OF assms(1) advance_write(1) [OF sound_callD(1) [OF assms(1)] assms(2)]])
    (use sound_callD(2) [OF assms(1)] in \<open>auto simp: type_law_def\<close>)

section \<open>Counters and baselines\<close>

lemma quiet_refines:
  assumes "quiet rt b w w'"
  shows "refines verify rt b t w w'" "registry_kept w w'"
  using assms by (auto simp: quiet_def intro: refines_same)

lemma prepare_refines:
  assumes "sound_call verify rt b t w" "prepare rt b t authority j w = Inr w'"
  shows "refines verify rt b t w w'" "registry_kept w w'"
  using quiet_refines [OF quiet_write [OF assms(1)
      prepare_write [OF sound_callD(1) [OF assms(1)] assms(2)]]] sound_callD(2) [OF assms(1)]
  by (auto simp: type_law_def)

lemma baseline_refines:
  assumes "sound_call verify rt b t w" "set_encrypted_baseline rt b t authority ik j blob w = Inr w'"
  shows "refines verify rt b t w w'" "registry_kept w w'"
  using quiet_refines [OF quiet_write [OF assms(1)
      baseline_write [OF sound_callD(1) [OF assms(1)] assms(2)]]] sound_callD(2) [OF assms(1)]
  by (auto simp: type_law_def)

section \<open>One identity at a time\<close>

lemma writes_only_single:
  "writes_only rt b k w w' \<Longrightarrow> foreign_law rt p \<Longrightarrow> p \<noteq> system_program_id rt \<Longrightarrow>
     j \<noteq> k \<or> p \<noteq> anchor_id b \<Longrightarrow> kept p j w w'"
  by (auto simp: writes_only_def)

lemma writes_only_data:
  assumes "data_of w' = (data_of w)(k := d)" "owner_of w' = owner_of w" "owner_of w k = anchor_id b"
  shows "writes_only rt b k w w'"
  using assms by (auto simp: writes_only_def kept_def)

lemma writes_only_rule:
  "kept p k w w1 \<Longrightarrow> kept p k w1 w2 \<Longrightarrow> kept p k w2 w3 \<Longrightarrow> kept p k w w3"
  using kept_trans by blast

text \<open>
  What reset and rebaselining share: after some preparation \<open>w1\<close> that concerns no identity,
  the identity is grown, loaded, replaced and stored, and the fee is paid.
\<close>

lemma replaced_identity:
  assumes deployed: "deployment_law rt b" and owner: "owner_of w1 ik = anchor_id b"
    and grow: "grow_identity rt ik authority w1 = Inr w2"
    and load: "load_identity rt ik authority w2 = Inr i"
    and save: "save_identity rt ik i' w2 = Inr w3"
    and fee: "pay_fee rt payer treasury fee w3 = Inr w4"
    and w': "w' = emit_receipt_session k q v session (emit e w4)"
  shows "writes_only rt b ik w1 w'" "identity_of rt b w1 ik = Some i"
    and "identity_of rt b w' ik = Some i'" "id_owner i = authority"
    and "events w' = events w1 @ e # session_events k q v session"
    and "\<And>j. j \<noteq> ik \<Longrightarrow> data_of w' j = data_of w1 j" "owner_of w' = owner_of w1"
proof -
  note laws = deployment_laws [OF deployed]
  note grow = grow_effect [OF laws(1,2) grow] and save = save_effect [OF save]
    and fee' = pay_fee_effect [OF laws(2) fee]
  have "data_of w4 = (data_of w2)(ik := data_of w4 ik)" using save(1) fee'(1) by simp
  also have "\<dots> = (data_of w1)(ik := data_of w4 ik)" by (simp add: grow(1))
  finally have data: "data_of w' = (data_of w1)(ik := data_of w4 ik)" by (simp add: w')
  show owners: "owner_of w' = owner_of w1" by (simp add: w' fee' save(2) grow(2))
  show "writes_only rt b ik w1 w'" by (rule writes_only_data [OF data owners owner])
  show "\<And>j. j \<noteq> ik \<Longrightarrow> data_of w' j = data_of w1 j" by (simp add: data)
  show "identity_of rt b w1 ik = Some i" "id_owner i = authority"
    using load grow(1) owner by (simp_all add: load_identity_Inr identity_of_Some identity_at_def)
  have "identity_at rt w' ik = Inr i'" using save(5) by (simp add: w' identity_at_def fee'(1))
  then show "identity_of rt b w' ik = Some i'" using owner owners by (simp add: identity_of_Some)
  show "events w' = events w1 @ e # session_events k q v session"
    by (simp add: w' fee' save(6) grow(3))
qed

lemma prepared_single:
  assumes sound: "sound_call verify rt b t w"
    and pre: "quiet rt b w w1"
    and only: "writes_only rt b ik w1 w'"
    and event: "identity_event verify rt b t w w' ik (identity_of rt b w1 ik) (identity_of rt b w' ik)"
  shows "refines verify rt b t w w'" "registry_kept w w'"
proof -
  note s = sound_callD [OF sound] and laws = deployment_laws [OF sound_callD(1) [OF sound]]
  have "identity_of rt b w' k = identity_of rt b w k" if "k \<noteq> ik" for k
    using kept_identity [OF s(2), of b k w1 w'] writes_only_single [OF only laws(6,12)]
      quietD(2) [OF pre] that by simp
  then show "refines verify rt b t w w'"
    using event quietD(2) [OF pre] by (intro refines_one [where j = ik]) auto
  have "registry_kept w1 w'"
    unfolding registry_kept_def
    using writes_only_single [OF only laws(8) laws(14)] laws(10,14) by auto
  then show "registry_kept w w'" using quietD(1) [OF pre] registry_kept_trans by blast
qed

lemma grown_kept:
  assumes "deployment_law rt b" "registry_kept w w1" "owner_of w1 ik = anchor_id b"
    and "grow_identity rt ik authority w1 = Inr w2"
  shows "registry_kept w w2"
proof -
  note laws = deployment_laws [OF assms(1)]
  have "writes_only rt b ik w1 w2"
    using grow_effect [OF laws(1,2) assms(4)] assms(3) by (intro writes_only_data)
  then have "registry_kept w1 w2"
    unfolding registry_kept_def using laws(8,10,14) by (auto simp: writes_only_def)
  then show ?thesis using assms(2) registry_kept_trans by blast
qed

section \<open>Reset and rebaselining\<close>

lemma cooldown:
  "604800 \<le> sint (saturating_sub_i64 now since) \<longleftrightarrow> 604800 \<le> sint now - sint since"
  by (auto simp: sint_saturating_sub_i64 i64_min_def i64_max_def)

lemma reset_inv:
  assumes "reset_identity_state rt b t authority ik ck treasury remaining new version w = Inr w'"
  shows "\<exists>rs w1 w2 i policy fee keys session w3 w4.
    reset_accounts rt b t authority ik ck treasury remaining w = Inr (rs, w1) \<and> new \<noteq> 0 \<and>
    owner_of w1 ik = anchor_id b \<and> grow_identity rt ik authority w1 = Inr w2 \<and>
    load_identity rt ik authority w2 = Inr i \<and>
    604800 \<le> sint (clock t) - sint (id_last_reset_timestamp i) \<and>
    read_receipt_config ck w2 = Inr (policy, fee, keys) \<and> version = pp_current policy \<and>
    verify_validator_receipt t keys authority new Reset (pp_current policy) (clock t) = Inr session \<and>
    save_identity rt ik (reset_identity (clock t) new (pp_current policy) i) w2 = Inr w3 \<and>
    pay_fee rt authority treasury fee w3 = Inr w4 \<and>
    w' = emit_receipt_session (id_owner i) Reset (pp_current policy) session
      (emit (AnchorReset (id_owner i) (id_mint i) new) w4)"
  using assms unfolding reset_identity_state_def finish_reset_def Let_def
  by (simp only: require_Inr and_then_Inr map_err_Inr split_paired_Ex prod.case RESET_COOLDOWN_SECS_def
      cooldown validate_requested_projection_def)
    (auto simp: reset_identity_def)

lemma reset_accounts_inv:
  assumes "sound_call verify rt b t w"
    and "reset_accounts rt b t authority ik ck treasury remaining w = Inr (rs, w1)"
  shows "quiet rt b w w1" "is_signer t authority"
    and "ik = pda_key rt (identity_seeds authority) (anchor_id b)" "ck = config_account rt"
proof -
  from assms(2) have "w1 = w \<or> (\<exists>j. advance rt b t j authority authority w = Inr w1)"
    "is_signer t authority" "ik = pda_key rt (identity_seeds authority) (anchor_id b)"
    "ck = config_account rt"
    by (auto simp: reset_accounts_def mut_signer_Inr mut_account_Inr with_seeds_Inr
        config_treasury_context_Inr and_then_Inr config_account_def split: if_splits)
  then show "quiet rt b w w1" "is_signer t authority" "ik = pda_key rt (identity_seeds authority) (anchor_id b)"
    "ck = config_account rt"
    using quiet_advance [OF assms(1)] quiet_ops(7) [OF assms(1)] by auto
qed

lemma reset_refines:
  assumes sound: "sound_call verify rt b t w"
    and run: "reset_identity_state rt b t authority ik ck treasury remaining new version w = Inr w'"
  shows "refines verify rt b t w w'" "registry_kept w w'"
proof -
  note s = sound_callD [OF sound] and laws = deployment_laws [OF sound_callD(1) [OF sound]]
  from reset_inv [OF run] obtain rs w1 w2 i policy fee keys session w3 w4 where
    acc: "reset_accounts rt b t authority ik ck treasury remaining w = Inr (rs, w1)"
    and new: "new \<noteq> 0" and owner: "owner_of w1 ik = anchor_id b"
    and grow: "grow_identity rt ik authority w1 = Inr w2"
    and load: "load_identity rt ik authority w2 = Inr i"
    and cool: "604800 \<le> sint (clock t) - sint (id_last_reset_timestamp i)"
    and cfg: "read_receipt_config ck w2 = Inr (policy, fee, keys)"
    and receipt: "verify_validator_receipt t keys authority new Reset (pp_current policy) (clock t) =
      Inr session"
    and save: "save_identity rt ik (reset_identity (clock t) new (pp_current policy) i) w2 = Inr w3"
    and fee: "pay_fee rt authority treasury fee w3 = Inr w4"
    and w': "w' = emit_receipt_session (id_owner i) Reset (pp_current policy) session
      (emit (AnchorReset (id_owner i) (id_mint i) new) w4)"
    by blast
  note pre = reset_accounts_inv [OF sound acc]
  note rep = replaced_identity [OF s(1) owner grow load save fee w']
  note kept2 = grown_kept [OF s(1) quietD(1) [OF pre(1)] owner grow]
  note config = receipt_config [OF kept2 s(4) cfg [unfolded pre(4)]]
  note given = receipt_given [OF receipt [unfolded config(2)] s(3)]
  have "identity_event verify rt b t w w' ik (identity_of rt b w1 ik) (identity_of rt b w' ik)"
    unfolding rep(2,3) reset_identity_def
    by (rule identity_event.reset)
      (use pre(2,3) rep(4) new cool config(1) given in \<open>auto simp: RESET_COOLDOWN_SECS_def\<close>)
  from prepared_single [OF sound pre(1) rep(1) this]
  show "refines verify rt b t w w'" "registry_kept w w'" by auto
qed

lemma rebaseline_inv:
  assumes "rebaseline_anchor rt b t authority ik ck treasury remaining new version w = Inr w'"
  shows "\<exists>w1 w2 i policy fee keys session w3 w4.
    rebaseline_accounts rt b t authority ik ck treasury remaining w = Inr w1 \<and> new \<noteq> 0 \<and>
    owner_of w1 ik = anchor_id b \<and> grow_identity rt ik authority w1 = Inr w2 \<and>
    load_identity rt ik authority w2 = Inr i \<and>
    read_receipt_config ck w2 = Inr (policy, fee, keys) \<and> version = pp_current policy \<and>
    id_projection_version i < pp_current policy \<and>
    604800 \<le> sint (clock t) - sint (id_last_rebaseline_timestamp i) \<and>
    verify_validator_receipt t keys authority new Rebaseline (pp_current policy) (clock t) =
      Inr session \<and>
    save_identity rt ik (rebaselined_identity (clock t) new (pp_current policy) i) w2 = Inr w3 \<and>
    pay_fee rt authority treasury fee w3 = Inr w4 \<and>
    w' = emit_receipt_session (id_owner i) Rebaseline (pp_current policy) session
      (emit (AnchorRebaselined (id_owner i) new (pp_current policy)) w4)"
  using assms unfolding rebaseline_anchor_def Let_def
  by (simp only: require_Inr and_then_Inr map_err_Inr split_paired_Ex prod.case
      REBASELINE_COOLDOWN_SECS_def cooldown validate_requested_projection_def)
    (auto simp: rebaselined_identity_def)

lemma rebaseline_accounts_inv:
  assumes "sound_call verify rt b t w"
    and "rebaseline_accounts rt b t authority ik ck treasury remaining w = Inr w1"
  shows "quiet rt b w w1" "is_signer t authority"
    and "ik = pda_key rt (identity_seeds authority) (anchor_id b)" "ck = config_account rt"
proof -
  from assms(2) have "w1 = w \<or> (\<exists>j. advance rt b t j authority authority w = Inr w1)"
    "is_signer t authority" "ik = pda_key rt (identity_seeds authority) (anchor_id b)"
    "ck = config_account rt"
    by (auto simp: rebaseline_accounts_def mut_signer_Inr mut_account_Inr with_seeds_Inr
        config_treasury_context_Inr and_then_Inr config_account_def split: if_splits list.splits)
  then show "quiet rt b w w1" "is_signer t authority" "ik = pda_key rt (identity_seeds authority) (anchor_id b)"
    "ck = config_account rt"
    using quiet_advance [OF assms(1)] quiet_ops(7) [OF assms(1)] by auto
qed

lemma rebaseline_refines:
  assumes sound: "sound_call verify rt b t w"
    and run: "rebaseline_anchor rt b t authority ik ck treasury remaining new version w = Inr w'"
  shows "refines verify rt b t w w'" "registry_kept w w'"
proof -
  note s = sound_callD [OF sound]
  from rebaseline_inv [OF run] obtain w1 w2 i policy fee keys session w3 w4 where
    acc: "rebaseline_accounts rt b t authority ik ck treasury remaining w = Inr w1"
    and new: "new \<noteq> 0" and owner: "owner_of w1 ik = anchor_id b"
    and grow: "grow_identity rt ik authority w1 = Inr w2"
    and load: "load_identity rt ik authority w2 = Inr i"
    and cfg: "read_receipt_config ck w2 = Inr (policy, fee, keys)"
    and advances: "id_projection_version i < pp_current policy"
    and cool: "604800 \<le> sint (clock t) - sint (id_last_rebaseline_timestamp i)"
    and receipt: "verify_validator_receipt t keys authority new Rebaseline (pp_current policy)
      (clock t) = Inr session"
    and save: "save_identity rt ik (rebaselined_identity (clock t) new (pp_current policy) i) w2 =
      Inr w3"
    and fee: "pay_fee rt authority treasury fee w3 = Inr w4"
    and w': "w' = emit_receipt_session (id_owner i) Rebaseline (pp_current policy) session
      (emit (AnchorRebaselined (id_owner i) new (pp_current policy)) w4)"
    by blast
  note pre = rebaseline_accounts_inv [OF sound acc]
  note rep = replaced_identity [OF s(1) owner grow load save fee w']
  note config = receipt_config [OF grown_kept [OF s(1) quietD(1) [OF pre(1)] owner grow] s(4)
      cfg [unfolded pre(4)]]
  note given = receipt_given [OF receipt [unfolded config(2)] s(3)]
  have "identity_event verify rt b t w w' ik (identity_of rt b w1 ik) (identity_of rt b w' ik)"
    unfolding rep(2,3) rebaselined_identity_def
    by (rule identity_event.rebaselined)
      (use pre(2,3) rep(4) new cool advances config(1) given in
        \<open>auto simp: REBASELINE_COOLDOWN_SECS_def\<close>)
  from prepared_single [OF sound pre(1) rep(1) this]
  show "refines verify rt b t w w'" "registry_kept w w'" by auto
qed

section \<open>The layout upgrade and the announcement of a new wallet\<close>

lemma layout_effect:
  assumes "deployment_law rt b" "upgrade_identity_layout rt b t authority ik w = Inr w'"
  shows "data_of w' = (data_of w)(ik := grown_identity (data_of w ik))" "owner_of w' = owner_of w"
    and "owner_of w ik = anchor_id b"
proof -
  note laws = deployment_laws [OF assms(1)]
  from assms(2) have owner: "owner_of w ik = anchor_id b"
    and run: "length (data_of w ik) = identity_len \<and> w' = w \<or>
      (\<exists>w1 w2. length (data_of w ik) < identity_len \<and>
        (w1 = w \<or> (\<exists>n. transfer rt authority ik n w = Inr w1)) \<and>
        resize rt ik identity_len w1 = Inr w2 \<and>
        w' = set_data ik (take (length (data_of w ik)) (data_of w2 ik) @
          replicate (length (data_of w2 ik) - length (data_of w ik)) 0) w2)"
    unfolding upgrade_identity_layout_def Let_def
    by (auto simp: mut_signer_Inr mut_account_Inr with_seeds_Inr require_Inr and_then_Inr
        identity_len_def split: if_splits)
  show "owner_of w ik = anchor_id b" by fact
  show "data_of w' = (data_of w)(ik := grown_identity (data_of w ik))" "owner_of w' = owner_of w"
  proof (atomize (full))
    from run consider "length (data_of w ik) = identity_len" "w' = w"
      | w1 w2 where "length (data_of w ik) < identity_len"
          "w1 = w \<or> (\<exists>n. transfer rt authority ik n w = Inr w1)"
          "resize rt ik identity_len w1 = Inr w2"
          "w' = set_data ik (take (length (data_of w ik)) (data_of w2 ik) @
            replicate (length (data_of w2 ik) - length (data_of w ik)) 0) w2"
      by blast
    then show "data_of w' = (data_of w)(ik := grown_identity (data_of w ik)) \<and> owner_of w' = owner_of w"
    proof cases
      case 1
      then show ?thesis by (simp add: grown_identity_long)
    next
      case (2 w1 w2)
      have same: "data_of w1 = data_of w" "owner_of w1 = owner_of w"
        using 2(2) transfer_same [OF laws(2)] by auto
      have "data_of w2 ik = grown_identity (data_of w ik)"
        "\<And>k. k \<noteq> ik \<Longrightarrow> data_of w2 k = data_of w k" "owner_of w2 = owner_of w"
        using resize_frame [OF laws(1) 2(3)] 2(1) by (auto simp: grown_identity_def same fun_eq_iff)
      then show ?thesis using 2(1) by (auto simp: 2(4) fun_eq_iff grown_identity_def)
    qed
  qed
qed

lemma layout_refines:
  assumes sound: "sound_call verify rt b t w"
    and run: "upgrade_identity_layout rt b t authority ik w = Inr w'"
  shows "refines verify rt b t w w'" "registry_kept w w'"
proof -
  note e = layout_effect [OF sound_callD(1) [OF sound] run]
  have "grown_identity (grown_identity d) = grown_identity d" for d
    by (auto simp: grown_identity_def)
  then have "identity_of rt b w' ik = identity_of rt b w ik"
    by (simp add: identity_of_def identity_at_def e(1,2))
  moreover have "writes_only rt b ik w w'" using e by (intro writes_only_data)
  ultimately have "refines verify rt b t w w' \<and> registry_kept w w'"
    using prepared_single [OF sound quiet_ops(7) [OF sound]] identity_event.same by metis
  then show "refines verify rt b t w w'" "registry_kept w w'" by auto
qed

lemma try_identity_length: "try_identity rt d = Inr i \<Longrightarrow> identity_len \<le> length d"
  using identity.deserialize_sound(1) by (simp add: try_identity_def identity_len_widths)

lemma length_identity_bytes: "length (identity_bytes rt i) = identity_len"
  unfolding identity_bytes_def by (subst identity.length_serialize) (simp_all add: identity_len_widths)

text \<open>The write-back of an identity at the end of an instruction.\<close>

lemma exit_identity:
  assumes "exit_typed (identity_bytes rt i) k w = Inr w'" "owner_of w k = anchor_id b"
  shows "identity_of rt b w' k = Some i" "writes_only rt b k w w'" "owner_of w' = owner_of w"
proof -
  from assms(1) have len: "identity_len \<le> length (data_of w k)"
    and w': "w' = set_data k (store (identity_bytes rt i) (data_of w k)) w"
    by (auto simp: exit_typed_Inr length_identity_bytes)
  show "owner_of w' = owner_of w" by (simp add: w' fun_eq_iff)
  have "data_of w' k = store (identity_bytes rt i) (data_of w k)" by (simp add: w')
  then show "identity_of rt b w' k = Some i"
    using len assms(2) by (simp add: identity_of_Some w' identity_at_def try_stored_identity
        grown_identity_long length_stored_identity)
  show "writes_only rt b k w w'" by (rule writes_only_exit [OF assms])
qed

lemma announce_inv:
  assumes "authorize_new_wallet rt b t signer ik signer_new prog mint ta w = Inr w'"
  shows "\<exists>i w1. is_signer t signer \<and> is_signer t signer_new \<and>
    ik = pda_key rt (identity_seeds signer) (anchor_id b) \<and> owner_of w ik = anchor_id b \<and>
    try_identity rt (data_of w ik) = Inr i \<and>
    invoke rt (TokenProgram prog (Approve ta signer_new signer 1) []) w = Inr w1 \<and>
    exit_typed (identity_bytes rt (i\<lparr>id_new_wallet := signer_new\<rparr>)) ik w1 = Inr w'"
  using assms unfolding authorize_new_wallet_def authorize_accounts_def
  by (simp only: require_Inr and_then_Inr map_err_Inr mut_signer_Inr mut_account_Inr with_seeds_Inr
      load_typed_Inr) blast

lemma announce_refines:
  assumes sound: "sound_call verify rt b t w"
    and run: "authorize_new_wallet rt b t signer ik signer_new prog mint ta w = Inr w'"
  shows "refines verify rt b t w w'" "registry_kept w w'"
proof -
  from announce_inv [OF run] obtain i w1 where signed: "is_signer t signer" "is_signer t signer_new"
    and ik: "ik = pda_key rt (identity_seeds signer) (anchor_id b)"
    and owner: "owner_of w ik = anchor_id b" and i: "try_identity rt (data_of w ik) = Inr i"
    and approve: "invoke rt (TokenProgram prog (Approve ta signer_new signer 1) []) w = Inr w1"
    and exit: "exit_typed (identity_bytes rt (i\<lparr>id_new_wallet := signer_new\<rparr>)) ik w1 = Inr w'"
    by blast
  note quiet = quiet_ops(4) [OF sound approve]
  note exit = exit_identity [OF exit quietD(3) [OF quiet owner]]
  have old: "identity_of rt b w ik = Some i"
    using owner i by (simp add: identity_of_Some identity_at_def grown_identity_long try_identity_length)
  have "identity_event verify rt b t w w' ik (identity_of rt b w1 ik) (identity_of rt b w' ik)"
    unfolding quietD(2) [OF quiet] old exit(1) by (rule identity_event.announced [OF ik signed])
  from prepared_single [OF sound quiet exit(2) this]
  show "refines verify rt b t w w'" "registry_kept w w'" by auto
qed

section \<open>Minting\<close>

lemma init_identity:
  assumes "sound_call verify rt b t v" "init_typed rt user k n (anchor_id b) w = Inr w'"
  shows "identity_of rt b w k = None" "owner_of w' k = anchor_id b" "quiet rt b w w'"
  using init_effect [OF deployment_laws(3) [OF sound_callD(1) [OF assms(1)]] assms(2)]
    deployment_laws(12) [OF sound_callD(1) [OF assms(1)]] quiet_ops(1) [OF assms]
  by (auto simp: foreign_no_identity)

lemma mint_inv:
  assumes "mint_anchor rt b t ta ik ck treasury remaining new w = Inr w'"
  shows "\<exists>w1 w2 w3 policy fee keys session w4. is_signer t (ta_user ta) \<and>
    ik = pda_key rt (identity_seeds (ta_user ta)) (anchor_id b) \<and>
    ta_mint ta = pda_key rt (mint_seeds (ta_user ta)) (anchor_id b) \<and>
    init_typed rt (ta_user ta) ik identity_len (anchor_id b) w = Inr w1 \<and>
    ck = config_account rt \<and>
    (w2 = w1 \<or> (\<exists>j. advance rt b t j (ta_user ta) (ta_user ta) w1 = Inr w2)) \<and> new \<noteq> 0 \<and>
    create_identity_token rt b ta w2 = Inr w3 \<and>
    read_receipt_config ck w3 = Inr (policy, fee, keys) \<and>
    verify_validator_receipt t keys (ta_user ta) new Mint (pp_current policy) (clock t) =
      Inr session \<and>
    pay_fee rt (ta_user ta) treasury fee w3 = Inr w4 \<and>
    exit_typed (identity_bytes rt (minted_identity rt b (clock t) (ta_user ta) (ta_mint ta) new
        (pp_current policy))) ik
      (emit_receipt_session (ta_user ta) Mint (pp_current policy) session
        (emit (AnchorMinted (ta_user ta) (ta_mint ta) new) w4)) = Inr w'"
proof -
  from assms obtain w1 w2 w3 policy fee keys session w4 where r:
    "is_signer t (ta_user ta)" "pda_key rt (identity_seeds (ta_user ta)) (anchor_id b) = ik"
    "init_typed rt (ta_user ta) ik identity_len (anchor_id b) w = Inr w1"
    "pda_key rt protocol_config_seeds registry_program_id = ck"
    "pda_key rt (mint_seeds (ta_user ta)) (anchor_id b) = ta_mint ta"
    "(if request_bound_v1 b then case remaining of
        [j] \<Rightarrow> advance rt b t j (ta_user ta) (ta_user ta) w1
      | _ \<Rightarrow> Inl (AnchorErr entros_anchor_error.InvalidRequestContext)
      else Inr w1) = Inr w2"
    "new \<noteq> 0" "create_identity_token rt b ta w2 = Inr w3"
    "read_receipt_config ck w3 = Inr (policy, fee, keys)"
    "verify_validator_receipt t keys (ta_user ta) new Mint (pp_current policy) (clock t) =
      Inr session"
    "pay_fee rt (ta_user ta) treasury fee w3 = Inr w4"
    "exit_typed (identity_bytes rt (minted_identity rt b (clock t) (ta_user ta) (ta_mint ta) new
        (pp_current policy))) ik
      (emit_receipt_session (ta_user ta) Mint (pp_current policy) session
        (emit (AnchorMinted (ta_user ta) (ta_mint ta) new) w4)) = Inr w'"
    unfolding mint_anchor_def finish_mint_minted Let_def
    by (simp only: require_Inr and_then_Inr map_err_Inr mut_signer_Inr with_seeds_Inr
        token_context_Inr config_treasury_context_Inr split_paired_Ex prod.case) blast
  have "w2 = w1 \<or> (\<exists>j. advance rt b t j (ta_user ta) (ta_user ta) w1 = Inr w2)"
    using r(6) by (auto split: if_splits list.splits)
  moreover have "ik = pda_key rt (identity_seeds (ta_user ta)) (anchor_id b)" "ck = config_account rt"
    "ta_mint ta = pda_key rt (mint_seeds (ta_user ta)) (anchor_id b)"
    using r(2,4,5) by (simp_all add: config_account_def)
  ultimately show ?thesis using r by blast
qed

lemma mint_refines:
  assumes sound: "sound_call verify rt b t w"
    and run: "mint_anchor rt b t ta ik ck treasury remaining new w = Inr w'"
  shows "refines verify rt b t w w'" "registry_kept w w'"
proof -
  note s = sound_callD [OF sound]
  from mint_inv [OF run] obtain w1 w2 w3 policy fee keys session w4 where
    user: "is_signer t (ta_user ta)" "ik = pda_key rt (identity_seeds (ta_user ta)) (anchor_id b)"
      "ta_mint ta = pda_key rt (mint_seeds (ta_user ta)) (anchor_id b)"
    and init: "init_typed rt (ta_user ta) ik identity_len (anchor_id b) w = Inr w1"
    and ck: "ck = config_account rt"
    and count: "w2 = w1 \<or> (\<exists>j. advance rt b t j (ta_user ta) (ta_user ta) w1 = Inr w2)"
    and new: "new \<noteq> 0"
    and token: "create_identity_token rt b ta w2 = Inr w3"
    and cfg: "read_receipt_config ck w3 = Inr (policy, fee, keys)"
    and receipt: "verify_validator_receipt t keys (ta_user ta) new Mint (pp_current policy)
      (clock t) = Inr session"
    and fee: "pay_fee rt (ta_user ta) treasury fee w3 = Inr w4"
    and exit: "exit_typed (identity_bytes rt (minted_identity rt b (clock t) (ta_user ta)
        (ta_mint ta) new (pp_current policy))) ik
      (emit_receipt_session (ta_user ta) Mint (pp_current policy) session
        (emit (AnchorMinted (ta_user ta) (ta_mint ta) new) w4)) = Inr w'"
    by blast
  note init = init_identity [OF sound init] and ops = quiet_ops [OF sound]
  have "quiet rt b w1 w2" using count ops(7) quiet_advance [OF sound] by blast
  then have quiet3: "quiet rt b w1 w3" using ops(2) [OF token] quiet_trans by blast
  then have before: "quiet rt b w w3" using init(3) quiet_trans by blast
  let ?w5 = "emit_receipt_session (ta_user ta) Mint (pp_current policy) session
    (emit (AnchorMinted (ta_user ta) (ta_mint ta) new) w4)"
  have quiet5: "quiet rt b w1 ?w5"
    using quiet3 ops(3) [OF fee] ops(5,6) quiet_trans by meson
  then have all: "quiet rt b w ?w5" using init(3) quiet_trans by blast
  note exit = exit_identity [OF exit quietD(3) [OF quiet5 init(2)]]
  note config = receipt_config [OF quietD(1) [OF before] s(4) cfg [unfolded ck]]
  note given = receipt_given [OF receipt [unfolded config(2)] s(3)]
  have "identity_event verify rt b t w w' ik (identity_of rt b ?w5 ik) (identity_of rt b w' ik)"
    unfolding exit(1) quietD(2) [OF all] init(1) minted_identity_def
    by (rule identity_event.minted [OF user(2,1,3) new config(1) given])
  from prepared_single [OF sound all exit(2) this]
  show "refines verify rt b t w w'" "registry_kept w w'" by auto
qed

section \<open>Migration\<close>

lemma migrate_context_inv:
  assumes "migrate_context rt b t ma w = Inr (old, w1)"
  shows "is_signer t (ta_user (ma_token ma))"
    and "ma_identity ma = pda_key rt (identity_seeds (ta_user (ma_token ma))) (anchor_id b)"
    and "init_typed rt (ta_user (ma_token ma)) (ma_identity ma) identity_len (anchor_id b) w = Inr w1"
    and "owner_of w1 (ma_identity_old ma) = anchor_id b"
    and "try_identity rt (data_of w1 (ma_identity_old ma)) = Inr old"
    and "ma_identity_old ma = pda_key rt (identity_seeds (ma_wallet_old ma)) (anchor_id b)"
    and "ta_mint (ma_token ma) = pda_key rt (mint_seeds (ta_user (ma_token ma))) (anchor_id b)"
  using assms
  by (auto simp: migrate_context_def Let_def mut_signer_Inr with_seeds_Inr and_then_Inr
      token_context_Inr config_treasury_context_Inr mut_account_Inr require_Inr load_typed_Inr)

lemma migrate_requests_quiet:
  assumes "sound_call verify rt b t v" "migrate_requests rt b t ma old remaining w = Inr w'"
  shows "quiet rt b w w'"
proof -
  from assms(2) have "w' = w \<or> (\<exists>j1 j2 a1 a2 p w1. advance rt b t j1 a1 p w = Inr w1 \<and>
      advance rt b t j2 a2 p w1 = Inr w')"
    by (auto simp: migrate_requests_def Let_def require_Inr and_then_Inr split: if_splits list.splits)
  then show ?thesis using quiet_ops(7) [OF assms(1)] quiet_advance [OF assms(1)] quiet_trans by blast
qed

lemma migrate_inv:
  assumes "migrate_identity rt b t ma remaining w = Inr w'"
  shows "\<exists>old w1 w2 w3 fee w4 w5 w6 w7. migrate_context rt b t ma w = Inr (old, w1) \<and>
    migrate_requests rt b t ma old remaining w1 = Inr w2 \<and>
    create_identity_token rt b (ma_token ma) w2 = Inr w3 \<and>
    id_new_wallet old = ta_user (ma_token ma) \<and>
    pay_fee rt (ta_user (ma_token ma)) (ma_treasury ma) fee w3 = Inr w4 \<and>
    invoke rt (TokenProgram (ta_token_program (ma_token ma)) (Burn (ma_mint_old ma)
      (ma_token_account_old ma) (ta_user (ma_token ma)) 1) []) w4 = Inr w5 \<and>
    invoke rt (TokenProgram (ta_token_program (ma_token ma)) (CloseTokenAccount (ma_mint_old ma)
        (ta_user (ma_token ma)) (ta_mint_authority (ma_token ma)))
      (mint_authority_seeds @ [[pda_bump rt mint_authority_seeds (anchor_id b)]])) w5 = Inr w6 \<and>
    exit_typed (identity_bytes rt (migrated_identity rt b (ta_user (ma_token ma))
        (ta_mint (ma_token ma)) old)) (ma_identity ma)
      (emit (MigrateIdentityEvent (ma_wallet_old ma) (ta_user (ma_token ma)) (ma_identity_old ma)
        (ma_identity ma)) w6) = Inr w7 \<and>
    close_typed rt (ma_identity_old ma) (ma_wallet_old ma) w7 = Inr w'"
  using assms unfolding migrate_identity_def finish_migration_def Let_def
  by (simp only: require_Inr and_then_Inr split_paired_Ex prod.case) blast

text \<open>The identity moves: the old account is gone, the new one holds what it held.\<close>

lemma migrate_moves:
  assumes sound: "sound_call verify rt b t w"
    and run: "migrate_identity rt b t ma remaining w = Inr w'"
  shows "\<exists>old. identity_of rt b w (ma_identity_old ma) = Some old \<and>
      identity_of rt b w (ma_identity ma) = None \<and>
      identity_of rt b w' (ma_identity_old ma) = None \<and>
      identity_of rt b w' (ma_identity ma) =
        Some (migrated_identity rt b (ta_user (ma_token ma)) (ta_mint (ma_token ma)) old) \<and>
      id_new_wallet old = ta_user (ma_token ma)"
    and "\<And>k. k \<noteq> ma_identity ma \<Longrightarrow> k \<noteq> ma_identity_old ma \<Longrightarrow>
      identity_of rt b w' k = identity_of rt b w k"
    and "is_signer t (ta_user (ma_token ma))"
    and "ma_identity ma = pda_key rt (identity_seeds (ta_user (ma_token ma))) (anchor_id b)"
    and "ta_mint (ma_token ma) = pda_key rt (mint_seeds (ta_user (ma_token ma))) (anchor_id b)"
    and "registry_kept w w'"
proof -
  note s = sound_callD [OF sound] and laws = deployment_laws [OF sound_callD(1) [OF sound]]
  let ?new = "ma_identity ma" and ?from = "ma_identity_old ma" and ?user = "ta_user (ma_token ma)"
  from migrate_inv [OF run] obtain old w1 w2 w3 fee w4 w5 w6 w7 cb cc e where
    ctx: "migrate_context rt b t ma w = Inr (old, w1)"
    and req: "migrate_requests rt b t ma old remaining w1 = Inr w2"
    and token: "create_identity_token rt b (ma_token ma) w2 = Inr w3"
    and wallet: "id_new_wallet old = ?user"
    and fee: "pay_fee rt ?user (ma_treasury ma) fee w3 = Inr w4"
    and burn: "invoke rt cb w4 = Inr w5" and shut: "invoke rt cc w5 = Inr w6"
    and exit: "exit_typed (identity_bytes rt (migrated_identity rt b ?user
        (ta_mint (ma_token ma)) old)) ?new (emit e w6) = Inr w7"
    and close: "close_typed rt ?from (ma_wallet_old ma) w7 = Inr w'"
    by blast
  note ctx = migrate_context_inv [OF ctx] and ops = quiet_ops [OF sound]
  note init = init_identity [OF sound ctx(3)]
  show "is_signer t ?user" "?new = pda_key rt (identity_seeds ?user) (anchor_id b)"
    "ta_mint (ma_token ma) = pda_key rt (mint_seeds ?user) (anchor_id b)" by fact+
  have quiet: "quiet rt b w1 (emit e w6)"
    using migrate_requests_quiet [OF sound req] ops(2) [OF token] ops(3) [OF fee] ops(4) [OF burn]
      ops(4) [OF shut] ops(5) quiet_trans by meson
  then have all: "quiet rt b w (emit e w6)" using init(3) quiet_trans by blast
  note exit = exit_identity [OF exit quietD(3) [OF quiet init(2)]]
  have "identity_of rt b w1 ?from = Some old"
    using ctx(4,5) by (simp add: identity_of_Some identity_at_def grown_identity_long try_identity_length)
  then have old: "identity_of rt b w ?from = Some old" by (simp add: quietD(2) [OF init(3)])
  then have apart: "?from \<noteq> ?new" using init(1) by auto
  have mine: "owner_of w7 ?from = anchor_id b"
    using exit(3) quietD(3) [OF quiet ctx(4)] by simp
  note close_e = close_effect [OF laws(4) close] and close_k = kept_close [OF laws(4) close]
  have gone: "identity_of rt b w' ?from = None"
    using close_e(2) laws(12) by (simp add: foreign_no_identity)
  have "identity_of rt b w' k = identity_of rt b w7 k" if "k \<noteq> ?from" for k
    using that by (intro identity_of_cong) (simp_all add: close_e)
  moreover have "identity_of rt b w7 k = identity_of rt b w k" if "k \<noteq> ?new" for k
    using kept_identity [OF s(2) writes_only_single [OF exit(2) laws(6,12)]] quietD(2) [OF all] that
    by simp
  ultimately show "\<And>k. k \<noteq> ?new \<Longrightarrow> k \<noteq> ?from \<Longrightarrow> identity_of rt b w' k = identity_of rt b w k"
    and "\<exists>old. identity_of rt b w ?from = Some old \<and> identity_of rt b w ?new = None \<and>
      identity_of rt b w' ?from = None \<and> identity_of rt b w' ?new =
        Some (migrated_identity rt b ?user (ta_mint (ma_token ma)) old) \<and> id_new_wallet old = ?user"
    using old init(1) gone exit(1) wallet apart by auto
  have "kept registry_program_id k (emit e w6) w7" for k
    using writes_only_single [OF exit(2) laws(8,14)] laws(10) by auto
  moreover have "kept registry_program_id k w7 w'" for k
    using close_k [of registry_program_id] mine laws(10,14) by auto
  ultimately show "registry_kept w w'"
    using quietD(1) [OF all] kept_trans unfolding registry_kept_def by meson
qed

text \<open>Everything that the identity held moves with it, the four fields of the new wallet apart.\<close>

lemma migrated_keeps:
  "migrated_identity rt b user mint old = old\<lparr>id_owner := user, id_mint := mint,
     id_bump := pda_bump rt (identity_seeds user) (anchor_id b), id_new_wallet := 0\<rparr>"
  by (simp add: migrated_identity_def)

lemma migrate_refines:
  assumes sound: "sound_call verify rt b t w"
    and run: "migrate_identity rt b t ma remaining w = Inr w'"
  shows "refines verify rt b t w w'" "registry_kept w w'"
proof -
  note m = migrate_moves [OF assms]
  from m(1) obtain old where old: "identity_of rt b w (ma_identity_old ma) = Some old"
      "identity_of rt b w (ma_identity ma) = None" "identity_of rt b w' (ma_identity_old ma) = None"
      "identity_of rt b w' (ma_identity ma) =
        Some (migrated_identity rt b (ta_user (ma_token ma)) (ta_mint (ma_token ma)) old)"
    and user: "id_new_wallet old = ta_user (ma_token ma)"
    by blast
  show "registry_kept w w'" by (rule m(6))
  have "identity_event verify rt b t w w' k (identity_of rt b w k) (identity_of rt b w' k)" for k
  proof -
    consider "k = ma_identity ma" | "k = ma_identity_old ma"
      | "k \<noteq> ma_identity ma" "k \<noteq> ma_identity_old ma" by blast
    then show ?thesis
    proof cases
      case 1
      show ?thesis unfolding 1 old(2,4) migrated_keeps
        by (rule identity_event.moved_in [OF m(4,3,5) old(1) user old(3)])
    next
      case 2
      show ?thesis unfolding 2 old(1,3)
        by (rule identity_event.moved_out)
          (use user m(3-5) old(4) in \<open>simp_all add: migrated_keeps\<close>)
    next
      case 3
      then show ?thesis by (simp add: m(2) identity_event.same)
    qed
  qed
  then show "refines verify rt b t w w'" by (simp add: refines_def)
qed

end
