(* ===== verification/System.thy ===== *)
theory System
  imports Refinement
begin

text \<open>
  The three programs together: every instruction of entros-registry, entros-verifier and
  entros-anchor is a call, everything else that happens on the chain leaves their accounts
  alone. The identity machine is what the calls do to the identities; its invariants hold
  along every run.
\<close>

section \<open>Calls\<close>

datatype anchor_call =
    MintAnchor token_accounts pubkey pubkey pubkey "pubkey list" bytes32
  | AuthorizeNewWallet pubkey pubkey pubkey pubkey pubkey pubkey
  | MigrateIdentity migrate_accounts "pubkey list"
  | UpdateAnchor update_accounts bytes32 update_receipt_args
  | UpdateAnchorCompact update_accounts update_receipt_args
  | UpdateAnchorBound update_accounts pubkey update_receipt_args
  | PrepareProofRequest pubkey pubkey
  | UpgradeIdentityLayout pubkey pubkey
  | ResetIdentityState pubkey pubkey pubkey pubkey "pubkey list" bytes32 u16
  | RebaselineAnchor pubkey pubkey pubkey pubkey "pubkey list" bytes32 u16
  | SetEncryptedBaseline pubkey pubkey pubkey "(byte, 96) arr"

fun anchor_exec :: "runtime \<Rightarrow> build \<Rightarrow> tx \<Rightarrow> anchor_call \<Rightarrow> world \<Rightarrow> fault + world" where
  "anchor_exec rt b t (MintAnchor ta ik ck treasury remaining new) w =
     mint_anchor rt b t ta ik ck treasury remaining new w"
| "anchor_exec rt b t (AuthorizeNewWallet signer ik signer_new prog mint ta) w =
     authorize_new_wallet rt b t signer ik signer_new prog mint ta w"
| "anchor_exec rt b t (MigrateIdentity ma remaining) w = migrate_identity rt b t ma remaining w"
| "anchor_exec rt b t (UpdateAnchor ua new receipt) w = update_anchor rt b t ua new receipt w"
| "anchor_exec rt b t (UpdateAnchorCompact ua receipt) w = update_anchor_compact rt b t ua receipt w"
| "anchor_exec rt b t (UpdateAnchorBound ua sk receipt) w = update_anchor_bound rt b t ua sk receipt w"
| "anchor_exec rt b t (PrepareProofRequest authority sk) w = prepare rt b t authority sk w"
| "anchor_exec rt b t (UpgradeIdentityLayout authority ik) w =
     upgrade_identity_layout rt b t authority ik w"
| "anchor_exec rt b t (ResetIdentityState authority ik ck treasury remaining new version) w =
     reset_identity_state rt b t authority ik ck treasury remaining new version w"
| "anchor_exec rt b t (RebaselineAnchor authority ik ck treasury remaining new version) w =
     rebaseline_anchor rt b t authority ik ck treasury remaining new version w"
| "anchor_exec rt b t (SetEncryptedBaseline authority ik key blob) w =
     set_encrypted_baseline rt b t authority ik key blob w"

datatype verifier_call =
    CreateChallenge pubkey pubkey bytes32
  | VerifyProof pubkey pubkey "byte list" "bytes32 list" bytes32
  | VerifyProofCompact pubkey pubkey bytes32 "(byte, 256) arr" bytes32 bytes32 u16 u16
  | VerifyProofBound pubkey pubkey pubkey pubkey bytes32 "(byte, 256) arr" bytes32 bytes32 u16 u16 u64
  | CloseBoundVerificationResult pubkey pubkey bytes32
  | CloseChallenge pubkey pubkey
  | CloseVerificationResult pubkey pubkey

fun verifier_exec :: "runtime \<Rightarrow> build \<Rightarrow> tx \<Rightarrow> verifier_call \<Rightarrow> world \<Rightarrow> fault + world" where
  "verifier_exec rt b t (CreateChallenge challenger key nonce) w =
     create_challenge rt b t challenger key nonce w"
| "verifier_exec rt b t (VerifyProof verifier key proof_bytes inputs nonce) w =
     verify_proof rt b t verifier key proof_bytes inputs nonce w"
| "verifier_exec rt b t (VerifyProofCompact verifier key nonce zk new prev threshold distance) w =
     verify_proof_compact rt b t verifier key nonce zk new prev threshold distance w"
| "verifier_exec rt b t (VerifyProofBound verifier key ik sk nonce zk new prev threshold distance
     valid_until) w =
     verify_bound rt b t verifier key ik sk nonce zk new prev threshold distance valid_until w"
| "verifier_exec rt b t (CloseBoundVerificationResult verifier key nonce) w =
     close_bound_verification_result rt b t verifier key nonce w"
| "verifier_exec rt b t (CloseChallenge challenger key) w = close_challenge rt b t challenger key w"
| "verifier_exec rt b t (CloseVerificationResult verifier key) w =
     close_verification_result rt b t verifier key w"

datatype program_call =
    RegistryCall registry_call
  | VerifierCall verifier_call
  | AnchorCall anchor_call

fun program_exec :: "runtime \<Rightarrow> build \<Rightarrow> tx \<Rightarrow> program_call \<Rightarrow> world \<Rightarrow> fault + world" where
  "program_exec rt b t (RegistryCall c) w = registry_exec rt t c w"
| "program_exec rt b t (VerifierCall c) w = verifier_exec rt b t c w"
| "program_exec rt b t (AnchorCall c) w = anchor_exec rt b t c w"

section \<open>What a call leaves alone\<close>

lemma anchor_call_refines:
  assumes "sound_call verify rt b t w" "anchor_exec rt b t c w = Inr w'"
  shows "refines verify rt b t w w' \<and> registry_kept w w'"
proof (cases c)
  case MintAnchor then show ?thesis using mint_refines [OF assms(1)] assms(2) by auto
next
  case AuthorizeNewWallet then show ?thesis using announce_refines [OF assms(1)] assms(2) by auto
next
  case MigrateIdentity then show ?thesis using migrate_refines [OF assms(1)] assms(2) by auto
next
  case (UpdateAnchor ua new receipt)
  then have "legacy_update rt b t ua receipt w w'" using assms(2) by (auto simp: legacy_update_def)
  then show ?thesis using legacy_update_refines [OF assms(1)] by blast
next
  case (UpdateAnchorCompact ua receipt)
  then have "legacy_update rt b t ua receipt w w'" using assms(2) by (simp add: legacy_update_def)
  then show ?thesis using legacy_update_refines [OF assms(1)] by blast
next
  case UpdateAnchorBound then show ?thesis using bound_update_refines [OF assms(1)] assms(2) by auto
next
  case PrepareProofRequest then show ?thesis using prepare_refines [OF assms(1)] assms(2) by auto
next
  case UpgradeIdentityLayout then show ?thesis using layout_refines [OF assms(1)] assms(2) by auto
next
  case ResetIdentityState then show ?thesis using reset_refines [OF assms(1)] assms(2) by auto
next
  case RebaselineAnchor then show ?thesis using rebaseline_refines [OF assms(1)] assms(2) by auto
next
  case SetEncryptedBaseline then show ?thesis using baseline_refines [OF assms(1)] assms(2) by auto
qed

text \<open>The verifier writes and closes its own accounts only.\<close>

lemma created_kept:
  assumes "init_law rt" "init_typed rt payer j n q w = Inr w1" "exit_typed bs j (emit e w1) = Inr w'"
    and "p \<noteq> q" "p \<noteq> system_program_id rt"
  shows "kept p k w w'"
proof -
  have "owner_of (emit e w1) j \<noteq> p" using init_effect(4) [OF assms(1,2)] assms(4) by simp
  then have "kept p k (emit e w1) w'" using kept_exit [OF assms(3)] by blast
  then show ?thesis
    using kept_init [OF assms(1,2,5)] kept_emit kept_trans by blast
qed

lemma verifier_call_keeps:
  assumes deployed: "deployment_law rt b" and run: "verifier_exec rt b t c w = Inr w'"
    and p: "p \<noteq> verifier_id b" "p \<noteq> system_program_id rt"
  shows "kept p k w w'"
proof -
  note laws = deployment_laws [OF deployed]
  have closed: "kept p k w w'"
    if "close_typed rt j dest w = Inr w'" "owner_of w j = verifier_id b" for j dest
    using kept_close [OF laws(4) that(1) p(2)] that(2) p(1) by auto
  show ?thesis
  proof (cases c)
    case (CreateChallenge challenger key nonce)
    then obtain w1 bs e where "init_typed rt challenger key challenge_len (verifier_id b) w = Inr w1"
      "exit_typed bs key (emit e w1) = Inr w'"
      using run by (auto simp: create_challenge_def Let_def res_simps)
    then show ?thesis by (rule created_kept [OF laws(3) _ _ p])
  next
    case (VerifyProof verifier key proof_bytes inputs nonce)
    then obtain w1 bs e where
      "init_typed rt verifier key verification_result_len (verifier_id b) w = Inr w1"
      "exit_typed bs key (emit e w1) = Inr w'"
      using run by (auto simp: verify_proof_def verify_accounts_def verify_and_store_def Let_def res_simps)
    then show ?thesis by (rule created_kept [OF laws(3) _ _ p])
  next
    case (VerifyProofCompact verifier key nonce zk new prev threshold distance)
    then obtain w1 bs e where
      "init_typed rt verifier key verification_result_len (verifier_id b) w = Inr w1"
      "exit_typed bs key (emit e w1) = Inr w'"
      using run
      by (auto simp: verify_proof_compact_def verify_accounts_def verify_and_store_def Let_def res_simps)
    then show ?thesis by (rule created_kept [OF laws(3) _ _ p])
  next
    case (VerifyProofBound verifier key ik sk nonce zk new prev threshold distance valid_until)
    then obtain w1 bs where
      init: "init_typed rt verifier key bound_result_len (verifier_id b) w = Inr w1"
      and exit: "exit_typed bs key w1 = Inr w'"
      using run by (auto simp: verify_bound_def bound_accounts_def Let_def res_simps)
    have "owner_of w1 key \<noteq> p" using init_effect(4) [OF laws(3) init] p(1) by simp
    then show ?thesis using kept_init [OF laws(3) init p(2)] kept_exit [OF exit] kept_trans by blast
  next
    case CloseBoundVerificationResult
    then show ?thesis
      using run closed by (auto simp: close_bound_verification_result_def res_simps)
  next
    case CloseChallenge
    then show ?thesis using run closed by (auto simp: close_challenge_def res_simps)
  next
    case CloseVerificationResult
    then show ?thesis using run closed by (auto simp: close_verification_result_def res_simps)
  qed
qed

text \<open>So does the registry: its calls create, rewrite or close accounts of its own.\<close>

lemma rewritten_kept: "rewritten j d w w' \<Longrightarrow> owner_of w j \<noteq> p \<Longrightarrow> kept p k w w'"
  by (auto simp: kept_def rewritten_def)

lemma creates_kept:
  "creates rt j d w w' \<Longrightarrow> p \<noteq> registry_program_id \<Longrightarrow> p \<noteq> system_program_id rt \<Longrightarrow> kept p k w w'"
  by (auto simp: kept_def creates_def)

lemma registry_call_keeps:
  assumes inv: "configured rt w" and run: "registry_exec rt t c w = Inr w'"
    and p: "p \<noteq> registry_program_id" "p \<noteq> system_program_id rt"
  shows "kept p k w w'"
proof -
  have laws: "registry_laws rt" and config: "owner_of w (config_account rt) = registry_program_id"
    using inv by (simp_all add: configured_def)
  have raw: "kept p k w w'" if "rewritten j d w w'" "pda_key rt protocol_config_seeds registry_program_id = j"
    for j d
    using rewritten_kept [OF that(1)] that(2) config p(1) by (simp add: config_account_def)
  show ?thesis
  proof (cases c)
    case InitializeProtocol
    then show ?thesis using initialize_effect [OF laws] run creates_kept p by fastforce
  next
    case (UpdateProtocolConfig admin j fee)
    with run have "update_protocol_config rt t admin j fee w = Inr w'" by simp
    from update_config_effect [OF laws this] show ?thesis using rewritten_kept p(1) by metis
  next
    case (SetValidatorPubkey admin j key)
    with run have "set_validator_pubkey rt t admin j key w = Inr w'" by simp
    from set_validator_effect [OF laws this] show ?thesis using raw by (auto simp: by_admin_def)
  next
    case (RotateValidatorPubkey admin j key grace)
    with run have "rotate_validator_pubkey rt t admin j key grace w = Inr w'" by simp
    from rotate_effect [OF laws this] show ?thesis using raw by (auto simp: by_admin_def)
  next
    case (ProposeAuthority admin j next_admin)
    with run have "propose_authority rt t admin j next_admin w = Inr w'" by simp
    from propose_effect [OF laws this] show ?thesis using raw by (auto simp: by_admin_def)
  next
    case (AcceptAuthority signer j)
    with run have "accept_authority rt t signer j w = Inr w'" by simp
    from accept_effect [OF this] show ?thesis using raw by auto
  next
    case (SetProjectionVersions admin j current minimum)
    with run have "set_projection_versions rt t admin j current minimum w = Inr w'" by simp
    from set_projection_effect [OF laws this] show ?thesis using raw by (auto simp: by_admin_def)
  next
    case (WithdrawTreasury admin j treasury amount)
    with run have "withdraw_treasury rt t admin j treasury amount w = Inr w'" by simp
    from withdraw_effect [OF laws this] show ?thesis by (simp add: kept_same)
  next
    case (MigrateAdmin new_admin j programdata)
    with run have "migrate_admin rt t new_admin j programdata w = Inr w'" by simp
    from migrate_admin_effect [OF laws this] show ?thesis using raw by auto
  next
    case (RegisterValidator validator j state_key vault stake)
    with run have "register_validator rt t validator j state_key vault stake w = Inr w'" by simp
    from register_effect [OF laws this] show ?thesis using creates_kept p by blast
  next
    case (ComputeTrustScore j count creation recent)
    with run have "compute_trust_score rt t j count creation recent w = Inr w'" by simp
    from preview_effect [OF this] show ?thesis by (simp add: kept_same)
  next
    case (UnstakeValidator validator state_key vault)
    with run have "unstake_validator rt t validator state_key vault w = Inr w'" by simp
    from unstake_effect [OF laws this] show ?thesis using p by (auto simp: kept_def)
  qed
qed

section \<open>Steps\<close>

text \<open>
  What happens outside the three programs: by the rules of the runtime, their accounts keep
  data and owner, and whatever another program hands over to them is blank.
\<close>

definition outside :: "build \<Rightarrow> world \<Rightarrow> world \<Rightarrow> bool" where
  "outside b w w' \<longleftrightarrow> (\<forall>p k. p \<in> {anchor_id b, verifier_id b, registry_program_id} \<longrightarrow> kept p k w w')"

text \<open>The configuration exists, and so does the deployment around it.\<close>

definition ready :: "runtime \<Rightarrow> build \<Rightarrow> world \<Rightarrow> bool" where
  "ready rt b w \<longleftrightarrow> deployment_law rt b \<and> type_law rt \<and> configured rt w"

lemma readyD:
  assumes "ready rt b w"
  shows "deployment_law rt b" "type_law rt" "configured rt w"
    and "ed25519_law verify t \<Longrightarrow> sound_call verify rt b t w"
  using assms by (auto simp: ready_def sound_call_def configured_def)

inductive system_step ::
  "(byte list \<Rightarrow> byte list \<Rightarrow> byte list \<Rightarrow> bool) \<Rightarrow> runtime \<Rightarrow> build \<Rightarrow> world \<Rightarrow> world \<Rightarrow> bool"
  for verify rt b where
  call: "ed25519_law verify t \<Longrightarrow> program_exec rt b t c w = Inr w' \<Longrightarrow> system_step verify rt b w w'"
| other: "outside b w w' \<Longrightarrow> system_step verify rt b w w'"

inductive_cases system_stepE: "system_step verify rt b w w'"

text \<open>A call of any of the programs, as the identities and the registry see it.\<close>

lemma program_call_refines:
  assumes ready: "ready rt b w" and signed: "ed25519_law verify t"
    and run: "program_exec rt b t c w = Inr w'"
  shows "refines verify rt b t w w'"
    and "(\<exists>r. c = RegistryCall r \<and> registry_exec rt t r w = Inr w') \<or> registry_kept w w'"
proof -
  note r = readyD [OF ready] and laws = deployment_laws [OF readyD(1) [OF ready]]
  have "refines verify rt b t w w' \<and>
    ((\<exists>r. c = RegistryCall r \<and> registry_exec rt t r w = Inr w') \<or> registry_kept w w')"
  proof (cases c)
    case (RegistryCall rc)
    then have "kept (anchor_id b) k w w'" for k
      using registry_call_keeps [OF r(3) _ laws(10,12)] run by simp
    then show ?thesis
      using RegistryCall run kept_identity [OF r(2)] refines_same by auto
  next
    case (VerifierCall vc)
    with run have exec: "verifier_exec rt b t vc w = Inr w'" by simp
    have "kept (anchor_id b) k w w'" for k
      by (rule verifier_call_keeps [OF r(1) exec laws(9,12)])
    moreover have "kept registry_program_id k w w'" for k
      by (rule verifier_call_keeps [OF r(1) exec laws(11) [symmetric] laws(14)])
    ultimately show ?thesis
      using kept_identity [OF r(2)] refines_same by (simp add: registry_kept_def)
  next
    case (AnchorCall ac)
    with run have "anchor_exec rt b t ac w = Inr w'" by simp
    from anchor_call_refines [OF r(4) [OF signed] this] show ?thesis by blast
  qed
  then show "refines verify rt b t w w'"
    "(\<exists>r. c = RegistryCall r \<and> registry_exec rt t r w = Inr w') \<or> registry_kept w w'" by auto
qed

text \<open>Seen from the registry, every step of the system is one of its own steps.\<close>

lemma registry_kept_step: "registry_kept w w' \<Longrightarrow> registry_step rt w w'"
  by (rule registry_step.foreign) (simp add: registry_kept_def kept_def foreign_step_def)

lemma system_registry_step:
  assumes "ready rt b w" "system_step verify rt b w w'"
  shows "registry_step rt w w'"
  using assms(2)
proof (rule system_stepE)
  fix t c
  assume "ed25519_law verify t" "program_exec rt b t c w = Inr w'"
  from program_call_refines(2) [OF assms(1) this] show ?thesis
    using registry_step.call registry_kept_step by blast
next
  assume "outside b w w'"
  then show ?thesis by (intro registry_kept_step) (simp add: outside_def registry_kept_def)
qed

lemma step_ready:
  assumes "ready rt b w" "system_step verify rt b w w'"
  shows "ready rt b w'"
  using step_configured [OF readyD(3) [OF assms(1)] system_registry_step [OF assms]] assms(1)
  by (simp add: ready_def)

text \<open>Seen from the identities, it is one transaction of the identity machine.\<close>

lemma step_refines:
  assumes "ready rt b w" "system_step verify rt b w w'"
  shows "\<exists>t. refines verify rt b t w w'"
  using assms(2)
proof (rule system_stepE)
  fix t c
  assume "ed25519_law verify t" "program_exec rt b t c w = Inr w'"
  from program_call_refines(1) [OF assms(1) this] show ?thesis by blast
next
  assume "outside b w w'"
  then show ?thesis
    using kept_identity [OF readyD(2) [OF assms(1)]] refines_same by (simp add: outside_def)
qed

end
