(* ===== verification/System_Correct.thy ===== *)
theory System_Correct
  imports System
begin

text \<open>
  What holds of the identities along every run of the three programs, and the instruction
  level statement from which it follows.
\<close>

section \<open>Refinement\<close>

text \<open>
  C1: every instruction refines the identity machine. A successful call of any
  instruction of the three programs makes, on the identity at each address, one of the
  transitions minted, updated, reset, rebaselined, announced or moved, or none: under the
  conditions of that transition (the owner's signature, the validator's signed receipt,
  the proof held by the verifier, the cooldowns, the registry's window) and to the identity
  that it writes out field by field. An identity leaves an address only by appearing at the
  address of the wallet that was announced, which signs: there it has that wallet's owner,
  mint and bump, no announcement, and every other field (commitment, count, score, times,
  activity ring, projection version) as it was.
\<close>

theorem instruction_refines_identity_machine:
  assumes "ready rt b w" "ed25519_law verify t" "program_exec rt b t c w = Inr w'"
  shows "identity_event verify rt b t w w' k (identity_of rt b w k) (identity_of rt b w' k)"
  using program_call_refines(1) [OF assms] by (simp add: refines_def)

section \<open>Well-formed identities\<close>

definition identity_ok :: "runtime \<Rightarrow> build \<Rightarrow> u16 \<Rightarrow> pubkey \<Rightarrow> identity_state \<Rightarrow> bool" where
  "identity_ok rt b current k i \<longleftrightarrow>
     k = pda_key rt (identity_seeds (id_owner i)) (anchor_id b) \<and>
     id_mint i = pda_key rt (mint_seeds (id_owner i)) (anchor_id b) \<and>
     id_bump i = pda_bump rt (identity_seeds (id_owner i)) (anchor_id b) \<and>
     id_current_commitment i \<noteq> 0 \<and> id_projection_version i \<le> current"

definition identities_ok :: "runtime \<Rightarrow> build \<Rightarrow> world \<Rightarrow> bool" where
  "identities_ok rt b w \<longleftrightarrow> (\<exists>current minimum. window rt w = Inr (current, minimum) \<and>
     (\<forall>k i. identity_of rt b w k = Some i \<longrightarrow> identity_ok rt b current k i))"

text \<open>The anchor and the registry read the same window.\<close>

lemma policy_window:
  "registry_policy rt w = Inr p \<longleftrightarrow> window rt w = Inr (pp_current p, pp_minimum p)"
  by (cases p) (auto simp: registry_policy_def window_def read_projection_policy_def
      read_projection_versions_def pc_consts config_consts Let_def require_Inr and_then_Inr)

lemma identity_ok_mono: "identity_ok rt b v k i \<Longrightarrow> v \<le> v' \<Longrightarrow> identity_ok rt b v' k i"
  by (auto simp: identity_ok_def)

lemma event_ok:
  assumes "identity_event verify rt b t w w' k x (Some i')" "identity_of rt b w k = x"
    and "window rt w = Inr (current, minimum)"
    and ok: "\<And>k i. identity_of rt b w k = Some i \<Longrightarrow> identity_ok rt b current k i"
  shows "identity_ok rt b current k i'"
  using assms(1)
proof (cases rule: identity_event.cases)
  case same
  then show ?thesis using ok assms(2) by simp
next
  case minted
  then show ?thesis using assms(3) by (simp add: identity_ok_def policy_window)
next
  case (updated i policy new cfg score)
  then show ?thesis using ok [of k i] assms(2) by (simp add: identity_ok_def)
next
  case (reset i new policy)
  then show ?thesis using ok [of k i] assms(2,3) by (simp add: identity_ok_def policy_window)
next
  case (rebaselined i new policy)
  then show ?thesis using ok [of k i] assms(2,3) by (simp add: identity_ok_def policy_window)
next
  case (announced wallet next_wallet i)
  then show ?thesis using ok [of k i] assms(2) by (simp add: identity_ok_def)
next
  case (moved_in user mint k_old old)
  then show ?thesis using ok [of k_old old] by (simp add: identity_ok_def)
qed

lemma step_identities_ok:
  assumes "ready rt b w" "identities_ok rt b w" "system_step verify rt b w w'"
  shows "identities_ok rt b w'"
proof -
  from assms(2) obtain current minimum where w: "window rt w = Inr (current, minimum)"
    and ok: "\<And>k i. identity_of rt b w k = Some i \<Longrightarrow> identity_ok rt b current k i"
    by (auto simp: identities_ok_def)
  obtain t where refine: "refines verify rt b t w w'" using step_refines [OF assms(1,3)] by blast
  have "window_le (window rt w) (window rt w')"
    by (rule step_window [OF readyD(3) [OF assms(1)] system_registry_step [OF assms(1,3)]])
  then obtain current' minimum' where w': "window rt w' = Inr (current', minimum')"
    and le: "current \<le> current'"
    using w by (cases "window rt w'") (auto simp: w)
  have "identity_ok rt b current' k i'" if "identity_of rt b w' k = Some i'" for k i'
  proof -
    have "identity_event verify rt b t w w' k (identity_of rt b w k) (Some i')"
      using refine that unfolding refines_def by metis
    from identity_ok_mono [OF event_ok [OF this refl w ok] le] show ?thesis .
  qed
  with w' show ?thesis by (auto simp: identities_ok_def)
qed

definition lawful :: "runtime \<Rightarrow> build \<Rightarrow> world \<Rightarrow> bool" where
  "lawful rt b w \<longleftrightarrow> ready rt b w \<and> identities_ok rt b w"

interpretation identities: monotone_system "system_step verify rt b" "lawful rt b" "window rt" window_le
  for verify rt b
proof unfold_locales
  show "window_le x x" for x by (rule window_le_refl)
  show "window_le x y \<Longrightarrow> window_le y z \<Longrightarrow> window_le x z" for x y z by (rule window_le_trans)
  show "lawful rt b s'" if "lawful rt b s" "system_step verify rt b s s'" for s s'
    using that step_ready step_identities_ok by (auto simp: lawful_def)
  show "window_le (window rt s) (window rt s')" if "lawful rt b s" "system_step verify rt b s s'" for s s'
    using step_window [OF readyD(3) system_registry_step] that by (auto simp: lawful_def)
qed

text \<open>
  C3: identities stay well formed. Along every run of the three programs, each account of
  entros-anchor that reads as an identity lies at the address of its owner, names the
  owner's mint and the bump of its address, holds a commitment that is not zero, and has a
  projection version that the registry has released.
\<close>

theorem identities_stay_well_formed:
  assumes "(system_step verify rt b)\<^sup>*\<^sup>* w w'" "lawful rt b w"
  shows "\<exists>current minimum. window rt w' = Inr (current, minimum) \<and>
    (\<forall>k i. identity_of rt b w' k = Some i \<longrightarrow>
      k = pda_key rt (identity_seeds (id_owner i)) (anchor_id b) \<and>
      id_mint i = pda_key rt (mint_seeds (id_owner i)) (anchor_id b) \<and>
      id_bump i = pda_bump rt (identity_seeds (id_owner i)) (anchor_id b) \<and>
      id_current_commitment i \<noteq> 0 \<and> id_projection_version i \<le> current)"
  using identities.run_inv [OF assms] by (auto simp: lawful_def identities_ok_def identity_ok_def)

section \<open>Where commitments come from\<close>

text \<open>
  In the state of the registry a validator key, and the wallet with its signature, vouch
  for a commitment: by a receipt for the wallet and one of the purposes, or by an update
  receipt together with a proof of the step that the verifier program holds.
\<close>

definition vouched ::
  "(byte list \<Rightarrow> byte list \<Rightarrow> byte list \<Rightarrow> bool) \<Rightarrow> runtime \<Rightarrow> build \<Rightarrow> tx \<Rightarrow> world \<Rightarrow> bytes32 \<Rightarrow> bool" where
  "vouched verify rt b t w new \<longleftrightarrow> (\<exists>wallet. is_signer t wallet \<and>
     ((\<exists>purpose policy. registry_policy rt w = Inr policy \<and>
        receipt_given verify rt (clock t) w wallet new purpose (pp_current policy)) \<or>
      (\<exists>k i. identity_of rt b w k = Some i \<and> id_owner i = wallet \<and>
        step_proved rt b w wallet (id_current_commitment i) new \<and>
        update_given verify rt (clock t) w i new)))"

definition held :: "runtime \<Rightarrow> build \<Rightarrow> world \<Rightarrow> bytes32 \<Rightarrow> bool" where
  "held rt b w c \<longleftrightarrow> (\<exists>k i. identity_of rt b w k = Some i \<and> id_current_commitment i = c)"

definition vouched_call ::
  "(byte list \<Rightarrow> byte list \<Rightarrow> byte list \<Rightarrow> bool) \<Rightarrow> runtime \<Rightarrow> build \<Rightarrow> world \<Rightarrow> world \<Rightarrow> bytes32 \<Rightarrow> bool" where
  "vouched_call verify rt b w w' c \<longleftrightarrow> (\<exists>t call. ed25519_law verify t \<and>
     program_exec rt b t call w = Inr w' \<and> vouched verify rt b t w c)"

lemma event_source:
  assumes "identity_event verify rt b t w w' k x (Some i')" "identity_of rt b w k = x"
  shows "held rt b w (id_current_commitment i') \<or> vouched verify rt b t w (id_current_commitment i')"
  using assms(1)
proof (cases rule: identity_event.cases)
  case same
  then show ?thesis using assms(2) by (auto simp: held_def)
next
  case minted
  then show ?thesis by (auto simp: vouched_def)
next
  case (updated i policy new cfg score)
  then have "vouched verify rt b t w new" using assms(2) unfolding vouched_def by blast
  then show ?thesis using updated(2) by simp
next
  case reset
  then show ?thesis by (auto simp: vouched_def)
next
  case rebaselined
  then show ?thesis by (auto simp: vouched_def)
next
  case announced
  then show ?thesis using assms(2) by (auto simp: held_def)
next
  case moved_in
  then show ?thesis by (auto simp: held_def)
qed

lemma step_source:
  assumes "ready rt b w" "system_step verify rt b w w'" "held rt b w' c"
  shows "held rt b w c \<or> vouched_call verify rt b w w' c"
proof -
  from assms(3) obtain k i' where i': "identity_of rt b w' k = Some i'" "id_current_commitment i' = c"
    by (auto simp: held_def)
  from assms(2) show ?thesis
  proof (rule system_stepE)
    fix t call
    assume run: "ed25519_law verify t" "program_exec rt b t call w = Inr w'"
    have "identity_event verify rt b t w w' k (identity_of rt b w k) (Some i')"
      using program_call_refines(1) [OF assms(1) run] i'(1) unfolding refines_def by metis
    from event_source [OF this refl] show ?thesis using run i'(2) unfolding vouched_call_def by blast
  next
    assume "outside b w w'"
    then have "kept (anchor_id b) k w w'" by (simp add: outside_def)
    from kept_identity [OF readyD(2) [OF assms(1)] this] have "identity_of rt b w k = Some i'"
      using i'(1) by simp
    then show ?thesis using i'(2) by (auto simp: held_def)
  qed
qed

interpretation commitments: provenance "system_step verify rt b" "ready rt b" "held rt b"
    "vouched_call verify rt b"
  for verify rt b
  by unfold_locales (fact step_ready step_source)+

text \<open>
  C2: no commitment enters the system without a validator. A commitment that an identity
  holds after a run was already held by an identity at its start (perhaps of another
  wallet, before a migration), or it entered in a call of the run that the wallet
  signed and for which a validator key, accepted by the registry at that moment, had
  signed a receipt; an update also rests on a proof stored by the verifier program.
\<close>

theorem commitments_are_vouched:
  assumes "(system_step verify rt b)\<^sup>*\<^sup>* w w'" "ready rt b w" "identity_of rt b w' k = Some i"
  shows "(\<exists>k0 i0. identity_of rt b w k0 = Some i0 \<and>
      id_current_commitment i0 = id_current_commitment i) \<or>
    (\<exists>x y t call. (system_step verify rt b)\<^sup>*\<^sup>* w x \<and> ed25519_law verify t \<and>
      program_exec rt b t call x = Inr y \<and> (system_step verify rt b)\<^sup>*\<^sup>* y w' \<and>
      vouched verify rt b t x (id_current_commitment i))"
proof -
  have "held rt b w' (id_current_commitment i)" using assms(3) by (auto simp: held_def)
  from commitments.run_source [OF assms(1,2) this] show ?thesis
    unfolding held_def vouched_call_def by blast
qed

section \<open>The example\<close>

lemma demo_ready: "ready demo_runtime (demo_build bound) demo_world"
proof -
  have "type_law demo_runtime" unfolding type_law_def by code_simp
  moreover have "configured demo_runtime demo_world"
    by (simp add: configured_def demo_registry_laws demo_config_account demo_data demo_owner
        length_typed_bytes config_consts) (simp add: config_bytes_def serialize_def)
  ultimately show ?thesis by (simp add: ready_def demo_deployment)
qed

lemma demo_anchor_owned:
  assumes "owner_of demo_world k = demo_key 101"
  shows "k = demo_identity_key \<or> k = demo_request_key"
proof -
  have "distinct [demo_key 101, demo_key 102, registry_program_id, demo_system]" by code_simp
  then show ?thesis
    using assms by (auto simp: owner_of_def demo_world_def demo_account_def split: if_splits)
qed

lemma demo_identity_of:
  "identity_of demo_runtime (demo_build bound) demo_world k =
     (if k = demo_identity_key then Some demo_identity else None)"
proof -
  have id: "anchor_id (demo_build bound) = demo_key 101" by (simp add: demo_build_def)
  have "tagged (request_state_disc demo_runtime) (data_of demo_world demo_request_key)"
    by (simp add: demo_data tagged_bytes)
  moreover have "request_state_disc demo_runtime \<noteq> identity_disc demo_runtime"
    using readyD(2) [OF demo_ready] by (auto simp: type_law_def)
  ultimately have "identity_of demo_runtime (demo_build bound) demo_world demo_request_key = None"
    by (rule tagged_no_identity)
  moreover have "identity_of demo_runtime (demo_build bound) demo_world demo_identity_key =
      Some demo_identity"
    by (simp add: identity_of_Some id demo_owner demo_identity_at demo_data)
  moreover have "identity_of demo_runtime (demo_build bound) demo_world k = None"
    if "k \<notin> {demo_identity_key, demo_request_key}"
    using demo_anchor_owned [of k] that by (intro foreign_no_identity) (auto simp: id)
  ultimately show ?thesis by (cases "k = demo_request_key") auto
qed

lemma demo_lawful: "lawful demo_runtime (demo_build bound) demo_world"
proof -
  have "window demo_runtime demo_world = Inr (2, 1)"
    unfolding window_def demo_config_account
    by (simp add: demo_data window_typed [OF typed_bytes(2)]) (simp add: demo_config_def)
  moreover have "identity_ok demo_runtime (demo_build bound) 2 demo_identity_key demo_identity"
    using demo_nonzero
    by (simp add: identity_ok_def demo_identity_def demo_identity_key_def demo_pda_def demo_build_def
        pda_key_def pda_bump_def demo_runtime_def demo_find_def)
  ultimately have "identities_ok demo_runtime (demo_build bound) demo_world"
    by (auto simp: identities_ok_def demo_identity_of)
  then show ?thesis by (simp add: lawful_def demo_ready)
qed

definition demo_call :: program_call where
  "demo_call = AnchorCall (UpdateAnchor demo_update_accounts (demo_commitment 2) demo_receipt)"

lemma demo_call_runs:
  "\<exists>w' i. program_exec demo_runtime (demo_build False) demo_update_tx demo_call demo_world = Inr w' \<and>
     system_step demo_signed demo_runtime (demo_build False) demo_world w' \<and>
     identity_of demo_runtime (demo_build False) w' demo_identity_key = Some i \<and>
     id_current_commitment i = demo_commitment 2"
proof -
  from demo_update_runs obtain w' where run: "update_anchor demo_runtime (demo_build False)
      demo_update_tx demo_update_accounts (demo_commitment 2) demo_receipt demo_world = Inr w'" by blast
  then have "legacy_update demo_runtime (demo_build False) demo_update_tx demo_update_accounts
      demo_receipt demo_world w'" by (auto simp: legacy_update_def)
  from legacy_update_obtain [OF demo_deployment this] obtain i cfg r session i' where
    facts: "legacy_facts demo_runtime (demo_build False) demo_update_tx demo_update_accounts
      demo_receipt demo_world w' i cfg r session i'" by metis
  note f = legacy_factsD [OF facts]
  have keys: "ua_identity demo_update_accounts = demo_identity_key"
    "ua_verification_result demo_update_accounts = demo_result_key"
    by (simp_all add: demo_update_accounts_def)
  have "owner_of w' demo_identity_key = anchor_id (demo_build False)"
    using f(1,20) demo_keys_distinct by (auto simp: keys)
  then have "identity_of demo_runtime (demo_build False) w' demo_identity_key = Some i'"
    using f(18) by (simp add: identity_of_Some keys)
  moreover have "id_current_commitment i' = demo_commitment 2"
    using f(5,12) by (simp add: keys demo_data typed_bytes) (auto simp: demo_result_def)
  moreover have exec: "program_exec demo_runtime (demo_build False) demo_update_tx demo_call
      demo_world = Inr w'"
    by (simp add: demo_call_def run)
  ultimately show ?thesis using system_step.call [OF demo_update_law exec] by blast
qed

theorem instruction_refines_identity_machine_witness:
  "\<exists>w' i. program_exec demo_runtime (demo_build False) demo_update_tx demo_call demo_world = Inr w' \<and>
     identity_event demo_signed demo_runtime (demo_build False) demo_update_tx demo_world w'
       demo_identity_key (Some demo_identity) (Some i) \<and>
     id_current_commitment i = demo_commitment 2"
proof -
  from demo_call_runs obtain w' i where
    run: "program_exec demo_runtime (demo_build False) demo_update_tx demo_call demo_world = Inr w'"
    and i: "identity_of demo_runtime (demo_build False) w' demo_identity_key = Some i"
      "id_current_commitment i = demo_commitment 2" by blast
  from instruction_refines_identity_machine [OF demo_ready demo_update_law run, of demo_identity_key]
  show ?thesis using run i by (auto simp: demo_identity_of)
qed

theorem identities_stay_well_formed_witness:
  "\<exists>w' i current. (system_step demo_signed demo_runtime (demo_build False))\<^sup>*\<^sup>* demo_world w' \<and>
     identity_of demo_runtime (demo_build False) w' demo_identity_key = Some i \<and>
     id_mint i = pda_key demo_runtime (mint_seeds (id_owner i)) (demo_key 101) \<and>
     id_projection_version i \<le> current"
proof -
  from demo_call_runs obtain w' i where
    step: "system_step demo_signed demo_runtime (demo_build False) demo_world w'"
    and i: "identity_of demo_runtime (demo_build False) w' demo_identity_key = Some i" by blast
  then have run: "(system_step demo_signed demo_runtime (demo_build False))\<^sup>*\<^sup>* demo_world w'" by blast
  from identities_stay_well_formed [OF run demo_lawful] i
  have "id_mint i = pda_key demo_runtime (mint_seeds (id_owner i)) (anchor_id (demo_build False)) \<and>
      (\<exists>current. id_projection_version i \<le> current)" by blast
  then show ?thesis using run i by (auto simp: demo_build_def)
qed

theorem commitments_are_vouched_witness:
  "\<exists>w' x t. (system_step demo_signed demo_runtime (demo_build False))\<^sup>*\<^sup>* demo_world w' \<and>
     vouched demo_signed demo_runtime (demo_build False) t x (demo_commitment 2)"
proof -
  from demo_call_runs obtain w' i where
    step: "system_step demo_signed demo_runtime (demo_build False) demo_world w'"
    and i: "identity_of demo_runtime (demo_build False) w' demo_identity_key = Some i"
      "id_current_commitment i = demo_commitment 2" by blast
  then have run: "(system_step demo_signed demo_runtime (demo_build False))\<^sup>*\<^sup>* demo_world w'" by blast
  have "id_current_commitment demo_identity \<noteq> demo_commitment 2"
    using demo_nonzero by (simp add: demo_identity_def)
  with commitments_are_vouched [OF run demo_ready i(1)] run show ?thesis
    by (auto simp: demo_identity_of i(2) split: if_splits)
qed

end
