(* ===== verification/Mint_Correct.thy ===== *)
theory Mint_Correct
  imports System_Correct
begin

text \<open>
  Minting: the token calls in their order, the stored identity, the events.
\<close>

section \<open>What the steps log\<close>

lemma invoke_all_log:
  "invoke_all rt cs w = Inr w' \<Longrightarrow> cpis w' = cpis w @ cs \<and> events w' = events w"
  by (induction cs arbitrary: w) (auto simp: and_then_Inr invoke_Inr)

lemma create_token_log:
  assumes "create_identity_token rt b ta w = Inr w'"
  shows "\<exists>space meta_data_space. cpis w' = cpis w @ token_steps rt b ta space meta_data_space \<and>
    mint_account_len rt [NonTransferable, MintCloseAuthority, MetadataPointer] = Inr space \<and>
    tlv_size_of rt MINT_NAME MINT_SYMBOL MINT_URI = Inr meta_data_space \<and> events w' = events w"
  using assms unfolding create_identity_token_def
  by (simp only: and_then_Inr map_err_Inr) (blast dest: invoke_all_log)

lemma init_log: "init_typed rt payer k n q w = Inr w' \<Longrightarrow> cpis w' = cpis w \<and> events w' = events w"
  by (auto simp: init_typed_def res_simps)

lemma exit_log: "exit_typed bs k w = Inr w' \<Longrightarrow> cpis w' = cpis w \<and> events w' = events w"
  by (auto simp: exit_typed_Inr set_data_def)

lemma pay_fee_log:
  "pay_fee rt payer treasury fee w = Inr w' \<Longrightarrow>
     cpis w' = cpis w @ (if 0 < fee then [SystemTransfer payer treasury fee []] else []) \<and>
     events w' = events w"
  by (auto simp: pay_fee_def transfer_log split: if_splits)

text \<open>The calls that create a request counter.\<close>

fun counter_call :: "pubkey \<Rightarrow> cpi \<Rightarrow> bool" where
  "counter_call k (SystemTransfer src dst n seeds) = (dst = k)"
| "counter_call k (SystemAllocate j n seeds) = (j = k)"
| "counter_call k (SystemAssign j p seeds) = (j = k)"
| "counter_call k c = False"

lemma advance_log:
  assumes "advance rt b t j wallet payer w = Inr w'"
  shows "\<exists>pre. cpis w' = cpis w @ pre \<and> (\<forall>c \<in> set pre. counter_call j c) \<and> events w' = events w"
proof -
  from assms obtain w1 c where
    first: "(if owner_of w j = system_program_id rt \<and> data_of w j = []
      then create_request_state rt b j wallet (counter_bump rt b wallet) payer w else Inr w) = Inr w1"
    and adv: "advance_counter rt j wallet (counter_bump rt b wallet) w1 = Inr (c, w')"
    unfolding advance_def Let_def counter_bump_def
    by (simp only: require_Inr and_then_Inr split_paired_Ex prod.case) auto
  from adv have last_step: "cpis w' = cpis w1 \<and> events w' = events w1"
    by (auto simp: advance_counter_def and_then_Inr ok_or_Inr set_data_def)
  have "\<exists>pre. cpis w1 = cpis w @ pre \<and> (\<forall>c \<in> set pre. counter_call j c) \<and> events w1 = events w"
  proof (cases "owner_of w j = system_program_id rt \<and> data_of w j = []")
    case True
    with first show ?thesis
      by (auto simp: create_request_state_def Let_def and_then_Inr invoke_Inr transfer_log
          dest!: exit_log split: if_splits)
  next
    case False
    with first show ?thesis by auto
  qed
  with last_step show ?thesis by simp
qed

section \<open>The effect of minting\<close>

text \<open>Advancing the counter does not touch a fresh account.\<close>

lemma advance_keeps_fresh:
  assumes "deployment_law rt b" "type_law rt" "advance rt b t j wallet payer w = Inr w'"
    and "owner_of w k = anchor_id b" "data_of w k = replicate n 0" "8 \<le> n"
  shows "data_of w' k = data_of w k" "owner_of w' k = anchor_id b"
proof -
  note laws = deployment_laws [OF assms(1)]
  note writ = advance_write(1) [OF assms(1,3)]
  have "k \<noteq> j"
  proof
    assume "k = j"
    with writ assms(4) laws(12) have "tagged (request_state_disc rt) (replicate n 0)"
      by (auto simp: tagged_write_def simp flip: assms(5))
    with assms(6) have "request_state_disc rt = replicate 8 0" by (simp add: tagged_def min_def)
    with assms(2) show False by (simp add: type_law_def)
  qed
  with writ have "kept (anchor_id b) k w w'"
    using laws(6,12) by (auto simp: tagged_write_def writes_only_def)
  with assms(4) show "data_of w' k = data_of w k" "owner_of w' k = anchor_id b"
    by (simp_all add: kept_def)
qed

text \<open>Creating the account and advancing the counter, which a mint does first.\<close>

lemma mint_start:
  assumes deployed: "deployment_law rt b" "type_law rt"
    and init: "init_typed rt user ik identity_len (anchor_id b) w = Inr w1"
    and count: "w2 = w1 \<or> (\<exists>j. advance rt b t j user user w1 = Inr w2)"
  shows "data_of w2 ik = replicate identity_len 0" "owner_of w2 ik = anchor_id b"
    and "\<exists>pre. cpis w2 = cpis w @ pre \<and>
      (\<forall>c \<in> set pre. counter_call (counter_account rt b user) c) \<and> events w2 = events w"
proof -
  note fresh = init_effect [OF deployment_laws(3) [OF deployed(1)] init]
  have zeros: "data_of w1 ik = replicate identity_len 0" "owner_of w1 ik = anchor_id b"
    using fresh(3,4) by simp_all
  show "data_of w2 ik = replicate identity_len 0" "owner_of w2 ik = anchor_id b"
    using count advance_keeps_fresh [OF deployed _ zeros(2,1)] zeros by (auto simp: identity_len_def)
  have "\<exists>pre. cpis w2 = cpis w1 @ pre \<and>
      (\<forall>c \<in> set pre. counter_call (counter_account rt b user) c) \<and> events w2 = events w1"
    using count
  proof
    assume "w2 = w1"
    then show ?thesis by auto
  next
    assume "\<exists>j. advance rt b t j user user w1 = Inr w2"
    then obtain j where adv: "advance rt b t j user user w1 = Inr w2" by blast
    from advance_log [OF adv] advance_write(3) [OF deployed(1) adv] show ?thesis by metis
  qed
  with init_log [OF init] show "\<exists>pre. cpis w2 = cpis w @ pre \<and>
      (\<forall>c \<in> set pre. counter_call (counter_account rt b user) c) \<and> events w2 = events w"
    by simp
qed

lemma session_cpis [simp]: "cpis (emit_receipt_session k p v s w) = cpis w"
  by (cases s) (simp_all add: emit_receipt_session_def emit_def)

text \<open>
  C4: what minting does. A successful \<open>mint_anchor\<close> creates the identity account, which was
  an empty system account, with the fresh identity of the signer: no verifications, score
  zero, the validated commitment and the current projection version. Its cross-program
  calls are, after those that create the request counter, exactly these in this order: the
  mint account, the three extensions (non-transferable among them) before the mint is
  initialised with no freeze authority and no decimals, the metadata, the token account,
  and one token, minted by the program's own authority to that account; then the fee.
\<close>

theorem mint_effect:
  assumes deployed: "deployment_law rt b" "type_law rt"
    and run: "mint_anchor rt b t ta ik ck treasury remaining new w = Inr w'"
  shows "\<exists>policy fee session pre space text_space mint_signer signer.
    (let user = ta_user ta; mint = ta_mint ta; authority = ta_mint_authority ta;
         prog = ta_token_program ta; version = pp_current policy in
     is_signer t user \<and> owner_of w ik = system_program_id rt \<and> data_of w ik = [] \<and>
     owner_of w' ik = anchor_id b \<and>
     data_of w' ik = identity_bytes rt
       \<lparr>id_owner = user, id_creation_timestamp = clock t, id_last_verification_timestamp = clock t,
        id_verification_count = 0, id_trust_score = 0, id_current_commitment = new,
        id_mint = mint, id_bump = pda_bump rt (identity_seeds user) (anchor_id b),
        id_recent_timestamps = 0, id_last_reset_timestamp = 0, id_new_wallet = 0,
        id_projection_version = version, id_last_rebaseline_timestamp = 0\<rparr> \<and>
     cpis w' = cpis w @ pre @
       [SystemCreateAccount user mint (minimum_balance rt (space + text_space)) space prog mint_signer,
        TokenProgram prog (InitializeNonTransferableMint mint) [],
        TokenProgram prog (InitializeMintCloseAuthority mint authority) [],
        TokenProgram prog (InitializeMetadataPointer mint authority mint) [],
        TokenProgram prog (InitializeMint2 mint authority None 0) [],
        TokenProgram prog (TokenMetadataInitialize mint authority authority
          ''Entros Anchor'' ''ANCHOR'' ''https://entros.io/anchor-metadata.json'') signer,
        CreateTokenAccount (request_bound_v1 b) user (ta_token_account ta) user mint prog,
        TokenProgram prog (MintTo mint (ta_token_account ta) authority 1) signer] @
       (if 0 < fee then [SystemTransfer user treasury fee []] else []) \<and>
     (\<forall>c \<in> set pre. counter_call (counter_account rt b user) c) \<and>
     events w' = events w @ AnchorMinted user mint new # session_events user Mint version session)"
proof -
  note laws = deployment_laws [OF deployed(1)]
  from mint_inv [OF run] obtain w1 w2 w3 policy fee keys session w4 where
    user: "is_signer t (ta_user ta)"
    and init: "init_typed rt (ta_user ta) ik identity_len (anchor_id b) w = Inr w1"
    and count: "w2 = w1 \<or> (\<exists>j. advance rt b t j (ta_user ta) (ta_user ta) w1 = Inr w2)"
    and token: "create_identity_token rt b ta w2 = Inr w3"
    and fee: "pay_fee rt (ta_user ta) treasury fee w3 = Inr w4"
    and exit: "exit_typed (identity_bytes rt (minted_identity rt b (clock t) (ta_user ta)
        (ta_mint ta) new (pp_current policy))) ik
      (emit_receipt_session (ta_user ta) Mint (pp_current policy) session
        (emit (AnchorMinted (ta_user ta) (ta_mint ta) new) w4)) = Inr w'"
    by blast
  note fresh = init_effect [OF laws(3) init]
  note start = mint_start [OF deployed init count]
  have "kept (anchor_id b) ik w2 w4"
    using kept_token [OF laws(6) token] kept_pay_fee [OF laws(6) fee] kept_trans by blast
  then have stored: "data_of w4 ik = replicate identity_len 0" "owner_of w4 ik = anchor_id b"
    using start(1,2) by (simp_all add: kept_def)
  let ?i = "minted_identity rt b (clock t) (ta_user ta) (ta_mint ta) new (pp_current policy)"
  have data: "data_of w' ik = identity_bytes rt ?i" "owner_of w' ik = anchor_id b"
    using exit stored by (auto simp: exit_typed_Inr store_exact length_identity_bytes)
  from start(3) obtain pre where pre: "cpis w2 = cpis w @ pre" "events w2 = events w"
    "\<forall>c \<in> set pre. counter_call (counter_account rt b (ta_user ta)) c" by blast
  from create_token_log [OF token] obtain space text_space where
    steps: "cpis w3 = cpis w2 @ token_steps rt b ta space text_space" "events w3 = events w2" by blast
  note paid = pay_fee_log [OF fee] and logged = exit_log [OF exit]
  define signer where
    "signer = mint_authority_seeds @ [[pda_bump rt mint_authority_seeds (anchor_id b)]]"
  define mint_signer where "mint_signer = mint_seeds (ta_user ta) @
    [[pda_bump rt (mint_seeds (ta_user ta)) (anchor_id b)]]"
  show ?thesis
    by (rule exI [of _ policy], rule exI [of _ fee], rule exI [of _ session], rule exI [of _ pre],
        rule exI [of _ space], rule exI [of _ text_space], rule exI [of _ mint_signer],
        rule exI [of _ signer])
      (use user fresh(1,2) data pre steps paid logged in
        \<open>simp add: Let_def minted_identity_def token_steps_def MINT_NAME_def MINT_SYMBOL_def
          MINT_URI_def signer_def mint_signer_def\<close>)
qed

section \<open>The example\<close>

definition demo_new_identity_key :: pubkey where
  "demo_new_identity_key = demo_pda (identity_seeds demo_admin)"

definition demo_token :: token_accounts where
  "demo_token = \<lparr>ta_user = demo_admin, ta_mint = demo_pda (mint_seeds demo_admin),
     ta_mint_authority = demo_pda mint_authority_seeds, ta_token_account = demo_key 77,
     ta_token_program = demo_key 201\<rparr>"

definition demo_mint_tx :: tx where
  "demo_mint_tx = demo_tx 1700700300 (receipt_v2 Mint 2 demo_admin (demo_commitment 4) 1700700000)"

lemma demo_mint_keys:
  "distinct [demo_new_identity_key, ta_mint demo_token, demo_identity_key, demo_config_key,
     demo_result_key, demo_bound_key, demo_request_key, demo_treasury_key, demo_admin]"
  by code_simp

lemma demo_mint_receipt:
  "verify_validator_receipt demo_mint_tx demo_keys demo_admin (demo_commitment 4) Mint 2 1700700300 =
     Inr None"
proof -
  let ?m = "receipt_v2 Mint 2 demo_admin (demo_commitment 4) 1700700000"
  have "verify_receipt_payload ?m demo_admin (demo_commitment 4) Mint 2 1700700300 = Inr None"
    unfolding receipt_accepted
    by (intro exI [of _ 1700700000]) (simp add: fresh_def MAX_RECEIPT_AGE_SECS_def)
  then show ?thesis
    by (simp add: verify_validator_receipt_def demo_mint_tx_def demo_loaded receipt_lens)
qed

lemma demo_fresh_accounts:
  "accs demo_world demo_new_identity_key = demo_account demo_system []"
  "accs demo_world (ta_mint demo_token) = demo_account demo_system []"
  using demo_mint_keys by (auto simp: demo_world_def)

lemma demo_calls:
  "run_cpi demo_runtime = demo_cpi" "minimum_balance demo_runtime n = 1000"
  "tlv_size_of demo_runtime name symbol uri = Inr 200" "mint_account_len demo_runtime xs = Inr 300"
  by (simp_all add: demo_runtime_def)

lemma demo_mint_runs:
  "\<exists>w'. mint_anchor demo_runtime (demo_build False) demo_mint_tx demo_token demo_new_identity_key
     demo_config_key demo_treasury_key [] (demo_commitment 4) demo_world = Inr w'"
proof -
  let ?b = "demo_build False" and ?ik = demo_new_identity_key and ?mint = "ta_mint demo_token"
  define w1 where "w1 = demo_world\<lparr>accs := (accs demo_world)(?ik :=
    \<lparr>acc_owner = demo_key 101, acc_lamports = 5000, acc_data = replicate identity_len 0\<rparr>)\<rparr>"
  have init: "init_typed demo_runtime demo_admin ?ik identity_len (demo_key 101) demo_world = Inr w1"
    by (simp add: init_typed_def w1_def)
      (simp add: demo_runtime_def demo_init_def demo_fresh_accounts demo_account_def max_def)
  define w3 where "w3 = w1\<lparr>accs := (accs w1)(?mint := \<lparr>acc_owner = ta_token_program demo_token, acc_lamports = 1000,
      acc_data = replicate 300 0\<rparr>), cpis := token_steps demo_runtime ?b demo_token 300 200\<rparr>"
  have "accs w1 ?mint = demo_account demo_system []" "cpis w1 = []"
    using demo_mint_keys by (auto simp: w1_def demo_fresh_accounts demo_world_def)
  then have token: "create_identity_token demo_runtime ?b demo_token w1 = Inr w3"
    by (simp add: create_identity_token_def token_steps_def Let_def invoke_def demo_account_def w3_def
        demo_calls)
  have w3: "data_of w3 demo_config_key = config_bytes demo_runtime demo_config"
    "owner_of w3 demo_config_key = registry_program_id" "lamports_of w3 demo_config_key = 5000"
    "data_of w3 ?ik = replicate identity_len 0" "lamports_of w3 demo_admin = 5000"
    "lamports_of w3 demo_treasury_key = 5000"
    using demo_mint_keys demo_data(2) demo_owner(2) demo_lamports
    by (auto simp: w3_def w1_def data_of_def owner_of_def lamports_of_def)
  then have "load_typed demo_runtime registry_program_id (try_config demo_runtime) demo_config_key w3 =
      Inr demo_config"
    by (simp add: load_typed_Inr typed_bytes)
  from registry_config_reads [OF this] have config: "read_receipt_config demo_config_key w3 =
      Inr (ProjectionPolicy 2 1, 10, demo_keys)"
    by (simp add: demo_config_def demo_keys_def)
  obtain w4 where fee: "pay_fee demo_runtime demo_admin demo_treasury_key 10 w3 = Inr w4"
    using w3(5,6) demo_mint_keys
    by (auto simp: pay_fee_def transfer_def invoke_def demo_runtime_def lamports_of_def)
  have "data_of w4 ?ik = replicate identity_len 0"
    using pay_fee_effect(1) [OF demo_transfer_law fee] w3(4) by simp
  then have "\<exists>w'. exit_typed (identity_bytes demo_runtime x) ?ik
      (emit_receipt_session k q v session (emit e w4)) = Inr w'" for x k q v session e
    by (simp add: exit_typed_Inr length_identity_bytes)
  then obtain w' where exit: "exit_typed (identity_bytes demo_runtime (minted_identity demo_runtime ?b
      1700700300 demo_admin ?mint (demo_commitment 4) 2)) ?ik
      (emit_receipt_session demo_admin Mint 2 None
        (emit (AnchorMinted demo_admin ?mint (demo_commitment 4)) w4)) = Inr w'"
    by blast
  have seeds: "pda_key demo_runtime (identity_seeds demo_admin) (demo_key 101) = ?ik"
    "pda_key demo_runtime protocol_config_seeds registry_program_id = demo_config_key"
    by (simp_all add: pda_key_def demo_runtime_def demo_new_identity_key_def demo_pda_def
        demo_config_key_def)
  have tokens: "token_context demo_runtime ?b demo_mint_tx demo_token r = r" for r :: "fault + world"
    by (simp add: token_context_def mut_account_def with_seeds_def demo_mint_tx_def demo_tx_def
        demo_token_def demo_build_def)
      (simp add: demo_runtime_def pda_key_def demo_pda_def)
  have treasury: "config_treasury_context demo_runtime demo_mint_tx demo_config_key demo_treasury_key r = r"
    for r :: "fault + world"
    using demo_treasury_pda
    by (simp add: config_treasury_context_def mut_account_def with_seeds_def seeds demo_mint_tx_def
        demo_tx_def)
  have plain: "ta_user demo_token = demo_admin" "anchor_id ?b = demo_key 101"
    "request_bound_v1 ?b = False" "clock demo_mint_tx = 1700700300"
    "is_signer demo_mint_tx k" "is_writable demo_mint_tx k" for k
    by (simp_all add: demo_token_def demo_build_def demo_mint_tx_def demo_tx_def)
  have "demo_commitment 4 \<noteq> 0" by code_simp
  then have "mint_anchor demo_runtime ?b demo_mint_tx demo_token ?ik demo_config_key demo_treasury_key []
      (demo_commitment 4) demo_world = Inr w'"
    unfolding mint_anchor_def finish_mint_minted Let_def
    using init token config demo_mint_receipt fee exit
    by (simp add: plain mut_signer_def with_seeds_def seeds tokens treasury)
  then show ?thesis by blast
qed

theorem mint_effect_witness:
  "\<exists>w' i signer. mint_anchor demo_runtime (demo_build False) demo_mint_tx demo_token
       demo_new_identity_key demo_config_key demo_treasury_key [] (demo_commitment 4) demo_world = Inr w' \<and>
     data_of w' demo_new_identity_key = identity_bytes demo_runtime i \<and> id_owner i = demo_admin \<and>
     id_current_commitment i = demo_commitment 4 \<and>
     TokenProgram (demo_key 201) (MintTo (ta_mint demo_token) (demo_key 77)
       (ta_mint_authority demo_token) 1) signer \<in> set (cpis w')"
proof -
  from demo_mint_runs obtain w' where run: "mint_anchor demo_runtime (demo_build False) demo_mint_tx
      demo_token demo_new_identity_key demo_config_key demo_treasury_key [] (demo_commitment 4)
      demo_world = Inr w'" by blast
  have accounts: "ta_user demo_token = demo_admin" "ta_token_program demo_token = demo_key 201"
    "ta_token_account demo_token = demo_key 77" by (simp_all add: demo_token_def)
  from mint_effect [OF demo_deployment readyD(2) [OF demo_ready] run] run show ?thesis
    unfolding Let_def accounts by fastforce
qed

end
