(* ===== verification/Update_Decision.thy ===== *)
theory Update_Decision
  imports Update_Correct
begin

text \<open>
  The legacy update as a decision: on well-formed accounts the outcome is determined by a
  list of checks on the typed identity, configuration and verification result, the first
  failing one naming the error; an update that passes them goes through.
\<close>

section \<open>The first failing check\<close>

fun first_failing :: "(bool \<times> 'e) list \<Rightarrow> 'e option" where
  "first_failing [] = None"
| "first_failing ((ok, e) # checks) = (if ok then first_failing checks else Some e)"

definition checked :: "(bool \<times> entros_anchor_error) list \<Rightarrow> fault + 'a \<Rightarrow> fault + 'a" where
  "checked checks r = (case first_failing checks of Some e \<Rightarrow> Inl (AnchorErr e) | None \<Rightarrow> r)"

lemma checked_Nil: "checked [] r = r"
  by (simp add: checked_def)

lemma checked_Cons: "checked ((ok, e) # checks) r = require ok (AnchorErr e) (checked checks r)"
  by (simp add: checked_def require_def)

lemma checked_append: "checked xs (checked ys r) = checked (xs @ ys) r"
  by (induction xs) (auto simp: checked_Nil checked_Cons)

lemma checked_and_then: "and_then (checked xs r) f = checked xs (and_then r f)"
  by (auto simp: checked_def and_then_def split: option.splits)

lemma checked_fails: "first_failing xs = Some e \<Longrightarrow> checked xs r = Inl (AnchorErr e)"
  by (simp add: checked_def)

lemma checked_passes: "first_failing xs = None \<Longrightarrow> checked xs r = r"
  by (simp add: checked_def)

lemma first_failing_None: "first_failing xs = None \<longleftrightarrow> (\<forall>(ok, e) \<in> set xs. ok)"
  by (induction xs rule: first_failing.induct) (auto split: if_splits)

text \<open>The checks of a legacy update before the receipt, in the order in which they are made.\<close>

definition update_checks ::
  "protocol_config \<Rightarrow> i64 \<Rightarrow> pubkey \<Rightarrow> identity_state \<Rightarrow> verification_result \<Rightarrow> bytes32 \<Rightarrow>
   (bool \<times> entros_anchor_error) list" where
  "update_checks c now wallet i r new =
     [(new \<noteq> 0, InvalidCommitment),
      (pc_minimum_supported_projection_version c \<le> pc_current_projection_version c,
        entros_anchor_error.InvalidProtocolConfig),
      (pc_minimum_supported_projection_version c \<le> id_projection_version i, ProjectionVersionTooOld),
      (id_projection_version i \<le> pc_current_projection_version c, ProjectionVersionTooNew),
      (vr_verifier r = wallet, VerifierMismatch),
      (vr_challenge_nonce r \<noteq> 0, InvalidVerificationResultPda),
      (sint (vr_verified_at r) \<le> sint now, ProofFromFuture),
      (sint now - sint (vr_verified_at r) \<le> 600, ProofExpired),
      (vr_commitment_new r \<noteq> 0, InvalidCommitment),
      (vr_commitment_new r = new, CommitmentMismatch),
      (vr_commitment_prev r = id_current_commitment i, PrevCommitmentMismatch),
      (vr_commitment_new r \<noteq> vr_commitment_prev r, CommitmentUnchanged)]"

definition config_keys :: "protocol_config \<Rightarrow> validator_key_policy" where
  "config_keys c = \<lparr>vk_primary = pc_validator_pubkey c,
     vk_secondary = pc_secondary_validator_pubkey c,
     vk_secondary_valid_until = pc_secondary_validator_valid_until c\<rparr>"

text \<open>
  Well-formed accounts: the instruction's context is satisfied, the identity is the
  wallet's, the configuration is the registry's, the result is the verifier's and lies at
  the address derived from its own nonce.
\<close>

definition update_inputs ::
  "runtime \<Rightarrow> build \<Rightarrow> tx \<Rightarrow> update_accounts \<Rightarrow> world \<Rightarrow> identity_state \<Rightarrow> protocol_config \<Rightarrow>
   verification_result \<Rightarrow> bool" where
  "update_inputs rt b t ua w i c r \<longleftrightarrow> \<not> request_bound_v1 b \<and>
     update_context rt b t ua (Inr ()) = Inr () \<and>
     owner_of w (ua_identity ua) = anchor_id b \<and>
     try_identity rt (data_of w (ua_identity ua)) = Inr i \<and> id_owner i = ua_authority ua \<and>
     load_typed rt registry_program_id (try_config rt) (ua_protocol_config ua) w = Inr c \<and>
     owner_of w (ua_verification_result ua) = verifier_id b \<and>
     try_verification_result rt (data_of w (ua_verification_result ua)) = Inr r \<and>
     verification_result_disc rt = VERIFICATION_RESULT_DISCRIMINATOR \<and>
     create_program_address rt (verification_seeds (ua_authority ua) (vr_challenge_nonce r) @
       [[vr_bump r]]) (verifier_id b) = Some (ua_verification_result ua)"

lemma update_inputsD:
  assumes "update_inputs rt b t ua w i c r"
  shows "\<not> request_bound_v1 b" "update_context rt b t ua (Inr ()) = Inr ()"
    and "owner_of w (ua_identity ua) = anchor_id b"
    and "try_identity rt (data_of w (ua_identity ua)) = Inr i" "id_owner i = ua_authority ua"
    and "load_typed rt registry_program_id (try_config rt) (ua_protocol_config ua) w = Inr c"
    and "owner_of w (ua_verification_result ua) = verifier_id b"
    and "try_verification_result rt (data_of w (ua_verification_result ua)) = Inr r"
    and "verification_result_disc rt = VERIFICATION_RESULT_DISCRIMINATOR"
    and "create_program_address rt (verification_seeds (ua_authority ua) (vr_challenge_nonce r) @
       [[vr_bump r]]) (verifier_id b) = Some (ua_verification_result ua)"
  using assms by (auto simp: update_inputs_def)

text \<open>The context passes or fails whatever follows it.\<close>

lemma update_context_pass:
  assumes "update_context rt b t ua (Inr ()) = Inr ()"
  shows "update_context rt b t ua r = r"
proof -
  note c = assms [unfolded update_context_Inr]
  show ?thesis
    using c by (simp add: update_context_def mut_signer_def mut_account_def with_seeds_def require_def)
qed

text \<open>Reading the result, as checks on its fields.\<close>

lemma legacy_result_checks:
  assumes "update_inputs rt b t ua w i c r"
  shows "read_legacy_result rt b (clock t) (ua_authority ua) (ua_verification_result ua) w =
    checked [(vr_verifier r = ua_authority ua, VerifierMismatch),
        (vr_challenge_nonce r \<noteq> 0, InvalidVerificationResultPda),
        (sint (vr_verified_at r) \<le> sint (clock t), ProofFromFuture),
        (sint (clock t) - sint (vr_verified_at r) \<le> 600, ProofExpired)]
      (Inr (vr_commitment_new r, vr_commitment_prev r))"
proof -
  note d = update_inputsD [OF assms]
  have age: "sint (saturating_sub_i64 (clock t) (vr_verified_at r)) \<le> 600 \<longleftrightarrow>
      sint (clock t) - sint (vr_verified_at r) \<le> 600"
    by (auto simp: sint_saturating_sub_i64 i64_min_def i64_max_def)
  have pda: "create_program_address rt [ascii ''verification'', elems (ua_authority ua),
      elems (vr_challenge_nonce r), [vr_bump r]] (verifier_id b) = Some (ua_verification_result ua)"
    using d(10) by (simp add: verification_seeds_def)
  show ?thesis
    using verification_result_raw [OF d(8)] d(1,7,9)
      nth_of_slice [of 113 "data_of w (ua_verification_result ua)" "vr_bump r"] pda
    by (simp add: read_legacy_result_def vr_consts Let_def u64_le.dec_enc checked_Cons checked_Nil
        age require_def)
qed

definition config_terms :: "protocol_config \<Rightarrow> update_config" where
  "config_terms c = \<lparr>uc_policy = ProjectionPolicy (pc_current_projection_version c)
       (pc_minimum_supported_projection_version c),
     uc_max_trust_score = pc_max_trust_score c,
     uc_base_trust_increment = pc_base_trust_increment c,
     uc_verification_fee = pc_verification_fee c, uc_keys = config_keys c\<rparr>"

lemma config_checks:
  assumes "update_inputs rt b t ua w i c r"
  shows "read_update_config (ua_protocol_config ua) version w =
    checked [(pc_minimum_supported_projection_version c \<le> pc_current_projection_version c,
          entros_anchor_error.InvalidProtocolConfig),
        (pc_minimum_supported_projection_version c \<le> version, ProjectionVersionTooOld),
        (version \<le> pc_current_projection_version c, ProjectionVersionTooNew)]
      (Inr (config_terms c))"
  using registry_config_reads [OF update_inputsD(6) [OF assms], of version]
  by (auto simp: checked_Cons checked_Nil require_def config_terms_def config_keys_def not_le
      split: if_splits)

lemma commitment_checks:
  "check_commitments new prev (Some e) i =
     checked [(new \<noteq> 0, InvalidCommitment), (new = e, CommitmentMismatch),
       (prev = id_current_commitment i, PrevCommitmentMismatch), (new \<noteq> prev, CommitmentUnchanged)]
      (Inr ())"
  by (simp add: check_commitments_def checked_Cons checked_Nil)

text \<open>What follows the receipt.\<close>

definition settle_update ::
  "runtime \<Rightarrow> build \<Rightarrow> tx \<Rightarrow> update_accounts \<Rightarrow> update_config \<Rightarrow> identity_state \<Rightarrow> bytes32 \<Rightarrow>
   receipt_session option \<Rightarrow> world \<Rightarrow> fault + world" where
  "settle_update rt b t ua cfg i new session w =
     and_then (close_verification_result_cpi rt b t (ua_verifier_program ua) (ua_authority ua)
         (ua_verification_result ua) None w) (\<lambda>w.
     and_then (updated_identity cfg (clock t) new i) (\<lambda>i.
     and_then (save_identity rt (ua_identity ua) i w) (\<lambda>w.
     and_then (pay_fee rt (ua_authority ua) (ua_treasury ua) (uc_verification_fee cfg) w) (\<lambda>w.
     Inr (emit_receipt_session (id_owner i) Update (id_projection_version i) session
       (emit (AnchorUpdated (id_owner i) (id_verification_count i) (id_trust_score i) new) w))))))"

lemma update_as_checks:
  assumes inputs: "update_inputs rt b t ua w i c r"
  shows "update_anchor rt b t ua new receipt w =
    checked (update_checks c (clock t) (ua_authority ua) i r new)
      (and_then (verify_update_receipt_digest rt t (config_keys c) (ua_authority ua)
          (vr_commitment_new r) (id_projection_version i) receipt (clock t)) (\<lambda>session.
       require (sint (id_last_verification_timestamp i) \<le> sint (ur_validated_at receipt))
         (AnchorErr ReceiptAlreadyUsed)
        (settle_update rt b t ua (config_terms c) i (vr_commitment_new r) session w)))"
proof -
  note d = update_inputsD [OF inputs]
  have grow: "grow_identity rt (ua_identity ua) (ua_authority ua) w = Inr w"
    using identity.deserialize_sound(1) [OF d(4) [unfolded try_identity_def]]
    by (simp add: grow_identity_def identity_len_widths)
  have load: "load_identity rt (ua_identity ua) (ua_authority ua) w = Inr i"
    using d(4,5) by (simp add: load_identity_Inr)
  have keys: "uc_keys (config_terms c) = config_keys c" by (simp add: config_terms_def)
  show ?thesis
  proof (cases "new = 0")
    case True
    then show ?thesis
      by (simp add: update_anchor_def update_context_pass [OF d(2)] update_checks_def checked_Cons
          require_def)
  next
    case False
    have "process_anchor_update rt b t ua receipt (Some new) None w =
      checked (tl (update_checks c (clock t) (ua_authority ua) i r new))
        (and_then (verify_update_receipt_digest rt t (config_keys c) (ua_authority ua)
            (vr_commitment_new r) (id_projection_version i) receipt (clock t)) (\<lambda>session.
         require (sint (id_last_verification_timestamp i) \<le> sint (ur_validated_at receipt))
           (AnchorErr ReceiptAlreadyUsed)
          (settle_update rt b t ua (config_terms c) i (vr_commitment_new r) session w)))"
      using False d(1,3)
      by (simp add: process_anchor_update_def Let_def grow load config_checks [OF inputs]
          consume_result_def legacy_result_checks [OF inputs] commitment_checks checked_and_then
          checked_append update_checks_def keys settle_update_def)
    then show ?thesis
      using False by (simp add: update_anchor_def update_context_pass [OF d(2)] update_checks_def
          checked_Cons)
  qed
qed

text \<open>
  C10: why an update is refused. On well-formed accounts a legacy update returns the error
  of the first of its twelve checks that fails (the stated commitment, the projection
  window, the wallet, nonce and age of the result, the commitments); if all hold, the
  error of the receipt verification; and if that accepts, \<open>ReceiptAlreadyUsed\<close> for a receipt
  older than the last update.
\<close>

theorem update_refused:
  assumes "update_inputs rt b t ua w i c r"
  shows "case first_failing (update_checks c (clock t) (ua_authority ua) i r new) of
      Some e \<Rightarrow> update_anchor rt b t ua new receipt w = Inl (AnchorErr e)
    | None \<Rightarrow> (case verify_update_receipt_digest rt t (config_keys c) (ua_authority ua) new
          (id_projection_version i) receipt (clock t) of
        Inl e \<Rightarrow> update_anchor rt b t ua new receipt w = Inl e
      | Inr session \<Rightarrow> sint (ur_validated_at receipt) < sint (id_last_verification_timestamp i) \<longrightarrow>
          update_anchor rt b t ua new receipt w = Inl (AnchorErr ReceiptAlreadyUsed))"
proof (cases "first_failing (update_checks c (clock t) (ua_authority ua) i r new)")
  case None
  then have "vr_commitment_new r = new" by (simp add: update_checks_def split: if_splits)
  then show ?thesis
    using update_as_checks [OF assms, of new receipt] None
    by (cases "verify_update_receipt_digest rt t (config_keys c) (ua_authority ua) new
      (id_projection_version i) receipt (clock t)") (simp_all add: checked_passes require_def)
next
  case (Some e)
  then show ?thesis using update_as_checks [OF assms, of new receipt] by (simp add: checked_fails)
qed

section \<open>Updates go through\<close>

lemma settles:
  assumes deployed: "deployment_law rt b" and inputs: "update_inputs rt b t ua w i c r"
    and owner: "vr_verifier r = ua_authority ua"
    and discs: "instruction_disc rt ''global:close_verification_result'' \<noteq>
      instruction_disc rt ''global:close_bound_verification_result''"
    and closes: "close_account rt (ua_verification_result ua) (ua_authority ua) (accs w) = Inr A"
    and pays: "\<And>v. lamports_of v = lamports_of (w\<lparr>accs := A\<rparr>) \<Longrightarrow>
      \<exists>v'. pay_fee rt (ua_authority ua) (ua_treasury ua) (pc_verification_fee c) v = Inr v'"
    and count: "uint (id_verification_count i) + 1 < 2 ^ 32"
    and age: "i64_min \<le> sint (clock t) - sint (id_creation_timestamp i)"
      "sint (clock t) - sint (id_creation_timestamp i) \<le> i64_max"
  shows "\<exists>w'. settle_update rt b t ua (config_terms c) i new session w = Inr w'"
proof -
  note d = update_inputsD [OF inputs] and laws = deployment_laws [OF deployed]
  note ctx = d(2) [unfolded update_context_Inr]
  let ?ik = "ua_identity ua" and ?rk = "ua_verification_result ua" and ?w1 = "w\<lparr>accs := A\<rparr>"
  have apart: "?ik \<noteq> ?rk" using d(3,7) laws(9) by auto
  have "load_typed rt (verifier_id b) (try_verification_result rt) ?rk w = Inr r"
    using d(7,8) laws(13) by (simp add: load_typed_Inr)
  then have close: "close_verification_result rt b t (ua_authority ua) ?rk w = Inr ?w1"
    using ctx owner closes by (simp add: close_verification_result_def mut_signer_def mut_account_def
        require_def close_typed_def)
  have shut: "close_verification_result_cpi rt b t (ua_verifier_program ua) (ua_authority ua) ?rk None w =
      Inr ?w1"
    using ctx discs close
    by (simp add: close_verification_result_cpi_def verifier_close_entry_def close_instruction_data_def)
  have "close_typed rt ?rk (ua_authority ua) w = Inr ?w1" using closes by (simp add: close_typed_def)
  from close_effect(1) [OF laws(4) this] apart
  have data: "data_of ?w1 ?ik = data_of w ?ik" by simp
  obtain i' where upd: "updated_identity (config_terms c) (clock t) new i = Inr i'"
    using count age by (simp add: updated_identity_def checked_add_def anchor_score_points Let_def)
  let ?w2 = "set_data ?ik (store (identity_bytes rt i') (data_of ?w1 ?ik)) ?w1"
  have "identity_len \<le> length (data_of ?w1 ?ik)"
    using identity.deserialize_sound(1) [OF d(4) [unfolded try_identity_def]]
    by (simp add: data identity_len_widths)
  then have save: "save_identity rt ?ik i' ?w1 = Inr ?w2" by (simp add: save_identity_def)
  have "lamports_of ?w2 = lamports_of ?w1" by (simp add: fun_eq_iff)
  from pays [OF this] obtain w3 where
    "pay_fee rt (ua_authority ua) (ua_treasury ua) (uc_verification_fee (config_terms c)) ?w2 = Inr w3"
    by (auto simp: config_terms_def)
  then show ?thesis by (simp add: settle_update_def shut upd save)
qed


section \<open>The example\<close>

lemma demo_inputs_hold:
  "update_inputs demo_runtime (demo_build False) demo_update_tx demo_update_accounts demo_world
     demo_identity demo_config demo_result"
proof -
  have "update_context demo_runtime (demo_build False) demo_update_tx demo_update_accounts (Inr ()) =
      Inr ()"
    by (rule demo_context) (simp_all add: demo_update_accounts_def)
  moreover have "create_program_address demo_runtime (verification_seeds demo_wallet demo_nonce @ [[255]])
      (demo_key 102) = Some demo_result_key"
    by (simp add: demo_runtime_def demo_create_def demo_result_key_def demo_find_def)
  ultimately show ?thesis
    using demo_config_loaded demo_disc
    by (simp add: update_inputs_def demo_data demo_owner typed_bytes)
      (simp add: demo_update_accounts_def demo_build_def demo_owner demo_data typed_bytes
        demo_identity_def demo_result_def)
qed

lemma demo_update_values:
  "clock demo_update_tx = 1700700100" "ua_authority demo_update_accounts = demo_wallet"
  "ua_treasury demo_update_accounts = demo_treasury_key"
  "ua_verification_result demo_update_accounts = demo_result_key"
  by (simp_all add: demo_update_tx_eq demo_tx_def demo_update_accounts_def)

lemma demo_config_keys: "config_keys demo_config = demo_keys"
  by (simp add: config_keys_def demo_config_def demo_keys_def)

lemma demo_other_commitment: "demo_commitment 3 \<noteq> 0" "demo_commitment 2 \<noteq> demo_commitment 3"
  by code_simp+

theorem update_refused_witness:
  "update_anchor demo_runtime (demo_build False) demo_update_tx demo_update_accounts
     (demo_commitment 3) demo_receipt demo_world = Inl (AnchorErr CommitmentMismatch)"
proof -
  have "first_failing (update_checks demo_config (clock demo_update_tx)
      (ua_authority demo_update_accounts) demo_identity demo_result (demo_commitment 3)) =
      Some CommitmentMismatch"
    using demo_other_commitment demo_nonzero
    by (simp add: update_checks_def demo_update_values demo_result_def demo_identity_def demo_config_def)
  with update_refused [OF demo_inputs_hold, of "demo_commitment 3" demo_receipt] show ?thesis by simp
qed


end
