(* ===== verification/Build_Config.thy ===== *)
theory Build_Config
  imports Prelude
begin

text \<open>
  The build script of the shared crate (crates/proof-request/build.rs): which program
  addresses a build declares. Base58 (crate \<open>bs58\<close>), reading the file and parsing its
  JSON are parameters; the checks on the result are the script's.
\<close>

definition ANCHOR :: string where
  "ANCHOR = ''GZYwTp2ozeuRA5Gof9vs4ya961aANcJBdUzB7LN6q4b2''"

definition VERIFIER :: string where
  "VERIFIER = ''4F97jNoxQzT2qRbkWpW3ztC3Nz2TtKj3rnKG8ExgnrfV''"

definition REGISTRY :: string where
  "REGISTRY = ''6VBs3zr9KrfFPGd6j7aGBPQWwZa5tajVfA7HN6MMV9VW''"

record isolated_programs =
  schema_version :: byte
  cluster :: string
  consumer_program :: string
  verifier_program :: string
  registry_program :: string

record build_env =
  isolated_program_ids :: "string option"
  feature_request_bound_v1 :: bool
  is_absolute :: "string \<Rightarrow> bool"
  read_programs :: "string \<Rightarrow> isolated_programs option"
  base58_decode :: "string \<Rightarrow> byte list option"
  base58_encode :: "byte list \<Rightarrow> string"

datatype build_error =
    NotBase58 | NotCanonicalAddress | ReservedAddress | FeatureRequired | PathNotAbsolute
  | UnreadableConfig | WrongSchemaOrCluster | RegistryChanged | SameAddresses

definition reserved_addresses :: "string list" where
  "reserved_addresses =
     [ANCHOR, VERIFIER, REGISTRY,
      ''11111111111111111111111111111111'',
      ''BPFLoaderUpgradeab1e11111111111111111111111'',
      ''BPFLoader2111111111111111111111111111111111'',
      ''BPFLoader1111111111111111111111111111111111'',
      ''LoaderV411111111111111111111111111111111111'',
      ''TokenkegQfeZyiNwAJbNbGKPFXCWuBvf9Ss623VQ5DA'',
      ''TokenzQdBNbLqP5VEhdkAS6EPFLC1PHnBqCXEpPxuEb'',
      ''ATokenGPvbdGVxr1b2hvZbsiqW5xWH25efTNsLJA8knL'',
      ''ComputeBudget111111111111111111111111111111'',
      ''Ed25519SigVerify111111111111111111111111111'']"

definition validate_address :: "build_env \<Rightarrow> string \<Rightarrow> build_error + unit" where
  "validate_address env address =
     and_then (ok_or (base58_decode env address) NotBase58) (\<lambda>bytes.
     if length bytes \<noteq> 32 \<or> base58_encode env bytes \<noteq> address then Inl NotCanonicalAddress
     else if address \<in> set reserved_addresses then Inl ReservedAddress
     else Inr ())"

text \<open>The pair (anchor, verifier) that the generated \<open>program_ids.rs\<close> declares.\<close>

definition select_programs :: "build_env \<Rightarrow> build_error + (string \<times> string)" where
  "select_programs env =
     (case isolated_program_ids env of
       None \<Rightarrow> Inr (ANCHOR, VERIFIER)
     | Some path \<Rightarrow>
         if \<not> feature_request_bound_v1 env then Inl FeatureRequired
         else if \<not> is_absolute env path then Inl PathNotAbsolute
         else and_then (ok_or (read_programs env path) UnreadableConfig) (\<lambda>config.
           if schema_version config \<noteq> 1 \<or> cluster config \<noteq> ''devnet''
           then Inl WrongSchemaOrCluster
           else if registry_program config \<noteq> REGISTRY then Inl RegistryChanged
           else and_then (validate_address env (consumer_program config)) (\<lambda>_.
             and_then (validate_address env (verifier_program config)) (\<lambda>_.
             if consumer_program config = verifier_program config then Inl SameAddresses
             else Inr (consumer_program config, verifier_program config)))))"

lemma validate_address_ok:
  "validate_address env address = Inr () \<longleftrightarrow>
     (\<exists>bytes. base58_decode env address = Some bytes \<and> length bytes = 32 \<and>
        base58_encode env bytes = address) \<and> address \<notin> set reserved_addresses"
  by (auto simp: validate_address_def res_simps)

text \<open>
  C40: a build either declares the existing program pair, or an isolated pair that the
  feature \<open>request-bound-v1\<close> was enabled for: two distinct addresses, each a canonical
  base58 encoding of 32 bytes, neither one an existing protocol or runtime program.
\<close>

theorem isolated_pair_is_fresh:
  assumes "select_programs env = Inr (consumer, verifier)"
  shows "(isolated_program_ids env = None \<and> consumer = ANCHOR \<and> verifier = VERIFIER) \<or>
    (feature_request_bound_v1 env \<and> consumer \<noteq> verifier \<and>
     consumer \<notin> set reserved_addresses \<and> verifier \<notin> set reserved_addresses \<and>
     (\<forall>a \<in> {consumer, verifier}. \<exists>bytes. base58_decode env a = Some bytes \<and>
        length bytes = 32 \<and> base58_encode env bytes = a))"
  using assms
  by (auto simp: select_programs_def res_simps validate_address_ok split: option.splits)

definition demo_env :: build_env where
  "demo_env =
     \<lparr>isolated_program_ids = Some ''/programs.json'', feature_request_bound_v1 = True,
      is_absolute = (\<lambda>path. take 1 path = ''/''),
      read_programs = (\<lambda>path. Some \<lparr>schema_version = 1, cluster = ''devnet'',
        consumer_program = ''consumer'', verifier_program = ''verifier'',
        registry_program = REGISTRY\<rparr>),
      base58_decode = (\<lambda>a. if a = ''consumer'' then Some (replicate 32 1)
        else if a = ''verifier'' then Some (replicate 32 2) else None),
      base58_encode = (\<lambda>bytes. if hd bytes = 1 then ''consumer'' else ''verifier'')\<rparr>"

theorem isolated_pair_is_fresh_witness:
  "select_programs demo_env = Inr (''consumer'', ''verifier'') \<and>
     ''verifier'' \<notin> set reserved_addresses"
proof -
  have run: "select_programs demo_env = Inr (''consumer'', ''verifier'')"
    by (simp add: select_programs_def demo_env_def validate_address_def reserved_addresses_def
        ANCHOR_def VERIFIER_def REGISTRY_def)
  from isolated_pair_is_fresh [OF this] run show ?thesis by (simp add: demo_env_def)
qed

end
