(* ===== verification/Wallet_Accounts.thy ===== *)
theory Wallet_Accounts
  imports System_Correct
begin

text \<open>
  The other two accounts of a wallet beside its identity: the request counter and the
  encrypted baseline. What every instruction of the three programs does to them, and what
  follows along the runs of the system: counters only grow, so a request-bound proof is
  used once, and a baseline is what the wallet last put there.
\<close>

section \<open>Views\<close>

text \<open>The baseline that an account of entros-anchor holds.\<close>

definition baseline_of :: "runtime \<Rightarrow> build \<Rightarrow> world \<Rightarrow> pubkey \<Rightarrow> encrypted_baseline option" where
  "baseline_of rt b w k =
     (if owner_of w k = anchor_id b
      then case try_encrypted_baseline rt (data_of w k) of Inr e \<Rightarrow> Some e | Inl _ \<Rightarrow> None
      else None)"

lemma baseline_of_Some:
  "baseline_of rt b w k = Some e \<longleftrightarrow>
     owner_of w k = anchor_id b \<and> try_encrypted_baseline rt (data_of w k) = Inr e"
  by (auto simp: baseline_of_def split: sum.splits)

lemma baseline_tagged:
  "baseline_of rt b w k = Some e \<Longrightarrow> tagged (encrypted_baseline_disc rt) (data_of w k)"
  by (auto simp: baseline_of_Some try_encrypted_baseline_def dest: tagged_deserialize)

lemma no_baseline:
  "owner_of w k \<noteq> anchor_id b \<or> \<not> tagged (encrypted_baseline_disc rt) (data_of w k) \<Longrightarrow>
     baseline_of rt b w k = None"
  using baseline_tagged by (metis baseline_of_def option.exhaust)

lemma counting_tagged:
  "counting rt b wallet w \<Longrightarrow> owner_of w (counter_account rt b wallet) = anchor_id b \<and>
     tagged (request_state_disc rt) (data_of w (counter_account rt b wallet))"
  by (auto simp: counting_def read_counter_iff tagged_bytes)

lemma tagged_unique: "tagged d x \<Longrightarrow> tagged d' x \<Longrightarrow> d = d'"
  by (simp add: tagged_def)

lemma blank_untagged: "blank d \<Longrightarrow> tagged disc d \<Longrightarrow> disc = replicate 8 0"
  by (clarsimp simp: tagged_def blank_def, rule replicate_eqI) (auto dest: in_set_takeD)

lemma type_lawD:
  assumes "type_law rt"
  shows "request_state_disc rt \<noteq> encrypted_baseline_disc rt" "request_state_disc rt \<noteq> replicate 8 0"
    "encrypted_baseline_disc rt \<noteq> replicate 8 0" "identity_disc rt \<noteq> request_state_disc rt"
    "identity_disc rt \<noteq> encrypted_baseline_disc rt"
  using assms by (auto simp: type_law_def)

text \<open>An account of entros-anchor that is neither a counter nor a baseline.\<close>

definition plain :: "runtime \<Rightarrow> build \<Rightarrow> world \<Rightarrow> pubkey \<Rightarrow> bool" where
  "plain rt b w k \<longleftrightarrow> owner_of w k = anchor_id b \<and>
     \<not> tagged (request_state_disc rt) (data_of w k) \<and>
     \<not> tagged (encrypted_baseline_disc rt) (data_of w k)"

lemma plain_blank:
  "type_law rt \<Longrightarrow> owner_of w k = anchor_id b \<Longrightarrow> blank (data_of w k) \<Longrightarrow> plain rt b w k"
  using blank_untagged type_lawD by (metis plain_def)

lemma plain_identity:
  "type_law rt \<Longrightarrow> identity_of rt b w k = Some i \<Longrightarrow> plain rt b w k"
  using tagged_no_identity type_lawD(4,5) by (metis identity_of_Some option.distinct(1) plain_def)

section \<open>Steps that concern neither\<close>

text \<open>
  What a stretch of execution may do short of setting a baseline: counters stay counters
  and do not fall, baselines stay as they are.
\<close>

definition counters_grow :: "runtime \<Rightarrow> build \<Rightarrow> world \<Rightarrow> world \<Rightarrow> bool" where
  "counters_grow rt b w w' \<longleftrightarrow> (\<forall>wallet. counting rt b wallet w \<longrightarrow>
     counting rt b wallet w' \<and> count_of rt b wallet w \<le> count_of rt b wallet w')"

definition tame :: "runtime \<Rightarrow> build \<Rightarrow> world \<Rightarrow> world \<Rightarrow> bool" where
  "tame rt b w w' \<longleftrightarrow> counters_grow rt b w w' \<and>
     (\<forall>k. baseline_of rt b w' k = baseline_of rt b w k)"

text \<open>Besides, accounts that are neither stay so.\<close>

definition steady :: "runtime \<Rightarrow> build \<Rightarrow> world \<Rightarrow> world \<Rightarrow> bool" where
  "steady rt b w w' \<longleftrightarrow> tame rt b w w' \<and> (\<forall>k. plain rt b w k \<longrightarrow> plain rt b w' k)"

lemma counters_grow_trans:
  "counters_grow rt b w w1 \<Longrightarrow> counters_grow rt b w1 w2 \<Longrightarrow> counters_grow rt b w w2"
  unfolding counters_grow_def by (meson order_trans)

lemma tame_trans: "tame rt b w w1 \<Longrightarrow> tame rt b w1 w2 \<Longrightarrow> tame rt b w w2"
  unfolding tame_def using counters_grow_trans by metis

lemma steady_trans: "steady rt b w w1 \<Longrightarrow> steady rt b w1 w2 \<Longrightarrow> steady rt b w w2"
  unfolding steady_def using tame_trans by blast

lemma steadyD:
  assumes "steady rt b w w'"
  shows "tame rt b w w'" "plain rt b w k \<Longrightarrow> plain rt b w' k"
  using assms by (simp_all add: steady_def)

lemma counter_same:
  assumes "counting rt b wallet w" "data_of w' (counter_account rt b wallet) = data_of w (counter_account rt b wallet)"
    and "owner_of w' (counter_account rt b wallet) = owner_of w (counter_account rt b wallet)"
  shows "counting rt b wallet w' \<and> count_of rt b wallet w \<le> count_of rt b wallet w'"
  using assms by (simp add: counting_def count_of_def)

lemma counter_kept:
  assumes "counting rt b wallet w" "kept (anchor_id b) (counter_account rt b wallet) w w'"
  shows "counting rt b wallet w' \<and> count_of rt b wallet w \<le> count_of rt b wallet w'"
  using assms(2) counting_tagged [OF assms(1)] by (intro counter_same [OF assms(1)]) (auto simp: kept_def)

lemma baseline_kept:
  assumes "type_law rt" "kept (anchor_id b) k w w'"
  shows "baseline_of rt b w' k = baseline_of rt b w k"
proof (cases "owner_of w k = anchor_id b")
  case True
  with assms(2) show ?thesis by (simp add: kept_def baseline_of_def)
next
  case False
  then have "baseline_of rt b w k = None" by (simp add: no_baseline)
  moreover have "baseline_of rt b w' k = None"
    using assms(2) False blank_untagged type_lawD(3) [OF assms(1)]
    by (intro no_baseline) (auto simp: kept_def)
  ultimately show ?thesis by simp
qed

lemma plain_kept: "plain rt b w k \<Longrightarrow> kept (anchor_id b) k w w' \<Longrightarrow> plain rt b w' k"
  by (simp add: plain_def kept_def)

text \<open>Nothing of entros-anchor is touched but one account, which is neither before nor after.\<close>

lemma steady_write:
  assumes "type_law rt" "\<And>k. k \<noteq> j \<Longrightarrow> kept (anchor_id b) k w w'"
    and "plain rt b w j" "plain rt b w' j"
  shows "steady rt b w w'"
proof -
  have "counter_account rt b wallet \<noteq> j" if "counting rt b wallet w" for wallet
    using counting_tagged [OF that] assms(3) by (auto simp: plain_def)
  then have "counters_grow rt b w w'"
    unfolding counters_grow_def using counter_kept assms(2) by blast
  moreover have "baseline_of rt b w' k = baseline_of rt b w k" for k
  proof (cases "k = j")
    case True
    then show ?thesis using assms(3,4) no_baseline by (metis plain_def)
  next
    case False
    then show ?thesis by (intro baseline_kept assms)
  qed
  moreover have "plain rt b w k \<Longrightarrow> plain rt b w' k" for k
    using plain_kept assms(2,4) by (cases "k = j") auto
  ultimately show ?thesis by (simp add: steady_def tame_def)
qed

lemma steady_kept:
  assumes "type_law rt" "\<And>k. kept (anchor_id b) k w w'"
  shows "steady rt b w w'"
  using counter_kept baseline_kept [OF assms(1)] plain_kept assms(2)
  unfolding steady_def tame_def counters_grow_def by blast

text \<open>An account that was neither is closed.\<close>

lemma tame_close:
  assumes "type_law rt" "\<And>k. k \<noteq> j \<Longrightarrow> kept (anchor_id b) k w w'"
    and "plain rt b w j" "owner_of w' j \<noteq> anchor_id b"
  shows "tame rt b w w'"
proof -
  have "counter_account rt b wallet \<noteq> j" if "counting rt b wallet w" for wallet
    using counting_tagged [OF that] assms(3) by (auto simp: plain_def)
  then have "counters_grow rt b w w'"
    unfolding counters_grow_def using counter_kept assms(2) by blast
  moreover have "baseline_of rt b w' k = baseline_of rt b w k" for k
  proof (cases "k = j")
    case True
    have "baseline_of rt b w j = None" "baseline_of rt b w' j = None"
      using assms(3,4) by (simp_all add: no_baseline plain_def)
    then show ?thesis using True by simp
  next
    case False
    then show ?thesis by (intro baseline_kept assms)
  qed
  ultimately show ?thesis by (simp add: tame_def)
qed

section \<open>Steps of the counters\<close>

text \<open>
  A counter account is created or written: its own wallet's count does not fall, and as it
  bears the tag of a counter, no other account is concerned.
\<close>

lemma steady_counter:
  assumes "type_law rt" "deployment_law rt b" "tagged_write rt b (request_state_disc rt) j w w'"
    and "\<And>wallet. counting rt b wallet w \<Longrightarrow> counter_account rt b wallet = j \<Longrightarrow>
      counting rt b wallet w' \<and> count_of rt b wallet w \<le> count_of rt b wallet w'"
  shows "steady rt b w w'"
proof -
  note laws = deployment_laws [OF assms(2)] and types = type_lawD [OF assms(1)]
  have others: "kept (anchor_id b) k w w'" if "k \<noteq> j" for k
    using assms(3) laws(6,12) that by (simp add: tagged_write_def writes_only_def)
  have after: "tagged (request_state_disc rt) (data_of w' j)"
    and before: "owner_of w j = anchor_id b \<Longrightarrow> tagged (request_state_disc rt) (data_of w j)"
    using assms(3) laws(12) by (auto simp: tagged_write_def)
  have "counters_grow rt b w w'"
    unfolding counters_grow_def using assms(4) counter_kept others by blast
  moreover have "baseline_of rt b w' k = baseline_of rt b w k" for k
  proof (cases "k = j")
    case True
    have "baseline_of rt b w' j = None"
      using after types(1) by (intro no_baseline) (auto dest: tagged_unique)
    moreover have "baseline_of rt b w j = None"
      using before types(1) by (intro no_baseline) (auto dest: tagged_unique)
    ultimately show ?thesis using True by simp
  next
    case False
    then show ?thesis by (intro baseline_kept assms others)
  qed
  moreover have "plain rt b w' k" if "plain rt b w k" for k
  proof -
    have "k \<noteq> j" using that before by (auto simp: plain_def)
    then show ?thesis using plain_kept [OF that others] by blast
  qed
  ultimately show ?thesis by (simp add: steady_def tame_def)
qed

text \<open>Whoever counts at an address is the wallet that the account names.\<close>

lemma cell_wallet:
  assumes "request_state_bytes rt (counter_cell w1 b1 n1) = request_state_bytes rt (counter_cell w2 b2 n2)"
  shows "w1 = w2"
proof -
  have "counter_cell w1 b1 n1 = counter_cell w2 b2 n2"
    using assms typed_bytes by (metis Inr_inject)
  then show ?thesis by (simp add: counter_cell_def)
qed

lemma counting_data:
  "counting rt b wallet w \<longleftrightarrow> anchor_id b \<noteq> system_program_id rt \<and>
     owner_of w (counter_account rt b wallet) = anchor_id b \<and>
     (\<exists>n. data_of w (counter_account rt b wallet) =
       request_state_bytes rt (counter_cell wallet (counter_bump rt b wallet) n))"
  by (auto simp: counting_def read_counter_iff)

lemma steady_advance:
  assumes "type_law rt" "deployment_law rt b" "advance rt b t j wallet payer w = Inr w'"
  shows "steady rt b w w'"
proof (rule steady_counter [OF assms(1,2) advance_write(1) [OF assms(2,3)]])
  fix other
  assume other: "counting rt b other w" "counter_account rt b other = j"
  have "owner_of w j = anchor_id b" "anchor_id b \<noteq> system_program_id rt"
    using other by (auto simp: counting_def)
  with assms(3) obtain n where
    "advance_counter rt j wallet (counter_bump rt b wallet) w = Inr (n, w')"
    unfolding advance_def Let_def counter_bump_def
    by (auto simp: require_Inr and_then_Inr split: prod.splits)
  then obtain c where "data_of w j = request_state_bytes rt (counter_cell wallet (counter_bump rt b wallet) c)"
    by (auto simp: advance_counter_cell read_counter_iff split: option.splits)
  with other have "other = wallet" by (auto simp: counting_data dest: cell_wallet)
  with other advance_counts [of rt b wallet w] assms(3)
  show "counting rt b other w' \<and> count_of rt b other w \<le> count_of rt b other w'" by fastforce
qed

lemma steady_prepare:
  assumes "type_law rt" "deployment_law rt b" "prepare rt b t wallet j w = Inr w'"
  shows "steady rt b w w'"
proof (rule steady_counter [OF assms(1,2) prepare_write [OF assms(2,3)]])
  fix other
  assume other: "counting rt b other w" "counter_account rt b other = j"
  have owner: "owner_of w j = anchor_id b" "anchor_id b \<noteq> system_program_id rt"
    using other by (auto simp: counting_def)
  obtain n where d: "data_of w j = request_state_bytes rt (counter_cell other (counter_bump rt b other) n)"
    using other by (auto simp: counting_data)
  have "rs_wallet (counter_cell other bump n) = other" "rs_version (counter_cell other bump n) = 1" for bump
    by (simp_all add: counter_cell_def GENERATION_def)
  then have "other = wallet"
    using assms(3) owner
    by (auto simp: prepare_def request_state_account_def res_simps d typed_bytes split: if_splits)
  with prepare_counts [of rt b wallet w] other assms(3)
  show "counting rt b other w' \<and> count_of rt b other w \<le> count_of rt b other w'"
    by (metis counter_same)
qed

section \<open>The instructions of entros-anchor\<close>

lemma steady_refl: "type_law rt \<Longrightarrow> steady rt b w w"
  by (simp add: steady_kept kept_refl)

text \<open>The operations of other programs, of the framework and of the runtime.\<close>

lemma steady_ops:
  assumes "type_law rt" "deployment_law rt b"
  shows "init_typed rt payer j space q w = Inr w' \<Longrightarrow> steady rt b w w'"
    and "create_identity_token rt b ta w = Inr w' \<Longrightarrow> steady rt b w w'"
    and "pay_fee rt payer treasury fee w = Inr w' \<Longrightarrow> steady rt b w w'"
    and "invoke rt c w = Inr w' \<Longrightarrow> steady rt b w w'"
    and "steady rt b w (emit e w)"
    and "steady rt b w (emit_receipt_session o1 q1 v1 s1 w)"
  using deployment_laws [OF assms(2)]
  by (auto intro!: steady_kept [OF assms(1)]
      intro: kept_init kept_token kept_pay_fee kept_invoke kept_emit kept_session)

lemma plain_init:
  assumes "type_law rt" "deployment_law rt b" "init_typed rt payer k n (anchor_id b) w = Inr w'"
  shows "plain rt b w' k"
  using init_effect [OF deployment_laws(3) [OF assms(2)] assms(3)] assms(1)
  by (intro plain_blank) simp_all

text \<open>An identity is replaced, or written into an account that is neither counter nor baseline.\<close>

lemma steady_identity:
  assumes "type_law rt" "deployment_law rt b" "writes_only rt b k w w'" "plain rt b w k"
    and "identity_of rt b w' k = Some i"
  shows "steady rt b w w'"
  by (rule steady_write [OF assms(1) _ assms(4) plain_identity [OF assms(1,5)]])
    (use writes_only_single [OF assms(3)] deployment_laws(6,12) [OF assms(2)] in blast)

lemma replaced_tame:
  assumes sound: "sound_call verify rt b t w"
    and first: "w1 = w \<or> (\<exists>j. advance rt b t j authority authority w = Inr w1)"
    and rep: "owner_of w1 ik = anchor_id b" "grow_identity rt ik authority w1 = Inr w2"
      "load_identity rt ik authority w2 = Inr i" "save_identity rt ik i' w2 = Inr w3"
      "pay_fee rt payer treasury fee w3 = Inr w4"
      "w' = emit_receipt_session k q v session (emit e w4)"
  shows "tame rt b w w'"
proof -
  note s = sound_callD [OF sound] and rep = replaced_identity [OF sound_callD(1) [OF sound] rep]
  have "steady rt b w w1" using first steady_advance [OF s(2,1)] steady_refl [OF s(2)] by blast
  moreover have "steady rt b w1 w'"
    by (rule steady_identity [OF s(2,1) rep(1) plain_identity [OF s(2) rep(2)] rep(3)])
  ultimately show ?thesis using steady_trans steadyD(1) by blast
qed

lemma reset_tame:
  assumes sound: "sound_call verify rt b t w"
    and run: "reset_identity_state rt b t authority ik ck treasury remaining new version w = Inr w'"
  shows "tame rt b w w'"
proof -
  from reset_inv [OF run] obtain rs w1 w2 i i' w3 fee w4 k q v session e where
    acc: "reset_accounts rt b t authority ik ck treasury remaining w = Inr (rs, w1)"
    and rep: "owner_of w1 ik = anchor_id b" "grow_identity rt ik authority w1 = Inr w2"
      "load_identity rt ik authority w2 = Inr i" "save_identity rt ik i' w2 = Inr w3"
      "pay_fee rt authority treasury fee w3 = Inr w4"
      "w' = emit_receipt_session k q v session (emit e w4)"
    by blast
  from acc have "w1 = w \<or> (\<exists>j. advance rt b t j authority authority w = Inr w1)"
    by (auto simp: reset_accounts_def mut_signer_Inr mut_account_Inr with_seeds_Inr
        config_treasury_context_Inr and_then_Inr split: if_splits)
  then show ?thesis by (rule replaced_tame [OF sound _ rep])
qed

lemma rebaseline_tame:
  assumes sound: "sound_call verify rt b t w"
    and run: "rebaseline_anchor rt b t authority ik ck treasury remaining new version w = Inr w'"
  shows "tame rt b w w'"
proof -
  from rebaseline_inv [OF run] obtain w1 w2 i i' w3 fee w4 k q v session e where
    acc: "rebaseline_accounts rt b t authority ik ck treasury remaining w = Inr w1"
    and rep: "owner_of w1 ik = anchor_id b" "grow_identity rt ik authority w1 = Inr w2"
      "load_identity rt ik authority w2 = Inr i" "save_identity rt ik i' w2 = Inr w3"
      "pay_fee rt authority treasury fee w3 = Inr w4"
      "w' = emit_receipt_session k q v session (emit e w4)"
    by blast
  from acc have "w1 = w \<or> (\<exists>j. advance rt b t j authority authority w = Inr w1)"
    by (auto simp: rebaseline_accounts_def mut_signer_Inr mut_account_Inr with_seeds_Inr
        config_treasury_context_Inr and_then_Inr split: if_splits list.splits)
  then show ?thesis by (rule replaced_tame [OF sound _ rep])
qed

lemma announce_tame:
  assumes sound: "sound_call verify rt b t w"
    and run: "authorize_new_wallet rt b t signer ik signer_new prog mint ta w = Inr w'"
  shows "tame rt b w w'"
proof -
  note s = sound_callD [OF sound]
  from announce_inv [OF run] obtain i i' c w1 where
    owner: "owner_of w ik = anchor_id b" and i: "try_identity rt (data_of w ik) = Inr i"
    and approve: "invoke rt c w = Inr w1" and exit: "exit_typed (identity_bytes rt i') ik w1 = Inr w'"
    by blast
  have "identity_of rt b w ik = Some i"
    using owner i by (simp add: identity_of_Some identity_at_def grown_identity_long try_identity_length)
  note before = plain_identity [OF s(2) this] and quiet = steady_ops(4) [OF s(2,1) approve]
  note mine = steadyD(2) [OF quiet before]
  note exit = exit_identity [OF exit, of b]
  have "owner_of w1 ik = anchor_id b" using mine by (simp add: plain_def)
  then have "steady rt b w1 w'" using steady_identity [OF s(2,1) _ mine] exit by blast
  with quiet show ?thesis using steady_trans steadyD(1) by blast
qed

lemma mint_tame:
  assumes sound: "sound_call verify rt b t w"
    and run: "mint_anchor rt b t ta ik ck treasury remaining new w = Inr w'"
  shows "tame rt b w w'"
proof -
  note s = sound_callD [OF sound] and ops = steady_ops [OF sound_callD(2,1) [OF sound]]
  from mint_inv [OF run] obtain w1 w2 w3 fee w4 i' k q v session e where
    init: "init_typed rt (ta_user ta) ik identity_len (anchor_id b) w = Inr w1"
    and count: "w2 = w1 \<or> (\<exists>j. advance rt b t j (ta_user ta) (ta_user ta) w1 = Inr w2)"
    and token: "create_identity_token rt b ta w2 = Inr w3"
    and fee: "pay_fee rt (ta_user ta) treasury fee w3 = Inr w4"
    and exit: "exit_typed (identity_bytes rt i') ik (emit_receipt_session k q v session (emit e w4)) =
      Inr w'"
    by blast
  let ?w5 = "emit_receipt_session k q v session (emit e w4)"
  have "steady rt b w1 w2" using count steady_refl [OF s(2)] steady_advance [OF s(2,1)] by blast
  then have middle: "steady rt b w1 ?w5"
    using ops(2) [OF token] ops(3) [OF fee] ops(5,6) steady_trans by meson
  note mine = steadyD(2) [OF middle plain_init [OF s(2,1) init]]
  have "owner_of ?w5 ik = anchor_id b" using mine by (simp add: plain_def)
  then have "steady rt b ?w5 w'" using steady_identity [OF s(2,1) _ mine] exit_identity [OF exit] by blast
  with middle ops(1) [OF init] show ?thesis using steady_trans steadyD(1) by blast
qed

lemma migrate_tame:
  assumes sound: "sound_call verify rt b t w"
    and run: "migrate_identity rt b t ma remaining w = Inr w'"
  shows "tame rt b w w'"
proof -
  note s = sound_callD [OF sound] and laws = deployment_laws [OF sound_callD(1) [OF sound]]
  note ops = steady_ops [OF sound_callD(2,1) [OF sound]]
  let ?new = "ma_identity ma" and ?from = "ma_identity_old ma" and ?user = "ta_user (ma_token ma)"
  from migrate_inv [OF run] obtain old w1 w2 w3 fee w4 w5 w6 w7 cb cc e i' where
    ctx: "migrate_context rt b t ma w = Inr (old, w1)"
    and req: "migrate_requests rt b t ma old remaining w1 = Inr w2"
    and token: "create_identity_token rt b (ma_token ma) w2 = Inr w3"
    and fee: "pay_fee rt ?user (ma_treasury ma) fee w3 = Inr w4"
    and burn: "invoke rt cb w4 = Inr w5" and shut: "invoke rt cc w5 = Inr w6"
    and exit: "exit_typed (identity_bytes rt i') ?new (emit e w6) = Inr w7"
    and close: "close_typed rt ?from (ma_wallet_old ma) w7 = Inr w'"
    by blast
  note ctx = migrate_context_inv [OF ctx]
  have "w2 = w1 \<or> (\<exists>j1 j2 a1 a2 p v. advance rt b t j1 a1 p w1 = Inr v \<and>
      advance rt b t j2 a2 p v = Inr w2)"
    using req by (auto simp: migrate_requests_def Let_def require_Inr and_then_Inr
        split: if_splits list.splits)
  then have "steady rt b w1 w2"
    using steady_refl [OF s(2)] steady_trans [OF steady_advance [OF s(2,1)] steady_advance [OF s(2,1)]]
    by blast
  then have middle: "steady rt b w1 (emit e w6)"
    using ops(2) [OF token] ops(3) [OF fee] ops(4) [OF burn] ops(4) [OF shut] ops(5) steady_trans
    by meson
  note mine = steadyD(2) [OF middle plain_init [OF s(2,1) ctx(3)]]
  have "owner_of (emit e w6) ?new = anchor_id b" using mine by (simp add: plain_def)
  then have stored: "steady rt b (emit e w6) w7"
    using steady_identity [OF s(2,1) _ mine] exit_identity [OF exit] by blast
  have "identity_of rt b w1 ?from = Some old"
    using ctx(4,5) by (simp add: identity_of_Some identity_at_def grown_identity_long try_identity_length)
  then have last: "plain rt b w7 ?from"
    using plain_identity [OF s(2)] steadyD(2) middle stored by blast
  note close_e = close_effect [OF laws(4) close]
  have "kept (anchor_id b) k w7 w'" if "k \<noteq> ?from" for k
    using close_e(1,2) that by (intro kept_same) auto
  then have "tame rt b w7 w'"
    by (rule tame_close [OF s(2) _ last]) (use close_e(2) laws(12) in auto)
  moreover have "tame rt b w w7"
    using ops(1) [OF ctx(3)] middle stored steady_trans steadyD(1) by meson
  ultimately show ?thesis using tame_trans by blast
qed

lemma layout_tame:
  assumes sound: "sound_call verify rt b t w"
    and run: "upgrade_identity_layout rt b t authority ik w = Inr w'"
  shows "tame rt b w w'"
proof -
  note s = sound_callD [OF sound] and e = layout_effect [OF sound_callD(1) [OF sound] run]
  from run have "take 8 (data_of w ik) = take 8 (elems (account_hash rt (ascii ''account:IdentityState'')))"
    and len: "8 \<le> length (data_of w ik)"
    unfolding upgrade_identity_layout_def Let_def
    by (auto simp: mut_signer_Inr mut_account_Inr with_seeds_Inr require_Inr)
  then have "tagged (identity_disc rt) (data_of w ik)"
    by (simp add: tagged_def identity_disc_def discriminator_def account_hash_def)
  then have tags: "tagged (identity_disc rt) (data_of w ik)"
    "tagged (identity_disc rt) (grown_identity (data_of w ik))"
    by (simp_all add: tagged_def grown_identity_def)
  have "plain rt b w ik" "plain rt b w' ik"
    using tags type_lawD(4,5) [OF s(2)] e(3)
    by (auto simp: plain_def e(1,2) dest: tagged_unique)
  then have "steady rt b w w'"
    by (rule steady_write [OF s(2), rotated]) (use e in \<open>simp add: kept_same\<close>)
  then show ?thesis by (rule steadyD(1))
qed

lemma legacy_tame:
  assumes sound: "sound_call verify rt b t w" and run: "legacy_update rt b t ua receipt w w'"
  shows "tame rt b w w'"
proof -
  note s = sound_callD [OF sound] and laws = deployment_laws [OF sound_callD(1) [OF sound]]
  obtain i cfg r session i' where facts: "legacy_facts rt b t ua receipt w w' i cfg r session i'"
    using legacy_update_obtain [OF s(1) run] by metis
  note f = legacy_factsD [OF facts]
  let ?ik = "ua_identity ua" and ?rk = "ua_verification_result ua"
  have apart: "?rk \<noteq> ?ik" using f(1,6) laws(9) by auto
  have "identity_of rt b w ?ik = Some i" "identity_of rt b w' ?ik = Some i'"
    using f(1,2,18) apart by (simp_all add: identity_of_Some f(20))
  note ends = plain_identity [OF s(2) this(1)] plain_identity [OF s(2) this(2)]
  have "kept (anchor_id b) k w w'" if "k \<noteq> ?ik" for k
  proof (cases "k = ?rk")
    case True
    then show ?thesis using f(6) laws(9,12) by (intro kept_foreign) (auto simp: f(20))
  next
    case False
    then show ?thesis by (intro kept_same) (subst f(19), use that in simp, simp add: f(20))
  qed
  from steady_write [OF s(2) this ends] show ?thesis by (rule steadyD(1))
qed

text \<open>The bound update: first its counter advances, then it is an update like the other.\<close>

lemma bound_update_moves:
  fixes ua :: update_accounts and rt :: runtime and b :: build
  defines "counted r \<equiv> request_state_bytes rt (counter_cell (ua_authority ua)
    (counter_bump rt b (ua_authority ua)) (br_counter r + 1))"
  assumes deployed: "deployment_law rt b" and run: "update_anchor_bound rt b t ua sk receipt w = Inr w'"
  shows "\<exists>i i' r. identity_of rt b w (ua_identity ua) = Some i \<and>
    identity_of rt b w' (ua_identity ua) = Some i' \<and>
    try_bound_result rt (data_of w (ua_verification_result ua)) = Inr r \<and>
    br_wallet r = ua_authority ua \<and> uint (br_counter r) + 1 < 2 ^ 64 \<and>
    sk = counter_account rt b (ua_authority ua) \<and> sk \<noteq> ua_identity ua \<and>
    owner_of w sk = anchor_id b \<and> data_of w sk = request_state_bytes rt
      (counter_cell (ua_authority ua) (counter_bump rt b (ua_authority ua)) (br_counter r)) \<and>
    (\<forall>k. k \<noteq> ua_identity ua \<longrightarrow> kept (anchor_id b) k (set_data sk (counted r) w) w') \<and>
    (\<forall>k. k \<notin> {ua_identity ua, ua_verification_result ua, sk} \<longrightarrow> data_of w' k = data_of w k)"
proof -
  note laws = deployment_laws [OF deployed]
  let ?ik = "ua_identity ua" and ?rk = "ua_verification_result ua"
  from run have proc: "process_anchor_update rt b t ua receipt None (Some sk) w = Inr w'"
    and mine: "owner_of w sk = anchor_id b"
    by (auto simp: update_anchor_bound_def update_bound_context_def update_context_Inr
        mut_account_Inr with_seeds_Inr require_Inr)
  from bound_update_facts [OF deployed proc] obtain i i' :: identity_state and r :: bound_result where
    i: "identity_at rt w ?ik = Inr i" "owner_of w ?ik = anchor_id b" "ua_authority ua = id_owner i"
      "identity_at rt w' ?ik = Inr i'"
    and r: "owner_of w ?rk = verifier_id b" "data_of w ?rk = bound_result_bytes rt r"
      "br_wallet r = id_owner i" "sk = counter_account rt b (id_owner i)"
      "uint (br_counter r) + 1 < 2 ^ 64"
      "read_counter rt (data_of w sk) (id_owner i) (counter_bump rt b (id_owner i)) = Some (br_counter r)"
    and data: "data_of w' = (data_of w)(sk := request_state_bytes rt (counter_cell (id_owner i)
        (counter_bump rt b (id_owner i)) (br_counter r + 1)), ?rk := [], ?ik := data_of w' ?ik)"
    and owners: "owner_of w' = (owner_of w)(?rk := system_program_id rt)"
    and apart: "distinct [?ik, ?rk, sk]"
    by blast
  have moved: "kept (anchor_id b) k (set_data sk (counted r) w) w'" if "k \<noteq> ?ik" for k
  proof (cases "k = ?rk")
    case True
    then show ?thesis using r(1) laws(9,12) by (intro kept_foreign) (auto simp: owners)
  next
    case False
    then show ?thesis
      by (intro kept_same) (subst data, use that in \<open>simp add: counted_def i(3)\<close>, simp add: owners)
  qed
  have same: "data_of w' k = data_of w k" if "k \<notin> {?ik, ?rk, sk}" for k
    by (subst data) (use that in simp)
  have "sk \<noteq> ?ik" using apart by auto
  then show ?thesis
    by (intro exI [of _ i] exI [of _ i'] exI [of _ r])
      (use i r apart mine moved same in \<open>simp add: identity_of_Some owners typed_bytes read_counter_iff\<close>)
qed

lemma bound_tame:
  assumes sound: "sound_call verify rt b t w"
    and run: "update_anchor_bound rt b t ua sk receipt w = Inr w'"
  shows "tame rt b w w'"
proof -
  note s = sound_callD [OF sound]
  let ?cell = "\<lambda>n. request_state_bytes rt (counter_cell (ua_authority ua)
    (counter_bump rt b (ua_authority ua)) n)"
  from bound_update_moves [OF s(1) run] obtain i i' :: identity_state and r :: bound_result where
    i: "identity_of rt b w (ua_identity ua) = Some i" "identity_of rt b w' (ua_identity ua) = Some i'"
    and r: "uint (br_counter r) + 1 < 2 ^ 64" "sk = counter_account rt b (ua_authority ua)"
      "owner_of w sk = anchor_id b" "data_of w sk = ?cell (br_counter r)"
    and moved: "\<forall>k. k \<noteq> ua_identity ua \<longrightarrow>
      kept (anchor_id b) k (set_data sk (?cell (br_counter r + 1)) w) w'"
    by blast
  let ?w1 = "set_data sk (?cell (br_counter r + 1)) w"
  have "tagged_write rt b (request_state_disc rt) sk w ?w1"
    using r(3,4) by (auto simp: tagged_write_def tagged_bytes writes_only_set)
  then have first: "steady rt b w ?w1"
  proof (rule steady_counter [OF s(2,1)])
    fix other
    assume other: "counting rt b other w" "counter_account rt b other = sk"
    then have "other = ua_authority ua" using r(4) by (auto simp: counting_data dest: cell_wallet)
    then show "counting rt b other ?w1 \<and> count_of rt b other w \<le> count_of rt b other ?w1"
      using other(1) r(1) r(4) [unfolded r(2)]
      by (simp add: counting_def count_of_def r(2) read_cell uint_succ)
  qed
  have "steady rt b ?w1 w'"
    using moved steadyD(2) [OF first plain_identity [OF s(2) i(1)]] plain_identity [OF s(2) i(2)]
    by (intro steady_write [OF s(2)]) auto
  with first show ?thesis using steady_trans steadyD(1) by blast
qed

section \<open>Setting a baseline\<close>

lemma try_stored_baseline:
  "encrypted_baseline_len \<le> length d \<Longrightarrow>
     try_encrypted_baseline rt (store (encrypted_baseline_bytes rt e) d) = Inr e"
  unfolding try_encrypted_baseline_def encrypted_baseline_bytes_def
  by (rule encrypted_baseline.load_stored)
    (simp_all add: encrypted_baseline_len_def encrypted_baseline_widths_def)

text \<open>The wallet puts a baseline at its address.\<close>

definition baseline_set ::
  "runtime \<Rightarrow> build \<Rightarrow> pubkey \<Rightarrow> encrypted_baseline \<Rightarrow> tx \<Rightarrow> pubkey \<Rightarrow> bool" where
  "baseline_set rt b k e t wallet \<longleftrightarrow> is_signer t wallet \<and>
     k = pda_key rt (baseline_seeds wallet) (anchor_id b) \<and>
     eb_bump e = pda_bump rt (baseline_seeds wallet) (anchor_id b)"

lemma baseline_call:
  assumes sound: "sound_call verify rt b t w"
    and run: "set_encrypted_baseline rt b t wallet ik j blob w = Inr w'"
  shows "counters_grow rt b w w'" "\<And>k. k \<noteq> j \<Longrightarrow> baseline_of rt b w' k = baseline_of rt b w k"
    and "\<exists>e. baseline_of rt b w' j = Some e \<and> eb_blob e = blob \<and> baseline_set rt b j e t wallet"
proof -
  note s = sound_callD [OF sound] and laws = deployment_laws [OF sound_callD(1) [OF sound]]
  note writ = baseline_write [OF s(1) run]
  have others: "kept (anchor_id b) k w w'" if "k \<noteq> j" for k
    using writ laws(6,12) that by (simp add: tagged_write_def writes_only_def)
  show "\<And>k. k \<noteq> j \<Longrightarrow> baseline_of rt b w' k = baseline_of rt b w k"
    by (intro baseline_kept [OF s(2)] others)
  have "counter_account rt b other \<noteq> j" if "counting rt b other w" for other
    using counting_tagged [OF that] writ laws(12) type_lawD(1) [OF s(2)]
    by (auto simp: tagged_write_def dest: tagged_unique)
  then show "counters_grow rt b w w'"
    unfolding counters_grow_def using counter_kept others by blast
  let ?e = "\<lparr>eb_blob = blob, eb_bump = pda_bump rt (baseline_seeds wallet) (anchor_id b)\<rparr>"
  from run obtain w1 e where signer: "is_signer t wallet"
    and acc: "baseline_account rt b t wallet j w = Inr w1"
    and exit: "exit_typed (encrypted_baseline_bytes rt ?e) j (emit e w1) = Inr w'"
    unfolding set_encrypted_baseline_def
    by (simp only: mut_signer_Inr with_seeds_Inr require_Inr and_then_Inr) blast
  have j: "j = pda_key rt (baseline_seeds wallet) (anchor_id b)"
    using acc by (auto simp: baseline_account_def with_seeds_Inr)
  have "length (data_of w1 j) = encrypted_baseline_len"
  proof (cases "owner_of w j = system_program_id rt")
    case True
    with acc have "init_typed rt wallet j encrypted_baseline_len (anchor_id b) w = Inr w1"
      by (auto simp: baseline_account_def with_seeds_Inr)
    from init_effect(3) [OF laws(3) this] show ?thesis by simp
  next
    case False
    with acc show ?thesis
      by (auto simp: baseline_account_def with_seeds_Inr and_then_Inr mut_account_Inr require_Inr)
  qed
  then have "baseline_of rt b w' j = Some ?e"
    using exit writ
    by (simp add: baseline_of_Some tagged_write_def) (auto simp: exit_typed_Inr try_stored_baseline)
  then show "\<exists>e. baseline_of rt b w' j = Some e \<and> eb_blob e = blob \<and> baseline_set rt b j e t wallet"
    using signer j by (auto simp: baseline_set_def)
qed

section \<open>Steps of the system\<close>

lemma anchor_call_tame:
  assumes sound: "sound_call verify rt b t w" and run: "anchor_exec rt b t c w = Inr w'"
  shows "tame rt b w w' \<or> (\<exists>wallet ik j blob. c = SetEncryptedBaseline wallet ik j blob)"
proof (cases c)
  case MintAnchor then show ?thesis using mint_tame [OF sound] run by simp
next
  case AuthorizeNewWallet then show ?thesis using announce_tame [OF sound] run by simp
next
  case MigrateIdentity then show ?thesis using migrate_tame [OF sound] run by simp
next
  case (UpdateAnchor ua new receipt)
  then have "legacy_update rt b t ua receipt w w'" using run by (auto simp: legacy_update_def)
  then show ?thesis using legacy_tame [OF sound] by blast
next
  case (UpdateAnchorCompact ua receipt)
  then have "legacy_update rt b t ua receipt w w'" using run by (simp add: legacy_update_def)
  then show ?thesis using legacy_tame [OF sound] by blast
next
  case UpdateAnchorBound then show ?thesis using bound_tame [OF sound] run by simp
next
  case PrepareProofRequest
  then show ?thesis
    using steadyD(1) [OF steady_prepare [OF sound_callD(2,1) [OF sound]]] run by simp
next
  case UpgradeIdentityLayout then show ?thesis using layout_tame [OF sound] run by simp
next
  case ResetIdentityState then show ?thesis using reset_tame [OF sound] run by simp
next
  case RebaselineAnchor then show ?thesis using rebaseline_tame [OF sound] run by simp
next
  case SetEncryptedBaseline then show ?thesis by blast
qed

lemma kept_tame:
  assumes "type_law rt" "\<And>k. kept (anchor_id b) k w w'"
  shows "tame rt b w w'"
  by (rule steadyD(1) [OF steady_kept [OF assms]])

text \<open>What a step is to the counters and the baselines.\<close>

lemma step_wallet_accounts:
  assumes ready: "ready rt b w" and step: "system_step verify rt b w w'"
  shows "tame rt b w w' \<or> (\<exists>t wallet ik j blob. sound_call verify rt b t w \<and>
    set_encrypted_baseline rt b t wallet ik j blob w = Inr w')"
  using step
proof (rule system_stepE)
  note r = readyD [OF ready] and laws = deployment_laws [OF readyD(1) [OF ready]]
  fix t c
  assume signed: "ed25519_law verify t" and run: "program_exec rt b t c w = Inr w'"
  show ?thesis
  proof (cases c)
    case (RegistryCall rc)
    then have "tame rt b w w'"
      using registry_call_keeps [OF r(3) _ laws(10,12)] run by (intro kept_tame [OF r(2)]) simp
    then show ?thesis by simp
  next
    case (VerifierCall vc)
    then have "tame rt b w w'"
      using verifier_call_keeps [OF r(1) _ laws(9,12)] run by (intro kept_tame [OF r(2)]) simp
    then show ?thesis by simp
  next
    case (AnchorCall ac)
    with run have exec: "anchor_exec rt b t ac w = Inr w'" by simp
    from anchor_call_tame [OF r(4) [OF signed] exec] show ?thesis
      using exec r(4) [OF signed] by auto
  qed
next
  assume "outside b w w'"
  then have "tame rt b w w'" by (intro kept_tame [OF readyD(2) [OF ready]]) (simp add: outside_def)
  then show ?thesis by simp
qed

lemma step_counters:
  assumes "ready rt b w" "system_step verify rt b w w'"
  shows "counters_grow rt b w w'"
  using step_wallet_accounts [OF assms] baseline_call(1) by (auto simp: tame_def)

definition put_baseline ::
  "(byte list \<Rightarrow> byte list \<Rightarrow> byte list \<Rightarrow> bool) \<Rightarrow> runtime \<Rightarrow> build \<Rightarrow> pubkey \<Rightarrow> world \<Rightarrow> world \<Rightarrow>
   encrypted_baseline \<Rightarrow> bool" where
  "put_baseline verify rt b k u v e \<longleftrightarrow> (\<exists>t wallet ik. baseline_set rt b k e t wallet \<and>
     set_encrypted_baseline rt b t wallet ik k (eb_blob e) u = Inr v)"

lemma step_baseline:
  assumes "ready rt b w" "system_step verify rt b w w'" "baseline_of rt b w' k = Some e"
  shows "baseline_of rt b w k = Some e \<or> put_baseline verify rt b k w w' e"
  using step_wallet_accounts [OF assms(1,2)]
proof
  assume "tame rt b w w'"
  then show ?thesis using assms(3) by (simp add: tame_def)
next
  assume "\<exists>t wallet ik j blob. sound_call verify rt b t w \<and>
    set_encrypted_baseline rt b t wallet ik j blob w = Inr w'"
  then obtain t wallet ik j blob where sound: "sound_call verify rt b t w"
    and run: "set_encrypted_baseline rt b t wallet ik j blob w = Inr w'" by blast
  note call = baseline_call [OF sound run]
  show ?thesis
  proof (cases "k = j")
    case True
    then show ?thesis using call(3) run assms(3) by (auto simp: put_baseline_def)
  next
    case False
    then show ?thesis using call(2) assms(3) by simp
  qed
qed

lemma step_keeps_baseline:
  assumes "ready rt b w" "system_step verify rt b w w'" "baseline_of rt b w k \<noteq> None"
  shows "baseline_of rt b w' k \<noteq> None"
  using step_wallet_accounts [OF assms(1,2)] assms(3) baseline_call(2,3) unfolding tame_def
  by (metis option.distinct(1))

interpretation counters: monotone_system "system_step verify rt b"
    "\<lambda>w. ready rt b w \<and> counting rt b wallet w" "count_of rt b wallet" "(\<le>)"
  for verify rt b wallet
  by unfold_locales (use step_ready step_counters in \<open>auto simp: counters_grow_def\<close>)

interpretation baselines: provenance "system_step verify rt b" "ready rt b"
    "\<lambda>w e. baseline_of rt b w k = Some e" "put_baseline verify rt b k"
  for verify rt b k
  by unfold_locales (use step_ready step_baseline in auto)

interpretation held_baselines: invariant_system "system_step verify rt b"
    "\<lambda>w. ready rt b w \<and> baseline_of rt b w k \<noteq> None"
  for verify rt b k
  using step_ready step_keeps_baseline by unfold_locales blast

text \<open>
  C14: a baseline is its wallet's. Whatever encrypted baseline an account holds after a run
  of the three programs was there at the start, or is the blob of a call of
  \<open>set_encrypted_baseline\<close> in the run that was signed by the wallet whose address the
  account has; and a baseline that was once set is never removed.
\<close>

theorem baselines_belong_to_wallets:
  assumes "(system_step verify rt b)\<^sup>*\<^sup>* w w'" "ready rt b w"
  shows "(baseline_of rt b w k = None \<or> baseline_of rt b w' k \<noteq> None) \<and>
    (baseline_of rt b w' k \<in> {None, baseline_of rt b w k} \<or>
     (\<exists>u v t wallet ik e. (system_step verify rt b)\<^sup>*\<^sup>* w u \<and>
        is_signer t wallet \<and> k = pda_key rt (baseline_seeds wallet) (anchor_id b) \<and>
        set_encrypted_baseline rt b t wallet ik k (eb_blob e) u = Inr v \<and>
        (system_step verify rt b)\<^sup>*\<^sup>* v w' \<and> baseline_of rt b w' k = Some e))"
proof (intro conjI)
  show "baseline_of rt b w k = None \<or> baseline_of rt b w' k \<noteq> None"
    using held_baselines.run_inv [OF assms(1)] assms(2) by blast
  show "baseline_of rt b w' k \<in> {None, baseline_of rt b w k} \<or>
     (\<exists>u v t wallet ik e. (system_step verify rt b)\<^sup>*\<^sup>* w u \<and>
        is_signer t wallet \<and> k = pda_key rt (baseline_seeds wallet) (anchor_id b) \<and>
        set_encrypted_baseline rt b t wallet ik k (eb_blob e) u = Inr v \<and>
        (system_step verify rt b)\<^sup>*\<^sup>* v w' \<and> baseline_of rt b w' k = Some e)"
  proof (cases "baseline_of rt b w' k")
    case (Some e)
    from baselines.run_source [OF assms this] Some
    have "baseline_of rt b w' k = baseline_of rt b w k \<or>
      (\<exists>u v. (system_step verify rt b)\<^sup>*\<^sup>* w u \<and> put_baseline verify rt b k u v e \<and>
        (system_step verify rt b)\<^sup>*\<^sup>* v w')" by auto
    then show ?thesis unfolding put_baseline_def baseline_set_def using Some by blast
  qed simp
qed

section \<open>Request-bound proofs are used once\<close>

text \<open>The result that a bound update consumes carries the wallet's count of that moment.\<close>

lemma bound_update_counts:
  assumes "deployment_law rt b" "update_anchor_bound rt b t ua sk receipt w = Inr w'"
    and "try_bound_result rt (data_of w (ua_verification_result ua)) = Inr r"
  shows "count_of rt b (ua_authority ua) w = uint (br_counter r)"
    and "counting rt b (ua_authority ua) w'"
    and "count_of rt b (ua_authority ua) w' = uint (br_counter r) + 1"
proof -
  let ?cell = "\<lambda>n. request_state_bytes rt (counter_cell (ua_authority ua)
    (counter_bump rt b (ua_authority ua)) n)"
  from bound_update_moves [OF assms(1,2)] assms(3) have
    r: "uint (br_counter r) + 1 < 2 ^ 64" "sk = counter_account rt b (ua_authority ua)"
      "sk \<noteq> ua_identity ua" "owner_of w sk = anchor_id b" "data_of w sk = ?cell (br_counter r)"
    and moved: "\<forall>k. k \<noteq> ua_identity ua \<longrightarrow>
      kept (anchor_id b) k (set_data sk (?cell (br_counter r + 1)) w) w'"
    by auto
  show "count_of rt b (ua_authority ua) w = uint (br_counter r)"
    using r(5) by (simp add: count_of_def r(2) read_cell)
  have after: "data_of w' sk = ?cell (br_counter r + 1)" "owner_of w' sk = anchor_id b"
    using moved r(3,4) by (auto simp: kept_def)
  show "counting rt b (ua_authority ua) w'"
    using after deployment_laws(12) [OF assms(1)] by (auto simp: counting_data r(2))
  show "count_of rt b (ua_authority ua) w' = uint (br_counter r) + 1"
    using after(1) r(1) by (simp add: count_of_def r(2) read_cell uint_succ)
qed

text \<open>
  C13: a request-bound proof is used once. After a wallet's bound update has gone through,
  along every run of the three programs (further updates, mints, resets, migrations,
  preparing again, any other wallet's calls), no bound update of the wallet succeeds with
  a stored result of the same or an earlier request counter, whichever account of the
  verifier holds it and whatever receipt comes with it; so neither the same result, stored
  again, nor another one for the same request is ever accepted.
\<close>

theorem bound_proof_used_once:
  assumes "ready rt b w" "ed25519_law verify t"
    and "update_anchor_bound rt b t ua sk receipt w = Inr w1"
    and "try_bound_result rt (data_of w (ua_verification_result ua)) = Inr r"
    and "(system_step verify rt b)\<^sup>*\<^sup>* w1 w2"
    and "ua_authority ua' = ua_authority ua"
    and "try_bound_result rt (data_of w2 (ua_verification_result ua')) = Inr r'"
    and "uint (br_counter r') \<le> uint (br_counter r)"
  shows "update_anchor_bound rt b t' ua' sk' receipt' w2 \<noteq> Inr w3"
proof
  assume again: "update_anchor_bound rt b t' ua' sk' receipt' w2 = Inr w3"
  note deployed = readyD(1) [OF assms(1)] and counts = bound_update_counts [OF readyD(1) [OF assms(1)]]
  have "program_exec rt b t (AnchorCall (UpdateAnchorBound ua sk receipt)) w = Inr w1"
    using assms(3) by simp
  from step_ready [OF assms(1) system_step.call [OF assms(2) this]] have ready: "ready rt b w1" .
  have first: "counting rt b (ua_authority ua) w1"
    "count_of rt b (ua_authority ua) w1 = uint (br_counter r) + 1"
    using counts(2,3) [OF assms(3,4)] by auto
  have "count_of rt b (ua_authority ua) w2 = uint (br_counter r')"
    using counts(1) [OF again assms(7)] assms(6) by simp
  moreover have "count_of rt b (ua_authority ua) w1 \<le> count_of rt b (ua_authority ua) w2"
    using counters.run_le [OF assms(5)] ready first(1) by blast
  ultimately show False using first(2) assms(8) by simp
qed

section \<open>Samples\<close>

lemma demo_ready_counter: "ready demo_runtime (demo_build bound) (demo_counter_world c d)"
proof -
  have "data_of (demo_counter_world c d) (config_account demo_runtime) =
      data_of demo_world (config_account demo_runtime)"
    using demo_keys_distinct by (auto simp: demo_counter_world_def demo_config_account)
  then show ?thesis
    using demo_ready [of bound] by (simp add: ready_def configured_def demo_counter_data)
qed

theorem bound_proof_used_once_witness:
  "\<exists>w1. update_anchor_bound demo_runtime (demo_build True) demo_update_tx demo_bound_accounts
      demo_request_key demo_receipt (demo_counter_world 7 7) = Inr w1 \<and>
    try_bound_result demo_runtime (data_of w1 demo_result_key) = Inr (demo_bound_at 7) \<and>
    (\<forall>t sk receipt w3. update_anchor_bound demo_runtime (demo_build True) t
      (demo_bound_accounts\<lparr>ua_verification_result := demo_result_key\<rparr>) sk receipt w1 \<noteq> Inr w3)"
proof -
  let ?w = "demo_counter_world 7 7"
  from demo_bound_runs obtain w1 where run: "update_anchor_bound demo_runtime (demo_build True)
      demo_update_tx demo_bound_accounts demo_request_key demo_receipt ?w = Inr w1"
    by blast
  have keys: "ua_verification_result demo_bound_accounts = demo_bound_key"
    "ua_identity demo_bound_accounts = demo_identity_key"
    by (simp_all add: demo_bound_accounts_def demo_update_accounts_def)
  have "data_of w1 demo_result_key = data_of ?w demo_result_key"
    using bound_update_moves [OF demo_deployment run] demo_keys_distinct keys by auto
  then have copy: "try_bound_result demo_runtime (data_of w1 demo_result_key) = Inr (demo_bound_at 7)"
    by (simp add: demo_counter_data typed_bytes)
  have "try_bound_result demo_runtime (data_of ?w (ua_verification_result demo_bound_accounts)) =
      Inr (demo_bound_at 7)"
    by (simp add: keys demo_counter_data typed_bytes)
  from bound_proof_used_once [OF demo_ready_counter demo_update_law run this, of w1
      "demo_bound_accounts\<lparr>ua_verification_result := demo_result_key\<rparr>" "demo_bound_at 7"]
  show ?thesis using run copy by auto
qed

definition demo_baseline_key :: pubkey where
  "demo_baseline_key = demo_pda (baseline_seeds demo_wallet)"

definition demo_blob :: "(byte, 96) arr" where
  "demo_blob = arr_of (replicate 96 9)"

lemma demo_baseline_fresh:
  "owner_of demo_world demo_baseline_key = demo_system" "data_of demo_world demo_baseline_key = []"
  "accs demo_world demo_baseline_key = demo_account demo_system []"
proof -
  have "demo_baseline_key \<notin> set [demo_identity_key, demo_config_key, demo_result_key, demo_bound_key,
      demo_request_key]" by code_simp
  then show "owner_of demo_world demo_baseline_key = demo_system"
    "data_of demo_world demo_baseline_key = []"
    "accs demo_world demo_baseline_key = demo_account demo_system []"
    by (auto simp: owner_of_def data_of_def demo_world_def demo_account_def)
qed

lemma demo_baseline_runs:
  "\<exists>w'. set_encrypted_baseline demo_runtime (demo_build False) demo_update_tx demo_wallet
     demo_identity_key demo_baseline_key demo_blob demo_world = Inr w'"
proof -
  have keys: "pda_key demo_runtime (identity_seeds demo_wallet) (demo_key 101) = demo_identity_key"
    "pda_key demo_runtime (baseline_seeds demo_wallet) (demo_key 101) = demo_baseline_key"
    "demo_identity_key \<noteq> demo_baseline_key" "system_program_id demo_runtime = demo_system"
    by (simp_all add: pda_key_def demo_runtime_def demo_identity_key_def demo_pda_def
        demo_baseline_key_def) code_simp
  let ?A = "(accs demo_world)(demo_baseline_key := \<lparr>acc_owner = demo_key 101, acc_lamports = 5000,
    acc_data = replicate encrypted_baseline_len 0\<rparr>)"
  have "init_typed demo_runtime demo_wallet demo_baseline_key encrypted_baseline_len (demo_key 101)
      demo_world = Inr (demo_world\<lparr>accs := ?A\<rparr>)"
    using demo_baseline_fresh(3)
    by (simp add: init_typed_def demo_runtime_def demo_init_def demo_account_def)
  then have "baseline_account demo_runtime (demo_build False) demo_update_tx demo_wallet
      demo_baseline_key demo_world = Inr (demo_world\<lparr>accs := ?A\<rparr>)"
    by (simp add: baseline_account_def with_seeds_def demo_build_def keys demo_baseline_fresh(1))
  moreover have "data_of (demo_world\<lparr>accs := ?A\<rparr>) demo_identity_key = identity_bytes demo_runtime demo_identity"
    "data_of (demo_world\<lparr>accs := ?A\<rparr>) demo_baseline_key = replicate encrypted_baseline_len 0"
    using keys(3) demo_data(1) by (auto simp: data_of_def)
  moreover have "length (encrypted_baseline_bytes demo_runtime e) = encrypted_baseline_len" for e
    unfolding encrypted_baseline_bytes_def
    by (subst encrypted_baseline.length_serialize)
      (simp_all add: encrypted_baseline_len_def encrypted_baseline_widths_def)
  moreover have "anchor_id (demo_build False) = demo_key 101" "is_signer demo_update_tx demo_wallet"
    "is_writable demo_update_tx demo_wallet"
    by (simp_all add: demo_build_def demo_update_tx_eq demo_tx_def)
  moreover have "identity_bytes demo_runtime demo_identity \<noteq> []"
    using length_typed_bytes(1) [of demo_runtime demo_identity] by auto
  ultimately show ?thesis
    by (simp add: set_encrypted_baseline_def mut_signer_def with_seeds_def keys exit_typed_def
        length_typed_bytes)
qed

theorem baselines_belong_to_wallets_witness:
  "\<exists>w' e. (system_step demo_signed demo_runtime (demo_build False))\<^sup>*\<^sup>* demo_world w' \<and>
     baseline_of demo_runtime (demo_build False) w' demo_baseline_key = Some e \<and>
     eb_blob e = demo_blob \<and>
     (\<exists>u v t wallet ik. is_signer t wallet \<and> set_encrypted_baseline demo_runtime (demo_build False) t
        wallet ik demo_baseline_key demo_blob u = Inr v)"
proof -
  from demo_baseline_runs obtain w' where run: "set_encrypted_baseline demo_runtime (demo_build False)
      demo_update_tx demo_wallet demo_identity_key demo_baseline_key demo_blob demo_world = Inr w'"
    by blast
  have "program_exec demo_runtime (demo_build False) demo_update_tx (AnchorCall (SetEncryptedBaseline
      demo_wallet demo_identity_key demo_baseline_key demo_blob)) demo_world = Inr w'"
    using run by simp
  from system_step.call [OF demo_update_law this]
  have steps: "(system_step demo_signed demo_runtime (demo_build False))\<^sup>*\<^sup>* demo_world w'" by blast
  have "demo_system \<noteq> anchor_id (demo_build False)" by code_simp
  then have before: "baseline_of demo_runtime (demo_build False) demo_world demo_baseline_key = None"
    using demo_baseline_fresh(1) by (simp add: no_baseline)
  from baseline_call(3) [OF readyD(4) [OF demo_ready demo_update_law] run] obtain e where
    e: "baseline_of demo_runtime (demo_build False) w' demo_baseline_key = Some e" "eb_blob e = demo_blob"
    by blast
  have "\<exists>u v t wallet ik. is_signer t wallet \<and> set_encrypted_baseline demo_runtime (demo_build False) t
      wallet ik demo_baseline_key demo_blob u = Inr v"
    using baselines_belong_to_wallets [OF steps demo_ready, of demo_baseline_key] before e by auto fast
  with steps e show ?thesis by blast
qed

end
