(* ===== verification/Recovery_Decision.thy ===== *)
theory Recovery_Decision
  imports Update_Decision
begin

text \<open>
  Reset and rebaselining as decisions, like the update: on well-formed accounts the outcome
  is that of a list of checks on the typed identity and configuration, then that of the
  receipt, then that of the fee.
\<close>

section \<open>Shared steps\<close>

definition recovery_inputs ::
  "runtime \<Rightarrow> build \<Rightarrow> pubkey \<Rightarrow> pubkey \<Rightarrow> pubkey \<Rightarrow> world \<Rightarrow> identity_state \<Rightarrow> protocol_config \<Rightarrow> bool" where
  "recovery_inputs rt b wallet ik ck w i c \<longleftrightarrow> owner_of w ik = anchor_id b \<and>
     try_identity rt (data_of w ik) = Inr i \<and> id_owner i = wallet \<and>
     load_typed rt registry_program_id (try_config rt) ck w = Inr c"

text \<open>The identity replaced in its account.\<close>

definition replaced :: "runtime \<Rightarrow> pubkey \<Rightarrow> identity_state \<Rightarrow> world \<Rightarrow> world" where
  "replaced rt ik i w = set_data ik (store (identity_bytes rt i) (data_of w ik)) w"

definition config_policy :: "protocol_config \<Rightarrow> projection_policy" where
  "config_policy c = ProjectionPolicy (pc_current_projection_version c)
     (pc_minimum_supported_projection_version c)"

lemma recovery_steps:
  assumes "recovery_inputs rt b wallet ik ck w i c"
  shows "owner_of w ik = anchor_id b" "grow_identity rt ik wallet w = Inr w"
    and "load_identity rt ik wallet w = Inr i" "save_identity rt ik i' w = Inr (replaced rt ik i' w)"
    and "read_receipt_config ck w = checked
      [(pc_minimum_supported_projection_version c \<le> pc_current_projection_version c,
         entros_anchor_error.InvalidProtocolConfig)]
      (Inr (config_policy c, pc_verification_fee c, config_keys c))"
proof -
  have d: "try_identity rt (data_of w ik) = Inr i" "owner_of w ik = anchor_id b" "id_owner i = wallet"
    and config: "load_typed rt registry_program_id (try_config rt) ck w = Inr c"
    using assms by (simp_all add: recovery_inputs_def)
  have len: "identity_len \<le> length (data_of w ik)"
    using identity.deserialize_sound(1) [OF d(1) [unfolded try_identity_def]]
    by (simp add: identity_len_widths)
  show "owner_of w ik = anchor_id b" by fact
  show "grow_identity rt ik wallet w = Inr w" using len by (simp add: grow_identity_def)
  show "load_identity rt ik wallet w = Inr i" using d by (simp add: load_identity_Inr)
  show "save_identity rt ik i' w = Inr (replaced rt ik i' w)"
    using len by (simp add: save_identity_def replaced_def)
  show "read_receipt_config ck w = checked
      [(pc_minimum_supported_projection_version c \<le> pc_current_projection_version c,
         entros_anchor_error.InvalidProtocolConfig)]
      (Inr (config_policy c, pc_verification_fee c, config_keys c))"
    using registry_config_reads [OF config]
    by (simp add: checked_Cons checked_Nil require_def config_policy_def config_keys_def)
qed

lemma requested_check:
  "map_err AnchorErr (validate_requested_projection version (config_policy c)) =
     checked [(version = pc_current_projection_version c, ProjectionVersionMismatch)] (Inr ())"
  by (simp add: validate_requested_projection_def config_policy_def checked_Cons checked_Nil require_def)

lemma cooldown_check:
  "604800 \<le> sint (saturating_sub_i64 now since) \<longleftrightarrow> 604800 \<le> sint now - sint since"
  by (auto simp: sint_saturating_sub_i64 i64_min_def i64_max_def)

section \<open>Reset\<close>

definition reset_checks ::
  "runtime \<Rightarrow> protocol_config \<Rightarrow> i64 \<Rightarrow> identity_state \<Rightarrow> pubkey list \<Rightarrow> bytes32 \<Rightarrow> u16 \<Rightarrow>
   (bool \<times> entros_anchor_error) list" where
  "reset_checks rt c now i receipt_accounts new version =
     [(new \<noteq> 0, InvalidCommitment),
      (604800 \<le> sint now - sint (id_last_reset_timestamp i), ResetCooldownActive),
      (pc_minimum_supported_projection_version c \<le> pc_current_projection_version c,
        entros_anchor_error.InvalidProtocolConfig),
      (version = pc_current_projection_version c, ProjectionVersionMismatch),
      (receipt_accounts = [instructions_sysvar_id rt], InvalidResetReceiptAccounts)]"

text \<open>
  C11: when a reset succeeds and why it fails. On well-formed accounts, after the context
  and, in a request-bound build, the counter, a reset returns the error of the first of its
  five checks that fails (the new commitment, seven days since the last reset, the
  projection window and the requested version, the instructions sysvar); if all hold, the
  error of the receipt for this wallet, commitment and the current version; then that of the
  fee. Otherwise it succeeds: the stored identity has the new commitment and version, no
  verifications, score or activity, the present time as that of its last verification and
  of its last reset, and its other fields as before; \<open>AnchorReset\<close> is emitted and, when the
  receipt carries a session, the event of the session.
\<close>

theorem reset_decided:
  assumes "reset_accounts rt b t wallet ik ck treasury remaining w = Inr (receipt_accounts, w1)"
    and "recovery_inputs rt b wallet ik ck w1 i c"
  shows "reset_identity_state rt b t wallet ik ck treasury remaining new version w =
    checked (reset_checks rt c (clock t) i receipt_accounts new version)
      (and_then (verify_validator_receipt t (config_keys c) wallet new Reset version (clock t))
        (\<lambda>session. and_then (pay_fee rt wallet treasury (pc_verification_fee c)
           (replaced rt ik (i\<lparr>id_current_commitment := new, id_verification_count := 0,
             id_trust_score := 0, id_recent_timestamps := 0,
             id_last_verification_timestamp := clock t, id_last_reset_timestamp := clock t,
             id_projection_version := version\<rparr>) w1)) (\<lambda>w2.
         Inr (emit_receipt_session wallet Reset version session
           (emit (AnchorReset wallet (id_mint i) new) w2)))))"
proof -
  note s = recovery_steps [OF assms(2)]
  have wallet: "id_owner i = wallet" using assms(2) by (simp add: recovery_inputs_def)
  have one: "receipt_accounts = [k] \<longleftrightarrow> length receipt_accounts = 1 \<and> receipt_accounts ! 0 = k" for k
    by (cases receipt_accounts) auto
  show ?thesis
  proof (cases "version = pc_current_projection_version c")
    case True
    show ?thesis
      unfolding reset_identity_state_def assms(1) reset_checks_def one
      by (simp add: Let_def s checked_and_then requested_check RESET_COOLDOWN_SECS_def cooldown_check
          finish_reset_def checked_Cons checked_Nil reset_identity_def wallet True)
        (simp add: require_def config_policy_def validate_requested_projection_def)
  next
    case False
    show ?thesis
      unfolding reset_identity_state_def assms(1) reset_checks_def
      by (simp add: Let_def s checked_and_then requested_check RESET_COOLDOWN_SECS_def cooldown_check
          checked_Cons checked_Nil False)
        (simp add: require_def config_policy_def validate_requested_projection_def False)
  qed
qed

section \<open>Rebaselining\<close>

definition rebaseline_checks ::
  "protocol_config \<Rightarrow> i64 \<Rightarrow> identity_state \<Rightarrow> bytes32 \<Rightarrow> u16 \<Rightarrow> (bool \<times> entros_anchor_error) list" where
  "rebaseline_checks c now i new version =
     [(new \<noteq> 0, InvalidCommitment),
      (pc_minimum_supported_projection_version c \<le> pc_current_projection_version c,
        entros_anchor_error.InvalidProtocolConfig),
      (version = pc_current_projection_version c, ProjectionVersionMismatch),
      (id_projection_version i < version, ProjectionVersionNotAdvanced),
      (604800 \<le> sint now - sint (id_last_rebaseline_timestamp i), RebaselineCooldownActive)]"

text \<open>
  C12: when a rebaselining succeeds and why it fails. On well-formed accounts, after the
  context and the counter, it returns the error of the first of its five checks that fails
  (the new commitment, the projection window, the requested version, which must be ahead
  of the identity's, seven days since the last rebaselining); if all hold, the error of the
  receipt for this wallet, commitment and version; then that of the fee. Otherwise it
  succeeds: the stored identity has the new commitment and version and the present time as
  that of its last verification and of its last rebaselining; its verifications, score,
  activity and every other field stay; \<open>AnchorRebaselined\<close> is emitted and, when the receipt
  carries a session, the event of the session.
\<close>

theorem rebaseline_decided:
  assumes "rebaseline_accounts rt b t wallet ik ck treasury remaining w = Inr w1"
    and "recovery_inputs rt b wallet ik ck w1 i c"
  shows "rebaseline_anchor rt b t wallet ik ck treasury remaining new version w =
    checked (rebaseline_checks c (clock t) i new version)
      (and_then (verify_validator_receipt t (config_keys c) wallet new Rebaseline version (clock t))
        (\<lambda>session. and_then (pay_fee rt wallet treasury (pc_verification_fee c)
           (replaced rt ik (i\<lparr>id_current_commitment := new, id_projection_version := version,
             id_last_rebaseline_timestamp := clock t, id_last_verification_timestamp := clock t\<rparr>) w1)) (\<lambda>w2.
         Inr (emit_receipt_session wallet Rebaseline version session
           (emit (AnchorRebaselined wallet new version) w2)))))"
proof -
  note s = recovery_steps [OF assms(2)]
  have wallet: "id_owner i = wallet" using assms(2) by (simp add: recovery_inputs_def)
  show ?thesis
  proof (cases "version = pc_current_projection_version c")
    case True
    show ?thesis
      unfolding rebaseline_anchor_def assms(1) rebaseline_checks_def
      by (simp add: Let_def s checked_and_then REBASELINE_COOLDOWN_SECS_def cooldown_check
          checked_Cons checked_Nil rebaselined_identity_def wallet True)
        (simp add: require_def config_policy_def validate_requested_projection_def)
  next
    case False
    show ?thesis
      unfolding rebaseline_anchor_def assms(1) rebaseline_checks_def
      by (simp add: Let_def s checked_and_then checked_Cons checked_Nil False)
        (simp add: require_def config_policy_def validate_requested_projection_def False)
  qed
qed

section \<open>Samples\<close>

lemma demo_recovery_commitment: "demo_commitment 4 \<noteq> 0"
  by code_simp

definition demo_recovery_tx :: "receipt_purpose \<Rightarrow> tx" where
  "demo_recovery_tx purpose =
     demo_tx 1700700300 (receipt_v2 purpose 2 demo_wallet (demo_commitment 4) 1700700000)"

lemma demo_recovery_receipt:
  assumes "purpose \<noteq> Update"
  shows "verify_validator_receipt (demo_recovery_tx purpose) (config_keys demo_config) demo_wallet
     (demo_commitment 4) purpose 2 1700700300 = Inr None"
proof -
  let ?m = "receipt_v2 purpose 2 demo_wallet (demo_commitment 4) 1700700000"
  have "verify_receipt_payload ?m demo_wallet (demo_commitment 4) purpose 2 1700700300 = Inr None"
    unfolding receipt_accepted
    by (intro exI [of _ 1700700000]) (simp add: fresh_def MAX_RECEIPT_AGE_SECS_def)
  then show ?thesis
    by (simp add: verify_validator_receipt_def demo_recovery_tx_def demo_config_keys demo_loaded
        receipt_lens)
qed

lemma demo_recovery_context:
  "is_signer (demo_recovery_tx p) k" "is_writable (demo_recovery_tx p) k"
  "clock (demo_recovery_tx p) = 1700700300"
  "pda_key demo_runtime (identity_seeds demo_wallet) (anchor_id (demo_build False)) = demo_identity_key"
  "pda_key demo_runtime protocol_config_seeds registry_program_id = demo_config_key"
  "pda_key demo_runtime protocol_treasury_seeds registry_program_id = demo_treasury_key"
  "request_bound_v1 (demo_build False) = False"
  by (simp_all add: demo_recovery_tx_def demo_tx_def pda_key_def demo_runtime_def demo_build_def
      demo_identity_key_def demo_pda_def demo_config_key_def demo_treasury_key_def)

lemma demo_recovery_inputs:
  "recovery_inputs demo_runtime (demo_build False) demo_wallet demo_identity_key demo_config_key
     demo_world demo_identity demo_config"
  using demo_config_loaded
  by (simp add: recovery_inputs_def demo_owner demo_data typed_bytes)
    (simp add: demo_build_def demo_identity_def)

lemma demo_recovery_fee:
  "\<exists>w'. pay_fee demo_runtime demo_wallet demo_treasury_key (pc_verification_fee demo_config)
     (replaced demo_runtime demo_identity_key i demo_world) = Inr w'"
  using demo_pay [of "replaced demo_runtime demo_identity_key i demo_world"]
  by (simp add: replaced_def demo_lamports) (simp add: demo_config_def)

lemma demo_recovered:
  assumes "pay_fee demo_runtime demo_wallet demo_treasury_key fee
    (replaced demo_runtime demo_identity_key i demo_world) = Inr w"
  shows "identity_at demo_runtime (emit_receipt_session k p v s (emit e w)) demo_identity_key = Inr i"
  using pay_fee_effect(1) [OF deployment_laws(2) [OF demo_deployment] assms]
    save_effect(5) [OF recovery_steps(4) [OF demo_recovery_inputs, of i]]
  by (simp add: identity_at_def)

theorem reset_decided_witness:
  "\<exists>w'. reset_identity_state demo_runtime (demo_build False) (demo_recovery_tx Reset) demo_wallet
     demo_identity_key demo_config_key demo_treasury_key [demo_key 204] (demo_commitment 4) 2
     demo_world = Inr w' \<and>
   identity_at demo_runtime w' demo_identity_key =
     Inr (demo_identity\<lparr>id_current_commitment := demo_commitment 4, id_verification_count := 0,
       id_trust_score := 0, id_recent_timestamps := 0,
       id_last_verification_timestamp := 1700700300, id_last_reset_timestamp := 1700700300,
       id_projection_version := 2\<rparr>)"
proof -
  have "reset_accounts demo_runtime (demo_build False) (demo_recovery_tx Reset) demo_wallet
      demo_identity_key demo_config_key demo_treasury_key [demo_key 204] demo_world =
      Inr ([demo_key 204], demo_world)"
    by (simp add: reset_accounts_def mut_signer_def mut_account_def with_seeds_def
        config_treasury_context_def demo_recovery_context)
  note decided = reset_decided [OF this demo_recovery_inputs, of "demo_commitment 4" 2]
  have "first_failing (reset_checks demo_runtime demo_config 1700700300 demo_identity [demo_key 204]
      (demo_commitment 4) 2) = None"
    using demo_recovery_commitment by (simp add: reset_checks_def demo_config_def demo_identity_def demo_runtime_def)
  then show ?thesis
    unfolding decided
    using demo_recovery_fee [of "demo_identity\<lparr>id_current_commitment := demo_commitment 4,
      id_verification_count := 0, id_trust_score := 0, id_recent_timestamps := 0,
      id_last_verification_timestamp := 1700700300, id_last_reset_timestamp := 1700700300,
      id_projection_version := 2\<rparr>"]
    by (auto simp: demo_recovery_context checked_passes demo_recovery_receipt demo_recovered)
qed

theorem rebaseline_decided_witness:
  "\<exists>w'. rebaseline_anchor demo_runtime (demo_build False) (demo_recovery_tx Rebaseline) demo_wallet
     demo_identity_key demo_config_key demo_treasury_key [] (demo_commitment 4) 2 demo_world = Inr w' \<and>
   identity_at demo_runtime w' demo_identity_key =
     Inr (demo_identity\<lparr>id_current_commitment := demo_commitment 4, id_projection_version := 2,
       id_last_rebaseline_timestamp := 1700700300,
       id_last_verification_timestamp := 1700700300\<rparr>) \<and>
   rebaseline_anchor demo_runtime (demo_build False) (demo_recovery_tx Rebaseline) demo_wallet
     demo_identity_key demo_config_key demo_treasury_key [] (demo_commitment 4) 1 demo_world =
     Inl (AnchorErr ProjectionVersionMismatch)"
proof -
  have "rebaseline_accounts demo_runtime (demo_build False) (demo_recovery_tx Rebaseline) demo_wallet
      demo_identity_key demo_config_key demo_treasury_key [] demo_world = Inr demo_world"
    by (simp add: rebaseline_accounts_def mut_signer_def mut_account_def with_seeds_def
        config_treasury_context_def demo_recovery_context)
  note decided = rebaseline_decided [OF this demo_recovery_inputs, of "demo_commitment 4"]
  have "first_failing (rebaseline_checks demo_config 1700700300 demo_identity (demo_commitment 4) 2) = None"
    "first_failing (rebaseline_checks demo_config 1700700300 demo_identity (demo_commitment 4) 1) =
      Some ProjectionVersionMismatch"
    using demo_recovery_commitment by (simp_all add: rebaseline_checks_def demo_config_def demo_identity_def)
  then show ?thesis
    unfolding decided
    using demo_recovery_fee [of "demo_identity\<lparr>id_current_commitment := demo_commitment 4,
      id_projection_version := 2, id_last_rebaseline_timestamp := 1700700300,
      id_last_verification_timestamp := 1700700300\<rparr>"]
    by (auto simp: demo_recovery_context checked_passes checked_fails demo_recovery_receipt demo_recovered)
qed

end
