(* ===== verification/Vault_Solvency.thy ===== *)
theory Vault_Solvency
  imports Frames
begin

text \<open>
  The stakes of validators against the vault that holds them. The stake of an account is
  what its typed state says, the total is the sum over all addresses, and the surplus of
  the vault is its balance less that total. Every call of entros-registry moves at most
  one stake, and the vault with it, so the surplus never falls and every validator can be
  paid out.
\<close>

instance arr :: (finite, len) finite
proof
  have "finite {xs :: 'a list. set xs \<subseteq> UNIV \<and> length xs = LENGTH('b)}"
    by (rule finite_lists_length_eq) simp
  then have "finite {xs :: 'a list. length xs = LENGTH('b)}" by simp
  moreover have "range (elems :: ('a, 'b) arr \<Rightarrow> 'a list) \<subseteq> {xs. length xs = LENGTH('b)}" by auto
  ultimately have "finite (range (elems :: ('a, 'b) arr \<Rightarrow> 'a list))" by (rule finite_subset [rotated])
  then show "finite (UNIV :: ('a, 'b) arr set)"
    by (rule finite_imageD) (simp add: inj_on_def elems_inject)
qed

section \<open>Stakes\<close>

definition vault_account :: "runtime \<Rightarrow> pubkey" where
  "vault_account rt = pda_key rt vault_seeds registry_program_id"

definition stake_of_data :: "runtime \<Rightarrow> byte list \<Rightarrow> int" where
  "stake_of_data rt d = (case try_validator_state rt d of Inr v \<Rightarrow> uint (vs_stake v) | Inl _ \<Rightarrow> 0)"

definition stake_at :: "runtime \<Rightarrow> world \<Rightarrow> pubkey \<Rightarrow> int" where
  "stake_at rt w k = (if owner_of w k = registry_program_id then stake_of_data rt (data_of w k) else 0)"

definition total_stake :: "runtime \<Rightarrow> world \<Rightarrow> int" where
  "total_stake rt w = (\<Sum>k \<in> UNIV. stake_at rt w k)"

definition surplus :: "runtime \<Rightarrow> world \<Rightarrow> int" where
  "surplus rt w = uint (lamports_of w (vault_account rt)) - total_stake rt w"

text \<open>A step that changes the stake of one account at most.\<close>

lemma total_one:
  assumes "\<And>k. k \<noteq> j \<Longrightarrow> stake_at rt w' k = stake_at rt w k"
  shows "total_stake rt w' = total_stake rt w - stake_at rt w j + stake_at rt w' j"
proof -
  have "total_stake rt v = stake_at rt v j + (\<Sum>k \<in> UNIV - {j}. stake_at rt v k)" for v
    unfolding total_stake_def by (rule sum.remove) simp_all
  moreover have "(\<Sum>k \<in> UNIV - {j}. stake_at rt w' k) = (\<Sum>k \<in> UNIV - {j}. stake_at rt w k)"
    using assms by (intro sum.cong) auto
  ultimately show ?thesis by simp
qed

lemma total_same: "(\<And>k. stake_at rt w' k = stake_at rt w k) \<Longrightarrow> total_stake rt w' = total_stake rt w"
  by (simp add: total_stake_def)

lemma stake_nonneg: "0 \<le> stake_at rt w k"
  by (auto simp: stake_at_def stake_of_data_def split: sum.splits)

lemma stake_le_total: "stake_at rt w k \<le> total_stake rt w"
  unfolding total_stake_def by (rule member_le_sum) (simp_all add: stake_nonneg)

lemma stake_other_type: "take 8 d \<noteq> validator_state_disc rt \<Longrightarrow> stake_of_data rt d = 0"
  by (auto simp: stake_of_data_def try_validator_state_def deserialize_def split: sum.splits if_splits)

lemma stake_typed: "try_validator_state rt d = Inr v \<Longrightarrow> stake_of_data rt d = uint (vs_stake v)"
  by (simp add: stake_of_data_def)

lemma typed_validator: "try_validator_state rt (validator_state_bytes rt v) = Inr v"
  by (simp add: try_validator_state_def validator_state_bytes_def validator.deserialize_serialize')

section \<open>Balances\<close>

text \<open>
  Which balances an operation of the runtime can move: a transfer those of its two
  accounts, creation, reallocation and closing that of the account and of the payer or
  receiver of its rent.
\<close>

definition balance_law :: "runtime \<Rightarrow> bool" where
  "balance_law rt \<longleftrightarrow>
     (\<forall>src dst n seeds A A' k. run_cpi rt (SystemTransfer src dst n seeds) A = Inr A' \<longrightarrow>
        k \<notin> {src, dst} \<longrightarrow> acc_lamports (A' k) = acc_lamports (A k)) \<and>
     (\<forall>payer j space p A A' k. init_account rt payer j space p A = Inr A' \<longrightarrow>
        k \<notin> {payer, j} \<longrightarrow> acc_lamports (A' k) = acc_lamports (A k)) \<and>
     (\<forall>payer j n A A' k. realloc_account rt payer j n A = Inr A' \<longrightarrow>
        k \<notin> {payer, j} \<longrightarrow> acc_lamports (A' k) = acc_lamports (A k)) \<and>
     (\<forall>j dest A A' k. close_account rt j dest A = Inr A' \<longrightarrow>
        k \<notin> {j, dest} \<longrightarrow> acc_lamports (A' k) = acc_lamports (A k))"

lemma balance_transfer:
  "balance_law rt \<Longrightarrow> transfer rt src dst n w = Inr w' \<Longrightarrow> k \<notin> {src, dst} \<Longrightarrow>
     lamports_of w' k = lamports_of w k"
  by (auto simp: balance_law_def transfer_def invoke_Inr lamports_of_def)

lemma balance_transfer_signed:
  "balance_law rt \<Longrightarrow> transfer_signed rt seeds src dst n w = Inr w' \<Longrightarrow> k \<notin> {src, dst} \<Longrightarrow>
     lamports_of w' k = lamports_of w k"
  by (auto simp: balance_law_def transfer_signed_def invoke_Inr lamports_of_def)

lemma balance_init:
  "balance_law rt \<Longrightarrow> init_typed rt payer j n p w = Inr w' \<Longrightarrow> k \<notin> {payer, j} \<Longrightarrow>
     lamports_of w' k = lamports_of w k"
  by (auto simp: balance_law_def init_typed_def res_simps lamports_of_def)

lemma balance_realloc:
  "balance_law rt \<Longrightarrow> realloc_typed rt payer j n w = Inr w' \<Longrightarrow> k \<notin> {payer, j} \<Longrightarrow>
     lamports_of w' k = lamports_of w k"
  by (auto simp: balance_law_def realloc_typed_def res_simps lamports_of_def)

lemma balance_close:
  "balance_law rt \<Longrightarrow> close_typed rt j dest w = Inr w' \<Longrightarrow> k \<notin> {j, dest} \<Longrightarrow>
     lamports_of w' k = lamports_of w k"
  by (auto simp: balance_law_def close_typed_def res_simps lamports_of_def)

lemma balance_exit: "exit_typed bs j w = Inr w' \<Longrightarrow> lamports_of w' k = lamports_of w k"
  by (auto simp: exit_typed_Inr)

lemma balance_resize:
  "realloc_law rt \<Longrightarrow> resize rt j n w = Inr w' \<Longrightarrow> lamports_of w' k = lamports_of w k"
  by (auto simp: realloc_law_def resize_Inr lamports_of_def)

lemma balance_ensure:
  assumes "balance_law rt" "realloc_law rt" "ensure_protocol_config_len rt j payer w = Inr w'"
    and "k \<notin> {payer, j}"
  shows "lamports_of w' k = lamports_of w k"
  using assms(3)
  by (auto simp: ensure_protocol_config_len_def and_then_Inr Let_def split: if_splits)
    (metis balance_transfer [OF assms(1) _ assms(4)] balance_resize [OF assms(2)])+

section \<open>Calls of the registry\<close>

text \<open>
  The vault is an address of its own (program-derived addresses of different seeds differ),
  and nobody has its key. While the registry runs it stays an account of the system program.
\<close>

definition vault_law :: "runtime \<Rightarrow> bool" where
  "vault_law rt \<longleftrightarrow> vault_account rt \<noteq> config_account rt \<and>
     vault_account rt \<noteq> pda_key rt protocol_treasury_seeds registry_program_id \<and>
     (\<forall>k. vault_account rt \<noteq> pda_key rt (validator_seeds k) registry_program_id)"

definition custody :: "runtime \<Rightarrow> world \<Rightarrow> bool" where
  "custody rt w \<longleftrightarrow> configured rt w \<and> balance_law rt \<and> transfer_amount_law rt \<and> vault_law rt \<and>
     validator_state_disc rt \<noteq> replicate 8 0 \<and>
     owner_of w (vault_account rt) = system_program_id rt"

lemma custodyD:
  assumes "custody rt w"
  shows "configured rt w" "balance_law rt" "transfer_amount_law rt" "vault_law rt"
    "validator_state_disc rt \<noteq> replicate 8 0" "owner_of w (vault_account rt) = system_program_id rt"
    "registry_laws rt" "config_disc rt \<noteq> validator_state_disc rt"
    "registry_program_id \<noteq> system_program_id rt" "realloc_law rt" "init_law rt" "transfer_law rt"
    "close_law rt"
  using assms by (auto simp: custody_def configured_def registry_laws_def)

text \<open>A call that settles one account and leaves the vault's balance alone.\<close>

definition settled :: "runtime \<Rightarrow> world \<Rightarrow> world \<Rightarrow> bool" where
  "settled rt w w' \<longleftrightarrow> surplus rt w \<le> surplus rt w' \<and>
     owner_of w' (vault_account rt) = owner_of w (vault_account rt)"

lemma settledI:
  assumes "\<And>k. k \<noteq> j \<Longrightarrow> stake_at rt w' k = stake_at rt w k"
    and "stake_at rt w' j - stake_at rt w j \<le>
      uint (lamports_of w' (vault_account rt)) - uint (lamports_of w (vault_account rt))"
    and "owner_of w' (vault_account rt) = owner_of w (vault_account rt)"
  shows "settled rt w w'"
  using total_one [OF assms(1)] assms(2,3) by (simp add: settled_def surplus_def)

lemma creates_settles:
  assumes "creates rt j d w w'" "stake_of_data rt d \<le>
      uint (lamports_of w' (vault_account rt)) - uint (lamports_of w (vault_account rt))"
    and "custody rt w" "j \<noteq> vault_account rt"
  shows "settled rt w w'"
proof (rule settledI)
  show "stake_at rt w' k = stake_at rt w k" if "k \<noteq> j" for k
    using assms(1) that by (simp add: stake_at_def creates_def)
  have "stake_at rt w j = 0"
    using assms(1) custodyD(9) [OF assms(3)] by (auto simp: stake_at_def creates_def)
  moreover have "stake_at rt w' j = stake_of_data rt d"
    using assms(1) by (simp add: stake_at_def creates_def)
  ultimately show "stake_at rt w' j - stake_at rt w j \<le>
      uint (lamports_of w' (vault_account rt)) - uint (lamports_of w (vault_account rt))"
    using assms(2) by simp
  show "owner_of w' (vault_account rt) = owner_of w (vault_account rt)"
    using assms(1,4) by (simp add: creates_def)
qed

lemma rewritten_settles:
  assumes "rewritten j d w w'" "take 8 d = config_disc rt" "take 8 (data_of w j) = config_disc rt"
    and "lamports_of w' (vault_account rt) = lamports_of w (vault_account rt)" "custody rt w"
  shows "settled rt w w'"
proof (rule settledI)
  show "stake_at rt w' k = stake_at rt w k" if "k \<noteq> j" for k
    using assms(1) that by (simp add: stake_at_def rewritten_def)
  have "stake_at rt w' j = 0" "stake_at rt w j = 0"
    using assms(1-3) custodyD(8) [OF assms(5)]
    by (simp_all add: stake_at_def rewritten_def stake_other_type)
  then show "stake_at rt w' j - stake_at rt w j \<le>
      uint (lamports_of w' (vault_account rt)) - uint (lamports_of w (vault_account rt))"
    using assms(4) by simp
  show "owner_of w' (vault_account rt) = owner_of w (vault_account rt)"
    using assms(1) by (simp add: rewritten_def)
qed

lemma same_settles:
  assumes "data_of w' = data_of w" "owner_of w' = owner_of w"
    and "lamports_of w (vault_account rt) \<le> lamports_of w' (vault_account rt)"
  shows "settled rt w w'"
  using assms by (intro settledI [of "vault_account rt"]) (simp_all add: stake_at_def word_le_def)

text \<open>Registration: the stake goes into the vault with the new account.\<close>

lemma register_settles:
  assumes safe: "custody rt w" "\<not> is_signer t (vault_account rt)"
    and run: "register_validator rt t validator j state_key vault stake w = Inr w'"
  shows "settled rt w w'"
proof -
  note d = custodyD [OF safe(1)]
  from register_effect [OF d(7) run] obtain v where
    v: "vs_stake v = stake" "creates rt state_key (validator_state_bytes rt v) w w'" by blast
  from run obtain w1 w2 e bs where
    keys: "is_signer t validator" "pda_key rt (validator_seeds validator) registry_program_id = state_key"
      "vault_account rt = vault"
    and w1: "init_typed rt validator state_key validator_state_len registry_program_id w = Inr w1"
    and w2: "transfer rt validator vault stake w1 = Inr w2"
    and w': "exit_typed bs state_key (emit e w2) = Inr w'"
    unfolding register_validator_def register_accounts_def Let_def vault_account_def
    by (simp only: mut_signer_Inr mut_account_Inr with_seeds_Inr with_seeds_bump_Inr load_typed_Inr
        and_then_Inr require_Inr) blast
  have "state_key \<noteq> vault" using keys(2,3) d(4) unfolding vault_law_def by metis
  with safe(2) keys have apart: "validator \<noteq> vault" "state_key \<noteq> vault" by auto
  from w2 obtain A where A: "run_cpi rt (SystemTransfer validator vault stake []) (accs w1) = Inr A"
    and "accs w2 = A" by (auto simp: transfer_def res_simps)
  with d(3) [unfolded transfer_amount_law_def, rule_format, OF A apart(1)]
  have "uint (lamports_of w2 vault) = uint (lamports_of w1 vault) + uint stake"
    by (simp add: lamports_of_def)
  moreover have "lamports_of w1 vault = lamports_of w vault"
    using balance_init [OF d(2) w1] apart by simp
  moreover have "lamports_of w' vault = lamports_of w2 vault"
    using balance_exit [OF w'] by simp
  moreover have "stake_of_data rt (validator_state_bytes rt v) = uint stake"
    using stake_typed [OF typed_validator] v(1) by simp
  ultimately have paid: "stake_of_data rt (validator_state_bytes rt v) \<le>
      uint (lamports_of w' vault) - uint (lamports_of w vault)" by simp
  show ?thesis
    by (rule creates_settles [OF v(2) _ safe(1)]) (unfold keys(3), fact paid, fact apart(2))
qed

text \<open>Leaving: the stake is paid out of the vault, and the account is gone.\<close>

lemma unstake_settles:
  assumes safe: "custody rt w" "\<not> is_signer t (vault_account rt)"
    and run: "unstake_validator rt t validator state_key vault w = Inr w'"
  shows "settled rt w w'"
proof -
  note d = custodyD [OF safe(1)]
  from unstake_effect [OF d(7) run] obtain v where
    v: "try_validator_state rt (data_of w state_key) = Inr v"
      "owner_of w state_key = registry_program_id"
      "data_of w' = (data_of w)(state_key := [])"
      "owner_of w' = (owner_of w)(state_key := system_program_id rt)" by blast
  from run obtain v' w1 e seeds where
    v': "try_validator_state rt (data_of w state_key) = Inr v'"
    and keys: "is_signer t validator" "vault_account rt = vault"
    and w1: "transfer_signed rt seeds vault validator (vs_stake v') w = Inr w1"
    and w': "close_typed rt state_key validator (emit e w1) = Inr w'"
    unfolding unstake_validator_def unstake_accounts_def Let_def vault_account_def
    by (simp only: mut_signer_Inr mut_account_Inr with_seeds_Inr with_seeds_bump_Inr load_typed_Inr
        and_then_Inr require_Inr) blast
  have apart: "vault \<noteq> validator" "state_key \<noteq> vault"
    using safe(2) keys v(2) d(6,9) by auto
  from w1 obtain A where A: "run_cpi rt (SystemTransfer vault validator (vs_stake v') seeds) (accs w) = Inr A"
    and "accs w1 = A" by (auto simp: transfer_signed_def res_simps)
  with d(3) [unfolded transfer_amount_law_def, rule_format, OF A apart(1)]
  have "uint (lamports_of w1 vault) = uint (lamports_of w vault) - uint (vs_stake v)"
    using v(1) v' by (simp add: lamports_of_def)
  moreover have "lamports_of w' vault = lamports_of w1 vault"
    using balance_close [OF d(2) w'] apart by simp
  moreover have "stake_at rt w state_key = uint (vs_stake v)" "stake_at rt w' state_key = 0"
    using v d(9) by (simp_all add: stake_at_def stake_typed)
  ultimately show ?thesis
    using v apart(2) keys(2) by (intro settledI [of state_key]) (simp_all add: stake_at_def)
qed

lemma withdraw_settles:
  assumes safe: "custody rt w" "\<not> is_signer t (vault_account rt)"
    and run: "withdraw_treasury rt t admin j treasury amount w = Inr w'"
  shows "settled rt w w'"
proof -
  note d = custodyD [OF safe(1)]
  from run obtain w1 e seeds where keys: "is_signer t admin"
      "pda_key rt protocol_treasury_seeds registry_program_id = treasury"
    and w1: "transfer_signed rt seeds treasury admin amount w = Inr w1" and w': "w' = emit e w1"
    unfolding withdraw_treasury_def withdraw_accounts_def Let_def
    by (simp only: mut_signer_Inr mut_account_Inr with_seeds_Inr with_seeds_bump_Inr load_typed_Inr
        and_then_Inr require_Inr) blast
  then have "vault_account rt \<notin> {treasury, admin}"
    using safe(2) d(4) by (auto simp: vault_law_def)
  from balance_transfer_signed [OF d(2) w1 this] w' withdraw_effect [OF d(7) run]
  show ?thesis by (intro same_settles) simp_all
qed

text \<open>The instructions that rewrite the configuration pay its rent from the caller only.\<close>

lemma config_call_settles:
  assumes "custody rt w" "registry_exec rt t c w = Inr w'" "rewritten (config_account rt) d w w'"
    and "lamports_of w' (vault_account rt) = lamports_of w (vault_account rt)"
  shows "settled rt w w'"
proof -
  note conf = custodyD(1) [OF assms(1)]
  have "take 8 d = config_disc rt"
    using effect_type [OF _ conf] exec_config_effect [OF conf assms(2)] rewritten_data [OF assms(3)]
    by metis
  moreover have "take 8 (data_of w (config_account rt)) = config_disc rt"
    using conf by (simp add: configured_def)
  ultimately show ?thesis by (rule rewritten_settles [OF assms(3) _ _ assms(4,1)])
qed

lemma ensure_vault:
  assumes "custody rt w" "\<not> is_signer t (vault_account rt)" "is_signer t payer"
    and "pda_key rt protocol_config_seeds registry_program_id = j"
    and "ensure_protocol_config_len rt j payer w = Inr w1"
  shows "lamports_of w1 (vault_account rt) = lamports_of w (vault_account rt)"
proof -
  note d = custodyD [OF assms(1)]
  have "vault_account rt \<notin> {payer, j}"
    using assms(2-4) d(4) by (auto simp: vault_law_def config_account_def)
  from balance_ensure [OF d(2,10) assms(5) this] show ?thesis .
qed

lemma raw_call_balance:
  assumes safe: "custody rt w" "\<not> is_signer t (vault_account rt)"
  shows "set_validator_pubkey rt t admin j key w = Inr w' \<Longrightarrow>
      lamports_of w' (vault_account rt) = lamports_of w (vault_account rt)"
    and "rotate_validator_pubkey rt t admin j key grace w = Inr w' \<Longrightarrow>
      lamports_of w' (vault_account rt) = lamports_of w (vault_account rt)"
    and "propose_authority rt t admin j next_admin w = Inr w' \<Longrightarrow>
      lamports_of w' (vault_account rt) = lamports_of w (vault_account rt)"
    and "accept_authority rt t admin j w = Inr w' \<Longrightarrow>
      lamports_of w' (vault_account rt) = lamports_of w (vault_account rt)"
    and "set_projection_versions rt t admin j current minimum w = Inr w' \<Longrightarrow>
      lamports_of w' (vault_account rt) = lamports_of w (vault_account rt)"
  unfolding set_validator_pubkey_def rotate_validator_pubkey_def propose_authority_def
    accept_authority_def set_projection_versions_def Let_def
  by (auto simp: res_simps split: prod.splits dest: ensure_vault [OF safe])

lemma migrate_admin_balance:
  assumes safe: "custody rt w" "\<not> is_signer t (vault_account rt)"
    and run: "migrate_admin rt t new_admin j programdata w = Inr w'"
  shows "lamports_of w' (vault_account rt) = lamports_of w (vault_account rt)"
proof -
  note d = custodyD [OF safe(1)]
  from run obtain w1 w2 dt e n where
    keys: "is_signer t new_admin" "pda_key rt protocol_config_seeds registry_program_id = j"
    and w1: "resize rt j config_len w = Inr w1"
    and w2: "(if lamports_of (set_data j dt w1) j < n then transfer rt new_admin j
        (n - lamports_of (set_data j dt w1) j) (set_data j dt w1)
      else Inr (set_data j dt w1)) = Inr w2"
    and w': "w' = emit e w2"
    unfolding migrate_admin_def migrate_admin_accounts_def Let_def
    by (simp only: raw_config_accounts_Inr and_then_Inr require_Inr map_err_Inr) blast
  have apart: "vault_account rt \<notin> {new_admin, j}"
    using safe(2) keys d(4) by (auto simp: vault_law_def config_account_def)
  have "lamports_of w2 (vault_account rt) = lamports_of w1 (vault_account rt)"
    using w2 balance_transfer [OF d(2) _ apart] by (auto split: if_splits)
  then show ?thesis using balance_resize [OF d(10) w1] by (simp add: w')
qed

lemma update_config_settles:
  assumes safe: "custody rt w" "\<not> is_signer t (vault_account rt)"
    and run: "update_protocol_config rt t admin j fee w = Inr w'"
  shows "settled rt w w'"
proof -
  note d = custodyD [OF safe(1)]
  from update_config_effect [OF d(7) run] obtain c where
    c: "try_config rt (data_of w j) = Inr c" "is_signer t admin" "owner_of w j = registry_program_id"
      "rewritten j (config_bytes rt (c\<lparr>pc_verification_fee := fee\<rparr>)) w w'" by blast
  from run obtain w1 e bs where w1: "realloc_typed rt admin j config_len w = Inr w1"
    and w': "exit_typed bs j (emit e w1) = Inr w'"
    unfolding update_protocol_config_def update_config_accounts_def Let_def
    by (simp only: mut_signer_Inr mut_account_Inr and_then_Inr load_typed_Inr require_Inr
        with_seeds_bump_Inr) blast
  have "vault_account rt \<notin> {admin, j}"
    using c(2,3) safe(2) d(6,9) by auto
  from balance_realloc [OF d(2) w1 this] balance_exit [OF w']
  have "lamports_of w' (vault_account rt) = lamports_of w (vault_account rt)" by simp
  moreover have "take 8 (data_of w j) = config_disc rt"
    using c(1) by (auto simp: try_config_def deserialize_def split: if_splits)
  ultimately show ?thesis
    by (intro rewritten_settles [OF c(4) _ _ _ safe(1)]) (simp_all add: config_bytes_def serialize_def)
qed

lemma initialize_settles:
  assumes safe: "custody rt w"
    and run: "initialize_protocol rt t admin j stake expiry max_score increment fee key w = Inr w'"
  shows "settled rt w w'"
proof -
  note d = custodyD [OF safe]
  from initialize_effect [OF d(7) run] have "owner_of w (config_account rt) = system_program_id rt"
    by (auto simp: creates_def config_account_def)
  with d(1,9) show ?thesis by (simp add: configured_def)
qed

lemma call_settles:
  assumes safe: "custody rt w" "\<not> is_signer t (vault_account rt)"
    and run: "registry_exec rt t c w = Inr w'"
  shows "settled rt w w'"
proof -
  note d = custodyD [OF safe(1)] and raw = raw_call_balance [OF safe]
  have at: "j = config_account rt" if "pda_key rt protocol_config_seeds registry_program_id = j" for j
    using that by (simp add: config_account_def)
  show ?thesis
  proof (cases c)
    case InitializeProtocol
    then show ?thesis using initialize_settles [OF safe(1)] run by simp
  next
    case UpdateProtocolConfig
    then show ?thesis using update_config_settles [OF safe] run by simp
  next
    case (SetValidatorPubkey admin j key)
    with run have s: "set_validator_pubkey rt t admin j key w = Inr w'" by simp
    from set_validator_effect [OF d(7) this] raw(1) [OF s] config_call_settles [OF safe(1) run] at
    show ?thesis by (auto simp: by_admin_def)
  next
    case (RotateValidatorPubkey admin j key grace)
    with run have s: "rotate_validator_pubkey rt t admin j key grace w = Inr w'" by simp
    from rotate_effect [OF d(7) this] raw(2) [OF s] config_call_settles [OF safe(1) run] at
    show ?thesis by (auto simp: by_admin_def)
  next
    case (ProposeAuthority admin j next_admin)
    with run have s: "propose_authority rt t admin j next_admin w = Inr w'" by simp
    from propose_effect [OF d(7) this] raw(3) [OF s] config_call_settles [OF safe(1) run] at
    show ?thesis by (auto simp: by_admin_def)
  next
    case (AcceptAuthority signer j)
    with run have s: "accept_authority rt t signer j w = Inr w'" by simp
    from accept_effect [OF this] raw(4) [OF s] config_call_settles [OF safe(1) run] at
    show ?thesis by auto
  next
    case (SetProjectionVersions admin j current minimum)
    with run have s: "set_projection_versions rt t admin j current minimum w = Inr w'" by simp
    from set_projection_effect [OF d(7) this] raw(5) [OF s] config_call_settles [OF safe(1) run] at
    show ?thesis by (auto simp: by_admin_def)
  next
    case WithdrawTreasury
    then show ?thesis using withdraw_settles [OF safe] run by simp
  next
    case (MigrateAdmin new_admin j programdata)
    with run have s: "migrate_admin rt t new_admin j programdata w = Inr w'" by simp
    from migrate_admin_effect [OF d(7) this] migrate_admin_balance [OF safe s]
      config_call_settles [OF safe(1) run] at
    show ?thesis by auto
  next
    case RegisterValidator
    then show ?thesis using register_settles [OF safe] run by simp
  next
    case ComputeTrustScore
    then have s: "\<exists>j count creation recent. compute_trust_score rt t j count creation recent w = Inr w'"
      using run by auto
    then have "lamports_of w' = lamports_of w"
      by (auto simp: compute_trust_score_def trust_score_accounts_def res_simps Let_def)
    with s show ?thesis by (intro same_settles) (auto dest: preview_effect)
  next
    case UnstakeValidator
    then show ?thesis using unstake_settles [OF safe] run by simp
  qed
qed

section \<open>Runs\<close>

text \<open>
  A step of the chain around the vault: a call of the registry, which the vault cannot
  sign, or anything else, which leaves the registry's accounts alone, hands over blank
  accounts only, and does not take from an account of the system program that has not signed.
\<close>

inductive custody_step :: "runtime \<Rightarrow> world \<Rightarrow> world \<Rightarrow> bool" for rt where
  call: "registry_exec rt t c w = Inr w' \<Longrightarrow> \<not> is_signer t (vault_account rt) \<Longrightarrow> custody_step rt w w'"
| other: "(\<And>k. kept registry_program_id k w w') \<Longrightarrow>
    lamports_of w (vault_account rt) \<le> lamports_of w' (vault_account rt) \<Longrightarrow>
    owner_of w' (vault_account rt) = owner_of w (vault_account rt) \<Longrightarrow> custody_step rt w w'"

inductive_cases custody_stepE: "custody_step rt w w'"

lemma blank_stake: "validator_state_disc rt \<noteq> replicate 8 0 \<Longrightarrow> blank d \<Longrightarrow> stake_of_data rt d = 0"
proof -
  assume disc: "validator_state_disc rt \<noteq> replicate 8 0" and "blank d"
  then have "take 8 d = replicate (length (take 8 d)) 0"
    by (intro replicate_eqI) (auto simp: blank_def dest: in_set_takeD)
  then have "take 8 d = validator_state_disc rt \<Longrightarrow> validator_state_disc rt = replicate 8 0"
    by (metis length_validator_state_disc)
  with disc show ?thesis by (auto intro: stake_other_type)
qed

lemma other_settles:
  assumes "custody rt w" "\<And>k. kept registry_program_id k w w'"
    and "lamports_of w (vault_account rt) \<le> lamports_of w' (vault_account rt)"
    and "owner_of w' (vault_account rt) = owner_of w (vault_account rt)"
  shows "settled rt w w'"
proof -
  have "stake_at rt w' k = stake_at rt w k" for k
  proof (cases "owner_of w k = registry_program_id")
    case True
    with assms(2) [of k] show ?thesis by (simp add: stake_at_def kept_def)
  next
    case False
    have "stake_at rt w' k = 0"
    proof (cases "owner_of w' k = registry_program_id")
      case True
      with False assms(2) [of k] have "blank (data_of w' k)" by (simp add: kept_def)
      from blank_stake [OF custodyD(5) [OF assms(1)] this] show ?thesis by (simp add: stake_at_def)
    qed (simp add: stake_at_def)
    with False show ?thesis by (simp add: stake_at_def)
  qed
  then have "total_stake rt w' = total_stake rt w" by (rule total_same)
  then show ?thesis using assms(3,4) by (simp add: settled_def surplus_def word_le_def)
qed

lemma step_settles: "custody rt w \<Longrightarrow> custody_step rt w w' \<Longrightarrow> settled rt w w'"
  by (erule custody_stepE) (rule call_settles other_settles; assumption)+

lemma step_custody:
  assumes "custody rt w" "custody_step rt w w'"
  shows "custody rt w'"
proof -
  have "registry_step rt w w'"
    using assms(2)
    by (rule custody_stepE) (auto intro: registry_step.intros simp: foreign_step_def kept_def)
  then have "configured rt w'" using step_configured custodyD(1) [OF assms(1)] by blast
  with assms(1) step_settles [OF assms] show ?thesis by (simp add: custody_def settled_def)
qed

interpretation vault: monotone_system "custody_step rt" "custody rt" "surplus rt" "(\<le>)" for rt
  by unfold_locales (use step_custody step_settles in \<open>auto simp: settled_def\<close>)

text \<open>
  C15: the vault stays solvent. Along any run of registry calls and of whatever other
  programs do, the balance of the vault less the sum of all recorded stakes never falls; a
  vault that covered the stakes at the start covers them at the end, the total of them and
  so each single one that \<open>unstake_validator\<close> would pay out.
\<close>

theorem vault_stays_solvent:
  assumes "(custody_step rt)\<^sup>*\<^sup>* w w'" "custody rt w"
    and "total_stake rt w \<le> uint (lamports_of w (vault_account rt))"
  shows "total_stake rt w' \<le> uint (lamports_of w' (vault_account rt)) \<and>
    uint (lamports_of w (vault_account rt)) - total_stake rt w \<le>
      uint (lamports_of w' (vault_account rt)) - total_stake rt w' \<and>
    stake_at rt w' k \<le> uint (lamports_of w' (vault_account rt))"
proof -
  have "surplus rt w \<le> surplus rt w'" using assms(1,2) by (rule vault.run_le)
  then show ?thesis using assms(3) stake_le_total [of rt w' k] by (simp add: surplus_def)
qed

definition demo_vault_key :: pubkey where "demo_vault_key = vault_account demo_runtime"

definition demo_stake_key :: pubkey where
  "demo_stake_key = fst (demo_find (validator_seeds demo_wallet) registry_program_id)"

definition demo_wallet_tx :: tx where
  "demo_wallet_tx = (demo_tx 0 [])\<lparr>is_signer := (\<lambda>k. k = demo_wallet)\<rparr>"

lemma demo_balance_law: "balance_law demo_runtime"
  by (auto simp: balance_law_def demo_laws_def split: if_splits)

lemma demo_hash_length:
  "length xs < 256 \<Longrightarrow> length ys < 256 \<Longrightarrow> length xs \<noteq> length ys \<Longrightarrow> length xs \<noteq> 26 \<Longrightarrow>
     length ys \<noteq> 26 \<Longrightarrow> demo_hash xs \<noteq> demo_hash ys"
  by (auto simp: demo_hash_def arr_eq_iff elems_arr_of word_unat_eq_iff unat_of_nat)

lemma demo_vault_law: "vault_law demo_runtime"
  unfolding vault_law_def vault_account_def config_account_def
  by (simp add: pda_key_def demo_runtime_def demo_find_def vault_seeds_def protocol_config_seeds_def
      protocol_treasury_seeds_def validator_seeds_def demo_hash_length)

lemma demo_vault_fresh:
  "demo_vault_key \<notin> {demo_identity_key, demo_config_key, demo_result_key, demo_bound_key,
     demo_request_key, demo_wallet, demo_stake_key}"
  "demo_stake_key \<notin> {demo_identity_key, demo_config_key, demo_result_key, demo_bound_key,
     demo_request_key, demo_wallet}"
  by code_simp+

lemma demo_custody: "custody demo_runtime demo_world"
proof -
  have "configured demo_runtime demo_world"
    by (simp add: configured_def demo_registry_laws demo_config_account demo_data demo_owner
        config_consts) (simp add: config_bytes_def serialize_def)
  moreover have "validator_state_disc demo_runtime \<noteq> replicate 8 0" by code_simp
  moreover have "owner_of demo_world demo_vault_key = system_program_id demo_runtime"
    using demo_vault_fresh(1) by (simp add: owner_of_def demo_world_def demo_account_def demo_runtime_def)
  ultimately show ?thesis
    by (simp add: custody_def demo_balance_law demo_transfer_amount_law demo_vault_law
        demo_vault_key_def)
qed

lemma demo_no_stakes: "total_stake demo_runtime demo_world = 0"
proof -
  have "stake_at demo_runtime demo_world k = 0" for k
  proof (cases "k = demo_config_key")
    case True
    have "take 8 (config_bytes demo_runtime demo_config) \<noteq> validator_state_disc demo_runtime"
      using custodyD(8) [OF demo_custody] by (simp add: config_bytes_def serialize_def)
    with True show ?thesis by (simp add: stake_at_def demo_data stake_other_type)
  next
    case False
    have "demo_system \<noteq> registry_program_id" "demo_key 101 \<noteq> registry_program_id"
      "demo_key 102 \<noteq> registry_program_id" by code_simp+
    with False show ?thesis
      by (simp add: stake_at_def owner_of_def demo_world_def demo_account_def)
  qed
  then show ?thesis by (simp add: total_stake_def)
qed

lemma demo_register:
  "\<exists>w'. register_validator demo_runtime demo_wallet_tx demo_wallet demo_config_key demo_stake_key
     demo_vault_key 1000 demo_world = Inr w'"
proof -
  have plain: "accs demo_world k = demo_account demo_system []"
    if "k \<in> {demo_stake_key, demo_vault_key, demo_wallet}" for k
    using that demo_vault_fresh demo_keys_distinct by (auto simp: demo_world_def)
  have keys: "demo_wallet \<noteq> demo_vault_key" "demo_stake_key \<noteq> demo_vault_key"
    "demo_stake_key \<noteq> demo_wallet"
    using demo_vault_fresh by auto
  have pdas: "pda_key demo_runtime (validator_seeds demo_wallet) registry_program_id = demo_stake_key"
    "pda_key demo_runtime vault_seeds registry_program_id = demo_vault_key"
    by (simp_all add: pda_key_def demo_runtime_def demo_stake_key_def demo_vault_key_def
        vault_account_def)
  show ?thesis
    by (simp add: register_validator_def register_accounts_def mut_signer_def mut_account_def demo_wallet_tx_def demo_tx_def
        demo_config_loaded with_seeds_bump_def demo_config_pda with_seeds_def pdas Let_def
        init_typed_def transfer_def invoke_def)
      (simp add: demo_runtime_def demo_init_def plain keys demo_account_def demo_config_def
        exit_typed_def data_of_def emit_def validator_state_len_def)
qed

theorem vault_stays_solvent_witness:
  "\<exists>w'. register_validator demo_runtime demo_wallet_tx demo_wallet demo_config_key demo_stake_key
       demo_vault_key 1000 demo_world = Inr w' \<and>
     stake_at demo_runtime w' demo_stake_key \<le> uint (lamports_of w' demo_vault_key)"
proof -
  from demo_register obtain w' where run: "register_validator demo_runtime demo_wallet_tx demo_wallet
      demo_config_key demo_stake_key demo_vault_key 1000 demo_world = Inr w'" by blast
  then have "registry_exec demo_runtime demo_wallet_tx (RegisterValidator demo_wallet demo_config_key
      demo_stake_key demo_vault_key 1000) demo_world = Inr w'" by simp
  moreover have "\<not> is_signer demo_wallet_tx (vault_account demo_runtime)"
    using demo_vault_fresh(1) by (simp add: demo_wallet_tx_def demo_vault_key_def)
  ultimately have "(custody_step demo_runtime)\<^sup>*\<^sup>* demo_world w'"
    by (blast intro: custody_step.call)
  from vault_stays_solvent [OF this demo_custody, of demo_stake_key] run show ?thesis
    by (auto simp: demo_no_stakes demo_vault_key_def)
qed

end
