(* ===== verification/Sha256_Values.thy ===== *)
theory Sha256_Values
  imports Sha256 Identity_Machine
begin

text \<open>
  What depends on the values of SHA-256: the discriminators of the accounts and of the
  closing instructions, and the test vector that crates/proof-request shares with its
  clients. The digests are computed in the proofs.
\<close>

section \<open>Discriminators\<close>

lemma pad_tail_17: "pad_tail 17 =
    [128, 0, 0, 0, 0, 0, 0, 0, 0, 0, 0, 0, 0, 0, 0, 0, 0, 0, 0, 0, 0, 0, 0, 0, 0, 0, 0,
     0, 0, 0, 0, 0, 0, 0, 0, 0, 0, 0, 0, 0, 0, 0, 0, 0, 0, 0, 136]"
  by code_simp

lemma pad_tail_21: "pad_tail 21 =
    [128, 0, 0, 0, 0, 0, 0, 0, 0, 0, 0, 0, 0, 0, 0, 0, 0, 0, 0, 0, 0, 0, 0, 0, 0, 0, 0,
     0, 0, 0, 0, 0, 0, 0, 0, 0, 0, 0, 0, 0, 0, 0, 168]"
  by code_simp

lemma pad_tail_22: "pad_tail 22 =
    [128, 0, 0, 0, 0, 0, 0, 0, 0, 0, 0, 0, 0, 0, 0, 0, 0, 0, 0, 0, 0, 0, 0, 0, 0, 0, 0,
     0, 0, 0, 0, 0, 0, 0, 0, 0, 0, 0, 0, 0, 0, 176]"
  by code_simp

lemma pad_tail_25: "pad_tail 25 =
    [128, 0, 0, 0, 0, 0, 0, 0, 0, 0, 0, 0, 0, 0, 0, 0, 0, 0, 0, 0, 0, 0, 0, 0, 0, 0, 0,
     0, 0, 0, 0, 0, 0, 0, 0, 0, 0, 0, 200]"
  by code_simp

lemma pad_tail_26: "pad_tail 26 =
    [128, 0, 0, 0, 0, 0, 0, 0, 0, 0, 0, 0, 0, 0, 0, 0, 0, 0, 0, 0, 0, 0, 0, 0, 0, 0, 0,
     0, 0, 0, 0, 0, 0, 0, 0, 0, 0, 208]"
  by code_simp

lemma pad_tail_31: "pad_tail 31 =
    [128, 0, 0, 0, 0, 0, 0, 0, 0, 0, 0, 0, 0, 0, 0, 0, 0, 0, 0, 0, 0, 0, 0, 0, 0, 0, 0,
     0, 0, 0, 0, 0, 248]"
  by code_simp

lemma pad_tail_32: "pad_tail 32 =
    [128, 0, 0, 0, 0, 0, 0, 0, 0, 0, 0, 0, 0, 0, 0, 0, 0, 0, 0, 0, 0, 0, 0, 0, 0, 0, 0,
     0, 0, 0, 1, 0]"
  by code_simp

lemma pad_tail_38: "pad_tail 38 =
    [128, 0, 0, 0, 0, 0, 0, 0, 0, 0, 0, 0, 0, 0, 0, 0, 0, 0, 0, 0, 0, 0, 0, 0, 1, 48]"
  by code_simp

lemma byte_bits_1: "byte_bits 1 = [True, False, False, False, False, False, False, False]"
  by (simp add: byte_bits_def upt_rec)

lemma byte_bits_48: "byte_bits 48 = [False, False, False, False, True, True, False, False]"
  by (simp add: byte_bits_def upt_rec)

lemma byte_bits_136: "byte_bits 136 = [False, False, False, True, False, False, False, True]"
  by (simp add: byte_bits_def upt_rec)

lemma byte_bits_168: "byte_bits 168 = [False, False, False, True, False, True, False, True]"
  by (simp add: byte_bits_def upt_rec)

lemma byte_bits_176: "byte_bits 176 = [False, False, False, False, True, True, False, True]"
  by (simp add: byte_bits_def upt_rec)

lemma byte_bits_200: "byte_bits 200 = [False, False, False, True, False, False, True, True]"
  by (simp add: byte_bits_def upt_rec)

lemma byte_bits_208: "byte_bits 208 = [False, False, False, False, True, False, True, True]"
  by (simp add: byte_bits_def upt_rec)

lemma byte_bits_248: "byte_bits 248 = [False, False, False, True, True, True, True, True]"
  by (simp add: byte_bits_def upt_rec)

lemma sha_verificationresult:
  "sha256_fips (ascii ''account:VerificationResult'') = arr_of
    [104, 111, 80, 172, 219, 191, 162, 38, 28, 87, 36, 30, 13, 178, 119, 55, 184, 60,
     189, 38, 124, 139, 211, 144, 215, 130, 69, 30, 26, 214, 135, 164]"
proof -
  have "length (ascii ''account:VerificationResult'') = 26" by simp
  then show ?thesis
    unfolding sha256_fips_def pad_def
    by (simp only: ascii_def pad_tail_26 sha_eval byte_bits_208) simp
qed

lemma sha_identitystate:
  "sha256_fips (ascii ''account:IdentityState'') = arr_of
    [156, 32, 87, 93, 52, 155, 248, 207, 86, 137, 7, 210, 96, 112, 111, 141, 82, 147, 8,
     72, 38, 215, 30, 60, 54, 196, 244, 129, 103, 9, 146, 206]"
proof -
  have "length (ascii ''account:IdentityState'') = 21" by simp
  then show ?thesis
    unfolding sha256_fips_def pad_def
    by (simp only: ascii_def pad_tail_21 sha_eval byte_bits_168) simp
qed

lemma sha_challenge:
  "sha256_fips (ascii ''account:Challenge'') = arr_of
    [119, 250, 161, 121, 119, 81, 22, 208, 196, 196, 79, 150, 194, 219, 171, 107, 112,
     125, 161, 235, 163, 126, 195, 71, 228, 232, 144, 215, 231, 157, 93, 15]"
proof -
  have "length (ascii ''account:Challenge'') = 17" by simp
  then show ?thesis
    unfolding sha256_fips_def pad_def
    by (simp only: ascii_def pad_tail_17 sha_eval byte_bits_136) simp
qed

lemma sha_proofrequeststate:
  "sha256_fips (ascii ''account:ProofRequestState'') = arr_of
    [213, 45, 121, 7, 14, 102, 56, 119, 145, 40, 2, 179, 42, 59, 130, 184, 117, 8, 190,
     41, 66, 3, 11, 154, 206, 40, 186, 250, 72, 28, 195, 254]"
proof -
  have "length (ascii ''account:ProofRequestState'') = 25" by simp
  then show ?thesis
    unfolding sha256_fips_def pad_def
    by (simp only: ascii_def pad_tail_25 sha_eval byte_bits_200) simp
qed

lemma sha_encryptedbaseline:
  "sha256_fips (ascii ''account:EncryptedBaseline'') = arr_of
    [235, 60, 246, 174, 131, 9, 248, 146, 26, 170, 233, 39, 128, 180, 147, 37, 4, 185,
     215, 206, 214, 215, 117, 92, 186, 58, 65, 83, 136, 70, 14, 112]"
proof -
  have "length (ascii ''account:EncryptedBaseline'') = 25" by simp
  then show ?thesis
    unfolding sha256_fips_def pad_def
    by (simp only: ascii_def pad_tail_25 sha_eval byte_bits_200) simp
qed

lemma sha_boundverificationresult:
  "sha256_fips (ascii ''account:BoundVerificationResult'') = arr_of
    [65, 150, 156, 190, 80, 199, 159, 102, 193, 222, 126, 204, 77, 219, 109, 100, 25,
     135, 20, 130, 94, 15, 8, 54, 22, 238, 82, 113, 191, 185, 29, 194]"
proof -
  have "length (ascii ''account:BoundVerificationResult'') = 31" by simp
  then show ?thesis
    unfolding sha256_fips_def pad_def
    by (simp only: ascii_def pad_tail_31 sha_eval byte_bits_248) simp
qed

lemma sha_protocolconfig:
  "sha256_fips (ascii ''account:ProtocolConfig'') = arr_of
    [207, 91, 250, 28, 152, 179, 215, 209, 53, 47, 124, 69, 195, 228, 16, 162, 102, 225,
     206, 38, 254, 223, 183, 248, 112, 62, 141, 77, 27, 193, 166, 251]"
proof -
  have "length (ascii ''account:ProtocolConfig'') = 22" by simp
  then show ?thesis
    unfolding sha256_fips_def pad_def
    by (simp only: ascii_def pad_tail_22 sha_eval byte_bits_176) simp
qed

lemma sha_validatorstate:
  "sha256_fips (ascii ''account:ValidatorState'') = arr_of
    [217, 140, 124, 163, 31, 187, 1, 89, 98, 223, 45, 195, 86, 192, 82, 178, 178, 4, 32,
     122, 172, 196, 44, 213, 66, 118, 127, 182, 182, 177, 47, 79]"
proof -
  have "length (ascii ''account:ValidatorState'') = 22" by simp
  then show ?thesis
    unfolding sha256_fips_def pad_def
    by (simp only: ascii_def pad_tail_22 sha_eval byte_bits_176) simp
qed

lemma sha_close:
  "sha256_fips (ascii ''global:close_verification_result'') = arr_of
    [202, 203, 62, 127, 7, 157, 143, 12, 182, 23, 216, 87, 67, 96, 89, 202, 155, 120,
     138, 194, 124, 233, 248, 224, 246, 84, 87, 219, 199, 165, 41, 218]"
proof -
  have "length (ascii ''global:close_verification_result'') = 32" by simp
  then show ?thesis
    unfolding sha256_fips_def pad_def
    by (simp only: ascii_def pad_tail_32 sha_eval byte_bits_1) simp
qed

lemma sha_close_bound:
  "sha256_fips (ascii ''global:close_bound_verification_result'') = arr_of
    [139, 167, 185, 78, 139, 205, 190, 91, 46, 4, 49, 108, 249, 102, 177, 248, 117, 148,
     80, 4, 179, 254, 130, 223, 181, 65, 255, 195, 129, 213, 6, 183]"
proof -
  have "length (ascii ''global:close_bound_verification_result'') = 38" by simp
  then show ?thesis
    unfolding sha256_fips_def pad_def
    by (simp only: ascii_def pad_tail_38 sha_eval byte_bits_1 byte_bits_48) simp
qed

lemma discriminators:
  assumes "sha256 rt = sha256_fips"
  shows "verification_result_disc rt = [104, 111, 80, 172, 219, 191, 162, 38]"
    "identity_disc rt = [156, 32, 87, 93, 52, 155, 248, 207]"
    "challenge_disc rt = [119, 250, 161, 121, 119, 81, 22, 208]"
    "request_state_disc rt = [213, 45, 121, 7, 14, 102, 56, 119]"
    "encrypted_baseline_disc rt = [235, 60, 246, 174, 131, 9, 248, 146]"
    "bound_result_disc rt = [65, 150, 156, 190, 80, 199, 159, 102]"
    "config_disc rt = [207, 91, 250, 28, 152, 179, 215, 209]"
    "validator_state_disc rt = [217, 140, 124, 163, 31, 187, 1, 89]"
    "instruction_disc rt ''global:close_verification_result'' =
      [202, 203, 62, 127, 7, 157, 143, 12]"
    "instruction_disc rt ''global:close_bound_verification_result'' =
      [139, 167, 185, 78, 139, 205, 190, 91]"
  by (simp_all add: verification_result_disc_def identity_disc_def challenge_disc_def
      request_state_disc_def encrypted_baseline_disc_def bound_result_disc_def config_disc_def
      validator_state_disc_def discriminator_def instruction_disc_def account_hash_def assms
      sha_verificationresult sha_identitystate sha_challenge sha_proofrequeststate
      sha_encryptedbaseline sha_boundverificationresult sha_protocolconfig sha_validatorstate
      sha_close sha_close_bound)

text \<open>
  C34: with SHA-256 as the hash, the discriminators are what the programs need of them: the
  constant that entros-anchor compares the verification result with is the discriminator
  that entros-verifier writes, the eight account types of the three programs are told apart
  from each other and from a blank account, and so are the two closing instructions.
\<close>

theorem discriminators_are_sha256:
  assumes "sha256 rt = sha256_fips"
  shows "verification_result_disc rt = VERIFICATION_RESULT_DISCRIMINATOR \<and>
    distinct [identity_disc rt, request_state_disc rt, encrypted_baseline_disc rt,
      challenge_disc rt, verification_result_disc rt, bound_result_disc rt, config_disc rt,
      validator_state_disc rt, replicate 8 0] \<and>
    type_law rt \<and>
    instruction_disc rt ''global:close_verification_result'' \<noteq>
      instruction_disc rt ''global:close_bound_verification_result''"
proof -
  have "replicate 8 0 = [0, 0, 0, 0, 0, 0, 0, 0 :: byte]" by code_simp
  then show ?thesis
    by (simp add: discriminators [OF assms] VERIFICATION_RESULT_DISCRIMINATOR_def type_law_def)
qed

definition demo_sha_runtime :: runtime where
  "demo_sha_runtime = demo_runtime\<lparr>sha256 := sha256_fips\<rparr>"

theorem discriminators_are_sha256_witness:
  "verification_result_disc demo_sha_runtime = VERIFICATION_RESULT_DISCRIMINATOR \<and>
   type_law demo_sha_runtime"
  using discriminators_are_sha256 [of demo_sha_runtime] by (simp add: demo_sha_runtime_def)

section \<open>The shared schema vector\<close>

definition vector_action :: action where
  "vector_action =
     \<lparr>ac_identity = arr_of (replicate 32 0x16), ac_mint = arr_of (replicate 32 0x17),
      ac_counter = 7, ac_projection = 1,
      ac_commitment_new = arr_of ((replicate 32 0)[31 := 1]),
      ac_commitment_prev = arr_of ((replicate 32 0)[31 := 2]),
      ac_threshold = 30, ac_min_distance = 3, ac_valid_until = 1800000000\<rparr>"

definition shared_schema_vector :: "runtime \<Rightarrow> bool" where
  "shared_schema_vector rt =
     ((case request_digest rt (arr_of (replicate 32 0x11)) (arr_of (replicate 32 0x12))
          (arr_of (replicate 32 0x13)) (arr_of (replicate 32 0x14)) (arr_of (replicate 32 0x15))
          vector_action of
        None \<Rightarrow> False
      | Some digest \<Rightarrow>
          digest = arr_of
            [0x26, 0xb6, 0xe0, 0xfa, 0xef, 0x73, 0x1f, 0x3e, 0x3f, 0x56, 0x99, 0xb5, 0xe8, 0x5d,
             0x55, 0x3c, 0xa5, 0xba, 0x6d, 0x9c, 0xbe, 0x34, 0x78, 0x35, 0xf1, 0x4f, 0x1e, 0x51,
             0x56, 0x83, 0x55, 0x2b] \<and>
          take 16 (elems (fst (digest_limbs digest))) = replicate 16 0) \<and>
      encode (vector_action\<lparr>ac_commitment_new := arr_of (replicate 32 0)\<rparr>) = None \<and>
      encode (vector_action\<lparr>ac_commitment_prev := arr_of (replicate 32 0)\<rparr>) = None \<and>
      encode (vector_action\<lparr>ac_valid_until := 0\<rparr>) = None \<and>
      encode (vector_action\<lparr>ac_threshold := 257\<rparr>) = None \<and>
      encode (vector_action\<lparr>ac_min_distance := 31\<rparr>) = None \<and>
      encode (vector_action\<lparr>ac_commitment_new := SCALAR_MODULUS\<rparr>) = None)"

text \<open>The two messages that the test hashes.\<close>

definition vector_action_bytes :: "byte list" where
  "vector_action_bytes =
     [69, 78, 84, 82, 79, 83, 95, 65, 78, 67, 72, 79, 82, 95, 85, 80, 68, 65, 84, 69, 95,
     86, 49, 0, 0, 0, 0, 0, 0, 0, 0, 0, 22, 22, 22, 22, 22, 22, 22, 22, 22, 22, 22, 22,
     22, 22, 22, 22, 22, 22, 22, 22, 22, 22, 22, 22, 22, 22, 22, 22, 22, 22, 22, 22, 23,
     23, 23, 23, 23, 23, 23, 23, 23, 23, 23, 23, 23, 23, 23, 23, 23, 23, 23, 23, 23, 23,
     23, 23, 23, 23, 23, 23, 23, 23, 23, 23, 0, 0, 0, 0, 0, 0, 0, 7, 0, 1, 0, 0, 0, 0, 0,
     0, 0, 0, 0, 0, 0, 0, 0, 0, 0, 0, 0, 0, 0, 0, 0, 0, 0, 0, 0, 0, 0, 0, 0, 0, 0, 1, 0,
     0, 0, 0, 0, 0, 0, 0, 0, 0, 0, 0, 0, 0, 0, 0, 0, 0, 0, 0, 0, 0, 0, 0, 0, 0, 0, 0, 0,
     0, 0, 2, 0, 30, 0, 3, 0, 0, 0, 0, 107, 73, 210, 0]"

definition vector_request_bytes :: "byte list" where
  "vector_request_bytes =
     [69, 78, 84, 82, 79, 83, 95, 80, 82, 79, 79, 70, 95, 82, 69, 81, 85, 69, 83, 84, 95,
     86, 49, 0, 0, 0, 0, 0, 0, 0, 0, 0, 17, 17, 17, 17, 17, 17, 17, 17, 17, 17, 17, 17,
     17, 17, 17, 17, 17, 17, 17, 17, 17, 17, 17, 17, 17, 17, 17, 17, 17, 17, 17, 17, 18,
     18, 18, 18, 18, 18, 18, 18, 18, 18, 18, 18, 18, 18, 18, 18, 18, 18, 18, 18, 18, 18,
     18, 18, 18, 18, 18, 18, 18, 18, 18, 18, 19, 19, 19, 19, 19, 19, 19, 19, 19, 19, 19,
     19, 19, 19, 19, 19, 19, 19, 19, 19, 19, 19, 19, 19, 19, 19, 19, 19, 19, 19, 19, 19,
     20, 20, 20, 20, 20, 20, 20, 20, 20, 20, 20, 20, 20, 20, 20, 20, 20, 20, 20, 20, 20,
     20, 20, 20, 20, 20, 20, 20, 20, 20, 20, 20, 21, 21, 21, 21, 21, 21, 21, 21, 21, 21,
     21, 21, 21, 21, 21, 21, 21, 21, 21, 21, 21, 21, 21, 21, 21, 21, 21, 21, 21, 21, 21,
     21, 1, 90, 95, 0, 73, 193, 173, 95, 244, 43, 227, 8, 55, 52, 44, 94, 67, 160, 212,
     199, 243, 72, 210, 178, 188, 226, 226, 84, 243, 49, 214, 143, 130]"

lemma byte_values:
  "byte_bits 1 = [True, False, False, False, False, False, False, False]"
  "byte_bits 2 = [False, True, False, False, False, False, False, False]"
  "byte_bits 3 = [True, True, False, False, False, False, False, False]"
  "byte_bits 5 = [True, False, True, False, False, False, False, False]"
  "byte_bits 7 = [True, True, True, False, False, False, False, False]"
  "byte_bits 8 = [False, False, False, True, False, False, False, False]"
  "byte_bits 17 = [True, False, False, False, True, False, False, False]"
  "byte_bits 18 = [False, True, False, False, True, False, False, False]"
  "byte_bits 19 = [True, True, False, False, True, False, False, False]"
  "byte_bits 20 = [False, False, True, False, True, False, False, False]"
  "byte_bits 21 = [True, False, True, False, True, False, False, False]"
  "byte_bits 22 = [False, True, True, False, True, False, False, False]"
  "byte_bits 23 = [True, True, True, False, True, False, False, False]"
  "byte_bits 30 = [False, True, True, True, True, False, False, False]"
  "byte_bits 43 = [True, True, False, True, False, True, False, False]"
  "byte_bits 44 = [False, False, True, True, False, True, False, False]"
  "byte_bits 49 = [True, False, False, False, True, True, False, False]"
  "byte_bits 52 = [False, False, True, False, True, True, False, False]"
  "byte_bits 55 = [True, True, True, False, True, True, False, False]"
  "byte_bits 65 = [True, False, False, False, False, False, True, False]"
  "byte_bits 67 = [True, True, False, False, False, False, True, False]"
  "byte_bits 68 = [False, False, True, False, False, False, True, False]"
  "byte_bits 69 = [True, False, True, False, False, False, True, False]"
  "byte_bits 70 = [False, True, True, False, False, False, True, False]"
  "byte_bits 72 = [False, False, False, True, False, False, True, False]"
  "byte_bits 73 = [True, False, False, True, False, False, True, False]"
  "byte_bits 78 = [False, True, True, True, False, False, True, False]"
  "byte_bits 79 = [True, True, True, True, False, False, True, False]"
  "byte_bits 80 = [False, False, False, False, True, False, True, False]"
  "byte_bits 81 = [True, False, False, False, True, False, True, False]"
  "byte_bits 82 = [False, True, False, False, True, False, True, False]"
  "byte_bits 83 = [True, True, False, False, True, False, True, False]"
  "byte_bits 84 = [False, False, True, False, True, False, True, False]"
  "byte_bits 85 = [True, False, True, False, True, False, True, False]"
  "byte_bits 86 = [False, True, True, False, True, False, True, False]"
  "byte_bits 90 = [False, True, False, True, True, False, True, False]"
  "byte_bits 94 = [False, True, True, True, True, False, True, False]"
  "byte_bits 95 = [True, True, True, True, True, False, True, False]"
  "byte_bits 107 = [True, True, False, True, False, True, True, False]"
  "byte_bits 130 = [False, True, False, False, False, False, False, True]"
  "byte_bits 143 = [True, True, True, True, False, False, False, True]"
  "byte_bits 160 = [False, False, False, False, False, True, False, True]"
  "byte_bits 173 = [True, False, True, True, False, True, False, True]"
  "byte_bits 176 = [False, False, False, False, True, True, False, True]"
  "byte_bits 178 = [False, True, False, False, True, True, False, True]"
  "byte_bits 188 = [False, False, True, True, True, True, False, True]"
  "byte_bits 193 = [True, False, False, False, False, False, True, True]"
  "byte_bits 199 = [True, True, True, False, False, False, True, True]"
  "byte_bits 210 = [False, True, False, False, True, False, True, True]"
  "byte_bits 212 = [False, False, True, False, True, False, True, True]"
  "byte_bits 214 = [False, True, True, False, True, False, True, True]"
  "byte_bits 226 = [False, True, False, False, False, True, True, True]"
  "byte_bits 227 = [True, True, False, False, False, True, True, True]"
  "byte_bits 243 = [True, True, False, False, True, True, True, True]"
  "byte_bits 244 = [False, False, True, False, True, True, True, True]"
  by (simp_all add: byte_bits_def upt_rec)

lemma pad_tail_182: "pad_tail 182 =
    [128, 0, 0, 0, 0, 0, 0, 0, 5, 176]"
  by code_simp

lemma pad_tail_225: "pad_tail 225 =
    [128, 0, 0, 0, 0, 0, 0, 0, 0, 0, 0, 0, 0, 0, 0, 0, 0, 0, 0, 0, 0, 0, 0, 0, 0, 0, 0,
     0, 0, 7, 8]"
  by code_simp

lemma sha_vector_action:
  "sha256_fips vector_action_bytes = arr_of
    [90, 95, 0, 73, 193, 173, 95, 244, 43, 227, 8, 55, 52, 44, 94, 67, 160, 212, 199,
     243, 72, 210, 178, 188, 226, 226, 84, 243, 49, 214, 143, 130]"
proof -
  have "length vector_action_bytes = 182" by (simp add: vector_action_bytes_def)
  then show ?thesis
    unfolding sha256_fips_def pad_def
    by (simp only: vector_action_bytes_def pad_tail_182 sha_eval byte_values) simp
qed

lemma sha_vector_request:
  "sha256_fips vector_request_bytes = arr_of
    [38, 182, 224, 250, 239, 115, 31, 62, 63, 86, 153, 181, 232, 93, 85, 60, 165, 186,
     109, 156, 190, 52, 120, 53, 241, 79, 30, 81, 86, 131, 85, 43]"
proof -
  have "length vector_request_bytes = 225" by (simp add: vector_request_bytes_def)
  then show ?thesis
    unfolding sha256_fips_def pad_def
    by (simp only: vector_request_bytes_def pad_tail_225 sha_eval byte_values) simp
qed

lemma vector_action_encodes: "encode vector_action = Some vector_action_bytes"
  by code_simp

lemma vector_request_preimage:
  assumes "sha256 rt = sha256_fips"
  shows "request_preimage rt (arr_of (replicate 32 0x11)) (arr_of (replicate 32 0x12))
     (arr_of (replicate 32 0x13)) (arr_of (replicate 32 0x14)) (arr_of (replicate 32 0x15))
     vector_action_bytes = vector_request_bytes"
  unfolding request_preimage_def Let_def assms sha_vector_action vector_request_bytes_def
  by code_simp

lemma schema_vector_refusals:
  "encode (vector_action\<lparr>ac_commitment_new := arr_of (replicate 32 0)\<rparr>) = None"
  "encode (vector_action\<lparr>ac_commitment_prev := arr_of (replicate 32 0)\<rparr>) = None"
  "encode (vector_action\<lparr>ac_valid_until := 0\<rparr>) = None"
  "encode (vector_action\<lparr>ac_threshold := 257\<rparr>) = None"
  "encode (vector_action\<lparr>ac_min_distance := 31\<rparr>) = None"
  "encode (vector_action\<lparr>ac_commitment_new := SCALAR_MODULUS\<rparr>) = None"
  by code_simp+

lemma shared_schema_vector_passes:
  assumes "sha256 rt = sha256_fips"
  shows "shared_schema_vector rt"
proof -
  have limb: "take 16 (elems (fst (digest_limbs digest))) = replicate 16 0" for digest
    by (simp add: digest_limbs_def copy_at_def)
  show ?thesis
    unfolding shared_schema_vector_def request_digest_def vector_action_encodes
    by (simp add: vector_request_preimage [OF assms] schema_vector_refusals limb)
      (simp add: assms sha_vector_request)
qed

end
