(* ===== verification/Mock_Verifier.thy ===== *)
theory Mock_Verifier
  imports Runtime
begin

text \<open>
  The stand-in for the pairing check that tests of entros-verifier can call
  (programs/entros-verifier/src/mock_verifier.rs). The programs do not call it.
\<close>

definition MOCK_PROOF_MAGIC :: "byte list" where
  "MOCK_PROOF_MAGIC = [0x49, 0x41, 0x4D, 0x01]"

definition mock_verify_proof :: "byte list \<Rightarrow> bytes32 list \<Rightarrow> bool" where
  "mock_verify_proof proof_bytes public_inputs =
     (if length proof_bytes < 4 then False
      else slice 0 4 proof_bytes = MOCK_PROOF_MAGIC)"

lemma mock_accepts_prefixed:
  "mock_verify_proof proof inputs \<longleftrightarrow> (\<exists>rest. proof = MOCK_PROOF_MAGIC @ rest)"
  by (auto simp: mock_verify_proof_def MOCK_PROOF_MAGIC_def slice_def)
    (metis append.simps append_take_drop_id)

end
