(* ===== verification/Program_Tests.thy ===== *)
theory Program_Tests
  imports Verifier Trust_Score Mock_Verifier
begin

text \<open>
  The unit tests of entros-registry, entros-verifier, its mock verifier and
  crates/proof-request, run on the model: one definition per test function, the
  conjunction of its assertions, and one lemma that it passes. A test of the model against
  the expectations that the authors wrote down for the code.
\<close>

section \<open>Assertions\<close>

definition is_ok :: "'e + 'a \<Rightarrow> bool" where "is_ok r = (\<not> isl r)"
definition is_err :: "'e + 'a \<Rightarrow> bool" where "is_err r = isl r"

text \<open>\<open>expect\<close> and \<open>unwrap\<close> panic on an error, and the rest of the test runs on the value.\<close>

definition expect :: "'e + 'a \<Rightarrow> ('a \<Rightarrow> bool) \<Rightarrow> bool" where
  "expect r k = (case r of Inl e \<Rightarrow> False | Inr x \<Rightarrow> k x)"

lemma is_ok_simps [simp]: "is_ok (Inr x)" "\<not> is_ok (Inl e)"
  by (simp_all add: is_ok_def)

lemma is_err_simps [simp]: "is_err (Inl e)" "\<not> is_err (Inr x)"
  by (simp_all add: is_err_def)

lemma expect_simps [simp]: "expect (Inr x) k = k x" "expect (Inl e) k = False"
  by (simp_all add: expect_def)

lemma is_err_iff: "is_err r \<longleftrightarrow> (\<forall>x. r \<noteq> Inr x)"
  by (cases r) auto

section \<open>entros-registry\<close>

definition legacy_projection_policy_advances_monotonically :: bool where
  "legacy_projection_policy_advances_monotonically =
     (let legacy = replicate 109 0 in
      expect (read_projection_versions legacy) (\<lambda>initial.
        initial = (0, 0) \<and>
        is_ok (validate_projection_transition initial (1, 0)) \<and>
        is_ok (validate_projection_transition (1, 0) (1, 1))))"

definition current_projection_version_cannot_roll_back :: bool where
  "current_projection_version_cannot_roll_back =
     is_err (validate_projection_transition (2, 1) (1, 1))"

definition minimum_projection_version_cannot_roll_back :: bool where
  "minimum_projection_version_cannot_roll_back =
     is_err (validate_projection_transition (2, 1) (2, 0))"

definition projection_window_cannot_invert :: bool where
  "projection_window_cannot_invert = is_err (validate_projection_transition (1, 0) (1, 2))"

definition protocol_config_layout_offsets_match_serialized_fields :: "runtime \<Rightarrow> bool" where
  "protocol_config_layout_offsets_match_serialized_fields rt =
     (let admin = arr_of (replicate 32 1);
          validator = arr_of (replicate 32 2);
          pending = arr_of (replicate 32 3);
          secondary = arr_of (replicate 32 4);
          config = \<lparr>pc_admin = admin, pc_min_stake = 1000000000, pc_challenge_expiry = 300,
            pc_max_trust_score = 10000, pc_base_trust_increment = 100, pc_bump = 254,
            pc_verification_fee = 5000000, pc_migration_fee = 5000000,
            pc_validator_pubkey = validator, pc_current_projection_version = 2,
            pc_minimum_supported_projection_version = 1, pc_pending_authority = pending,
            pc_secondary_validator_pubkey = secondary,
            pc_secondary_validator_valid_until = 1700086400\<rparr>;
          bytes = config_bytes rt config
      in length bytes = config_len \<and>
         slice offset_validator_pubkey 32 bytes = elems validator \<and>
         expect (read_projection_versions bytes) (\<lambda>versions. versions = (2, 1)) \<and>
         slice offset_pending_authority 32 bytes = elems pending \<and>
         slice offset_secondary_validator_pubkey 32 bytes = elems secondary \<and>
         (from_le (slice offset_secondary_validator_valid_until 8 bytes) :: i64) = 1700086400)"

lemma registry_projection_tests_pass:
  "legacy_projection_policy_advances_monotonically"
  "current_projection_version_cannot_roll_back"
  "minimum_projection_version_cannot_roll_back"
  "projection_window_cannot_invert"
  by code_simp+

lemma registry_layout_test_passes: "protocol_config_layout_offsets_match_serialized_fields rt"
proof -
  have at: "slice a n (xs @ ys) = (if a < length xs then slice a n xs else slice (a - length xs) n ys)"
    if "a < length xs \<longrightarrow> a + n \<le> length xs" for a n and xs ys :: "byte list"
    using that by (auto simp: slice_def)
  have past: "0 < a \<Longrightarrow> slice a n (x # xs) = slice (a - 1) n xs" for a n and x :: byte and xs
    by (simp add: slice_def drop_Cons')
  show ?thesis
    by (simp add: protocol_config_layout_offsets_match_serialized_fields_def Let_def
        config_bytes_def serialize_def config_fields_def config_consts at past slice_all
        read_projection_versions_def u16_le.dec_enc u64_le.dec_enc word_le_nat_alt)
qed

section \<open>entros-verifier\<close>

definition u16_field_encoding_round_trips :: bool where
  "u16_field_encoding_round_trips =
     (\<forall>value \<in> set [0, 1, MIN_DISTANCE_FLOOR, MAX_THRESHOLD, - 1].
        let encoded = encode_u16_field_element value in
        expect (decode_u16_from_field_element encoded) (\<lambda>v. v = value) \<and>
        take 30 (elems encoded) = replicate 30 0)"

definition hamming_bounds_accept_the_program_ceiling_and_floor :: bool where
  "hamming_bounds_accept_the_program_ceiling_and_floor =
     is_ok (validate_hamming_bounds MAX_THRESHOLD MIN_DISTANCE_FLOOR)"

definition hamming_bounds_reject_a_threshold_above_the_program_ceiling :: bool where
  "hamming_bounds_reject_a_threshold_above_the_program_ceiling =
     is_err (validate_hamming_bounds (MAX_THRESHOLD + 1) MIN_DISTANCE_FLOOR)"

definition hamming_bounds_reject_a_minimum_below_the_program_floor :: bool where
  "hamming_bounds_reject_a_minimum_below_the_program_floor =
     is_err (validate_hamming_bounds MAX_THRESHOLD (MIN_DISTANCE_FLOOR - 1))"

definition hamming_bounds_reject_an_empty_acceptance_interval :: bool where
  "hamming_bounds_reject_an_empty_acceptance_interval =
     is_err (validate_hamming_bounds MIN_DISTANCE_FLOOR MIN_DISTANCE_FLOOR)"

lemma verifier_encoding_test_passes: "u16_field_encoding_round_trips"
  by code_simp

lemma verifier_bounds_tests_pass:
  "hamming_bounds_accept_the_program_ceiling_and_floor"
  "hamming_bounds_reject_a_threshold_above_the_program_ceiling"
  "hamming_bounds_reject_a_minimum_below_the_program_floor"
  "hamming_bounds_reject_an_empty_acceptance_interval"
  by code_simp+

section \<open>The mock verifier\<close>

definition test_valid_mock_proof :: bool where
  "test_valid_mock_proof = mock_verify_proof [0x49, 0x41, 0x4D, 0x01, 0x00, 0x00] []"

definition test_invalid_mock_proof :: bool where
  "test_invalid_mock_proof = (\<not> mock_verify_proof [0x00, 0x00, 0x00, 0x00] [])"

definition test_too_short_proof :: bool where
  "test_too_short_proof = (\<not> mock_verify_proof [0x49, 0x41, 0x4D] [])"

definition test_empty_proof :: bool where
  "test_empty_proof = (\<not> mock_verify_proof [] [])"

lemma mock_tests_pass:
  "test_valid_mock_proof" "test_invalid_mock_proof" "test_too_short_proof" "test_empty_proof"
  by code_simp+

section \<open>crates/proof-request\<close>

definition canonical_boundaries :: bool where
  "canonical_boundaries =
     (\<not> canonical_scalar SCALAR_MODULUS \<and>
      (let max = arr_of ((elems SCALAR_MODULUS)[31 := elems SCALAR_MODULUS ! 31 - 1])
       in canonical_scalar max) \<and>
      \<not> canonical_scalar (arr_of (replicate 32 255)))"

lemma canonical_test_passes: "canonical_boundaries"
  by code_simp

end
