(* ===== verification/Anchor_Tests.thy ===== *)
theory Anchor_Tests
  imports Receipts_Correct Program_Tests
begin

text \<open>
  The unit tests of entros-anchor (the module \<open>tests\<close> of programs/entros-anchor/src/lib.rs),
  run on the model: one definition per test function, the conjunction of its assertions,
  and a lemma that it passes. Keys that a test draws with \<open>Pubkey::new_unique\<close> are
  arguments, and the lemmas hold for all distinct ones. The shared receipt vectors are those
  of tests-litesvm-ts/fixtures/paired-round-vectors.json, written by another program.
\<close>

definition T0 :: i64 where "T0 = 1700000000"

section \<open>Projection policy\<close>

definition legacy_protocol_config_defaults_to_projection_zero :: bool where
  "legacy_protocol_config_defaults_to_projection_zero =
     expect (read_projection_policy (replicate 109 0)) (\<lambda>policy.
       pp_current policy = 0 \<and> pp_minimum policy = 0)"

definition partial_or_inverted_projection_policy_is_rejected :: bool where
  "partial_or_inverted_projection_policy_is_rejected =
     (is_err (read_projection_policy (replicate 111 0)) \<and>
      (let data = replicate 113 0;
           data = copy_at 109 (u16_le 2) data;
           data = copy_at 111 (u16_le 3) data
       in is_err (read_projection_policy data)))"

definition identity_projection_must_stay_inside_the_configured_window :: bool where
  "identity_projection_must_stay_inside_the_configured_window =
     (let policy = ProjectionPolicy 4 2 in
      is_err (validate_identity_projection 1 policy) \<and>
      is_ok (validate_identity_projection 2 policy) \<and>
      is_ok (validate_identity_projection 4 policy) \<and>
      is_err (validate_identity_projection 5 policy))"

definition requested_projection_must_equal_the_configured_current_version :: bool where
  "requested_projection_must_equal_the_configured_current_version =
     (let policy = ProjectionPolicy 4 2 in
      is_ok (validate_requested_projection 4 policy) \<and>
      is_err (validate_requested_projection 3 policy) \<and>
      is_err (validate_requested_projection 5 policy))"

lemma projection_tests_pass:
  "legacy_protocol_config_defaults_to_projection_zero"
  "partial_or_inverted_projection_policy_is_rejected"
  "identity_projection_must_stay_inside_the_configured_window"
  "requested_projection_must_equal_the_configured_current_version"
  by code_simp+

section \<open>Receipts of versions 1 and 2\<close>

text \<open>The test helper \<open>receipt_v2\<close>, which fills a zeroed buffer field by field.\<close>

definition receipt_v2_buffer ::
  "pubkey \<Rightarrow> bytes32 \<Rightarrow> receipt_purpose \<Rightarrow> u16 \<Rightarrow> i64 \<Rightarrow> byte list" where
  "receipt_v2_buffer wallet commitment purpose projection_version validated_at =
     (let receipt = replicate RECEIPT_V2_MESSAGE_LEN 0;
          receipt = copy_at 0 RECEIPT_V2_DOMAIN receipt;
          receipt = receipt[28 := purpose_code purpose];
          receipt = copy_at 29 (u16_le projection_version) receipt;
          receipt = copy_at 31 (elems wallet) receipt;
          receipt = copy_at 63 (elems commitment) receipt
      in copy_at 95 (u64_le validated_at) receipt)"

definition receipt_v2_binds_purpose_and_projection_version :: "pubkey \<Rightarrow> pubkey \<Rightarrow> bool" where
  "receipt_v2_binds_purpose_and_projection_version wallet other =
     (let commitment = arr_of (replicate 32 7);
          now = T0;
          receipt = receipt_v2_buffer wallet commitment Rebaseline 3 now;
          reset_receipt = receipt_v2_buffer wallet commitment Reset 3 now
      in is_ok (verify_receipt_payload receipt wallet commitment Rebaseline 3 now) \<and>
         is_err (verify_receipt_payload receipt wallet commitment Mint 3 now) \<and>
         is_ok (verify_receipt_payload reset_receipt wallet commitment Reset 3 now) \<and>
         is_err (verify_receipt_payload reset_receipt wallet commitment Rebaseline 3 now) \<and>
         is_err (verify_receipt_payload reset_receipt other commitment Reset 3 now) \<and>
         is_err (verify_receipt_payload reset_receipt wallet commitment Reset 3
           (now + word_of_int MAX_RECEIPT_AGE_SECS + 1)) \<and>
         is_err (verify_receipt_payload receipt wallet commitment Rebaseline 4 now))"

definition legacy_receipt_is_limited_to_projection_zero_minting :: "pubkey \<Rightarrow> bool" where
  "legacy_receipt_is_limited_to_projection_zero_minting wallet =
     (let commitment = arr_of (replicate 32 9);
          now = T0;
          receipt = replicate RECEIPT_V1_MESSAGE_LEN 0;
          receipt = copy_at 0 (elems wallet) receipt;
          receipt = copy_at 32 (elems commitment) receipt;
          receipt = copy_at 64 (u64_le now) receipt
      in is_ok (verify_receipt_payload receipt wallet commitment Mint 0 now) \<and>
         is_err (verify_receipt_payload receipt wallet commitment Mint 1 now) \<and>
         is_err (verify_receipt_payload receipt wallet commitment Rebaseline 0 now))"

lemma receipt_v2_buffer_eq:
  "receipt_v2_buffer wallet commitment purpose version ts =
     receipt_v2 purpose version wallet commitment ts"
  by (simp add: receipt_v2_buffer_def receipt_v2_def receipt_lens Let_def copy_at_def
      list_update_append numeral_eq_Suc)

lemma receipt_v1_buffer_eq:
  "copy_at 64 (u64_le ts) (copy_at 32 (elems commitment) (copy_at 0 (elems wallet)
      (replicate RECEIPT_V1_MESSAGE_LEN 0))) = receipt_v1 wallet (commitment :: bytes32) ts"
  for wallet :: pubkey
  by (simp add: receipt_v1_def receipt_lens copy_at_def)

lemma is_ok_iff: "is_ok r \<longleftrightarrow> (\<exists>x. r = Inr x)"
  by (cases r) simp_all

lemma is_err_not_ok: "is_err r \<longleftrightarrow> \<not> is_ok r"
  by (simp add: is_err_def is_ok_def)

lemma receipt_v1_ok:
  "is_ok (verify_receipt_payload (receipt_v1 wallet' commitment' ts) wallet commitment purpose
     version now) \<longleftrightarrow>
   wallet' = wallet \<and> commitment' = commitment \<and> purpose = Mint \<and> version = 0 \<and> fresh ts now"
  by (auto simp: is_ok_iff receipt_accepted receipt_v1_inject receipt_formats_apart)

lemma receipt_v2_ok:
  "is_ok (verify_receipt_payload (receipt_v2 purpose' version' wallet' commitment' ts) wallet
     commitment purpose version now) \<longleftrightarrow>
   wallet' = wallet \<and> commitment' = commitment \<and> purpose' = purpose \<and> version' = version \<and>
   fresh ts now"
  by (auto simp: is_ok_iff receipt_accepted receipt_v2_inject receipt_formats_apart)

lemma receipt_v3_ok:
  "is_ok (verify_receipt_payload (receipt_v3 purpose' version' wallet' commitment' ts s) wallet
     commitment purpose version now) \<longleftrightarrow>
   wallet' = wallet \<and> commitment' = commitment \<and> purpose' = purpose \<and> version' = version \<and>
   fresh ts now \<and> assurance_tier s \<le> MAX_ASSURANCE_TIER"
  by (auto simp: is_ok_iff receipt_accepted receipt_v3_inject receipt_formats_apart)

lemma T0_ages:
  "fresh T0 T0" "\<not> fresh T0 (T0 + word_of_int MAX_RECEIPT_AGE_SECS + 1)"
  by code_simp+

lemma receipt_v2_test_passes:
  "wallet \<noteq> other \<Longrightarrow> receipt_v2_binds_purpose_and_projection_version wallet other"
  by (simp add: receipt_v2_binds_purpose_and_projection_version_def Let_def receipt_v2_buffer_eq
      is_err_not_ok receipt_v2_ok T0_ages)

lemma receipt_v1_test_passes: "legacy_receipt_is_limited_to_projection_zero_minting wallet"
  by (simp add: legacy_receipt_is_limited_to_projection_zero_minting_def Let_def
      receipt_v1_buffer_eq is_err_not_ok receipt_v1_ok T0_ages)

section \<open>The activity ring\<close>

definition first_verification_fills_the_newest_slot :: bool where
  "first_verification_fills_the_newest_slot =
     (let ring = record_verification (arr_of (replicate 52 0)) T0
      in elems ring ! 0 = T0 \<and> elems ring ! 1 = 0)"

definition a_second_verification_in_the_same_bin_evicts_nothing :: bool where
  "a_second_verification_in_the_same_bin_evicts_nothing =
     (let ring = record_verification (arr_of (replicate 52 0)) T0;
          ring = fold (\<lambda>offset ring. record_verification ring (T0 + offset))
            [1, 60, 3600, word_of_int BIN_SIZE_SECS - 1] ring
      in elems ring ! 0 = T0 \<and> elems ring ! 1 = 0)"

definition crossing_a_bin_boundary_prepends :: bool where
  "crossing_a_bin_boundary_prepends =
     (let ring = record_verification (arr_of (replicate 52 0)) T0;
          ring = record_verification ring (T0 + word_of_int BIN_SIZE_SECS)
      in elems ring ! 0 = T0 + word_of_int BIN_SIZE_SECS \<and> elems ring ! 1 = T0)"

definition the_ring_holds_a_year_of_weekly_entries_before_it_rolls :: bool where
  "the_ring_holds_a_year_of_weekly_entries_before_it_rolls =
     (let bin = word_of_int BIN_SIZE_SECS;
          ring = fold (\<lambda>week ring. record_verification ring (T0 + of_nat week * bin))
            [0..<52] (arr_of (replicate 52 0));
          rolled = record_verification ring (T0 + 52 * bin)
      in elems ring ! 0 = T0 + 51 * bin \<and> elems ring ! 51 = T0 \<and>
         elems rolled ! 51 = T0 + bin)"

definition a_clock_that_goes_backwards_does_not_evict :: bool where
  "a_clock_that_goes_backwards_does_not_evict =
     (let ring = record_verification (arr_of (replicate 52 0)) T0;
          ring = record_verification ring (T0 - word_of_int BIN_SIZE_SECS * 2)
      in elems ring ! 0 = T0 \<and> elems ring ! 1 = 0)"

lemma ring_tests_pass:
  "first_verification_fills_the_newest_slot"
  "a_second_verification_in_the_same_bin_evicts_nothing"
  "crossing_a_bin_boundary_prepends"
  "a_clock_that_goes_backwards_does_not_evict"
  by code_simp+

lemma ring_year_test_passes: "the_ring_holds_a_year_of_weekly_entries_before_it_rolls"
  by code_simp

section \<open>Validator keys\<close>

definition validator_key_policy_enforces_grace_window_and_fail_closed :: bool where
  "validator_key_policy_enforces_grace_window_and_fail_closed =
     (let config_data = replicate PC_LEN_WITH_ROLLOVER 0;
          empty = read_validator_key_policy config_data;
          primary = replicate 32 3;
          secondary = replicate 32 4;
          configured = copy_at PC_OFFSET_VALIDATOR_PUBKEY primary config_data;
          configured = copy_at PC_OFFSET_SECONDARY_VALIDATOR_PUBKEY secondary configured;
          configured = copy_at PC_OFFSET_SECONDARY_VALIDATOR_VALID_UNTIL (u64_le (T0 + 600)) configured;
          policy = read_validator_key_policy configured
      in \<not> is_configured empty \<and>
         \<not> accepts empty (replicate 32 1) T0 \<and>
         is_configured policy \<and>
         accepts policy primary T0 \<and>
         accepts policy secondary (T0 + 600) \<and>
         \<not> accepts policy secondary (T0 + 601) \<and>
         \<not> accepts policy (replicate 32 9) T0)"

lemma validator_key_test_passes: "validator_key_policy_enforces_grace_window_and_fail_closed"
  by code_simp

section \<open>The shared receipt vectors\<close>

text \<open>
  The object \<open>receipts\<close> of the fixture: hexadecimal strings, the cases of version 3 as
  (purpose, assurance tier, message), the invalid ones as (name, message).
\<close>

record receipt_vectors =
  walletHex :: string
  commitmentHex :: string
  validatedAt :: i64
  projectionVersion :: u16
  finalDigestHex :: string
  v3_cases :: "(nat \<times> byte \<times> string) list"
  v2_message :: string
  invalid_cases :: "(string \<times> string) list"

definition VECTORS :: receipt_vectors where
  "VECTORS =
     \<lparr>walletHex = ''27323d48535e69747f8a95a0abb6c1ccd7e2edf8030e19242f3a45505b66717c'',
      commitmentHex = ''4c57626d78838e99a4afbac5d0dbe6f1fc07121d28333e49545f6a75808b96a1'',
      validatedAt = 1790000000,
      projectionVersion = 1,
      finalDigestHex = ''2215276b1536890b9896b3634b825c3e00058b76bbace7ce948dd5eadd0b1540'',
      v3_cases =
       [(1, 0,
          ''656e74726f732d76616c696461746f722d726563656970742d76330001010027323d48535e69747f'' @
          ''8a95a0abb6c1ccd7e2edf8030e19242f3a45505b66717c4c57626d78838e99a4afbac5d0dbe6f1fc'' @
          ''07121d28333e49545f6a75808b96a1803bb16a000000002215276b1536890b9896b3634b825c3e00'' @
          ''058b76bbace7ce948dd5eadd0b154000''),
        (1, 1,
          ''656e74726f732d76616c696461746f722d726563656970742d76330001010027323d48535e69747f'' @
          ''8a95a0abb6c1ccd7e2edf8030e19242f3a45505b66717c4c57626d78838e99a4afbac5d0dbe6f1fc'' @
          ''07121d28333e49545f6a75808b96a1803bb16a000000002215276b1536890b9896b3634b825c3e00'' @
          ''058b76bbace7ce948dd5eadd0b154001''),
        (1, 2,
          ''656e74726f732d76616c696461746f722d726563656970742d76330001010027323d48535e69747f'' @
          ''8a95a0abb6c1ccd7e2edf8030e19242f3a45505b66717c4c57626d78838e99a4afbac5d0dbe6f1fc'' @
          ''07121d28333e49545f6a75808b96a1803bb16a000000002215276b1536890b9896b3634b825c3e00'' @
          ''058b76bbace7ce948dd5eadd0b154002''),
        (2, 0,
          ''656e74726f732d76616c696461746f722d726563656970742d76330002010027323d48535e69747f'' @
          ''8a95a0abb6c1ccd7e2edf8030e19242f3a45505b66717c4c57626d78838e99a4afbac5d0dbe6f1fc'' @
          ''07121d28333e49545f6a75808b96a1803bb16a000000002215276b1536890b9896b3634b825c3e00'' @
          ''058b76bbace7ce948dd5eadd0b154000''),
        (2, 1,
          ''656e74726f732d76616c696461746f722d726563656970742d76330002010027323d48535e69747f'' @
          ''8a95a0abb6c1ccd7e2edf8030e19242f3a45505b66717c4c57626d78838e99a4afbac5d0dbe6f1fc'' @
          ''07121d28333e49545f6a75808b96a1803bb16a000000002215276b1536890b9896b3634b825c3e00'' @
          ''058b76bbace7ce948dd5eadd0b154001''),
        (2, 2,
          ''656e74726f732d76616c696461746f722d726563656970742d76330002010027323d48535e69747f'' @
          ''8a95a0abb6c1ccd7e2edf8030e19242f3a45505b66717c4c57626d78838e99a4afbac5d0dbe6f1fc'' @
          ''07121d28333e49545f6a75808b96a1803bb16a000000002215276b1536890b9896b3634b825c3e00'' @
          ''058b76bbace7ce948dd5eadd0b154002''),
        (3, 0,
          ''656e74726f732d76616c696461746f722d726563656970742d76330003010027323d48535e69747f'' @
          ''8a95a0abb6c1ccd7e2edf8030e19242f3a45505b66717c4c57626d78838e99a4afbac5d0dbe6f1fc'' @
          ''07121d28333e49545f6a75808b96a1803bb16a000000002215276b1536890b9896b3634b825c3e00'' @
          ''058b76bbace7ce948dd5eadd0b154000''),
        (3, 1,
          ''656e74726f732d76616c696461746f722d726563656970742d76330003010027323d48535e69747f'' @
          ''8a95a0abb6c1ccd7e2edf8030e19242f3a45505b66717c4c57626d78838e99a4afbac5d0dbe6f1fc'' @
          ''07121d28333e49545f6a75808b96a1803bb16a000000002215276b1536890b9896b3634b825c3e00'' @
          ''058b76bbace7ce948dd5eadd0b154001''),
        (3, 2,
          ''656e74726f732d76616c696461746f722d726563656970742d76330003010027323d48535e69747f'' @
          ''8a95a0abb6c1ccd7e2edf8030e19242f3a45505b66717c4c57626d78838e99a4afbac5d0dbe6f1fc'' @
          ''07121d28333e49545f6a75808b96a1803bb16a000000002215276b1536890b9896b3634b825c3e00'' @
          ''058b76bbace7ce948dd5eadd0b154002'')],
      v2_message =
          ''656e74726f732d76616c696461746f722d726563656970742d76320001010027323d48535e69747f'' @
          ''8a95a0abb6c1ccd7e2edf8030e19242f3a45505b66717c4c57626d78838e99a4afbac5d0dbe6f1fc'' @
          ''07121d28333e49545f6a75808b96a1803bb16a00000000'',
      invalid_cases =
       [(''assurance tier above attested'',
          ''656e74726f732d76616c696461746f722d726563656970742d76330001010027323d48535e69747f'' @
          ''8a95a0abb6c1ccd7e2edf8030e19242f3a45505b66717c4c57626d78838e99a4afbac5d0dbe6f1fc'' @
          ''07121d28333e49545f6a75808b96a1803bb16a000000002215276b1536890b9896b3634b825c3e00'' @
          ''058b76bbace7ce948dd5eadd0b154003''),
        (''version 3 domain at the version 2 length'',
          ''656e74726f732d76616c696461746f722d726563656970742d76330001010027323d48535e69747f'' @
          ''8a95a0abb6c1ccd7e2edf8030e19242f3a45505b66717c4c57626d78838e99a4afbac5d0dbe6f1fc'' @
          ''07121d28333e49545f6a75808b96a1803bb16a00000000''),
        (''version 2 domain at the version 3 length'',
          ''656e74726f732d76616c696461746f722d726563656970742d76320001010027323d48535e69747f'' @
          ''8a95a0abb6c1ccd7e2edf8030e19242f3a45505b66717c4c57626d78838e99a4afbac5d0dbe6f1fc'' @
          ''07121d28333e49545f6a75808b96a1803bb16a000000002215276b1536890b9896b3634b825c3e00'' @
          ''058b76bbace7ce948dd5eadd0b154002'')]\<rparr>"

fun hex_digit :: "char \<Rightarrow> byte" where
  "hex_digit c = (let n = of_char c :: byte in if n < 58 then n - 48 else n - 87)"

fun vector_bytes :: "string \<Rightarrow> byte list" where
  "vector_bytes (a # b # text) = (16 * hex_digit a + hex_digit b) # vector_bytes text"
| "vector_bytes text = []"

fun vector_purpose :: "nat \<Rightarrow> receipt_purpose option" where
  "vector_purpose n = (if n = 1 then Some Mint else if n = 2 then Some Rebaseline
     else if n = 3 then Some Reset else None)"

text \<open>\<open>name.contains("tier")\<close>.\<close>

fun contains :: "'a list \<Rightarrow> 'a list \<Rightarrow> bool" where
  "contains needle [] \<longleftrightarrow> needle = []"
| "contains needle (c # cs) \<longleftrightarrow>
     take (length needle) (c # cs) = needle \<or> contains needle cs"

definition vector_wallet :: pubkey where
  "vector_wallet = arr_of (vector_bytes (walletHex VECTORS))"

definition vector_commitment :: bytes32 where
  "vector_commitment = arr_of (vector_bytes (commitmentHex VECTORS))"

definition v3_mint_tier_two :: "byte list option" where
  "v3_mint_tier_two =
     map_option (\<lambda>(purpose, tier, message_hex). vector_bytes message_hex)
       (find (\<lambda>(purpose, tier, message_hex). purpose = 1 \<and> tier = 2) (v3_cases VECTORS))"

definition error_code :: "byte list \<Rightarrow> entros_anchor_error option" where
  "error_code message =
     (case verify_receipt_payload message vector_wallet vector_commitment Mint
         (projectionVersion VECTORS) (validatedAt VECTORS) of
       Inl e \<Rightarrow> Some e | Inr session \<Rightarrow> None)"

definition every_v3_receipt_vector_verifies_and_yields_its_session :: bool where
  "every_v3_receipt_vector_verifies_and_yields_its_session =
     (let final_digest = arr_of (vector_bytes (finalDigestHex VECTORS)) in
      (\<forall>(purpose, tier, message_hex) \<in> set (v3_cases VECTORS).
         case vector_purpose purpose of
           None \<Rightarrow> False
         | Some p \<Rightarrow> expect (verify_receipt_payload (vector_bytes message_hex) vector_wallet
               vector_commitment p (projectionVersion VECTORS) (validatedAt VECTORS))
             (\<lambda>session. session =
                Some \<lparr>receipt_session.final_digest = final_digest, assurance_tier = tier\<rparr>)) \<and>
      expect (verify_receipt_payload (vector_bytes (v2_message VECTORS)) vector_wallet
          vector_commitment Mint (projectionVersion VECTORS) (validatedAt VECTORS))
        (\<lambda>session. session = None) \<and>
      (\<forall>(name, message_hex) \<in> set (invalid_cases VECTORS).
         error_code (vector_bytes message_hex) =
           Some (if contains ''tier'' name then InvalidAssuranceTier else MalformedReceiptMessage)) \<and>
      (case v3_mint_tier_two of
         None \<Rightarrow> False
       | Some mint \<Rightarrow> error_code (take 135 mint) = Some MalformedReceiptMessage \<and>
           error_code (mint @ [0]) = Some MalformedReceiptMessage))"

definition a_v3_receipt_still_binds_purpose_projection_wallet_and_age :: "pubkey \<Rightarrow> bool" where
  "a_v3_receipt_still_binds_purpose_projection_wallet_and_age other =
     (case v3_mint_tier_two of
        None \<Rightarrow> False
      | Some mint \<Rightarrow>
         (let check = (\<lambda>purpose projection wallet commitment now.
                is_ok (verify_receipt_payload mint wallet commitment purpose projection now));
              at = validatedAt VECTORS
          in check Mint 1 vector_wallet vector_commitment at \<and>
             \<not> check Reset 1 vector_wallet vector_commitment at \<and>
             \<not> check Mint 2 vector_wallet vector_commitment at \<and>
             \<not> check Mint 1 other vector_commitment at \<and>
             \<not> check Mint 1 vector_wallet 0 at \<and>
             \<not> check Mint 1 vector_wallet vector_commitment
                 (at + word_of_int MAX_RECEIPT_AGE_SECS + 1) \<and>
             \<not> check Mint 1 vector_wallet vector_commitment (at - 1)))"

text \<open>The messages decode to the receipts of the model's format.\<close>

lemma hex_digits:
  "hex_digit CHR ''0'' = 0" "hex_digit CHR ''1'' = 1" "hex_digit CHR ''2'' = 2"
  "hex_digit CHR ''3'' = 3" "hex_digit CHR ''4'' = 4" "hex_digit CHR ''5'' = 5"
  "hex_digit CHR ''6'' = 6" "hex_digit CHR ''7'' = 7" "hex_digit CHR ''8'' = 8"
  "hex_digit CHR ''9'' = 9" "hex_digit CHR ''a'' = 10" "hex_digit CHR ''b'' = 11"
  "hex_digit CHR ''c'' = 12" "hex_digit CHR ''d'' = 13" "hex_digit CHR ''e'' = 14"
  "hex_digit CHR ''f'' = 15"
  by code_simp+

declare hex_digit.simps [simp del]

lemma vector_fields:
  "projectionVersion VECTORS = 1" "validatedAt VECTORS = 1790000000"
  "vector_wallet = arr_of [39, 50, 61, 72, 83, 94, 105, 116, 127, 138, 149, 160, 171, 182, 193,
     204, 215, 226, 237, 248, 3, 14, 25, 36, 47, 58, 69, 80, 91, 102, 113, 124]"
  "vector_commitment = arr_of [76, 87, 98, 109, 120, 131, 142, 153, 164, 175, 186, 197, 208, 219,
     230, 241, 252, 7, 18, 29, 40, 51, 62, 73, 84, 95, 106, 117, 128, 139, 150, 161]"
  "(arr_of (vector_bytes (finalDigestHex VECTORS)) :: bytes32) = arr_of
     [34, 21, 39, 107, 21, 54, 137, 11, 152, 150, 179, 99, 75, 130, 92, 62, 0, 5, 139, 118, 187,
      172, 231, 206, 148, 141, 213, 234, 221, 11, 21, 64]"
  by (simp_all add: VECTORS_def vector_wallet_def vector_commitment_def hex_digits)

lemma domain_v3_bytes: "RECEIPT_V3_DOMAIN = [101, 110, 116, 114, 111, 115, 45, 118, 97, 108, 105,
    100, 97, 116, 111, 114, 45, 114, 101, 99, 101, 105, 112, 116, 45, 118, 51, 0]"
  by code_simp

lemma domain_v2_bytes: "RECEIPT_V2_DOMAIN = [101, 110, 116, 114, 111, 115, 45, 118, 97, 108, 105,
    100, 97, 116, 111, 114, 45, 114, 101, 99, 101, 105, 112, 116, 45, 118, 50, 0]"
  by code_simp

lemma vector_time_bytes: "u64_le 1790000000 = [128, 59, 177, 106, 0, 0, 0, 0]" "u16_le 1 = [1, 0]"
  by code_simp+

definition vector_receipt :: "receipt_purpose \<Rightarrow> byte \<Rightarrow> byte list" where
  "vector_receipt purpose tier = receipt_v3 purpose 1 vector_wallet vector_commitment 1790000000
     \<lparr>final_digest = arr_of (vector_bytes (finalDigestHex VECTORS)), assurance_tier = tier\<rparr>"

lemma v3_vectors:
  "map (\<lambda>(purpose, tier, message_hex). (purpose, tier, vector_bytes message_hex)) (v3_cases VECTORS) =
     [(1, 0, vector_receipt Mint 0), (1, 1, vector_receipt Mint 1), (1, 2, vector_receipt Mint 2),
      (2, 0, vector_receipt Rebaseline 0), (2, 1, vector_receipt Rebaseline 1),
      (2, 2, vector_receipt Rebaseline 2), (3, 0, vector_receipt Reset 0),
      (3, 1, vector_receipt Reset 1), (3, 2, vector_receipt Reset 2)]"
  unfolding vector_receipt_def receipt_v3_def vector_fields domain_v3_bytes vector_time_bytes
  by (simp add: VECTORS_def hex_digits)

lemma v2_vector:
  "vector_bytes (v2_message VECTORS) =
     receipt_v2 Mint 1 vector_wallet vector_commitment 1790000000"
  unfolding receipt_v2_def vector_fields domain_v2_bytes vector_time_bytes
  by (simp add: VECTORS_def hex_digits)

lemma vector_receipt_accepted:
  "tier \<le> 2 \<Longrightarrow> verify_receipt_payload (vector_receipt purpose tier) vector_wallet
     vector_commitment purpose 1 1790000000 =
   Inr (Some \<lparr>final_digest = arr_of (vector_bytes (finalDigestHex VECTORS)), assurance_tier = tier\<rparr>)"
  by (auto simp: receipt_accepted vector_receipt_def receipt_v3_inject receipt_formats_apart
      fresh_def MAX_RECEIPT_AGE_SECS_def MAX_ASSURANCE_TIER_def)

lemma v2_vector_accepted:
  "verify_receipt_payload (vector_bytes (v2_message VECTORS)) vector_wallet vector_commitment Mint
     1 1790000000 = Inr None"
  by (auto simp: receipt_accepted v2_vector receipt_v2_inject receipt_formats_apart fresh_def
      MAX_RECEIPT_AGE_SECS_def)

lemma error_code_length:
  "length message \<notin> {72, 103, 136} \<Longrightarrow> error_code message = Some MalformedReceiptMessage"
  by (simp add: error_code_def verify_receipt_payload_def receipt_payload_def receipt_lens)

lemma error_code_domain:
  "length message = 103 \<and> slice 0 28 message \<noteq> RECEIPT_V2_DOMAIN \<or>
   length message = 136 \<and> slice 0 28 message \<noteq> RECEIPT_V3_DOMAIN \<Longrightarrow>
   error_code message = Some MalformedReceiptMessage"
  by (auto simp: error_code_def verify_receipt_payload_def receipt_payload_def receipt_lens)

lemma error_code_tier:
  "\<not> tier \<le> 2 \<Longrightarrow> error_code (vector_receipt Mint tier) = Some InvalidAssuranceTier"
  by (simp add: error_code_def verify_receipt_payload_def receipt_payload_def receipt_lens Let_def
      vector_receipt_def vector_fields(1))
    (simp add: receipt_v3_def slice_def nth_append drop_Cons' u16_le.dec_enc MAX_ASSURANCE_TIER_def)

lemma invalid_vectors:
  "map (\<lambda>(name, message_hex). (name, vector_bytes message_hex)) (invalid_cases VECTORS) =
     [(''assurance tier above attested'', vector_receipt Mint 3),
      (''version 3 domain at the version 2 length'', take 103 (vector_receipt Mint 0)),
      (''version 2 domain at the version 3 length'',
       RECEIPT_V2_DOMAIN @ drop 28 (vector_receipt Mint 2))]"
  unfolding vector_receipt_def receipt_v3_def vector_fields domain_v3_bytes domain_v2_bytes
    vector_time_bytes
  by (simp add: VECTORS_def hex_digits)

lemma find_mapped:
  "map_option (\<lambda>(p, t, m). f m) (find (\<lambda>(p, t, m). Q p t) cs) =
   map_option (\<lambda>(p, t, b). b) (find (\<lambda>(p, t, b). Q p t) (map (\<lambda>(p, t, m). (p, t, f m)) cs))"
  by (induction cs) auto

lemma mint_tier_two: "v3_mint_tier_two = Some (vector_receipt Mint 2)"
  unfolding v3_mint_tier_two_def by (subst find_mapped) (simp add: v3_vectors)

lemma length_vector_receipt [simp]: "length (vector_receipt purpose tier) = 136"
  by (simp add: vector_receipt_def)

lemma slice_vector_receipt: "slice 0 28 (vector_receipt purpose tier) = RECEIPT_V3_DOMAIN"
  by (simp add: vector_receipt_def receipt_v3_def slice_append_exact)

lemma vectors_test_passes: "every_v3_receipt_vector_verifies_and_yields_its_session"
proof -
  have decoded: "(p, t, vector_bytes m) \<in> set (map (\<lambda>(purpose, tier, message_hex).
      (purpose, tier, vector_bytes message_hex)) (v3_cases VECTORS))"
    if "(p, t, m) \<in> set (v3_cases VECTORS)" for p t m
    using that by force
  have refused: "(name, vector_bytes m) \<in> set (map (\<lambda>(name, message_hex).
      (name, vector_bytes message_hex)) (invalid_cases VECTORS))"
    if "(name, m) \<in> set (invalid_cases VECTORS)" for name m
    using that by force
  have domains: "RECEIPT_V3_DOMAIN \<noteq> RECEIPT_V2_DOMAIN" by code_simp
  have short: "slice 0 28 (take 103 (vector_receipt Mint 0)) = RECEIPT_V3_DOMAIN"
    using slice_vector_receipt by (simp add: slice_def)
  have mixed: "slice 0 28 (RECEIPT_V2_DOMAIN @ rest) = RECEIPT_V2_DOMAIN" for rest
    by (simp add: slice_append_exact)
  have cases: "\<forall>(p, t, m) \<in> set (v3_cases VECTORS).
      case vector_purpose p of None \<Rightarrow> False
      | Some q \<Rightarrow> expect (verify_receipt_payload (vector_bytes m) vector_wallet vector_commitment q
          1 1790000000) (\<lambda>session. session = Some \<lparr>receipt_session.final_digest =
            arr_of (vector_bytes (finalDigestHex VECTORS)), assurance_tier = t\<rparr>)"
    using decoded [unfolded v3_vectors] by (fastforce simp: vector_receipt_accepted)
  have invalid: "\<forall>(name, m) \<in> set (invalid_cases VECTORS). error_code (vector_bytes m) =
      Some (if contains ''tier'' name then InvalidAssuranceTier else MalformedReceiptMessage)"
    using refused [unfolded invalid_vectors]
    by (fastforce simp: error_code_tier error_code_domain short mixed domains domains [symmetric])
  show ?thesis
    unfolding every_v3_receipt_vector_verifies_and_yields_its_session_def Let_def mint_tier_two
      vector_fields(1,2)
    using cases invalid by (simp add: v2_vector_accepted error_code_length)
qed

lemma vector_ages:
  "fresh 1790000000 1790000000"
  "\<not> fresh 1790000000 (1790000000 + word_of_int MAX_RECEIPT_AGE_SECS + 1)"
  "\<not> fresh 1790000000 (1790000000 - 1)"
  by code_simp+

lemma vector_binding_test_passes:
  assumes "vector_wallet \<noteq> other"
  shows "a_v3_receipt_still_binds_purpose_projection_wallet_and_age other"
proof -
  have "vector_commitment \<noteq> 0" unfolding vector_fields by code_simp
  with assms show ?thesis
    by (simp add: a_v3_receipt_still_binds_purpose_projection_wallet_and_age_def mint_tier_two
        vector_fields(1,2) vector_receipt_def receipt_v3_ok vector_ages [simplified]
        MAX_ASSURANCE_TIER_def)
qed

section \<open>Update receipts\<close>

definition base_args :: update_receipt_args where
  "base_args = \<lparr>ur_validated_at = T0, ur_assurance_tier = 1,
     ur_session_final_digest = Some (arr_of (replicate 32 22))\<rparr>"

definition update_receipt_v4_preimage_and_digest_bind_every_field ::
  "runtime \<Rightarrow> pubkey \<Rightarrow> pubkey \<Rightarrow> bool" where
  "update_receipt_v4_preimage_and_digest_bind_every_field rt wallet other =
     (let commitment_new = arr_of (replicate 32 11) in
      expect (build_update_receipt_v4_preimage wallet commitment_new 1 base_args) (\<lambda>preimage.
        slice 0 28 preimage = RECEIPT_V4_DOMAIN \<and>
        preimage ! 28 = purpose_code Update \<and>
        slice 103 32 preimage = replicate 32 22 \<and>
        preimage ! 135 = 1) \<and>
      expect (compute_update_receipt_v4_digest rt wallet commitment_new 1 base_args) (\<lambda>base_hash.
        expect (compute_update_receipt_v4_digest rt other commitment_new 1 base_args)
          (\<lambda>wrong_wallet. base_hash \<noteq> wrong_wallet) \<and>
        expect (compute_update_receipt_v4_digest rt wallet (arr_of (replicate 32 12)) 1 base_args)
          (\<lambda>wrong_commitment. base_hash \<noteq> wrong_commitment) \<and>
        expect (compute_update_receipt_v4_digest rt wallet commitment_new 2 base_args)
          (\<lambda>wrong_projection. base_hash \<noteq> wrong_projection) \<and>
        expect (compute_update_receipt_v4_digest rt wallet commitment_new 1
            (base_args\<lparr>ur_validated_at := T0 + 1\<rparr>))
          (\<lambda>wrong_timestamp. base_hash \<noteq> wrong_timestamp) \<and>
        expect (compute_update_receipt_v4_digest rt wallet commitment_new 1
            (base_args\<lparr>ur_session_final_digest := None\<rparr>))
          (\<lambda>no_session. base_hash \<noteq> no_session)) \<and>
      is_err (build_update_receipt_v4_preimage wallet commitment_new 1
        (base_args\<lparr>ur_assurance_tier := MAX_ASSURANCE_TIER + 1\<rparr>)) \<and>
      is_err (build_update_receipt_v4_preimage wallet commitment_new 1
        (base_args\<lparr>ur_session_final_digest := Some (arr_of (replicate 32 0))\<rparr>)))"

text \<open>
  The test compares digests, so it passes for every hash that does not collide on the six
  messages it builds.
\<close>

definition v4_messages :: "pubkey \<Rightarrow> pubkey \<Rightarrow> byte list list" where
  "v4_messages wallet other =
     (let commitment_new = arr_of (replicate 32 11) in
      [update_preimage wallet commitment_new 1 base_args,
       update_preimage other commitment_new 1 base_args,
       update_preimage wallet (arr_of (replicate 32 12)) 1 base_args,
       update_preimage wallet commitment_new 2 base_args,
       update_preimage wallet commitment_new 1 (base_args\<lparr>ur_validated_at := T0 + 1\<rparr>),
       update_preimage wallet commitment_new 1 (base_args\<lparr>ur_session_final_digest := None\<rparr>)])"

lemma v4_test_passes:
  assumes "wallet \<noteq> other" and inj: "inj_on (sha256 rt) (set (v4_messages wallet other))"
  shows "update_receipt_v4_preimage_and_digest_bind_every_field rt wallet other"
proof -
  let ?c = "arr_of (replicate 32 11) :: bytes32"
  let ?base = "update_preimage wallet ?c 1 base_args"
  have valid: "valid_update_receipt base_args"
    "valid_update_receipt (base_args\<lparr>ur_validated_at := T0 + 1\<rparr>)"
    "valid_update_receipt (base_args\<lparr>ur_session_final_digest := None\<rparr>)"
    by code_simp+
  have digest: "compute_update_receipt_v4_digest rt k c v r = Inr (sha256 rt (update_preimage k c v r))"
    if "valid_update_receipt r" for k c v r
    using that by (simp add: compute_update_receipt_v4_digest_def build_v4_eq account_hash_def
        valid_update_receipt_def)
  have apart: "sha256 rt ?base \<noteq> sha256 rt m"
    if "m \<in> set (v4_messages wallet other)" "?base \<noteq> m" for m
    using inj_onD [OF inj, of ?base m] that by (auto simp: v4_messages_def Let_def)
  have other_fields: "?c \<noteq> arr_of (replicate 32 12)" "(1 :: u16) \<noteq> 2" "T0 \<noteq> T0 + 1"
    by code_simp+
  have base: "build_update_receipt_v4_preimage wallet ?c 1 base_args = Inr ?base"
    using valid(1) by (simp add: build_v4_eq valid_update_receipt_def)
  have fields: "slice 0 28 ?base = RECEIPT_V4_DOMAIN" "?base ! 28 = purpose_code Update"
    "slice 103 32 ?base = replicate 32 22" "?base ! 135 = 1"
    by (simp_all add: update_preimage_def base_args_def slice_def nth_append drop_Cons')
  have refused: "is_err (build_update_receipt_v4_preimage wallet ?c 1
        (base_args\<lparr>ur_assurance_tier := MAX_ASSURANCE_TIER + 1\<rparr>))"
      "is_err (build_update_receipt_v4_preimage wallet ?c 1
        (base_args\<lparr>ur_session_final_digest := Some (arr_of (replicate 32 0))\<rparr>))"
    by (simp_all add: build_v4_eq MAX_ASSURANCE_TIER_def base_args_def arr_eq_iff elems_zero)
  have args: "base_args \<noteq> base_args\<lparr>ur_validated_at := T0 + 1\<rparr>"
    "base_args \<noteq> base_args\<lparr>ur_session_final_digest := None\<rparr>"
    using other_fields(3) by (simp_all add: base_args_def)
  have hashes:
    "sha256 rt ?base \<noteq> sha256 rt (update_preimage other ?c 1 base_args)"
    "sha256 rt ?base \<noteq> sha256 rt (update_preimage wallet (arr_of (replicate 32 12)) 1 base_args)"
    "sha256 rt ?base \<noteq> sha256 rt (update_preimage wallet ?c 2 base_args)"
    "sha256 rt ?base \<noteq> sha256 rt (update_preimage wallet ?c 1 (base_args\<lparr>ur_validated_at := T0 + 1\<rparr>))"
    "sha256 rt ?base \<noteq>
       sha256 rt (update_preimage wallet ?c 1 (base_args\<lparr>ur_session_final_digest := None\<rparr>))"
    by (rule apart; use valid assms(1) other_fields args in
        \<open>simp add: v4_messages_def Let_def update_preimage_inject\<close>)+
  show ?thesis
    unfolding update_receipt_v4_preimage_and_digest_bind_every_field_def Let_def
    using fields refused hashes by (simp add: base digest valid)
qed

end
