(* ===== verification/Verifying_Key_Correct.thy ===== *)
theory Verifying_Key_Correct
  imports Verifier
begin

text \<open>
  The compiled Groth16 key against what the pairing check asks of one: as many input
  points as the circuit has public inputs and one more, and group elements that are points
  of BN254 in the encoding of the alt_bn128 system calls (32-byte big-endian coordinates,
  the imaginary part of a quadratic-extension coordinate first). A key with a point off
  its curve would make every verification fail.
\<close>

text \<open>The order of the base field.\<close>

definition BASE_MODULUS :: int where
  "BASE_MODULUS =
     21888242871839275222246405745257275088696311157297823662689037894645226208583"

definition be_int :: "byte list \<Rightarrow> int" where
  "be_int bs = fold (\<lambda>b n. 256 * n + uint b) bs 0"

text \<open>\<open>y\<^sup>2 = x\<^sup>3 + 3\<close> with canonical coordinates.\<close>

definition g1_point :: "byte list \<Rightarrow> bool" where
  "g1_point p =
     (let x = be_int (take 32 p); y = be_int (drop 32 p)
      in x < BASE_MODULUS \<and> y < BASE_MODULUS \<and> (y * y - (x * x * x + 3)) mod BASE_MODULUS = 0)"

text \<open>
  The coordinates are \<open>x = c + d * u\<close> and \<open>y = a + b * u\<close> with \<open>u\<^sup>2 = -1\<close>, and the twist is
  \<open>y\<^sup>2 = x\<^sup>3 + 3 / (9 + u)\<close>: with \<open>r + i * u = y\<^sup>2 - x\<^sup>3\<close>, it is \<open>(9 + u) * (r + i * u) = 3\<close>.
\<close>

definition on_twist :: "int \<Rightarrow> int \<Rightarrow> int \<Rightarrow> int \<Rightarrow> bool" where
  "on_twist a b c d \<longleftrightarrow>
     (let r = a * a - b * b - (c * c * c - 3 * (c * d * d));
          i = 2 * (a * b) - (3 * (c * c * d) - d * d * d)
      in (9 * r - i - 3) mod BASE_MODULUS = 0 \<and> (r + 9 * i) mod BASE_MODULUS = 0)"

definition g2_point :: "byte list \<Rightarrow> bool" where
  "g2_point p =
     (let d = be_int (take 32 p); c = be_int (take 32 (drop 32 p));
          b = be_int (take 32 (drop 64 p)); a = be_int (drop 96 p)
      in a < BASE_MODULUS \<and> b < BASE_MODULUS \<and> c < BASE_MODULUS \<and> d < BASE_MODULUS \<and>
         on_twist a b c d)"

definition well_formed_key :: "groth16_verifyingkey \<Rightarrow> bool" where
  "well_formed_key k \<longleftrightarrow>
     length (vk_ic k) = nr_pubinputs k + 1 \<and>
     g1_point (elems (vk_alpha_g1 k)) \<and>
     g2_point (elems (vk_beta_g2 k)) \<and>
     g2_point (elems (vk_gamme_g2 k)) \<and>
     g2_point (elems (vk_delta_g2 k)) \<and>
     list_all (\<lambda>p. g1_point (elems p)) (vk_ic k)"

section \<open>Evaluation\<close>

text \<open>
  Membership is shown with the quotient by the modulus as a witness, so that the products
  are multiplications of literals.
\<close>

lemmas num_eval = numeral_times_numeral numeral_plus_numeral mult_num_simps add_num_simps

lemma curve_by_quotient:
  fixes x y q :: int
  assumes "y * y + q * BASE_MODULUS = x * x * x + 3"
  shows "(y * y - (x * x * x + 3)) mod BASE_MODULUS = 0"
proof -
  have "y * y - (x * x * x + 3) = (- q) * BASE_MODULUS" using assms by simp
  then show ?thesis by (metis mod_mult_self2_is_0)
qed

lemma twist_by_quotients:
  assumes "9 * (a * a) + 27 * (c * d * d) + 3 * (c * c * d) + q1 * BASE_MODULUS =
      9 * (b * b) + 9 * (c * c * c) + 2 * (a * b) + d * d * d + 3 + q2 * BASE_MODULUS"
    and "a * a + 3 * (c * d * d) + 18 * (a * b) + 9 * (d * d * d) + q3 * BASE_MODULUS =
      b * b + c * c * c + 27 * (c * c * d) + q4 * BASE_MODULUS"
  shows "on_twist a b c d"
proof -
  let ?r = "a * a - b * b - (c * c * c - 3 * (c * d * d))"
  let ?i = "2 * (a * b) - (3 * (c * c * d) - d * d * d)"
  have "9 * ?r - ?i - 3 = (q2 - q1) * BASE_MODULUS" "?r + 9 * ?i = (q4 - q3) * BASE_MODULUS"
    using assms by (simp_all add: algebra_simps)
  then show ?thesis unfolding on_twist_def Let_def by (metis mod_mult_self2_is_0)
qed

lemma alpha_on_curve: "g1_point (elems (vk_alpha_g1 VERIFYINGKEY))"
proof -
  let ?x = "20491192805390485299153009773594534940189261866228447918068658471970481763042 :: int"
  let ?y = "9383485363053290200918347156157836566562967994039712273449902621266178545958 :: int"
  have "be_int (take 32 (elems (vk_alpha_g1 VERIFYINGKEY))) = ?x" "be_int (drop 32 (elems (vk_alpha_g1 VERIFYINGKEY))) = ?y"
    by (simp_all add: VERIFYINGKEY_def be_int_def)
  moreover have "(?y * ?y - (?x * ?x * ?x + 3)) mod BASE_MODULUS = 0"
    by (rule curve_by_quotient [where q =
        "393088935893214506765138875352770769281682709998999478372368818813558547053666991957236488806700971265072360103019162831769911591384618433643498619004769"],
      simp only: BASE_MODULUS_def num_eval)
  moreover have "?x < BASE_MODULUS" "?y < BASE_MODULUS"
    by (simp_all add: BASE_MODULUS_def)
  ultimately show ?thesis by (simp only: g1_point_def Let_def simp_thms)
qed

lemma ic_0_on_curve: "g1_point (elems (vk_ic VERIFYINGKEY ! 0))"
proof -
  let ?x = "14437130440717400757073417379216756496592922615923598386592307873892389200565 :: int"
  let ?y = "3857756262862866168415666298303224785582571248827239395094758131082707799579 :: int"
  have "be_int (take 32 (elems (vk_ic VERIFYINGKEY ! 0))) = ?x" "be_int (drop 32 (elems (vk_ic VERIFYINGKEY ! 0))) = ?y"
    by (simp_all add: VERIFYINGKEY_def be_int_def)
  moreover have "(?y * ?y - (?x * ?x * ?x + 3)) mod BASE_MODULUS = 0"
    by (rule curve_by_quotient [where q =
        "137477536771646596674032856937539607306521547774778442056716827487274012751350547354468978035875484273721026688596067643192918116251285704084488689587089"],
      simp only: BASE_MODULUS_def num_eval)
  moreover have "?x < BASE_MODULUS" "?y < BASE_MODULUS"
    by (simp_all add: BASE_MODULUS_def)
  ultimately show ?thesis by (simp only: g1_point_def Let_def simp_thms)
qed

lemma ic_1_on_curve: "g1_point (elems (vk_ic VERIFYINGKEY ! 1))"
proof -
  let ?x = "2361204119475549949437002810835818883055290948369250845539948323415864412545 :: int"
  let ?y = "8520653852695494021267128677961782976492630477166216673023718055224538788513 :: int"
  have "be_int (take 32 (elems (vk_ic VERIFYINGKEY ! 1))) = ?x" "be_int (drop 32 (elems (vk_ic VERIFYINGKEY ! 1))) = ?y"
    by (simp_all add: VERIFYINGKEY_def be_int_def)
  moreover have "(?y * ?y - (?x * ?x * ?x + 3)) mod BASE_MODULUS = 0"
    by (rule curve_by_quotient [where q =
        "601436384621539789887219390630818912748803495767507954354120407801475409107780615664238374101831927460373436660920813905266771604621144125262391822373"],
      simp only: BASE_MODULUS_def num_eval)
  moreover have "?x < BASE_MODULUS" "?y < BASE_MODULUS"
    by (simp_all add: BASE_MODULUS_def)
  ultimately show ?thesis by (simp only: g1_point_def Let_def simp_thms)
qed

lemma ic_2_on_curve: "g1_point (elems (vk_ic VERIFYINGKEY ! 2))"
proof -
  let ?x = "19020431234134678383575470092648015010133791048948346085683023632909972540595 :: int"
  let ?y = "21780208100964401676791565123194970092601741632678614449928660297499353405313 :: int"
  have "be_int (take 32 (elems (vk_ic VERIFYINGKEY ! 2))) = ?x" "be_int (drop 32 (elems (vk_ic VERIFYINGKEY ! 2))) = ?y"
    by (simp_all add: VERIFYINGKEY_def be_int_def)
  moreover have "(?y * ?y - (?x * ?x * ?x + 3)) mod BASE_MODULUS = 0"
    by (rule curve_by_quotient [where q =
        "314376575095635428544660034927368146014313552914262980367176547503881462938031856415675587898352340228580901372975211999634784322349512910672999334716523"],
      simp only: BASE_MODULUS_def num_eval)
  moreover have "?x < BASE_MODULUS" "?y < BASE_MODULUS"
    by (simp_all add: BASE_MODULUS_def)
  ultimately show ?thesis by (simp only: g1_point_def Let_def simp_thms)
qed

lemma ic_3_on_curve: "g1_point (elems (vk_ic VERIFYINGKEY ! 3))"
proof -
  let ?x = "8713501305849147669609434738547311845799058854273250245619357185431144698196 :: int"
  let ?y = "1205622963896472580348356099376585151068567146969918273943967857252499218315 :: int"
  have "be_int (take 32 (elems (vk_ic VERIFYINGKEY ! 3))) = ?x" "be_int (drop 32 (elems (vk_ic VERIFYINGKEY ! 3))) = ?y"
    by (simp_all add: VERIFYINGKEY_def be_int_def)
  moreover have "(?y * ?y - (?x * ?x * ?x + 3)) mod BASE_MODULUS = 0"
    by (rule curve_by_quotient [where q =
        "30225062171467909916346514890412896834789325862639041605478164086879498218078484211453593891097706281458555098184771229067072375417425269150129924835558"],
      simp only: BASE_MODULUS_def num_eval)
  moreover have "?x < BASE_MODULUS" "?y < BASE_MODULUS"
    by (simp_all add: BASE_MODULUS_def)
  ultimately show ?thesis by (simp only: g1_point_def Let_def simp_thms)
qed

lemma ic_4_on_curve: "g1_point (elems (vk_ic VERIFYINGKEY ! 4))"
proof -
  let ?x = "3841845114975759949314977567683125792012446972216054101847181640079711633399 :: int"
  let ?y = "11880733649312568461572407915633729918628792268196679983107018024138467368606 :: int"
  have "be_int (take 32 (elems (vk_ic VERIFYINGKEY ! 4))) = ?x" "be_int (drop 32 (elems (vk_ic VERIFYINGKEY ! 4))) = ?y"
    by (simp_all add: VERIFYINGKEY_def be_int_def)
  moreover have "(?y * ?y - (?x * ?x * ?x + 3)) mod BASE_MODULUS = 0"
    by (rule curve_by_quotient [where q =
        "2590649488847343666333466589394225433489570658393478763267046428431514738992243595904932401192587202349710401965106438765093214811994123521642866690602"],
      simp only: BASE_MODULUS_def num_eval)
  moreover have "?x < BASE_MODULUS" "?y < BASE_MODULUS"
    by (simp_all add: BASE_MODULUS_def)
  ultimately show ?thesis by (simp only: g1_point_def Let_def simp_thms)
qed

lemma beta_on_twist: "g2_point (elems (vk_beta_g2 VERIFYINGKEY))"
proof -
  let ?d = "4252822878758300859123897981450591353533073413197771768651442665752259397132 :: int"
  let ?c = "6375614351688725206403948262868962793625744043794305715222011528459656738731 :: int"
  let ?b = "21847035105528745403288232691147584728191162732299865338377159692350059136679 :: int"
  let ?a = "10505242626370262277552901082094356697409835680220590971873171140371331206856 :: int"
  have "be_int (take 32 (elems (vk_beta_g2 VERIFYINGKEY))) = ?d" "be_int (take 32 (drop 32 (elems (vk_beta_g2 VERIFYINGKEY)))) = ?c"
    "be_int (take 32 (drop 64 (elems (vk_beta_g2 VERIFYINGKEY)))) = ?b" "be_int (drop 96 (elems (vk_beta_g2 VERIFYINGKEY))) = ?a"
    by (simp_all add: VERIFYINGKEY_def be_int_def)
  moreover have "on_twist ?a ?b ?c ?d"
    by (rule twist_by_quotients [where
        ?q1.0 = "0"
        and ?q2.0 = "55861157440416435926538673645651222816870761466595759683391621918751845623036303052704001659088440178225974492667688634913094219148536083469638654237467"
        and ?q3.0 = "177650701862746887834357053312057420238338098131032420883388962316176572750765499264453451385071828977187269242186192874770106245062746706414951615666328"
        and ?q4.0 = "0"];
      simp only: BASE_MODULUS_def num_eval mult_zero_left add_0_right)
  moreover have "?a < BASE_MODULUS" "?b < BASE_MODULUS" "?c < BASE_MODULUS" "?d < BASE_MODULUS"
    by (simp_all add: BASE_MODULUS_def)
  ultimately show ?thesis by (simp only: g2_point_def Let_def simp_thms)
qed

lemma gamma_on_twist: "g2_point (elems (vk_gamme_g2 VERIFYINGKEY))"
proof -
  let ?d = "11559732032986387107991004021392285783925812861821192530917403151452391805634 :: int"
  let ?c = "10857046999023057135944570762232829481370756359578518086990519993285655852781 :: int"
  let ?b = "4082367875863433681332203403145435568316851327593401208105741076214120093531 :: int"
  let ?a = "8495653923123431417604973247489272438418190587263600148770280649306958101930 :: int"
  have "be_int (take 32 (elems (vk_gamme_g2 VERIFYINGKEY))) = ?d" "be_int (take 32 (drop 32 (elems (vk_gamme_g2 VERIFYINGKEY)))) = ?c"
    "be_int (take 32 (drop 64 (elems (vk_gamme_g2 VERIFYINGKEY)))) = ?b" "be_int (drop 96 (elems (vk_gamme_g2 VERIFYINGKEY))) = ?a"
    by (simp_all add: VERIFYINGKEY_def be_int_def)
  moreover have "on_twist ?a ?b ?c ?d"
    by (rule twist_by_quotients [where
        ?q1.0 = "0"
        and ?q2.0 = "1379584804640234705325595887932360282372673459194568314982909526665738212395468513934421287412622361811835200366341521914261821432538181541707005113046823"
        and ?q3.0 = "905305573773738567213609038698813602749210990128754028996507785651080202947422531040766146140066427203911166069337361461943650652197451178678431516350352"
        and ?q4.0 = "0"];
      simp only: BASE_MODULUS_def num_eval mult_zero_left add_0_right)
  moreover have "?a < BASE_MODULUS" "?b < BASE_MODULUS" "?c < BASE_MODULUS" "?d < BASE_MODULUS"
    by (simp_all add: BASE_MODULUS_def)
  ultimately show ?thesis by (simp only: g2_point_def Let_def simp_thms)
qed

lemma delta_on_twist: "g2_point (elems (vk_delta_g2 VERIFYINGKEY))"
proof -
  let ?d = "9188635209883747579347282753460087425001128557348558767096289651554746666896 :: int"
  let ?c = "15691766858331767999184975229933898078288822746101347658374534456189702821173 :: int"
  let ?b = "5331904099578384820337189035707823138109323122305360993842168142206522442242 :: int"
  let ?a = "9188992446150054844305744070494125470002265343807425304804817674038646436945 :: int"
  have "be_int (take 32 (elems (vk_delta_g2 VERIFYINGKEY))) = ?d" "be_int (take 32 (drop 32 (elems (vk_delta_g2 VERIFYINGKEY)))) = ?c"
    "be_int (take 32 (drop 64 (elems (vk_delta_g2 VERIFYINGKEY)))) = ?b" "be_int (drop 96 (elems (vk_delta_g2 VERIFYINGKEY))) = ?a"
    by (simp_all add: VERIFYINGKEY_def be_int_def)
  moreover have "on_twist ?a ?b ?c ?d"
    by (rule twist_by_quotients [where
        ?q1.0 = "0"
        and ?q2.0 = "320220178291255335873002788030327955349324648223807958223186387208808392955596617104620516285027674307096098840291762637664833892177408599798874075886655"
        and ?q3.0 = "2466863184190350171200257990009472222181429433408069554437977431422799175547543481236932653209972333503547107332887833523781184962898432179219941244857572"
        and ?q4.0 = "0"];
      simp only: BASE_MODULUS_def num_eval mult_zero_left add_0_right)
  moreover have "?a < BASE_MODULUS" "?b < BASE_MODULUS" "?c < BASE_MODULUS" "?d < BASE_MODULUS"
    by (simp_all add: BASE_MODULUS_def)
  ultimately show ?thesis by (simp only: g2_point_def Let_def simp_thms)
qed

text \<open>
  C35: the key that entros-verifier is compiled with is a key for its circuit: it has as
  many public inputs as \<open>verify_proof\<close> passes and one input point more, its points lie on
  the two curves of BN254 with canonical coordinates, and no two input points coincide.
\<close>

theorem compiled_key_well_formed:
  "nr_pubinputs VERIFYINGKEY = NR_PUBLIC_INPUTS \<and> well_formed_key VERIFYINGKEY \<and>
   distinct (vk_ic VERIFYINGKEY)"
proof (intro conjI)
  show "nr_pubinputs VERIFYINGKEY = NR_PUBLIC_INPUTS"
    by (simp add: VERIFYINGKEY_def NR_PUBLIC_INPUTS_def)
  have ic: "vk_ic VERIFYINGKEY = map ((!) (vk_ic VERIFYINGKEY)) [0, 1, 2, 3, 4]"
    by (simp add: VERIFYINGKEY_def)
  have "length (vk_ic VERIFYINGKEY) = nr_pubinputs VERIFYINGKEY + 1"
    by (simp add: VERIFYINGKEY_def)
  moreover have "list_all (\<lambda>p. g1_point (elems p)) (vk_ic VERIFYINGKEY)"
    by (subst ic) (simp only: list.map list.pred_inject ic_0_on_curve ic_1_on_curve ic_2_on_curve
        ic_3_on_curve ic_4_on_curve simp_thms)
  ultimately show "well_formed_key VERIFYINGKEY"
    by (simp only: well_formed_key_def alpha_on_curve beta_on_twist gamma_on_twist
        delta_on_twist simp_thms)
  show "distinct (vk_ic VERIFYINGKEY)"
    by (simp add: VERIFYINGKEY_def arr_eq_iff)
qed

end
