(* ===== verification/Spec2Isabelle.thy ===== *)
theory Spec2Isabelle
  imports Registry_Correct Score_Correct Mint_Correct Update_Decision Build_Config
    Wallet_Accounts Recovery_Decision Vault_Solvency Sha256_Values Anchor_Tests Verifying_Key_Correct
begin

text \<open>
  A verification library for the on-chain programs of the Entros protocol.

  \<^bold>\<open>The program.\<close> Three Anchor programs on Solana and a crate that two of them share.
  entros-registry (programs/entros-registry) keeps the protocol configuration (fees, score
  parameters, validator keys, the window of supported projection versions) and the stakes of
  validators. entros-verifier (programs/entros-verifier) checks Groth16 proofs that a new
  behavioural commitment is close to the previous one, and stores the result in an account.
  entros-anchor (programs/entros-anchor) keeps one identity per wallet: it mints a
  non-transferable token, and moves the identity's commitment forward when the wallet
  presents such a result together with a receipt signed by a validator. It reads the
  configuration of the registry and the results of the verifier as raw bytes, closes the
  results through a cross-program call, and recomputes with crates/proof-request the digest
  of a request-bound proof.

  \<^bold>\<open>The model.\<close> \<open>Prelude\<close>: results and early returns (\<open>?\<close>, \<open>require!\<close>), arrays, byte slices
  and codecs, checked and saturating arithmetic on words. \<open>Runtime\<close>: accounts (owner,
  lamports, data), the transaction (clock, signers, writable accounts, the instructions
  sysvar), events, the log of cross-program calls, Anchor's typed accounts (discriminator,
  then the fields) and account constraints. An instruction is a function from the
  transaction, the account addresses, the arguments and the world to a fault or a world; a
  fault leaves no world, as the runtime rolls back. The components follow the source, one
  definition per function or block of a function:
  \<^item> \<open>Registry\<close>, \<open>Trust_Score\<close>: the accounts and all instructions of entros-registry (lib.rs,
    state.rs), and the Trust Score of both programs (the preview of the registry,
    \<open>record_verification\<close> and \<open>compute_trust_score\<close> of entros-anchor).
  \<^item> \<open>Verifying_Key\<close>, \<open>Verifier\<close>, \<open>Mock_Verifier\<close>: the compiled key (verifying_key.rs), the
    accounts and all instructions of entros-verifier (lib.rs, bound.rs,
    groth16_verifier.rs), and the stand-in for the pairing check (mock_verifier.rs).
  \<^item> \<open>Proof_Request\<close>: crates/proof-request/src/lib.rs; \<open>Build_Config\<close>: its build script.
  \<^item> \<open>Anchor_State\<close>, \<open>Receipts\<close>, \<open>Anchor_Requests\<close>, \<open>Anchor_Update\<close>, \<open>Anchor_Program\<close>: the
    accounts of entros-anchor, the validator receipts of formats 1 to 4, the request
    counters and the layout upgrade (proof_request.rs), \<open>process_anchor_update\<close> and the
    three update instructions, and the remaining instructions (lib.rs).
  \<^item> \<open>System\<close>: the calls of the three programs and the steps of the chain around them.
  \<^item> \<open>Program_Tests\<close>, \<open>Anchor_Tests\<close>: the Rust test modules, each test a definition whose
    value is that its assertions hold, and a lemma that it does.

  \<^bold>\<open>Parameters and laws.\<close> What is not in the repository is a field of the record \<open>runtime\<close>:
  SHA-256, program-derived addresses, rent, the system, Token-2022 and associated-token
  programs (\<open>run_cpi\<close>), reallocation, Anchor's \<open>init\<close> and \<open>close\<close>, the Groth16 pairing check
  (a function of the key, the proof and the public inputs), the loader's and sysvar
  addresses. The build is the record \<open>build\<close>: program addresses, deployment domain, the
  feature \<open>request_bound_v1\<close>. What a theorem uses of them is a named hypothesis:
  \<open>realloc_law\<close>, \<open>transfer_law\<close>, \<open>transfer_amount_law\<close>, \<open>init_law\<close>, \<open>close_law\<close>, \<open>pda_law\<close>
  (the documented effect of these operations on accounts), \<open>foreign_law\<close> (only the owner of
  an account writes it, and an account changes hands blank), \<open>ed25519_law\<close> (the native
  program has checked the signatures of the transaction), \<open>deployment_law\<close> (these together
  with distinct program addresses), \<open>balance_law\<close> and \<open>vault_law\<close> (which balances an
  operation moves; the vault has an address of its own) and \<open>type_law\<close> (distinct account
  discriminators). Nothing is assumed of SHA-256: binding theorems state the collision.
  \<open>Sha256\<close> is the function itself, executable; \<open>Sha256_Values\<close> computes with it, proves
  \<open>type_law\<close> and the discriminator constant of entros-anchor, and runs the shared schema
  vector of crates/proof-request. \<open>Demo\<close> is a concrete executable runtime that satisfies the
  laws; the witnesses run the instructions on it.

  \<^bold>\<open>What is proved.\<close> \<open>Layout_Correct\<close>: the layouts agree across the programs, raw reads see
  the typed fields, identities of earlier layouts decode. \<open>Effects\<close>, \<open>Identity_Effects\<close>,
  \<open>Frames\<close>: what each block does to the accounts, and what it leaves alone.
  \<open>Requests_Correct\<close>, \<open>Receipts_Correct\<close>, \<open>Bound_Correct\<close>, \<open>Verifier_Correct\<close>: encodings and
  digests bind every field; a receipt speaks for one call and is signed under an accepted
  key; a stored result is evidence of a proof and can be consumed, a bound one once.
  \<open>Score_Correct\<close>, \<open>Trust_Score_Correct\<close>: the score is the specified sum in both programs,
  the activity ring refines the log of weekly activations, the integer square root
  terminates with the floor. \<open>Update_Correct\<close>, \<open>Update_Decision\<close>: an update needs proof and
  receipt, has exactly its effect, is not replayed; the first failing check decides the
  error, and within the stated bounds an update that passes them all succeeds.
  \<open>Recovery_Decision\<close> decides reset and rebaselining in the same way and writes out the
  fields of the identity that each stores. \<open>Mint_Correct\<close>: the token calls of a mint in their order.
  \<open>Registry_Correct\<close>: along every run the administrator changes by consent, the validator
  key by the administrator, the projection window only upwards. \<open>Identity_Machine\<close>,
  \<open>Refinement\<close>, \<open>System_Correct\<close>: the identity as an abstract state machine, whose
  transitions state their guards and write the identity after them out field by field,
  every instruction of the three programs a refinement of it, and along every run of the composed
  system identities stay well formed and no commitment enters without a validator.
  \<open>Wallet_Accounts\<close> follows the two other accounts of a wallet along the same runs: request
  counters only grow, so a request-bound proof is used once, and a baseline is what its
  wallet last set. \<open>Vault_Solvency\<close>: along every run of the registry the vault covers the
  recorded stakes. \<open>Verifying_Key_Correct\<close>: the compiled key is one for the circuit's
  inputs, with its points on the curves. \<open>Transitions\<close> holds the locales through which
  properties of steps become properties of runs; the layouts, codecs and the request counter
  have locales of their own.

  \<^bold>\<open>Bounds.\<close> Machine integers are words of their width, read with \<open>uint\<close> or \<open>sint\<close>; checked
  operations return an option, wrapping ones wrap. There is no fuel: the only loop that
  needs a termination argument is \<open>isqrt_loop\<close> (the estimate decreases), and that it never
  overflows is a theorem. Sequences of calls have no bound.

  \<^bold>\<open>Not modelled.\<close> Accounts whose address the framework pins to one value (the system and
  token programs as \<open>Program\<close> accounts where the source does not read them, the clock
  sysvar) and the order among the framework's own account errors; the dispatch of an
  instruction by its discriminator, except in the closing call that entros-anchor builds;
  \<open>msg!\<close> logs; compute and stack limits; the pairing arithmetic of groth16-solana (a
  parameter); the generated program addresses (fields of the record \<open>build\<close>) with the two
  tests that compare them; the key of the request-bound host test, TypeScript, scripts and
  deployment files. The registry's promise that a validator's key is honest is outside the
  programs. That SHA-256 has no collision is not stated anywhere; a binding theorem ends in
  the pair of inputs that would be one.

  \<^bold>\<open>Plan.\<close> Next: the lamports of a whole run beyond the vault (rent and fees), and the
  outcome of minting and migration on every branch, as \<open>Update_Decision\<close> and
  \<open>Recovery_Decision\<close> have it for the other instructions.
\<close>

end
